(* ===== verification/Prelude.thy ===== *)
theory Prelude
  imports Main "HOL-Library.AList" "HOL-Library.List_Lexorder" "HOL-Library.Char_ord"
    "HOL-Library.Word"
begin

text \<open>
  What every other theory shares: the exceptions of the program as a datatype, results as
  sums with their bind, byte strings, and the few operations on Python \<open>str\<close> that the
  sources call (\<open>startswith\<close>, \<open>rstrip\<close>, \<open>strip\<close>, \<open>split\<close>, \<open>replace\<close>,
  decimal rendering and \<open>int(text)\<close>) with their lemmas.

  A Python \<open>str\<close> is a \<^typ>\<open>string\<close> holding its UTF-8 bytes, so that the order of
  code points and the order of bytes agree and the JSON escapes (all ASCII) act on bytes.
  Strings with lone surrogates have no such form and are outside the model.
\<close>

named_theorems res_simps
  \<comment> \<open>equations that run the result monad and the Python value operations\<close>

section \<open>Exceptions and results\<close>

text \<open>
  The exceptions the modelled code raises or lets through. \<open>ValueError\<close> carries the text
  the sources give it (\<open>''''\<close> for the ones raised inside the standard library).
\<close>

datatype err =
    ValueError string
  | VerifierSelectionError string
  | ArtifactHashMismatch
  | TypeError
  | KeyError string
  | LookupError string
  | AttributeError
  | OverflowError
  | OSError
  | AssertionError
  | NetworkError string string
  | IdentityInvalid string
  | NoAvailableAgent string

type_synonym 'a res = "err + 'a"

text \<open>
  \<open>except ValueError\<close> also catches the subclasses: \<open>VerifierSelectionError\<close> and
  \<open>ArtifactHashMismatch\<close> derive from it.
\<close>

fun is_value_error :: "err \<Rightarrow> bool" where
  "is_value_error (ValueError _) = True"
| "is_value_error (VerifierSelectionError _) = True"
| "is_value_error ArtifactHashMismatch = True"
| "is_value_error _ = False"

definition bindR :: "'a res \<Rightarrow> ('a \<Rightarrow> 'b res) \<Rightarrow> 'b res" where
  "bindR m f = (case m of Inl e \<Rightarrow> Inl e | Inr x \<Rightarrow> f x)"

lemma bindR_simps [simp, res_simps]:
  "bindR (Inl e) f = Inl e"
  "bindR (Inr x) f = f x"
  by (simp_all add: bindR_def)

lemma bindR_Inr_iff: "bindR m f = Inr y \<longleftrightarrow> (\<exists>x. m = Inr x \<and> f x = Inr y)"
  by (cases m) auto

lemma bindR_Inl_iff: "bindR m f = Inl e \<longleftrightarrow> m = Inl e \<or> (\<exists>x. m = Inr x \<and> f x = Inl e)"
  by (cases m) auto

lemma bindR_InrE [elim!]:
  assumes "bindR m f = Inr y"
  obtains x where "m = Inr x" and "f x = Inr y"
  using assms by (auto simp: bindR_Inr_iff)

lemma bindR_cong [fundef_cong]:
  "m = m' \<Longrightarrow> (\<And>x. m' = Inr x \<Longrightarrow> f x = g x) \<Longrightarrow> bindR m f = bindR m' g"
  by (cases m') auto

text \<open>A comprehension whose element expression may raise: the first exception wins.\<close>

fun mapR :: "('a \<Rightarrow> 'b res) \<Rightarrow> 'a list \<Rightarrow> 'b list res" where
  "mapR f [] = Inr []"
| "mapR f (x # xs) = bindR (f x) (\<lambda>y. bindR (mapR f xs) (\<lambda>ys. Inr (y # ys)))"

lemma mapR_cong [fundef_cong]:
  "xs = ys \<Longrightarrow> (\<And>x. x \<in> set ys \<Longrightarrow> f x = g x) \<Longrightarrow> mapR f xs = mapR g ys"
  by (induction ys arbitrary: xs) auto

lemma mapR_Inr_iff:
  "mapR f xs = Inr ys \<longleftrightarrow> list_all2 (\<lambda>x y. f x = Inr y) xs ys"
  by (induction xs arbitrary: ys) (auto simp: bindR_Inr_iff list_all2_Cons1)

lemma mapR_total: "(\<And>x. x \<in> set xs \<Longrightarrow> f x = Inr (g x)) \<Longrightarrow> mapR f xs = Inr (map g xs)"
  by (induction xs) auto

lemma mapR_append:
  "mapR f (xs @ ys) = bindR (mapR f xs) (\<lambda>as. bindR (mapR f ys) (\<lambda>bs. Inr (as @ bs)))"
  by (induction xs) (auto simp: bindR_def split: sum.splits)

lemma mapR_length: "mapR f xs = Inr ys \<Longrightarrow> length ys = length xs"
  by (auto simp: mapR_Inr_iff dest: list_all2_lengthD)

lemma mapR_Inl_mem: "mapR f xs = Inl e \<Longrightarrow> \<exists>x\<in>set xs. f x = Inl e"
  by (induction xs) (auto simp: bindR_Inl_iff)

section \<open>Bytes and text\<close>

type_synonym byte = "8 word"
type_synonym bytes = "byte list"

text \<open>\<open>str.encode("utf-8")\<close>: with strings held as UTF-8, a change of type only.\<close>

definition byte_of_char :: "char \<Rightarrow> byte" where
  "byte_of_char c = word_of_nat (of_char c)"

definition utf8_encode :: "string \<Rightarrow> bytes" where
  "utf8_encode s = map byte_of_char s"

lemma byte_of_char_inj [simp]: "byte_of_char c = byte_of_char d \<longleftrightarrow> c = d"
proof
  assume "byte_of_char c = byte_of_char d"
  then have "unat (word_of_nat (of_char c) :: byte) = unat (word_of_nat (of_char d) :: byte)"
    by (simp add: byte_of_char_def)
  then have "(of_char c :: nat) = of_char d"
    using of_char_mod_256 [where 'a = nat, of c] of_char_mod_256 [where 'a = nat, of d]
    by (simp add: unat_of_nat)
  then show "c = d" by simp
qed simp

lemma utf8_encode_inj [simp]: "utf8_encode s = utf8_encode t \<longleftrightarrow> s = t"
  unfolding utf8_encode_def by (rule inj_map_eq_map) (auto simp: inj_def)

section \<open>Python string operations\<close>

definition startswith :: "string \<Rightarrow> string \<Rightarrow> bool" where
  "startswith s p = (take (length p) s = p)"

definition endswith :: "string \<Rightarrow> string \<Rightarrow> bool" where
  "endswith s p = (length p \<le> length s \<and> drop (length s - length p) s = p)"

lemma startswith_append [simp]: "startswith (p @ s) p"
  by (simp add: startswith_def)

lemma startswith_Nil [simp]: "startswith s []"
  by (simp add: startswith_def)

text \<open>\<open>s.rstrip("/")\<close> and, in general, stripping a set of characters at either end.\<close>

definition lstrip_chars :: "char list \<Rightarrow> string \<Rightarrow> string" where
  "lstrip_chars cs s = dropWhile (\<lambda>c. c \<in> set cs) s"

definition rstrip_chars :: "char list \<Rightarrow> string \<Rightarrow> string" where
  "rstrip_chars cs s = rev (dropWhile (\<lambda>c. c \<in> set cs) (rev s))"

text \<open>\<open>s.strip()\<close> strips white space; the ASCII part of Python's white space is used here.\<close>

definition py_space :: "char list" where
  "py_space = map char_of [9, 10, 11, 12, 13, 28, 29, 30, 31, 32 :: nat]"

definition strip_ws :: "string \<Rightarrow> string" where
  "strip_ws s = rstrip_chars py_space (lstrip_chars py_space s)"

lemma length_lstrip_chars: "length (lstrip_chars cs s) \<le> length s"
  by (simp add: lstrip_chars_def length_dropWhile_le)

lemma length_rstrip_chars: "length (rstrip_chars cs s) \<le> length s"
  by (metis length_dropWhile_le length_rev rstrip_chars_def)

lemma length_strip_ws: "length (strip_ws s) \<le> length s"
  unfolding strip_ws_def using length_lstrip_chars length_rstrip_chars le_trans by blast

lemma rstrip_chars_id: "s \<noteq> [] \<Longrightarrow> last s \<notin> set cs \<Longrightarrow> rstrip_chars cs s = s"
  by (cases s rule: rev_cases) (auto simp: rstrip_chars_def)

lemma rstrip_chars_Cons: "c \<notin> set cs \<Longrightarrow> \<exists>q'. rstrip_chars cs (c # q) = c # q'"
proof -
  assume c: "c \<notin> set cs"
  show ?thesis
  proof (cases "dropWhile (\<lambda>c. c \<in> set cs) (rev q) = []")
    case True
    with c have "rstrip_chars cs (c # q) = [c]" by (simp add: rstrip_chars_def dropWhile_append)
    then show ?thesis by simp
  next
    case False
    with c have "rstrip_chars cs (c # q) = c # rev (dropWhile (\<lambda>c. c \<in> set cs) (rev q))"
      by (simp add: rstrip_chars_def dropWhile_append)
    then show ?thesis by simp
  qed
qed

lemma lstrip_chars_id: "s \<noteq> [] \<Longrightarrow> hd s \<notin> set cs \<Longrightarrow> lstrip_chars cs s = s"
  by (cases s) (auto simp: lstrip_chars_def)

lemma strip_ws_id:
  "s \<noteq> [] \<Longrightarrow> hd s \<notin> set py_space \<Longrightarrow> last s \<notin> set py_space \<Longrightarrow> strip_ws s = s"
  by (simp add: strip_ws_def lstrip_chars_id rstrip_chars_id)

text \<open>\<open>s.split(c)\<close> for a one-character separator: never empty, pieces keep their order.\<close>

fun split_on :: "char \<Rightarrow> string \<Rightarrow> string list" where
  "split_on c [] = [[]]"
| "split_on c (x # xs) =
     (if x = c then [] # split_on c xs
      else (case split_on c xs of [] \<Rightarrow> [[x]] | p # ps \<Rightarrow> (x # p) # ps))"

lemma split_on_neq_Nil [simp]: "split_on c s \<noteq> []"
  by (induction s) (auto split: list.splits)

lemma split_on_notin: "c \<notin> set s \<Longrightarrow> split_on c s = [s]"
  by (induction s) auto

lemma split_on_append: "c \<notin> set s \<Longrightarrow> split_on c (s @ c # t) = s # split_on c t"
  by (induction s) auto

lemma split_on_pieces:
  "p \<in> set (split_on c s) \<Longrightarrow> c \<notin> set p \<and> length p \<le> length s"
  by (induction s arbitrary: p) (fastforce split: list.splits if_splits)+

lemma split_on_shorter:
  "c \<in> set s \<Longrightarrow> p \<in> set (split_on c s) \<Longrightarrow> length p < length s"
proof (induction s arbitrary: p)
  case (Cons x xs)
  show ?case
  proof (cases "x = c")
    case True
    with Cons.prems show ?thesis by (auto dest: split_on_pieces simp: less_Suc_eq_le)
  next
    case False
    with Cons.prems(1) have c: "c \<in> set xs" by simp
    obtain q qs where q: "split_on c xs = q # qs"
      by (cases "split_on c xs") auto
    with Cons.prems False have "p = x # q \<or> p \<in> set qs" by simp
    with q Cons.IH [OF c] show ?thesis by fastforce
  qed
qed simp

text \<open>\<open>s.replace(a, b)\<close> for single characters.\<close>

definition replace_char :: "char \<Rightarrow> char \<Rightarrow> string \<Rightarrow> string" where
  "replace_char a b s = map (\<lambda>c. if c = a then b else c) s"

lemma replace_char_id: "a \<notin> set s \<Longrightarrow> replace_char a b s = s"
  by (auto simp: replace_char_def intro: map_idI)

text \<open>
  A Python string iterates over its characters: a leading byte followed by its UTF-8
  continuation bytes (\<open>0x80\<close> to \<open>0xBF\<close>).
\<close>

definition is_continuation :: "char \<Rightarrow> bool" where
  "is_continuation c = (128 \<le> (of_char c :: nat) \<and> (of_char c :: nat) < 192)"

function utf8_chars :: "string \<Rightarrow> string list" where
  "utf8_chars [] = []"
| "utf8_chars (c # cs) =
     (c # takeWhile is_continuation cs) # utf8_chars (dropWhile is_continuation cs)"
  by pat_completeness auto
termination
  by (relation "measure length") (auto simp: less_Suc_eq_le length_dropWhile_le)

lemma concat_utf8_chars: "concat (utf8_chars s) = s"
  by (induction s rule: utf8_chars.induct) auto

section \<open>Decimal integers\<close>

definition digit :: "nat \<Rightarrow> char" where
  "digit d = char_of (48 + d)"

fun show_nat :: "nat \<Rightarrow> string" where
  "show_nat n = (if n < 10 then [digit n] else show_nat (n div 10) @ [digit (n mod 10)])"

declare show_nat.simps [simp del]

definition show_int :: "int \<Rightarrow> string" where
  "show_int i = (if i < 0 then CHR ''-'' # show_nat (nat (- i)) else show_nat (nat i))"

definition is_digit :: "char \<Rightarrow> bool" where
  "is_digit c = (48 \<le> (of_char c :: nat) \<and> (of_char c :: nat) \<le> 57)"

definition digit_val :: "char \<Rightarrow> nat" where
  "digit_val c = of_char c - 48"

definition digits_val :: "string \<Rightarrow> nat" where
  "digits_val s = foldl (\<lambda>a c. 10 * a + digit_val c) 0 s"

lemma of_char_digit: "d < 10 \<Longrightarrow> (of_char (digit d) :: nat) = 48 + d"
  by (simp add: digit_def of_char_of)

lemma is_digit_digit [simp]: "d < 10 \<Longrightarrow> is_digit (digit d)"
  by (simp add: is_digit_def of_char_digit)

lemma digit_val_digit [simp]: "d < 10 \<Longrightarrow> digit_val (digit d) = d"
  by (simp add: digit_val_def of_char_digit)

lemma digits_val_append1: "digits_val (s @ [c]) = 10 * digits_val s + digit_val c"
  by (simp add: digits_val_def)

lemma digits_val_show_nat [simp]: "digits_val (show_nat n) = n"
proof (induction n rule: show_nat.induct)
  case (1 n)
  show ?case
  proof (cases "n < 10")
    case True
    then show ?thesis by (simp add: show_nat.simps [of n] digits_val_def)
  next
    case False
    with "1.IH" show ?thesis
      by (simp add: show_nat.simps [of n] digits_val_append1)
  qed
qed

lemma show_nat_digits: "c \<in> set (show_nat n) \<Longrightarrow> is_digit c"
proof (induction n rule: show_nat.induct)
  case (1 n)
  then show ?case by (cases "n < 10") (auto simp: show_nat.simps [of n])
qed

lemma show_nat_neq_Nil [simp]: "show_nat n \<noteq> []"
  by (subst show_nat.simps) simp

lemma show_nat_inj [simp]: "show_nat m = show_nat n \<longleftrightarrow> m = n"
  by (metis digits_val_show_nat)

lemma not_is_digit [simp]:
  "\<not> is_digit CHR ''-''" "\<not> is_digit CHR ''.''" "\<not> is_digit CHR ''e''"
  "\<not> is_digit CHR ''_''" "\<not> is_digit CHR '',''" "\<not> is_digit CHR '']''" "\<not> is_digit CHR ''}''"
  "\<not> is_digit CHR ''+''" "\<not> is_digit CHR ''x''" "\<not> is_digit CHR ''v''" "\<not> is_digit CHR ''V''"
  "\<not> is_digit CHR ''n''" "\<not> is_digit CHR ''t''" "\<not> is_digit CHR ''f''"
  "\<not> is_digit CHR 0x22" "\<not> is_digit CHR ''[''" "\<not> is_digit CHR ''{''"
  "\<not> is_digit CHR ''*''" "\<not> is_digit CHR ''y''"
  "\<not> is_digit CHR ''>''" "\<not> is_digit CHR ''<''" "\<not> is_digit CHR ''=''"
  by (simp_all add: is_digit_def)

lemma hd_show_nat: "is_digit (hd (show_nat n))"
  by (rule show_nat_digits [of _ n]) simp

lemma show_int_neq_Nil [simp]: "show_int i \<noteq> []"
  by (simp add: show_int_def)

lemma show_int_chars: "c \<in> set (show_int i) \<Longrightarrow> is_digit c \<or> c = CHR ''-''"
  by (auto simp: show_int_def dest: show_nat_digits split: if_splits)

lemma show_int_inj [simp]: "show_int i = show_int j \<longleftrightarrow> i = j"
proof
  assume *: "show_int i = show_int j"
  have no: "CHR ''-'' # show_nat m \<noteq> show_nat n" for m n
    by (metis list.sel(1) hd_show_nat not_is_digit(1))
  from * no show "i = j"
    by (auto simp: show_int_def no [symmetric] split: if_splits)
qed simp

text \<open>
  \<open>int(text)\<close>: white space around, an optional sign, digits with single underscores
  between them; anything else is \<open>ValueError\<close>. ASCII digits only.
\<close>

fun strip_underscores :: "string \<Rightarrow> string option" where
  "strip_underscores [] = None"
| "strip_underscores [c] = (if is_digit c then Some [c] else None)"
| "strip_underscores (c # d # cs) =
     (if \<not> is_digit c then None
      else if d = CHR ''_'' then map_option ((#) c) (strip_underscores cs)
      else map_option ((#) c) (strip_underscores (d # cs)))"

definition parse_int :: "string \<Rightarrow> int option" where
  "parse_int text =
     (let s = strip_ws text in
      case s of
        [] \<Rightarrow> None
      | c # cs \<Rightarrow>
          if c = CHR ''-'' then map_option (\<lambda>ds. - int (digits_val ds)) (strip_underscores cs)
          else if c = CHR ''+'' then map_option (\<lambda>ds. int (digits_val ds)) (strip_underscores cs)
          else map_option (\<lambda>ds. int (digits_val ds)) (strip_underscores s))"

lemma strip_underscores_digits:
  "s \<noteq> [] \<Longrightarrow> list_all is_digit s \<Longrightarrow> strip_underscores s = Some s"
  by (induction s rule: strip_underscores.induct) auto

lemma not_space_code:
  "32 < (of_char c :: nat) \<Longrightarrow> c \<notin> set py_space"
  by (auto simp: py_space_def of_char_of)

lemma not_space_digit [simp]: "is_digit c \<Longrightarrow> c \<notin> set py_space"
  by (rule not_space_code) (simp add: is_digit_def)

lemma parse_int_show_nat [simp]: "parse_int (show_nat n) = Some (int n)"
proof -
  have hd: "is_digit (hd (show_nat n))" by (rule hd_show_nat)
  have last: "is_digit (last (show_nat n))" by (rule show_nat_digits [of _ n]) simp
  from hd last have s: "strip_ws (show_nat n) = show_nat n"
    by (intro strip_ws_id) (auto dest: not_space_digit)
  have u: "strip_underscores (show_nat n) = Some (show_nat n)"
    by (rule strip_underscores_digits) (auto simp: list_all_iff dest: show_nat_digits)
  obtain c cs where c: "show_nat n = c # cs"
    by (cases "show_nat n") (auto dest: arg_cong [where f = length])
  with hd have "c \<noteq> CHR ''-''" "c \<noteq> CHR ''+''" by auto
  with c s u digits_val_show_nat [of n] show ?thesis by (simp add: parse_int_def)
qed

lemma parse_int_no_number:
  assumes "\<not> is_digit c" "c \<notin> set py_space" "c \<noteq> CHR ''-''" "c \<noteq> CHR ''+''"
  shows "parse_int (c # q) = None"
proof -
  obtain q' where q': "rstrip_chars py_space (c # q) = c # q'"
    using rstrip_chars_Cons [OF assms(2)] by blast
  have "strip_ws (c # q) = c # q'"
    using assms(2) q' by (simp add: strip_ws_def lstrip_chars_def)
  with assms show ?thesis by (cases q') (auto simp: parse_int_def)
qed

end
