(* ===== verification/PyValue.thy ===== *)
theory PyValue
  imports Prelude
begin

text \<open>
  Python values as the wire carries them. The SDK passes untyped JSON dictionaries
  (\<open>dict[str, Any]\<close>) between almost all its functions, so the model keeps them as values of one
  datatype and gives each Python operation the sources apply to such a value (truth test,
  \<open>or\<close>, \<open>.get\<close>, item assignment, iteration, \<open>str\<close>, \<open>int\<close>, \<open>==\<close>) the
  behaviour and the exceptions it has on every constructor. A \<open>dict\<close> is an association
  list in insertion order with distinct keys.
\<close>

section \<open>Values\<close>

text \<open>
  A finite non-zero float is its odd mantissa and exponent, zero is \<open>PFin 0 0\<close>:
  \<open>PFin m e\<close> has the value $m 2^e$.
\<close>

datatype pyfloat = PFin int int | PNegZero | PPosInf | PNegInf | PNaN

datatype json =
    JNull
  | JBool bool
  | JInt int
  | JFloat pyfloat
  | JStr string
  | JArr "json list"
  | JObj "(string \<times> json) list"

type_synonym dict = "(string \<times> json) list"

text \<open>IEEE double range and the normal form of a finite float.\<close>

definition wf_float :: "pyfloat \<Rightarrow> bool" where
  "wf_float f = (case f of
      PFin m e \<Rightarrow> (m = 0 \<and> e = 0) \<or>
        (odd m \<and> \<bar>m\<bar> < 2 ^ 53 \<and> -1074 \<le> e \<and> e < 1024 \<and> \<bar>m\<bar> * 2 ^ nat e < 2 ^ 1024)
    | _ \<Rightarrow> True)"

lemma json_size_arr [termination_simp]: "v \<in> set vs \<Longrightarrow> size v < Suc (size_list size vs)"
  by (simp add: size_list_estimation' less_Suc_eq_le)

lemma json_size_zip [termination_simp]:
  "(a, b) \<in> set (zip vs ws) \<Longrightarrow> size a < Suc (size_list size vs)"
  by (rule json_size_arr) (rule set_zip_leftD)

lemma json_size_obj [termination_simp]:
  assumes "(k, v) \<in> set d"
  shows "size v < Suc (size_list (size_prod (\<lambda>_. 0) size) d)"
proof -
  from assms have "size v \<le> size_list (size_prod (\<lambda>_. 0) size) d"
    by (rule size_list_estimation') simp
  then show ?thesis by simp
qed

lemma json_induct [case_names null bool int float str arr obj]:
  assumes "P JNull" "\<And>b. P (JBool b)" "\<And>i. P (JInt i)" "\<And>f. P (JFloat f)" "\<And>s. P (JStr s)"
    and "\<And>vs. (\<And>v. v \<in> set vs \<Longrightarrow> P v) \<Longrightarrow> P (JArr vs)"
    and "\<And>d. (\<And>k v. (k, v) \<in> set d \<Longrightarrow> P v) \<Longrightarrow> P (JObj d)"
  shows "P v"
proof (induction v rule: measure_induct_rule [of size])
  case (less v)
  then show ?case
    using assms by (cases v) (auto intro!: assms(6,7) simp: json_size_arr json_size_obj)
qed

text \<open>
  The reachable Python values: floats are doubles, the keys of every dictionary are distinct.
\<close>

fun wf_json :: "json \<Rightarrow> bool" where
  "wf_json (JFloat f) = wf_float f"
| "wf_json (JArr vs) = list_all wf_json vs"
| "wf_json (JObj d) = (distinct (map fst d) \<and> list_all (\<lambda>(k, v). wf_json v) d)"
| "wf_json _ = True"

text \<open>The normal form of $m 2^e$; a clock reading of \<open>time.time()\<close> is such a float.\<close>

function mk_float :: "int \<Rightarrow> int \<Rightarrow> pyfloat" where
  "mk_float m e =
     (if m = 0 then PFin 0 0 else if even m then mk_float (m div 2) (e + 1) else PFin m e)"
  by pat_completeness auto
termination
  by (relation "measure (\<lambda>(m, e). nat \<bar>m\<bar>)") auto

declare mk_float.simps [simp del]

section \<open>Primitives of other packages\<close>

text \<open>
  Code that is not under \<open>src/\<close>. \<open>ed_public\<close>, \<open>ed_sign\<close> and \<open>ed_verify\<close> are the
  Ed25519 operations of the package \<open>cryptography\<close> on raw key bytes (\<open>ed_verify\<close> is
  whether \<open>verify\<close> returns without \<open>InvalidSignature\<close>); \<open>sha256_raw\<close> is the digest
  of \<open>hashlib\<close> (OpenSSL code); \<open>float_repr\<close>, \<open>container_repr\<close> and \<open>iso_parse\<close> are the
  interpreter's \<open>repr\<close> of a float and of a list or dict, and \<open>datetime.fromisoformat\<close>
  (microseconds since the epoch, a naive time taken as UTC; None for its \<open>ValueError\<close>);
  \<open>codec\<close> is \<open>str.encode\<close> with a codec other than UTF-8, by the codec's name;
  \<open>float_succ\<close> is the rounded floating-point sum with 1.
\<close>

record prims =
  sha256_raw :: "bytes \<Rightarrow> bytes"
  ed_public :: "bytes \<Rightarrow> bytes"
  ed_sign :: "bytes \<Rightarrow> bytes \<Rightarrow> bytes"
  ed_verify :: "bytes \<Rightarrow> bytes \<Rightarrow> bytes \<Rightarrow> bool"
  float_repr :: "pyfloat \<Rightarrow> string"
  container_repr :: "json \<Rightarrow> string"
  iso_parse :: "string \<Rightarrow> int option"
  codec :: "string \<Rightarrow> string \<Rightarrow> bytes res"
  float_succ :: "pyfloat \<Rightarrow> pyfloat"

section \<open>Truth, \<open>or\<close>, dictionaries\<close>

fun truthy :: "json \<Rightarrow> bool" where
  "truthy JNull = False"
| "truthy (JBool b) = b"
| "truthy (JInt i) = (i \<noteq> 0)"
| "truthy (JFloat f) = (case f of PFin m e \<Rightarrow> m \<noteq> 0 | PNegZero \<Rightarrow> False | _ \<Rightarrow> True)"
| "truthy (JStr s) = (s \<noteq> [])"
| "truthy (JArr vs) = (vs \<noteq> [])"
| "truthy (JObj d) = (d \<noteq> [])"

definition py_or :: "json \<Rightarrow> json \<Rightarrow> json" where
  "py_or a b = (if truthy a then a else b)"

text \<open>\<open>d.get(k)\<close>, \<open>k in d\<close>, \<open>d[k]\<close>, \<open>d[k] = v\<close>, \<open>d.pop(k, None)\<close>, \<open>d.setdefault\<close>, \<open>d.update\<close>.\<close>

definition dget :: "dict \<Rightarrow> string \<Rightarrow> json" where
  "dget d k = (case map_of d k of None \<Rightarrow> JNull | Some v \<Rightarrow> v)"

definition dhas :: "dict \<Rightarrow> string \<Rightarrow> bool" where
  "dhas d k = (map_of d k \<noteq> None)"

definition ditem :: "dict \<Rightarrow> string \<Rightarrow> json res" where
  "ditem d k = (case map_of d k of None \<Rightarrow> Inl (KeyError k) | Some v \<Rightarrow> Inr v)"

definition dset :: "dict \<Rightarrow> string \<Rightarrow> json \<Rightarrow> dict" where
  "dset d k v = AList.update k v d"

definition dpop :: "dict \<Rightarrow> string \<Rightarrow> dict" where
  "dpop d k = filter (\<lambda>(k', v). k' \<noteq> k) d"

definition dsetdefault :: "dict \<Rightarrow> string \<Rightarrow> json \<Rightarrow> dict" where
  "dsetdefault d k v = (if dhas d k then d else dset d k v)"

definition dupdate :: "dict \<Rightarrow> dict \<Rightarrow> dict" where
  "dupdate d d' = foldl (\<lambda>a (k, v). dset a k v) d d'"

text \<open>\<open>x.get(k)\<close> on a value that need not be a dictionary.\<close>

definition obj_get :: "json \<Rightarrow> string \<Rightarrow> json res" where
  "obj_get x k = (case x of JObj d \<Rightarrow> Inr (dget d k) | _ \<Rightarrow> Inl AttributeError)"

text \<open>\<open>s.encode(encoding)\<close> for text.\<close>

definition py_encode :: "prims \<Rightarrow> string \<Rightarrow> string \<Rightarrow> bytes res" where
  "py_encode E s encoding =
     (if encoding = ''utf-8'' then Inr (utf8_encode s) else codec E encoding s)"

text \<open>\<open>x["k"]\<close> on a value that need not be a dictionary.\<close>

definition obj_item :: "json \<Rightarrow> string \<Rightarrow> json res" where
  "obj_item x k = (case x of JObj d \<Rightarrow> ditem d k | _ \<Rightarrow> Inl TypeError)"

text \<open>\<open>x + 1\<close>.\<close>

fun py_succ :: "prims \<Rightarrow> json \<Rightarrow> json res" where
  "py_succ E (JInt i) = Inr (JInt (i + 1))"
| "py_succ E (JBool b) = Inr (JInt (if b then 2 else 1))"
| "py_succ E (JFloat f) = Inr (JFloat (float_succ E f))"
| "py_succ E _ = Inl TypeError"

lemma obj_item_JObj [simp, res_simps]: "obj_item (JObj d) k = ditem d k"
  by (simp add: obj_item_def)

lemma dget_dset [simp, res_simps]: "dget (dset d k v) k' = (if k' = k then v else dget d k')"
  by (simp add: dget_def dset_def update_conv)

lemma dhas_dset [simp, res_simps]: "dhas (dset d k v) k' \<longleftrightarrow> k' = k \<or> dhas d k'"
  by (auto simp: dhas_def dset_def update_conv)

lemma dget_Nil [simp, res_simps]: "dget [] k = JNull"
  by (simp add: dget_def)

lemma dget_Cons [simp, res_simps]: "dget ((k', v) # d) k = (if k' = k then v else dget d k)"
  by (simp add: dget_def)

lemma dhas_Nil [simp, res_simps]: "\<not> dhas [] k"
  by (simp add: dhas_def)

lemma dhas_Cons [simp, res_simps]: "dhas ((k', v) # d) k \<longleftrightarrow> k' = k \<or> dhas d k"
  by (simp add: dhas_def)

lemma dhas_keys: "dhas d k \<longleftrightarrow> k \<in> fst ` set d"
  by (auto simp: dhas_def map_of_eq_None_iff)

lemma ditem_simps [simp, res_simps]:
  "ditem [] k = Inl (KeyError k)"
  "ditem ((k', v) # d) k = (if k' = k then Inr v else ditem d k)"
  by (simp_all add: ditem_def)

lemma ditem_dhas: "dhas d k \<Longrightarrow> ditem d k = Inr (dget d k)"
  by (auto simp: ditem_def dhas_def dget_def split: option.splits)

lemma obj_get_JObj [simp, res_simps]: "obj_get (JObj d) k = Inr (dget d k)"
  by (simp add: obj_get_def)

lemma distinct_dset [simp]: "distinct (map fst d) \<Longrightarrow> distinct (map fst (dset d k v))"
  by (simp add: dset_def distinct_update)

lemma dset_new: "\<not> dhas d k \<Longrightarrow> dset d k v = d @ [(k, v)]"
  by (induction d) (auto simp: dset_def)

lemma set_dset_sub: "set (dset d k v) \<subseteq> insert (k, v) (set d)"
  by (induction d) (auto simp: dset_def)

lemma keys_dset: "fst ` set (dset d k v) = insert k (fst ` set d)"
  by (induction d) (auto simp: dset_def)

lemma wf_json_dset [simp]:
  "wf_json (JObj d) \<Longrightarrow> wf_json v \<Longrightarrow> wf_json (JObj (dset d k v))"
  using set_dset_sub [of d k v] by (auto simp: list_all_iff)

lemma wf_json_dget [simp]: "wf_json (JObj d) \<Longrightarrow> wf_json (dget d k)"
  by (auto simp: dget_def list_all_iff split: option.splits dest: map_of_SomeD)

lemma wf_json_filter [simp]: "wf_json (JObj d) \<Longrightarrow> wf_json (JObj (filter P d))"
  by (auto simp: list_all_iff intro: distinct_map_filter)

lemma truthy_dget_dhas: "truthy (dget d k) \<Longrightarrow> dhas d k"
  by (auto simp: dget_def dhas_def split: option.splits)

section \<open>Conversions\<close>

text \<open>\<open>str(x)\<close>.\<close>

fun py_str :: "prims \<Rightarrow> json \<Rightarrow> string" where
  "py_str E (JStr s) = s"
| "py_str E JNull = ''None''"
| "py_str E (JBool b) = (if b then ''True'' else ''False'')"
| "py_str E (JInt i) = show_int i"
| "py_str E (JFloat f) = float_repr E f"
| "py_str E (JArr vs) = container_repr E (JArr vs)"
| "py_str E (JObj d) = container_repr E (JObj d)"

text \<open>\<open>int(x)\<close>: truncation of floats, parsing of text, \<open>TypeError\<close> on the rest.\<close>

definition float_trunc :: "int \<Rightarrow> int \<Rightarrow> int" where
  "float_trunc m e = (if 0 \<le> e then m * 2 ^ nat e else sgn m * (\<bar>m\<bar> div 2 ^ nat (- e)))"

fun py_int :: "json \<Rightarrow> int res" where
  "py_int (JInt i) = Inr i"
| "py_int (JBool b) = Inr (if b then 1 else 0)"
| "py_int (JFloat f) = (case f of
      PFin m e \<Rightarrow> Inr (float_trunc m e)
    | PNegZero \<Rightarrow> Inr 0
    | PNaN \<Rightarrow> Inl (ValueError [])
    | _ \<Rightarrow> Inl OverflowError)"
| "py_int (JStr s) = (case parse_int s of Some i \<Rightarrow> Inr i | None \<Rightarrow> Inl (ValueError []))"
| "py_int _ = Inl TypeError"

text \<open>Iteration: over the elements, the characters, or the keys.\<close>

fun py_iter :: "json \<Rightarrow> json list res" where
  "py_iter (JArr vs) = Inr vs"
| "py_iter (JStr s) = Inr (map JStr (utf8_chars s))"
| "py_iter (JObj d) = Inr (map (\<lambda>(k, v). JStr k) d)"
| "py_iter _ = Inl TypeError"

text \<open>
  \<open>dict(x)\<close>: a copy of a dictionary, or a dictionary from pairs. A pair whose key is not a
  string has no counterpart here (JSON objects have string keys) and is given \<open>TypeError\<close>.
\<close>

fun dict_pair :: "json \<Rightarrow> (string \<times> json) res" where
  "dict_pair p = bindR (py_iter p) (\<lambda>xs. case xs of
      [JStr k, v] \<Rightarrow> Inr (k, v)
    | [_, _] \<Rightarrow> Inl TypeError
    | _ \<Rightarrow> Inl (ValueError []))"

fun py_dict :: "json \<Rightarrow> dict res" where
  "py_dict (JObj d) = Inr d"
| "py_dict x = bindR (py_iter x) (\<lambda>ps. bindR (mapR dict_pair ps) (\<lambda>kvs. Inr (dupdate [] kvs)))"

section \<open>Equality\<close>

text \<open>
  \<open>==\<close> compares numbers by value across \<open>bool\<close>, \<open>int\<close> and \<open>float\<close>, lists element by
  element, dictionaries without regard to order.
\<close>

fun num_val :: "json \<Rightarrow> (int \<times> int) option" where
  "num_val (JBool b) = Some (if b then 1 else 0, 0)"
| "num_val (JInt i) = Some (i, 0)"
| "num_val (JFloat (PFin m e)) = Some (m, e)"
| "num_val (JFloat PNegZero) = Some (0, 0)"
| "num_val _ = None"

definition num_eq :: "json \<Rightarrow> json \<Rightarrow> bool" where
  "num_eq v w = (case (num_val v, num_val w) of
      (Some (m, e), Some (m', e')) \<Rightarrow>
        m * 2 ^ nat (e - min e e') = m' * 2 ^ nat (e' - min e e')
    | _ \<Rightarrow> (v = JFloat PPosInf \<and> w = JFloat PPosInf) \<or> (v = JFloat PNegInf \<and> w = JFloat PNegInf))"

fun py_eq :: "json \<Rightarrow> json \<Rightarrow> bool" where
  "py_eq JNull w = (w = JNull)"
| "py_eq (JStr s) w = (w = JStr s)"
| "py_eq (JArr vs) w = (case w of
      JArr ws \<Rightarrow> length vs = length ws \<and> list_all (\<lambda>(a, b). py_eq a b) (zip vs ws)
    | _ \<Rightarrow> False)"
| "py_eq (JObj d) w = (case w of
      JObj d' \<Rightarrow> length d = length d' \<and>
        list_all (\<lambda>(k, v). case map_of d' k of None \<Rightarrow> False | Some v' \<Rightarrow> py_eq v v') d
    | _ \<Rightarrow> False)"
| "py_eq v w = num_eq v w"

lemma py_eq_str [simp, res_simps]: "py_eq v (JStr s) \<longleftrightarrow> v = JStr s"
  by (cases v) (auto simp: num_eq_def split: option.splits)

lemma num_eq_truthy: "num_eq v w \<Longrightarrow> truthy v \<Longrightarrow> truthy w"
  by (cases v rule: num_val.cases; cases w rule: num_val.cases)
    (auto simp: num_eq_def split: if_splits pyfloat.splits)

lemma py_eq_truthy: "py_eq v w \<Longrightarrow> truthy v \<Longrightarrow> truthy w"
  by (cases v) (auto split: json.splits dest: num_eq_truthy)

text \<open>\<open>x in xs\<close> for a list of values.\<close>

definition py_in :: "json \<Rightarrow> json list \<Rightarrow> bool" where
  "py_in x xs = list_ex (\<lambda>y. py_eq x y) xs"

lemma JStr_image [simp]: "JStr s \<in> JStr ` S \<longleftrightarrow> s \<in> S"
  by auto

lemma py_in_strs [simp]: "py_in x (map JStr ss) \<longleftrightarrow> (\<exists>s\<in>set ss. x = JStr s)"
  by (auto simp: py_in_def list_ex_iff)

lemma py_or_simps [simp, res_simps]:
  "truthy a \<Longrightarrow> py_or a b = a"
  "\<not> truthy a \<Longrightarrow> py_or a b = b"
  by (simp_all add: py_or_def)

lemma py_or_empty [simp, res_simps]:
  "py_or (JObj d) (JObj []) = JObj d" "py_or (JArr vs) (JArr []) = JArr vs"
  by (simp_all add: py_or_def)

lemma wf_json_py_or [simp]: "wf_json a \<Longrightarrow> wf_json b \<Longrightarrow> wf_json (py_or a b)"
  by (simp add: py_or_def)

end
