(* ===== verification/Canonical.thy ===== *)
theory Canonical
  imports PyValue "HOL-Library.Multiset"
begin

text \<open>
  Canonical JSON (\<open>crypto.py\<close>, \<open>canonical_json\<close> and \<open>unsigned_payload\<close>): the serialisation that
  every hash and every signature of the network is taken over. \<open>dumps\<close> is \<open>json.dumps\<close> with
  the options the SDK passes (sorted keys, no white space, no ASCII escaping, no NaN).

  The main result is that the byte string identifies the value: two values with the same bytes
  have the same normal form \<open>canon\<close> (the value with all keys sorted), so that a signature
  over the bytes is a signature over the value. It is proved by giving each token a unique
  split from what follows it.
\<close>

section \<open>Serialisation\<close>

definition hex_digit :: "nat \<Rightarrow> char" where
  "hex_digit n = (if n < 10 then char_of (48 + n) else char_of (87 + n))"

text \<open>
  The escapes of \<open>json.dumps(..., ensure_ascii=False)\<close>: the quote, the backslash and the control
  characters; the characters are written by code: quote \<open>0x22\<close>, backslash \<open>0x5C\<close>.
\<close>

definition esc_char :: "char \<Rightarrow> string" where
  "esc_char c =
     (if c = CHR 0x22 then [CHR 0x5C, CHR 0x22]
      else if c = CHR 0x5C then [CHR 0x5C, CHR 0x5C]
      else if c = CHR 0x0A then [CHR 0x5C, CHR ''n'']
      else if c = CHR 0x0D then [CHR 0x5C, CHR ''r'']
      else if c = CHR 0x09 then [CHR 0x5C, CHR ''t'']
      else if c = CHR 0x0C then [CHR 0x5C, CHR ''f'']
      else if c = CHR 0x08 then [CHR 0x5C, CHR ''b'']
      else if (of_char c :: nat) < 32 then
        [CHR 0x5C, CHR ''u'', CHR ''0'', CHR ''0'',
         hex_digit (of_char c div 16), hex_digit (of_char c mod 16)]
      else [c])"

definition encode_str :: "string \<Rightarrow> string" where
  "encode_str s = CHR 0x22 # concat (map esc_char s) @ [CHR 0x22]"

fun join :: "string \<Rightarrow> string list \<Rightarrow> string" where
  "join sep [] = []"
| "join sep [s] = s"
| "join sep (s # t # ss) = s @ sep @ join sep (t # ss)"

definition finite_float :: "pyfloat \<Rightarrow> bool" where
  "finite_float f = (f \<noteq> PNaN \<and> f \<noteq> PPosInf \<and> f \<noteq> PNegInf)"

function dumps :: "prims \<Rightarrow> json \<Rightarrow> string res" where
  "dumps E JNull = Inr ''null''"
| "dumps E (JBool b) = Inr (if b then ''true'' else ''false'')"
| "dumps E (JInt i) = Inr (show_int i)"
| "dumps E (JFloat f) =
     (if finite_float f then Inr (float_repr E f)
      else Inl (ValueError ''Out of range float values are not JSON compliant''))"
| "dumps E (JStr s) = Inr (encode_str s)"
| "dumps E (JArr vs) =
     bindR (mapR (dumps E) vs) (\<lambda>ss. Inr (''['' @ join '','' ss @ '']''))"
| "dumps E (JObj d) =
     bindR (mapR (\<lambda>(k, v). bindR (dumps E v) (\<lambda>s. Inr (encode_str k @ '':'' @ s)))
              (sort_key fst d))
       (\<lambda>ss. Inr (''{'' @ join '','' ss @ ''}''))"
  by pat_completeness auto
termination
  by (relation "measure (\<lambda>(E, v). size v)") (auto intro: json_size_arr json_size_obj)

definition canonical_json :: "prims \<Rightarrow> json \<Rightarrow> bytes res" where
  "canonical_json E v = bindR (dumps E v) (\<lambda>s. Inr (utf8_encode s))"

definition SIGNATURE_FIELDS :: "string list" where
  "SIGNATURE_FIELDS =
     [''signature'', ''requester_signature'', ''executor_signature'',
      ''signature_by_old_key'', ''recovery_signatures'']"

definition DERIVED_HASH_FIELDS :: "string list" where
  "DERIVED_HASH_FIELDS =
     [''contract_hash'', ''object_hash'', ''event_hash'', ''evidence_record_hash'', ''leaf_hashes'']"

definition HASH_OMIT_FIELDS :: "string list" where
  "HASH_OMIT_FIELDS = SIGNATURE_FIELDS @ DERIVED_HASH_FIELDS"

definition unsigned_payload :: "dict \<Rightarrow> dict" where
  "unsigned_payload obj = filter (\<lambda>(k, v). k \<notin> set HASH_OMIT_FIELDS) obj"

lemmas omit_fields_defs = HASH_OMIT_FIELDS_def SIGNATURE_FIELDS_def DERIVED_HASH_FIELDS_def

section \<open>Normal form and plain printing\<close>

text \<open>\<open>canon\<close> sorts the keys at every level; \<open>emit\<close> prints without sorting.\<close>

fun canon :: "json \<Rightarrow> json" where
  "canon (JArr vs) = JArr (map canon vs)"
| "canon (JObj d) = JObj (sort_key fst (map (\<lambda>(k, v). (k, canon v)) d))"
| "canon v = v"

fun emit :: "prims \<Rightarrow> json \<Rightarrow> string" where
  "emit E JNull = ''null''"
| "emit E (JBool b) = (if b then ''true'' else ''false'')"
| "emit E (JInt i) = show_int i"
| "emit E (JFloat f) = float_repr E f"
| "emit E (JStr s) = encode_str s"
| "emit E (JArr vs) = ''['' @ join '','' (map (emit E) vs) @ '']''"
| "emit E (JObj d) =
     ''{'' @ join '','' (map (\<lambda>(k, v). encode_str k @ '':'' @ emit E v) d) @ ''}''"

text \<open>Values with a canonical form: no NaN and no infinity anywhere.\<close>

fun finite_json :: "json \<Rightarrow> bool" where
  "finite_json (JFloat f) = finite_float f"
| "finite_json (JArr vs) = list_all finite_json vs"
| "finite_json (JObj d) = list_all (\<lambda>(k, v). finite_json v) d"
| "finite_json _ = True"

fun wf_floats :: "json \<Rightarrow> bool" where
  "wf_floats (JFloat f) = (wf_float f \<and> finite_float f)"
| "wf_floats (JArr vs) = list_all wf_floats vs"
| "wf_floats (JObj d) = list_all (\<lambda>(k, v). wf_floats v) d"
| "wf_floats _ = True"

lemma sort_key_map_snd:
  "sort_key fst (map (\<lambda>p. (fst p, f (snd p))) d) = map (\<lambda>p. (fst p, f (snd p))) (sort_key fst d)"
proof (induction d)
  case (Cons a d)
  have "insort_key fst (fst p, f (snd p)) (map (\<lambda>p. (fst p, f (snd p))) xs) =
        map (\<lambda>p. (fst p, f (snd p))) (insort_key fst p xs)" for p xs
    by (induction xs) auto
  with Cons show ?case by simp
qed simp

lemma dumps_emit: "finite_json v \<Longrightarrow> dumps E v = Inr (emit E (canon v))"
proof (induction v rule: json_induct)
  case (arr vs)
  then have "mapR (dumps E) vs = Inr (map (\<lambda>v. emit E (canon v)) vs)"
    by (intro mapR_total) (auto simp: list_all_iff)
  then show ?case by (simp add: comp_def)
next
  case (obj d)
  have *: "mapR (\<lambda>(k, v). bindR (dumps E v) (\<lambda>s. Inr (encode_str k @ '':'' @ s))) (sort_key fst d) =
        Inr (map (\<lambda>p. encode_str (fst p) @ '':'' @ emit E (canon (snd p))) (sort_key fst d))"
    using obj by (intro mapR_total) (auto simp: list_all_iff)
  show ?case
    unfolding dumps.simps * by (simp add: sort_key_map_snd comp_def split_def)
qed auto

lemma finite_json_canon: "finite_json (canon v) = finite_json v"
  by (induction v rule: json_induct) (auto simp: list_all_iff)

lemma wf_floats_canon: "wf_floats (canon v) = wf_floats v"
  by (induction v rule: json_induct) (auto simp: list_all_iff)

lemma wf_finite_floats: "wf_json v \<Longrightarrow> finite_json v \<Longrightarrow> wf_floats v"
  by (induction v rule: json_induct) (fastforce simp: list_all_iff)+

text \<open>Exactly the values with a NaN or an infinity are refused.\<close>

lemma dumps_not_finite:
  "\<not> finite_json v \<Longrightarrow>
   dumps E v = Inl (ValueError ''Out of range float values are not JSON compliant'')"
proof (induction v rule: json_induct)
  case (arr vs)
  let ?e = "ValueError ''Out of range float values are not JSON compliant''"
  have res: "dumps E v = Inl ?e \<or> (\<exists>s. dumps E v = Inr s)" if "v \<in> set vs" for v
    using arr that dumps_emit by blast
  from arr.prems obtain v where v: "v \<in> set vs" "\<not> finite_json v"
    by (auto simp: list_all_iff)
  with arr have bad: "dumps E v = Inl ?e" by blast
  have "mapR (dumps E) vs = Inl ?e"
  proof (cases "mapR (dumps E) vs")
    case (Inl e)
    then obtain u where "u \<in> set vs" "dumps E u = Inl e" by (auto dest: mapR_Inl_mem)
    with res Inl show ?thesis by fastforce
  next
    case (Inr ys)
    with bad v show ?thesis
      by (auto simp: mapR_Inr_iff list_all2_conv_all_nth in_set_conv_nth)
  qed
  then show ?case by simp
next
  case (obj d)
  let ?e = "ValueError ''Out of range float values are not JSON compliant''"
  let ?f = "\<lambda>(k, v). bindR (dumps E v) (\<lambda>s. Inr (encode_str k @ '':'' @ s))"
  have res: "?f p = Inl ?e \<or> (\<exists>s. ?f p = Inr s)" if "p \<in> set d" for p
  proof (cases p)
    case (Pair k v)
    with obj that dumps_emit [of v E] show ?thesis by (cases "finite_json v") fastforce+
  qed
  from obj.prems obtain k v where v: "(k, v) \<in> set d" "\<not> finite_json v"
    by (auto simp: list_all_iff)
  with obj have bad: "?f (k, v) = Inl ?e" by auto
  have "mapR ?f (sort_key fst d) = Inl ?e"
  proof (cases "mapR ?f (sort_key fst d)")
    case (Inl e)
    then obtain p where p: "p \<in> set d" "?f p = Inl e" using mapR_Inl_mem by fastforce
    from res [OF p(1)] p(2) Inl show ?thesis by (auto simp del: split_paired_Ex)
  next
    case (Inr ys)
    from v have "(k, v) \<in> set (sort_key fst d)" by simp
    with Inr bad show ?thesis
      unfolding mapR_Inr_iff list_all2_conv_all_nth in_set_conv_nth by force
  qed
  then show ?case by simp
qed auto

section \<open>Tokens split uniquely\<close>

lemma of_char_hex_digit:
  "k < 16 \<Longrightarrow> (of_char (hex_digit k) :: nat) = (if k < 10 then 48 + k else 87 + k)"
  by (simp add: hex_digit_def of_char_of)

lemma hex_digit_inj: "m < 16 \<Longrightarrow> n < 16 \<Longrightarrow> hex_digit m = hex_digit n \<Longrightarrow> m = n"
proof -
  assume m: "m < 16" and n: "n < 16" and "hex_digit m = hex_digit n"
  then have "(of_char (hex_digit m) :: nat) = of_char (hex_digit n)" by simp
  then show "m = n"
    unfolding of_char_hex_digit [OF m] of_char_hex_digit [OF n] by (simp split: if_splits)
qed

lemma ctrl_char_inj:
  assumes "(of_char c :: nat) < 32" "(of_char d :: nat) < 32"
    and "hex_digit (of_char c div 16) = hex_digit (of_char d div 16)"
    and "hex_digit (of_char c mod 16) = hex_digit (of_char d mod 16)"
  shows "c = d"
proof -
  have "(of_char c :: nat) div 16 = of_char d div 16" "(of_char c :: nat) mod 16 = of_char d mod 16"
    using assms by (auto intro!: hex_digit_inj)
  then have "(of_char c :: nat) = of_char d" by (metis div_mult_mod_eq)
  then show ?thesis by simp
qed

lemma esc_char_neq_Nil [simp]: "esc_char c \<noteq> []"
  by (simp add: esc_char_def)

lemma esc_char_hd [simp]: "hd (esc_char c) \<noteq> CHR 0x22"
  by (simp add: esc_char_def)

lemma esc_char_not_quote [simp]:
  "CHR 0x22 # x \<noteq> esc_char c @ y" "esc_char c @ y \<noteq> CHR 0x22 # x"
  using esc_char_hd [of c] by (cases "esc_char c"; auto)+

text \<open>No escape is a prefix of another.\<close>

lemma esc_char_split: "esc_char c @ x = esc_char d @ y \<Longrightarrow> c = d \<and> x = y"
  by (auto simp: esc_char_def split: if_splits dest: ctrl_char_inj)

lemma encode_str_split: "encode_str s @ x = encode_str t @ y \<Longrightarrow> s = t \<and> x = y"
proof -
  have "concat (map esc_char s) @ CHR 0x22 # x = concat (map esc_char t) @ CHR 0x22 # y
        \<Longrightarrow> s = t \<and> x = y"
  proof (induction s arbitrary: t)
    case Nil
    then show ?case
      by (cases t) auto
  next
    case (Cons c s)
    show ?case
    proof (cases t)
      case Nil
      with Cons.prems show ?thesis by simp
    next
      case (Cons d t')
      with Cons.prems Cons.IH [of t'] esc_char_split [of c _ d] show ?thesis by auto
    qed
  qed
  then show "encode_str s @ x = encode_str t @ y \<Longrightarrow> s = t \<and> x = y"
    by (simp add: encode_str_def)
qed

text \<open>
  What the code relies on for floats: the \<open>repr\<close> of a double is a token of digits, signs,
  point and exponent mark, it is never the rendering of an integer, and distinct doubles have
  distinct renderings (Python documents that \<open>float(repr(x)) == x\<close>).
\<close>

definition num_char :: "char \<Rightarrow> bool" where
  "num_char c = (is_digit c \<or> c \<in> set ''+-.e'')"

definition float_repr_ok :: "prims \<Rightarrow> bool" where
  "float_repr_ok E \<longleftrightarrow>
     (\<forall>f. wf_float f \<and> finite_float f \<longrightarrow>
        (\<exists>c cs. float_repr E f = c # cs \<and> (is_digit c \<or> c = CHR ''-'')) \<and>
        list_all num_char (float_repr E f) \<and> list_ex (\<lambda>c. c \<in> set ''.e'') (float_repr E f)) \<and>
     (\<forall>f g. wf_float f \<and> finite_float f \<and> wf_float g \<and> finite_float g \<and>
        float_repr E f = float_repr E g \<longrightarrow> f = g)"

text \<open>What may follow a value inside a document: nothing, a comma or a closing bracket.\<close>

definition delim :: "string \<Rightarrow> bool" where
  "delim r = (r = [] \<or> hd r \<in> set '',]}'')"

lemma delim_simps [simp]:
  "delim []" "delim (CHR '','' # r)" "delim (CHR '']'' # r)" "delim (CHR ''}'' # r)"
  by (simp_all add: delim_def)

lemma delim_not_num: "delim r \<Longrightarrow> r = [] \<or> \<not> num_char (hd r)"
  by (auto simp: delim_def num_char_def)

lemma num_token_split:
  assumes "list_all num_char s" "list_all num_char t" "delim r" "delim r'" "s @ r = t @ r'"
  shows "s = t \<and> r = r'"
proof -
  have tw: "takeWhile num_char (u @ q) = u" if "list_all num_char u" "delim q" for u q
  proof -
    from delim_not_num [OF that(2)] have "takeWhile num_char q = []" by (cases q) auto
    with that(1) show ?thesis by (simp add: takeWhile_append2 list_all_iff)
  qed
  from assms tw have "s = t" by metis
  with assms(5) show ?thesis by simp
qed

definition decodes :: "('a \<Rightarrow> bool) \<Rightarrow> ('a \<Rightarrow> string) \<Rightarrow> 'a \<Rightarrow> bool" where
  "decodes P f a \<longleftrightarrow>
     (\<forall>b r r'. P b \<and> delim r \<and> delim r' \<and> f a @ r = f b @ r' \<longrightarrow> a = b \<and> r = r')"

lemma decodesD:
  "decodes P f a \<Longrightarrow> P b \<Longrightarrow> delim r \<Longrightarrow> delim r' \<Longrightarrow> f a @ r = f b @ r' \<Longrightarrow> a = b \<and> r = r'"
  unfolding decodes_def by blast

lemma join_Cons: "join sep (s # ss) = s @ concat (map (\<lambda>t. sep @ t) ss)"
  by (induction ss arbitrary: s) auto

text \<open>A comma-separated list of uniquely decoded items with a closing bracket is uniquely decoded.\<close>

lemma items_split:
  assumes "\<And>a. a \<in> set as \<Longrightarrow> decodes P f a" "list_all P bs" "z \<in> set '']}''"
    and "concat (map (\<lambda>a. CHR '','' # f a) as) @ z # r = concat (map (\<lambda>a. CHR '','' # f a) bs) @ z # r'"
  shows "as = bs \<and> r = r'"
  using assms
proof (induction as arbitrary: bs)
  case Nil
  then show ?case by (cases bs) auto
next
  case (Cons a as)
  from Cons.prems(3,4) obtain b bs' where bs: "bs = b # bs'" by (cases bs) auto
  have dl: "delim (concat (map (\<lambda>a. CHR '','' # f a) cs) @ z # q)" for cs q
    using Cons.prems(3) by (cases cs) auto
  from Cons.prems bs have eq:
    "f a @ (concat (map (\<lambda>a. CHR '','' # f a) as) @ z # r) =
     f b @ (concat (map (\<lambda>a. CHR '','' # f a) bs') @ z # r')" and "P b"
    by simp_all
  from decodesD [OF Cons.prems(1) \<open>P b\<close> dl dl eq]
  have "a = b" and rest: "concat (map (\<lambda>a. CHR '','' # f a) as) @ z # r =
     concat (map (\<lambda>a. CHR '','' # f a) bs') @ z # r'" by simp_all
  with Cons.IH [of bs'] Cons.prems bs show ?case by simp
qed

lemma list_split:
  assumes dec: "\<And>a. a \<in> set as \<Longrightarrow> decodes P f a" and ps: "list_all P as" and bs: "list_all P bs"
    and z: "z \<in> set '']}''" and first: "\<And>a. P a \<Longrightarrow> f a \<noteq> [] \<and> hd (f a) \<notin> set '']}''"
    and eq: "join '','' (map f as) @ z # r = join '','' (map f bs) @ z # r'"
  shows "as = bs \<and> r = r'"
proof (cases as)
  case Nil
  show ?thesis
  proof (cases bs)
    case Nil
    with \<open>as = []\<close> eq show ?thesis by simp
  next
    case (Cons b bs')
    with \<open>as = []\<close> eq z bs first [of b] show ?thesis by (cases "f b") (auto simp: join_Cons)
  qed
next
  case as: (Cons a as')
  show ?thesis
  proof (cases bs)
    case Nil
    with as eq z ps first [of a] show ?thesis by (cases "f a") (auto simp: join_Cons)
  next
    case (Cons b bs')
    with as eq have "CHR '','' # f a @ concat (map (\<lambda>t. CHR '','' # f t) as') @ z # r =
        CHR '','' # f b @ concat (map (\<lambda>t. CHR '','' # f t) bs') @ z # r'"
      by (simp add: join_Cons comp_def)
    then show ?thesis
      using items_split [of as P f bs z r r'] dec bs z as Cons by simp
  qed
qed

section \<open>The bytes determine the value\<close>

text \<open>The first character of a token tells the constructor (numbers share one class).\<close>

definition tag_of_char :: "char \<Rightarrow> nat" where
  "tag_of_char c =
     (if c = CHR ''n'' then 0 else if c = CHR ''t'' then 1 else if c = CHR ''f'' then 2
      else if c = CHR 0x22 then 4 else if c = CHR ''['' then 5 else if c = CHR ''{'' then 6 else 3)"

fun tag :: "json \<Rightarrow> nat" where
  "tag JNull = 0"
| "tag (JBool b) = (if b then 1 else 2)"
| "tag (JInt i) = 3"
| "tag (JFloat f) = 3"
| "tag (JStr s) = 4"
| "tag (JArr vs) = 5"
| "tag (JObj d) = 6"

lemma digit_first: "is_digit c \<Longrightarrow> tag_of_char c = 3" "is_digit c \<Longrightarrow> c \<notin> set '']}''"
  by (auto simp: tag_of_char_def)

lemma num_first:
  assumes "is_digit c \<or> c = CHR ''-''"
  shows "tag_of_char c = 3 \<and> c \<notin> set '']}''"
  using assms
proof
  assume "c = CHR ''-''"
  then show ?thesis by (simp add: tag_of_char_def)
qed (simp only: digit_first not_False_eq_True simp_thms)

lemma float_repr_okD:
  assumes "float_repr_ok E" "wf_float f" "finite_float f"
  shows "list_all num_char (float_repr E f)" "list_ex (\<lambda>c. c \<in> set ''.e'') (float_repr E f)"
    and "wf_float g \<Longrightarrow> finite_float g \<Longrightarrow> float_repr E f = float_repr E g \<Longrightarrow> f = g"
    and "\<exists>c cs. float_repr E f = c # cs \<and> (is_digit c \<or> c = CHR ''-'')"
  using assms unfolding float_repr_ok_def by blast+

lemma show_int_first: "is_digit (hd (show_int i)) \<or> hd (show_int i) = CHR ''-''"
  by (rule show_int_chars [of _ i]) simp

lemma emit_first:
  assumes "float_repr_ok E" "wf_floats v"
  shows "emit E v \<noteq> [] \<and> tag_of_char (hd (emit E v)) = tag v \<and> hd (emit E v) \<notin> set '']}''"
proof (cases v)
  case (JInt i)
  with num_first [OF show_int_first [of i]] show ?thesis by simp
next
  case (JFloat f)
  with assms obtain c cs where "float_repr E f = c # cs" "is_digit c \<or> c = CHR ''-''"
    using float_repr_okD(4) [OF assms(1), of f] by auto
  with JFloat num_first [of c] show ?thesis by simp
qed (auto simp: tag_of_char_def encode_str_def)

lemma show_int_num_chars: "list_all num_char (show_int i)"
  by (auto simp: list_all_iff num_char_def dest: show_int_chars)

lemma show_int_no_float: "\<not> list_ex (\<lambda>c. c \<in> set ''.e'') (show_int i)"
  by (auto simp: list_ex_iff dest!: show_int_chars)

lemma tag_3_cases: "tag v = 3 \<longleftrightarrow> (\<exists>i. v = JInt i) \<or> (\<exists>f. v = JFloat f)"
  by (cases v) (simp_all split: if_splits)

lemma emit_num_token:
  assumes "float_repr_ok E" "wf_floats v" "tag v = 3"
  shows "list_all num_char (emit E v)"
  using assms unfolding tag_3_cases by (auto simp: show_int_num_chars float_repr_okD(1))

lemma emit_num_inj:
  assumes ok: "float_repr_ok E" and v: "wf_floats v" "tag v = 3" and w: "wf_floats w" "tag w = 3"
    and eq: "emit E v = emit E w"
  shows "v = w"
proof -
  have no: "show_int i \<noteq> float_repr E f" if "wf_float f" "finite_float f" for i f
    using float_repr_okD(2) [OF ok that] show_int_no_float [of i] by metis
  from v w no no [symmetric] float_repr_okD(3) [OF ok] eq show ?thesis
    unfolding tag_3_cases by (elim disjE exE) simp_all
qed

lemma emit_tag_eq:
  assumes "float_repr_ok E" "wf_floats v" "wf_floats w" "emit E v @ r = emit E w @ r'"
  shows "tag v = tag w"
  using emit_first [of E v] emit_first [of E w] assms
  by (metis hd_append2)

lemma tag_cases:
  "tag w = 0 \<longleftrightarrow> w = JNull" "tag w = 1 \<longleftrightarrow> w = JBool True" "tag w = 2 \<longleftrightarrow> w = JBool False"
  "tag w = 4 \<longleftrightarrow> (\<exists>s. w = JStr s)" "tag w = 5 \<longleftrightarrow> (\<exists>vs. w = JArr vs)"
  "tag w = 6 \<longleftrightarrow> (\<exists>d. w = JObj d)"
  by (cases w; simp split: if_splits)+

lemma emit_num_decodes:
  assumes "float_repr_ok E" "wf_floats v" "tag v = 3"
  shows "decodes wf_floats (emit E) v"
  unfolding decodes_def
proof (intro allI impI, elim conjE)
  fix w r r'
  assume w: "wf_floats w" and d: "delim r" "delim r'" and eq: "emit E v @ r = emit E w @ r'"
  from emit_tag_eq [OF assms(1,2) w eq] assms(3) have "tag w = 3" by simp
  with num_token_split [OF emit_num_token emit_num_token d eq] emit_num_inj assms w
  show "v = w \<and> r = r'" by blast
qed

lemma emit_pair_decodes:
  assumes "decodes wf_floats (emit E) v"
  shows "decodes (\<lambda>(k, v). wf_floats v) (\<lambda>(k, v). encode_str k @ '':'' @ emit E v) (k, v)"
  unfolding decodes_def
  using assms by (auto dest!: encode_str_split dest: decodesD)

lemma emit_decodes:
  assumes ok: "float_repr_ok E"
  shows "wf_floats v \<Longrightarrow> decodes wf_floats (emit E) v"
proof (induction v rule: json_induct)
  case (arr vs)
  have "\<exists>ws. w = JArr ws \<and> vs = ws \<and> r = r'"
    if w: "wf_floats w" and eq: "emit E (JArr vs) @ r = emit E w @ r'" for w r r'
  proof -
    from emit_tag_eq [OF ok arr.prems w eq] obtain ws where ws: "w = JArr ws"
      using tag_cases(5) [of w] by auto
    have "vs = ws \<and> r = r'"
      by (rule list_split [where P = wf_floats and f = "emit E" and z = "CHR '']''"])
        (use arr w ws eq emit_first [OF ok] in \<open>auto simp: list_all_iff\<close>)
    with ws show ?thesis by simp
  qed
  then show ?case unfolding decodes_def by blast
next
  case (obj d)
  let ?f = "\<lambda>(k, v). encode_str k @ '':'' @ emit E v"
  have "\<exists>d'. w = JObj d' \<and> d = d' \<and> r = r'"
    if w: "wf_floats w" and eq: "emit E (JObj d) @ r = emit E w @ r'" for w r r'
  proof -
    from emit_tag_eq [OF ok obj.prems w eq] obtain d' where d': "w = JObj d'"
      using tag_cases(6) [of w] by auto
    have dec: "decodes (\<lambda>(k, v). wf_floats v) ?f p" if "p \<in> set d" for p
    proof -
      obtain k v where p: "p = (k, v)" by (cases p)
      with that obj.prems have "wf_floats v" by (auto simp: list_all_iff)
      with obj.IH that p have "decodes wf_floats (emit E) v" by simp
      with p show ?thesis by (simp only: emit_pair_decodes)
    qed
    have "d = d' \<and> r = r'"
      by (rule list_split [where P = "\<lambda>(k, v). wf_floats v" and f = ?f and z = "CHR ''}''", OF dec])
        (use obj.prems w d' eq in \<open>auto simp: encode_str_def\<close>)
    with d' show ?thesis by simp
  qed
  then show ?case unfolding decodes_def by blast
next
  case (str s)
  then show ?case
    unfolding decodes_def
    using emit_tag_eq [OF ok, of "JStr s"] tag_cases(4)
    by (metis emit.simps(5) encode_str_split tag.simps(5))
next
  case null
  then show ?case
    unfolding decodes_def
    using emit_tag_eq [OF ok, of JNull] tag_cases(1) by (metis same_append_eq tag.simps(1))
next
  case (bool b)
  then show ?case
    unfolding decodes_def
    using emit_tag_eq [OF ok, of "JBool b"] tag_cases(2,3) by (metis same_append_eq tag.simps(2))
qed (simp_all add: emit_num_decodes [OF ok])

lemma emit_inj:
  assumes "float_repr_ok E" "wf_floats v" "wf_floats w" "emit E v = emit E w"
  shows "v = w"
  using decodesD [OF emit_decodes [OF assms(1,2)] assms(3), of "[]" "[]"] assms(4) by simp

section \<open>Results on canonical JSON\<close>

lemma canonical_json_emit:
  "finite_json v \<Longrightarrow> canonical_json E v = Inr (utf8_encode (emit E (canon v)))"
  by (simp add: canonical_json_def dumps_emit)

lemma canonical_json_Inr: "canonical_json E v = Inr bs \<Longrightarrow> finite_json v"
  using dumps_not_finite by (fastforce simp: canonical_json_def)

lemma canonical_json_cong:
  "finite_json v \<Longrightarrow> canon v = canon w \<Longrightarrow> canonical_json E v = canonical_json E w"
  using finite_json_canon [of v] finite_json_canon [of w] by (simp add: canonical_json_emit)

text \<open>Equality of normal forms is equality of dictionaries key by key.\<close>

lemma sort_key_fst_perm:
  "distinct (map fst d) \<Longrightarrow> mset d = mset d' \<Longrightarrow> sort_key fst d = sort_key fst d'"
  by (rule sort_key_inj_key_eq) (simp_all add: distinct_map)

lemma map_of_map_canon:
  "map_of (map (\<lambda>(k, v). (k, canon v)) d) k = map_option canon (map_of d k)"
  by (induction d) auto

lemma map_of_sort_key:
  "distinct (map fst d) \<Longrightarrow> map_of (sort_key fst d) = map_of d"
  by (rule map_of_inject_set [THEN iffD2]) (auto simp: distinct_map inj_on_def)

lemma fst_map_canon [simp]:
  "map fst (map (\<lambda>(k, v). (k, canon v)) d) = map fst d"
  "map (fst \<circ> (\<lambda>(k, v). (k, canon v))) d = map fst d"
  by (induction d) auto

lemma canon_obj_iff:
  assumes "distinct (map fst d)" "distinct (map fst d')"
  shows "canon (JObj d) = canon (JObj d') \<longleftrightarrow>
    (\<forall>k. map_option canon (map_of d k) = map_option canon (map_of d' k))" (is "?l \<longleftrightarrow> ?r")
proof -
  let ?c = "map (\<lambda>(k, v). (k, canon v))"
  have dist: "distinct (map fst (?c d))" "distinct (map fst (?c d'))"
    using assms by simp_all
  have "?l \<longleftrightarrow> map_of (?c d) = map_of (?c d')"
  proof
    assume ?l
    then have "sort_key fst (?c d) = sort_key fst (?c d')" by simp
    then show "map_of (?c d) = map_of (?c d')"
      using map_of_sort_key [OF dist(1)] map_of_sort_key [OF dist(2)] by metis
  next
    assume "map_of (?c d) = map_of (?c d')"
    then have "set (?c d) = set (?c d')"
      using map_of_inject_set [OF dist] by blast
    moreover have "distinct (?c d)" "distinct (?c d')"
      using dist by (simp_all only: distinct_map)
    ultimately have "mset (?c d) = mset (?c d')" by (rule set_eq_iff_mset_eq_distinct [THEN iffD1, rotated 2])
    then have "sort_key fst (?c d) = sort_key fst (?c d')" by (rule sort_key_fst_perm [OF dist(1)])
    then show ?l by simp
  qed
  also have "\<dots> \<longleftrightarrow> ?r" by (simp add: fun_eq_iff map_of_map_canon)
  finally show ?thesis .
qed

lemma canon_dget:
  assumes "distinct (map fst d)" "distinct (map fst d')" "canon (JObj d) = canon (JObj d')"
  shows "canon (dget d k) = canon (dget d' k)"
proof -
  from assms canon_obj_iff have "map_option canon (map_of d k) = map_option canon (map_of d' k)"
    by blast
  then show ?thesis by (auto simp: dget_def split: option.splits)
qed

lemma canon_str_iff [simp]: "canon v = JStr s \<longleftrightarrow> v = JStr s" "JStr s = canon v \<longleftrightarrow> v = JStr s"
  by (cases v; auto)+

lemma canon_cong_dset:
  assumes "distinct (map fst d)" "distinct (map fst d')" "canon (JObj d) = canon (JObj d')" "canon v = canon v'"
  shows "canon (JObj (dset d k v)) = canon (JObj (dset d' k v'))"
  using assms by (subst canon_obj_iff)
    (auto simp: dset_def update_conv distinct_update canon_obj_iff simp del: canon.simps)

text \<open>The signature and derived-hash fields never reach the bytes.\<close>

lemma map_of_filter_keys:
  "map_of (filter (\<lambda>(k, v). P k) d) k = (if P k then map_of d k else None)"
  by (induction d) auto

lemma dget_unsigned: "dget (unsigned_payload d) k = (if k \<in> set HASH_OMIT_FIELDS then JNull else dget d k)"
  using map_of_filter_keys [of "\<lambda>k. k \<notin> set HASH_OMIT_FIELDS" d k]
  by (simp add: dget_def unsigned_payload_def)

lemma unsigned_dset:
  "unsigned_payload (dset d k v) =
     (if k \<in> set HASH_OMIT_FIELDS then unsigned_payload d else dset (unsigned_payload d) k v)"
  by (induction d) (auto simp: unsigned_payload_def dset_def)

lemma unsigned_idem [simp]: "unsigned_payload (unsigned_payload d) = unsigned_payload d"
  by (simp add: unsigned_payload_def)

lemma wf_unsigned [simp]: "wf_json (JObj d) \<Longrightarrow> wf_json (JObj (unsigned_payload d))"
  unfolding unsigned_payload_def by (rule wf_json_filter)

lemma distinct_unsigned [simp]:
  "distinct (map fst d) \<Longrightarrow> distinct (map fst (unsigned_payload d))"
  by (simp add: unsigned_payload_def distinct_map_filter)

lemma canon_unsigned_cong:
  assumes "distinct (map fst d)" "distinct (map fst d')" "canon (JObj d) = canon (JObj d')"
  shows "canon (JObj (unsigned_payload d)) = canon (JObj (unsigned_payload d'))"
proof -
  from assms have "map_option canon (map_of d k) = map_option canon (map_of d' k)" for k
    by (simp add: canon_obj_iff del: canon.simps)
  then show ?thesis
    using assms by (simp add: canon_obj_iff unsigned_payload_def distinct_map_filter
        map_of_filter_keys [where P = "\<lambda>k. k \<notin> set HASH_OMIT_FIELDS"] del: canon.simps)
qed

lemma canonical_json_inj_iff:
  assumes "float_repr_ok E" "wf_json v" "wf_json w" "finite_json v" "finite_json w"
  shows "canonical_json E v = canonical_json E w \<longleftrightarrow> canon v = canon w"
proof
  assume "canonical_json E v = canonical_json E w"
  then have "emit E (canon v) = emit E (canon w)"
    using assms by (simp add: canonical_json_emit)
  then show "canon v = canon w"
    using assms by (auto intro!: emit_inj [of E] simp: wf_floats_canon wf_finite_floats)
qed (rule canonical_json_cong [OF assms(4)])

text \<open>
  C34: canonical JSON is injective up to the order of keys and independent of it: two values
  that have a canonical form have the same bytes exactly when they agree after sorting all
  keys.
\<close>

theorem canonical_json_injective:
  assumes "float_repr_ok E" "wf_json v" "wf_json w" "finite_json v" "finite_json w"
  shows "canonical_json E v = canonical_json E w \<longleftrightarrow> canon v = canon w"
  using assms by (rule canonical_json_inj_iff)

text \<open>
  A dictionary whose items arrive in another order has the same canonical bytes.
\<close>

theorem canonical_json_order_independent:
  assumes "distinct (map fst d)" "mset d = mset d'"
  shows "canonical_json E (JObj d) = canonical_json E (JObj d')"
  using assms by (simp add: canonical_json_def sort_key_fst_perm [OF assms])

text \<open>
  Canonicalisation is total on the values without NaN and infinities, where it prints the
  value with its keys sorted, and refuses every other value with \<open>ValueError\<close>.
\<close>

theorem canonical_json_defined:
  "canonical_json E v =
     (if finite_json v then Inr (utf8_encode (emit E (canon v)))
      else Inl (ValueError ''Out of range float values are not JSON compliant''))"
  by (simp add: canonical_json_def dumps_emit dumps_not_finite)

end
