(* ===== verification/Encoding.thy ===== *)
theory Encoding
  imports Canonical
begin

text \<open>
  Text forms of keys, hashes and signatures, and signing over canonical JSON
  (\<open>crypto.py\<close>, the functions before \<open>class Identity\<close>). \<open>b64decode\<close> is the
  lenient decoder of Python's \<open>base64\<close> (characters outside the alphabet are skipped, padding
  ends the input), written as the state machine it is. Ed25519 and SHA-256 are parameters.
\<close>

section \<open>Base64\<close>

definition b64_char :: "nat \<Rightarrow> char" where
  "b64_char n =
     (if n < 26 then char_of (65 + n) else if n < 52 then char_of (71 + n)
      else if n < 62 then char_of (n - 4) else if n = 62 then CHR ''+'' else CHR ''/'')"

definition b64_val :: "char \<Rightarrow> nat option" where
  "b64_val c =
     (let n = (of_char c :: nat) in
      if 65 \<le> n \<and> n \<le> 90 then Some (n - 65) else if 97 \<le> n \<and> n \<le> 122 then Some (n - 71)
      else if 48 \<le> n \<and> n \<le> 57 then Some (n + 4) else if c = CHR ''+'' then Some 62
      else if c = CHR ''/'' then Some 63 else None)"

text \<open>Three bytes become four characters; the last group is padded.\<close>

fun b64encode :: "bytes \<Rightarrow> string" where
  "b64encode [] = []"
| "b64encode [a] =
     [b64_char (unat a div 4), b64_char (unat a mod 4 * 16), CHR ''='', CHR ''='']"
| "b64encode [a, b] =
     [b64_char (unat a div 4), b64_char (unat a mod 4 * 16 + unat b div 16),
      b64_char (unat b mod 16 * 4), CHR ''='']"
| "b64encode (a # b # c # rest) =
     [b64_char (unat a div 4), b64_char (unat a mod 4 * 16 + unat b div 16),
      b64_char (unat b mod 16 * 4 + unat c div 64), b64_char (unat c mod 64)] @ b64encode rest"

text \<open>
  \<open>binascii.a2b_base64\<close> in its default, lenient mode: \<open>q\<close> is the position in the group of four,
  \<open>left\<close> the bits carried over, \<open>pads\<close> the padding seen so far.
\<close>

fun a2b :: "nat \<Rightarrow> nat \<Rightarrow> nat \<Rightarrow> string \<Rightarrow> bytes res" where
  "a2b q left pads [] = (if q = 0 then Inr [] else Inl (ValueError []))"
| "a2b q left pads (c # cs) =
     (if c = CHR ''='' then
        (if 2 \<le> q \<and> 4 \<le> q + Suc pads then Inr []
         else a2b q left (if 2 \<le> q then Suc pads else pads) cs)
      else case b64_val c of
        None \<Rightarrow> a2b q left pads cs
      | Some v \<Rightarrow>
          if q = 0 then a2b 1 v 0 cs
          else if q = 1 then
            bindR (a2b 2 (v mod 16) 0 cs) (\<lambda>bs. Inr (word_of_nat (left * 4 + v div 16) # bs))
          else if q = 2 then
            bindR (a2b 3 (v mod 4) 0 cs) (\<lambda>bs. Inr (word_of_nat (left * 16 + v div 4) # bs))
          else bindR (a2b 0 0 0 cs) (\<lambda>bs. Inr (word_of_nat (left * 64 + v) # bs)))"

definition is_ascii :: "string \<Rightarrow> bool" where
  "is_ascii s = list_all (\<lambda>c. (of_char c :: nat) < 128) s"

text \<open>Text outside ASCII raises \<open>UnicodeEncodeError\<close>, a \<open>ValueError\<close>.\<close>

definition b64decode :: "string \<Rightarrow> bytes res" where
  "b64decode text = (if is_ascii text then a2b 0 0 0 text else Inl (ValueError []))"

section \<open>Hashes, keys and signatures as text\<close>

definition sha256_digest :: "prims \<Rightarrow> bytes \<Rightarrow> bytes" where
  "sha256_digest E data = sha256_raw E data"

definition hexdigest :: "bytes \<Rightarrow> string" where
  "hexdigest bs = concat (map (\<lambda>b. [hex_digit (unat b div 16), hex_digit (unat b mod 16)]) bs)"

definition sha256_hex :: "prims \<Rightarrow> bytes \<Rightarrow> string" where
  "sha256_hex E data = ''sha256:'' @ hexdigest (sha256_raw E data)"

text \<open>
  \<open>file_sha256\<close> feeds the file to the hash in chunks of 1 MiB; the hash object is the bytes
  fed so far (\<open>update\<close> of two parts is \<open>update\<close> of their concatenation).
\<close>

function file_chunks :: "nat \<Rightarrow> bytes \<Rightarrow> bytes \<Rightarrow> bytes" where
  "file_chunks n fed content =
     (if n = 0 \<or> take n content = [] then fed
      else file_chunks n (fed @ take n content) (drop n content))"
  by pat_completeness auto
termination
  by (relation "measure (\<lambda>(n, fed, content). length content)") auto

declare file_chunks.simps [simp del]

definition file_sha256 :: "prims \<Rightarrow> bytes \<Rightarrow> string" where
  "file_sha256 E content =
     ''sha256:'' @ hexdigest (sha256_raw E (file_chunks (1024 * 1024) [] content))"

definition encode_public_key :: "bytes \<Rightarrow> string" where
  "encode_public_key raw = ''ed25519:'' @ b64encode raw"

definition encode_signature :: "bytes \<Rightarrow> string" where
  "encode_signature raw = ''ed25519:'' @ b64encode raw"

definition strip_prefix :: "string \<Rightarrow> string \<Rightarrow> string" where
  "strip_prefix value p = (if startswith value p then drop (length p) value else value)"

definition sign_digest :: "prims \<Rightarrow> bytes \<Rightarrow> bytes \<Rightarrow> string" where
  "sign_digest E sk digest = encode_signature (ed_sign E sk digest)"

text \<open>
  The exceptions of the body are caught: decoding raises \<open>ValueError\<close>, so does a public key
  that is not 32 bytes long, and a wrong signature raises \<open>InvalidSignature\<close>.
\<close>

definition verify_digest :: "prims \<Rightarrow> string \<Rightarrow> bytes \<Rightarrow> string \<Rightarrow> bool" where
  "verify_digest E public_key_str digest signature_str =
     (case b64decode (strip_prefix public_key_str ''ed25519:'') of
        Inl _ \<Rightarrow> False
      | Inr raw_pk \<Rightarrow>
          (case b64decode (strip_prefix signature_str ''ed25519:'') of
             Inl _ \<Rightarrow> False
           | Inr raw_sig \<Rightarrow> length raw_pk = 32 \<and> ed_verify E raw_pk digest raw_sig))"

definition hash_and_sign :: "prims \<Rightarrow> bytes \<Rightarrow> dict \<Rightarrow> (string \<times> string) res" where
  "hash_and_sign E sk obj =
     bindR (canonical_json E (JObj (unsigned_payload obj))) (\<lambda>body.
       Inr (sha256_hex E body, sign_digest E sk (sha256_digest E body)))"

text \<open>The canonicalisation is outside the \<open>try\<close>: its \<open>ValueError\<close> reaches the caller.\<close>

definition verify_object :: "prims \<Rightarrow> string \<Rightarrow> dict \<Rightarrow> string \<Rightarrow> bool res" where
  "verify_object E public_key_str obj signature_str =
     bindR (canonical_json E (JObj (unsigned_payload obj))) (\<lambda>body.
       Inr (verify_digest E public_key_str (sha256_digest E body) signature_str))"

text \<open>
  The same call with a signature taken from a dictionary: \<open>startswith\<close> on a value that is not a
  string raises \<open>AttributeError\<close>, which is not caught, unless the public key fails to decode first.
\<close>

definition verify_value :: "prims \<Rightarrow> string \<Rightarrow> dict \<Rightarrow> json \<Rightarrow> bool res" where
  "verify_value E public_key_str obj sig =
     (case sig of
        JStr s \<Rightarrow> verify_object E public_key_str obj s
      | _ \<Rightarrow>
          bindR (canonical_json E (JObj (unsigned_payload obj))) (\<lambda>body.
            case b64decode (strip_prefix public_key_str ''ed25519:'') of
              Inl _ \<Rightarrow> Inr False
            | Inr _ \<Rightarrow> Inl AttributeError))"

lemma verify_value_True: "verify_value E pk obj v = Inr True \<longleftrightarrow>
    (\<exists>s. v = JStr s \<and> verify_object E pk obj s = Inr True)"
  by (auto simp: verify_value_def split: json.splits sum.splits)

text \<open>\<open>object_hash\<close> and the signing step shared by \<open>Identity\<close>.\<close>

definition object_hash :: "prims \<Rightarrow> dict \<Rightarrow> string res" where
  "object_hash E obj =
     bindR (canonical_json E (JObj (unsigned_payload obj))) (\<lambda>body. Inr (sha256_hex E body))"

section \<open>Base64 round trip\<close>

lemma of_char_b64:
  "n < 64 \<Longrightarrow> (of_char (b64_char n) :: nat) =
     (if n < 26 then 65 + n else if n < 52 then 71 + n else if n < 62 then n - 4
      else if n = 62 then 43 else 47)"
  by (auto simp: b64_char_def of_char_of)

lemma b64_val_char [simp]: "n < 64 \<Longrightarrow> b64_val (b64_char n) = Some n"
proof -
  assume n: "n < 64"
  consider "n < 62" | "n = 62" | "n = 63" using n by linarith
  then show ?thesis
  proof cases
    case 1
    with n show ?thesis by (auto simp: b64_val_def of_char_b64 Let_def)
  qed (simp_all add: b64_char_def b64_val_def Let_def)
qed

lemma b64_char_not_pad [simp]: "n < 64 \<Longrightarrow> b64_char n \<noteq> CHR ''=''"
  using b64_val_char [of n] by (auto simp: b64_val_def Let_def)

lemma b64_char_ascii: "n < 64 \<Longrightarrow> (of_char (b64_char n) :: nat) < 128"
  by (auto simp: of_char_b64)

lemma unat_byte [simp]: "unat (b :: byte) < 256"
  using unsigned_less [of b] by simp

lemma sextet_bounds [simp]:
  "unat (a :: byte) div 4 < 64" "unat (b :: byte) div 16 < 16" "unat (c :: byte) div 64 < 4"
  using unat_byte [of a] unat_byte [of b] unat_byte [of c] by (auto simp del: unat_byte)

lemma sextets_nat:
  fixes a b c :: nat
  assumes "b < 256" "c < 256"
  shows "a mod 4 * 16 + b div 16 < 64" "b mod 16 * 4 + c div 64 < 64"
    and "a mod 4 * 16 < 64" "b mod 16 * 4 < 64"
proof -
  have "a mod 4 < 4" "b mod 16 < 16" "b div 16 < 16" "c div 64 < 4"
    using assms by (simp_all add: less_mult_imp_div_less)
  then show "a mod 4 * 16 + b div 16 < 64" "b mod 16 * 4 + c div 64 < 64"
    and "a mod 4 * 16 < 64" "b mod 16 * 4 < 64"
    by linarith+
qed

lemma recombine_nat:
  fixes a b c :: nat
  assumes "b < 256" "c < 256"
  shows "a div 4 * 4 + (a mod 4 * 16 + b div 16) div 16 = a"
    and "(a mod 4 * 16 + b div 16) mod 16 = b div 16"
    and "b div 16 * 16 + (b mod 16 * 4 + c div 64) div 4 = b"
    and "(b mod 16 * 4 + c div 64) mod 4 = c div 64"
    and "c div 64 * 64 + c mod 64 = c"
    and "a div 4 * 4 + (a mod 4 * 16) div 16 = a"
    and "b div 16 * 16 + (b mod 16 * 4) div 4 = b"
  using assms by simp_all

lemmas sextets [simp] = sextets_nat [OF unat_byte unat_byte]
lemmas recombine [simp] = recombine_nat [OF unat_byte unat_byte]

lemma a2b_b64encode: "a2b 0 0 0 (b64encode bs) = Inr bs"
  by (induction bs rule: b64encode.induct) simp_all

lemma b64encode_ascii: "is_ascii (b64encode bs)"
  by (induction bs rule: b64encode.induct) (simp_all add: is_ascii_def b64_char_ascii)

lemma b64_roundtrip_aux [simp]: "b64decode (b64encode bs) = Inr bs"
  by (simp add: b64decode_def b64encode_ascii a2b_b64encode)

text \<open>
  Decoding the encoding of a byte string gives it back, for every length and padding.
\<close>

theorem b64_roundtrip: "b64decode (b64encode bs) = Inr bs"
  by (rule b64_roundtrip_aux)

section \<open>Hashing\<close>

lemma file_chunks_eq: "0 < n \<Longrightarrow> file_chunks n fed content = fed @ content"
proof (induction n fed content rule: file_chunks.induct)
  case (1 n fed content)
  show ?case
  proof (cases "take n content = []")
    case True
    with 1 have "content = []" by simp
    then show ?thesis by (simp add: file_chunks.simps [of n fed "[]"])
  next
    case False
    with 1 show ?thesis by (simp add: file_chunks.simps [of n fed content])
  qed
qed

text \<open>
  Hashing a file chunk by chunk gives the hash of its content, whatever its size.
\<close>

theorem file_sha256_content: "file_sha256 E content = sha256_hex E content"
  by (simp add: file_sha256_def sha256_hex_def file_chunks_eq)

lemma hex_byte_inj:
  fixes a b :: byte
  assumes "hex_digit (unat a div 16) = hex_digit (unat b div 16)"
    and "hex_digit (unat a mod 16) = hex_digit (unat b mod 16)"
  shows "a = b"
proof -
  have "unat a div 16 = unat b div 16" "unat a mod 16 = unat b mod 16"
    using assms by (auto intro!: hex_digit_inj)
  then have "unat a = unat b" by (metis div_mult_mod_eq)
  then show ?thesis by (simp add: word_unat_eq_iff)
qed

lemma hexdigest_inj: "hexdigest as = hexdigest bs \<Longrightarrow> as = bs"
proof (induction as arbitrary: bs)
  case Nil
  then show ?case by (cases bs) (auto simp: hexdigest_def)
next
  case (Cons a as)
  then show ?case by (cases bs) (auto simp: hexdigest_def intro: hex_byte_inj)
qed

lemma sha256_hex_inj: "sha256_hex E a = sha256_hex E b \<Longrightarrow> sha256_raw E a = sha256_raw E b"
  by (auto simp: sha256_hex_def dest: hexdigest_inj)

section \<open>Signatures over objects\<close>

text \<open>
  What the code relies on of Ed25519: a public key is 32 bytes and its own signatures verify;
  a signature made for one digest verifies for no other digest.
\<close>

definition ed25519_ok :: "prims \<Rightarrow> bool" where
  "ed25519_ok E \<longleftrightarrow>
     (\<forall>sk m. length sk = 32 \<longrightarrow>
        length (ed_public E sk) = 32 \<and> ed_verify E (ed_public E sk) m (ed_sign E sk m))"

definition ed25519_binds :: "prims \<Rightarrow> bool" where
  "ed25519_binds E \<longleftrightarrow>
     (\<forall>sk m m'. length sk = 32 \<and> ed_verify E (ed_public E sk) m' (ed_sign E sk m) \<longrightarrow> m' = m)"

lemma strip_prefix_append [simp]: "strip_prefix (p @ s) p = s"
  by (simp add: strip_prefix_def)

lemma strip_encoded [simp]:
  "strip_prefix (encode_public_key raw) ''ed25519:'' = b64encode raw"
  "strip_prefix (encode_signature raw) ''ed25519:'' = b64encode raw"
  unfolding encode_public_key_def encode_signature_def by (rule strip_prefix_append)+

lemma verify_own_signature:
  "ed25519_ok E \<Longrightarrow> length sk = 32 \<Longrightarrow>
   verify_digest E (encode_public_key (ed_public E sk)) m (sign_digest E sk m)"
  by (simp add: verify_digest_def sign_digest_def ed25519_ok_def)

lemma verify_binds:
  assumes "ed25519_binds E" "length sk = 32"
    and "verify_digest E (encode_public_key (ed_public E sk)) m' (sign_digest E sk m)"
  shows "m' = m"
  using assms
  by (auto simp: verify_digest_def sign_digest_def ed25519_binds_def)

lemma verify_object_Inr:
  "canonical_json E (JObj (unsigned_payload obj)) = Inr b \<Longrightarrow>
   verify_object E pk obj s = Inr (verify_digest E pk (sha256_digest E b) s)"
  by (simp add: verify_object_def)

text \<open>Verification depends on the object only through its unsigned canonical form.\<close>

lemma verify_object_cong:
  assumes "canonical_json E (JObj (unsigned_payload obj)) = canonical_json E (JObj (unsigned_payload obj'))"
  shows "verify_object E pk obj s = verify_object E pk obj' s"
  by (simp add: verify_object_def assms)

lemma verify_object_canon:
  assumes "distinct (map fst obj)" "distinct (map fst obj')" "canon (JObj obj) = canon (JObj obj')"
    and "finite_json (JObj (unsigned_payload obj))"
  shows "verify_object E pk obj s = verify_object E pk obj' s"
  by (rule verify_object_cong, rule canonical_json_cong)
    (use assms canon_unsigned_cong in blast)+

text \<open>
  Signing an object and verifying it with the signer's public key succeeds; the reported
  hash is the object's hash.
\<close>

theorem sign_then_verify:
  assumes "ed25519_ok E" "length sk = 32" "hash_and_sign E sk obj = Inr (h, s)"
  shows "verify_object E (encode_public_key (ed_public E sk)) obj s = Inr True \<and> object_hash E obj = Inr h"
  using assms
  by (auto simp: hash_and_sign_def verify_object_def object_hash_def verify_own_signature)

text \<open>
  The signature and derived-hash fields of an object take no part in signing: adding,
  replacing or removing them changes neither the verdict on a signature nor the hash.
\<close>

theorem signature_fields_not_signed:
  assumes "k \<in> set HASH_OMIT_FIELDS"
  shows "verify_object E pk (dset obj k v) s = verify_object E pk obj s \<and>
    object_hash E (dset obj k v) = object_hash E obj \<and>
    verify_object E pk (unsigned_payload obj) s = verify_object E pk obj s"
  using assms by (simp_all add: verify_object_def object_hash_def unsigned_dset)

text \<open>Two objects whose different canonical bytes have the same SHA-256.\<close>

definition sha256_collision :: "prims \<Rightarrow> dict \<Rightarrow> dict \<Rightarrow> bool" where
  "sha256_collision E obj obj' \<longleftrightarrow>
     (\<exists>b b'. canonical_json E (JObj (unsigned_payload obj)) = Inr b \<and>
        canonical_json E (JObj (unsigned_payload obj')) = Inr b' \<and>
        b \<noteq> b' \<and> sha256_raw E b = sha256_raw E b')"

lemma equal_digest_binds:
  assumes "float_repr_ok E" "wf_json (JObj obj)" "wf_json (JObj obj')"
    and b: "canonical_json E (JObj (unsigned_payload obj)) = Inr b"
    and b': "canonical_json E (JObj (unsigned_payload obj')) = Inr b'"
    and eq: "sha256_raw E b = sha256_raw E b'"
  shows "(\<forall>k. k \<notin> set HASH_OMIT_FIELDS \<longrightarrow> canon (dget obj' k) = canon (dget obj k)) \<or>
    sha256_collision E obj obj'"
proof (cases "b = b'")
  case True
  with b b' canonical_json_inj_iff [OF assms(1) wf_unsigned [OF assms(2)] wf_unsigned [OF assms(3)]
      canonical_json_Inr [OF b] canonical_json_Inr [OF b']]
  have "canon (JObj (unsigned_payload obj)) = canon (JObj (unsigned_payload obj'))" by metis
  then have "canon (dget (unsigned_payload obj) k) = canon (dget (unsigned_payload obj') k)" for k
    using assms by (intro canon_dget) auto
  then show ?thesis unfolding dget_unsigned by metis
qed (use b b' eq in \<open>auto simp: sha256_collision_def\<close>)

lemma object_hash_binds:
  assumes "float_repr_ok E" "wf_json (JObj obj)" "wf_json (JObj obj')"
    and "object_hash E obj = Inr h" "object_hash E obj' = Inr h"
  shows "(\<forall>k. k \<notin> set HASH_OMIT_FIELDS \<longrightarrow> canon (dget obj' k) = canon (dget obj k)) \<or>
    sha256_collision E obj obj'"
proof -
  from assms(4) obtain b where b: "canonical_json E (JObj (unsigned_payload obj)) = Inr b"
    and h: "h = sha256_hex E b" by (auto simp: object_hash_def)
  from assms(5) obtain b' where b': "canonical_json E (JObj (unsigned_payload obj')) = Inr b'"
    and h': "h = sha256_hex E b'" by (auto simp: object_hash_def)
  from h h' have "sha256_raw E b = sha256_raw E b'" using sha256_hex_inj by blast
  then show ?thesis by (rule equal_digest_binds [OF assms(1-3) b b'])
qed

text \<open>The same for an accepted signature of a known key.\<close>

lemma accepted_signature_binds:
  assumes "float_repr_ok E" "ed25519_binds E" "length sk = 32"
    and "wf_json (JObj obj)" "wf_json (JObj obj')"
    and "hash_and_sign E sk obj = Inr (h, s)"
    and "verify_object E (encode_public_key (ed_public E sk)) obj' s = Inr True"
  shows "(\<forall>k. k \<notin> set HASH_OMIT_FIELDS \<longrightarrow> canon (dget obj' k) = canon (dget obj k)) \<or>
    sha256_collision E obj obj'"
proof -
  from assms(6) obtain b where b: "canonical_json E (JObj (unsigned_payload obj)) = Inr b"
    and s: "s = sign_digest E sk (sha256_digest E b)"
    by (auto simp: hash_and_sign_def)
  from assms(7) obtain b' where b': "canonical_json E (JObj (unsigned_payload obj')) = Inr b'"
    and v: "verify_digest E (encode_public_key (ed_public E sk)) (sha256_digest E b') s"
    by (auto simp: verify_object_def)
  have "sha256_raw E b = sha256_raw E b'"
    using verify_binds [OF assms(2,3)] v unfolding s sha256_digest_def by metis
  then show ?thesis by (rule equal_digest_binds [OF assms(1,4,5) b b'])
qed

text \<open>
  C6: tamper evidence. If a signature made for one object is accepted for another object, then
  the two objects agree on every field outside the omitted ones (up to the order of keys inside),
  or their two canonical byte strings are a collision of SHA-256.
\<close>

theorem accepted_signature_binds_fields:
  assumes "float_repr_ok E" "ed25519_binds E" "length sk = 32"
    and "wf_json (JObj obj)" "wf_json (JObj obj')"
    and "hash_and_sign E sk obj = Inr (h, s)"
    and "verify_object E (encode_public_key (ed_public E sk)) obj' s = Inr True"
  shows "(\<forall>k. k \<notin> set HASH_OMIT_FIELDS \<longrightarrow> canon (dget obj' k) = canon (dget obj k)) \<or>
    sha256_collision E obj obj'"
  using assms by (rule accepted_signature_binds)

end
