(* ===== verification/DemoPrims.thy ===== *)
theory DemoPrims
  imports Encoding
begin

text \<open>
  A concrete instance of the primitives, for evaluating the model on concrete inputs and for
  showing that the hypotheses about Ed25519 and float rendering can hold together. It is not a
  cryptographic scheme: the hash is the identity and a signature is the key and the message.
\<close>

definition demo_float_repr :: "pyfloat \<Rightarrow> string" where
  "demo_float_repr f = (case f of
      PFin m e \<Rightarrow> show_int m @ ''e'' @ show_int e
    | PNegZero \<Rightarrow> ''-0.0''
    | PPosInf \<Rightarrow> ''inf''
    | PNegInf \<Rightarrow> ''-inf''
    | PNaN \<Rightarrow> ''nan'')"

definition demo_prims :: prims where
  "demo_prims = \<lparr>
     sha256_raw = (\<lambda>b. b),
     ed_public = (\<lambda>sk. sk),
     ed_sign = (\<lambda>sk m. sk @ m),
     ed_verify = (\<lambda>pk m s. s = pk @ m),
     float_repr = demo_float_repr,
     container_repr = (\<lambda>v. []),
     iso_parse = (\<lambda>s. parse_int s),
     codec = (\<lambda>enc s. Inl (LookupError enc)),
     float_succ = (\<lambda>f. f)\<rparr>"

text \<open>Two keys.\<close>

definition demo_key :: bytes where
  "demo_key = replicate 32 1"

definition demo_key2 :: bytes where
  "demo_key2 = replicate 32 2"

lemma demo_prims_simps [simp]:
  "sha256_raw demo_prims = (\<lambda>b. b)" "ed_public demo_prims = (\<lambda>sk. sk)"
  "ed_sign demo_prims = (\<lambda>sk m. sk @ m)" "ed_verify demo_prims = (\<lambda>pk m s. s = pk @ m)"
  "float_repr demo_prims = demo_float_repr" "iso_parse demo_prims = (\<lambda>s. parse_int s)"
  by (simp_all add: demo_prims_def)

lemma length_demo_key [simp]: "length demo_key = 32" "length demo_key2 = 32"
  by (simp_all add: demo_key_def demo_key2_def)

lemma demo_ed25519_ok [simp]: "ed25519_ok demo_prims"
  by (simp add: ed25519_ok_def)

lemma demo_ed25519_binds [simp]: "ed25519_binds demo_prims"
  by (simp add: ed25519_binds_def)

lemma show_int_no_e: "CHR ''e'' \<notin> set (show_int i)" "CHR ''.'' \<notin> set (show_int i)"
  by (auto dest!: show_int_chars)

lemma split_at_char: "c \<notin> set s \<Longrightarrow> c \<notin> set t \<Longrightarrow> s @ c # x = t @ c # y \<Longrightarrow> s = t \<and> x = y"
proof (induction s arbitrary: t)
  case Nil
  then show ?case by (cases t) auto
next
  case (Cons a s)
  then show ?case by (cases t) auto
qed

lemma demo_float_repr_inj:
  assumes "demo_float_repr f = demo_float_repr g" "finite_float f" "finite_float g"
  shows "f = g"
proof -
  have dot: "CHR ''.'' \<notin> set (demo_float_repr (PFin m e))" for m e
    using show_int_no_e by (simp add: demo_float_repr_def)
  have dot': "CHR ''.'' \<in> set (demo_float_repr PNegZero)"
    by (simp add: demo_float_repr_def)
  show ?thesis
  proof (cases f)
    case f: (PFin m e)
    show ?thesis
    proof (cases g)
      case (PFin m' e')
      with f assms(1) show ?thesis
        using split_at_char [OF show_int_no_e(1) show_int_no_e(1), of m "show_int e" m' "show_int e'"]
        by (simp add: demo_float_repr_def)
    qed (use f assms dot [of m e] dot' in \<open>auto simp: finite_float_def\<close>)
  next
    case PNegZero
    then show ?thesis
      using assms dot' by (cases g) (auto simp: finite_float_def dest: dot [THEN notE])
  qed (use assms in \<open>simp_all add: finite_float_def\<close>)
qed

lemma demo_float_repr_ok [simp]: "float_repr_ok demo_prims"
proof -
  have first: "\<exists>c cs. demo_float_repr f = c # cs \<and> (is_digit c \<or> c = CHR ''-'')"
    if "finite_float f" for f
  proof (cases f)
    case (PFin m e)
    obtain c cs where c: "show_int m = c # cs" by (cases "show_int m") auto
    with show_int_first [of m] PFin show ?thesis by (simp add: demo_float_repr_def)
  qed (use that in \<open>auto simp: finite_float_def demo_float_repr_def\<close>)
  have chars: "list_all num_char (demo_float_repr f) \<and> list_ex (\<lambda>c. c \<in> set ''.e'') (demo_float_repr f)"
    if "finite_float f" for f
  proof (cases f)
    case (PFin m e)
    with show_int_num_chars show ?thesis by (simp add: demo_float_repr_def num_char_def)
  next
    case PNegZero
    then show ?thesis by (simp add: demo_float_repr_def num_char_def is_digit_def)
  qed (use that in \<open>auto simp: finite_float_def\<close>)
  show ?thesis
    unfolding float_repr_ok_def demo_prims_simps using first chars demo_float_repr_inj by blast
qed

section \<open>The properties of canonical form and signing on concrete inputs\<close>

text \<open>A small object, the same object with its keys in another order, and a different one.\<close>

definition demo_obj :: dict where
  "demo_obj = [(''b'', JInt 1), (''a'', JArr [JNull, JStr ''x''])]"

definition demo_obj' :: dict where
  "demo_obj' = [(''a'', JArr [JNull, JStr ''x'']), (''b'', JInt 1)]"

definition demo_other :: dict where
  "demo_other = [(''a'', JArr [JNull, JStr ''x'']), (''b'', JStr ''1'')]"

lemmas demo_objs = demo_obj_def demo_obj'_def demo_other_def

lemma demo_objs_ok [simp]:
  "wf_json (JObj demo_obj)" "wf_json (JObj demo_obj')" "wf_json (JObj demo_other)"
  "finite_json (JObj demo_obj)" "finite_json (JObj demo_obj')" "finite_json (JObj demo_other)"
  by (simp_all add: demo_objs)

lemma demo_unsigned [simp]: "unsigned_payload demo_obj = demo_obj"
  by (simp add: demo_objs unsigned_payload_def omit_fields_defs)

lemma demo_signed: "\<exists>h s. hash_and_sign demo_prims demo_key demo_obj = Inr (h, s)"
proof -
  obtain b where "canonical_json demo_prims (JObj demo_obj) = Inr b"
    using canonical_json_emit [OF demo_objs_ok(4)] by blast
  then show ?thesis by (simp add: hash_and_sign_def)
qed

lemma canonical_json_injective_witness:
  "canonical_json demo_prims (JObj demo_obj) = canonical_json demo_prims (JObj demo_obj') \<and>
   canonical_json demo_prims (JObj demo_obj) \<noteq> canonical_json demo_prims (JObj demo_other)"
  using canonical_json_injective [of demo_prims "JObj demo_obj" "JObj demo_obj'"]
    canonical_json_injective [of demo_prims "JObj demo_obj" "JObj demo_other"]
  by (simp add: demo_objs)

lemma canonical_json_order_independent_witness:
  "canonical_json demo_prims (JObj demo_obj) = canonical_json demo_prims (JObj demo_obj')"
  using canonical_json_order_independent [of demo_obj demo_obj' demo_prims]
  by (simp add: demo_objs)

lemma sign_then_verify_witness:
  "\<exists>h s. hash_and_sign demo_prims demo_key demo_obj = Inr (h, s) \<and>
     verify_object demo_prims (encode_public_key (ed_public demo_prims demo_key)) demo_obj s = Inr True \<and>
     object_hash demo_prims demo_obj = Inr h"
  using sign_then_verify [of demo_prims demo_key demo_obj] demo_signed by auto

lemma signature_fields_not_signed_witness:
  "verify_object demo_prims ''k'' (dset demo_obj ''signature'' (JStr ''s'')) ''s'' =
     verify_object demo_prims ''k'' demo_obj ''s'' \<and>
   object_hash demo_prims (dset demo_obj ''signature'' (JStr ''s'')) = object_hash demo_prims demo_obj"
  using signature_fields_not_signed [of "''signature''" demo_prims "''k''" demo_obj "JStr ''s''" "''s''"]
  by (simp add: omit_fields_defs)

lemma accepted_signature_binds_fields_witness:
  "\<exists>h s. hash_and_sign demo_prims demo_key demo_obj = Inr (h, s) \<and>
     canon (dget demo_obj' ''b'') = canon (dget demo_obj ''b'')"
proof -
  obtain h s where s: "hash_and_sign demo_prims demo_key demo_obj = Inr (h, s)"
    using demo_signed by blast
  have eq: "canonical_json demo_prims (JObj demo_obj') = canonical_json demo_prims (JObj demo_obj)"
    unfolding demo_objs by (rule canonical_json_cong) simp_all
  have un: "unsigned_payload demo_obj' = demo_obj'"
    by (simp add: demo_objs unsigned_payload_def omit_fields_defs)
  from s have "verify_object demo_prims (encode_public_key (ed_public demo_prims demo_key)) demo_obj' s = Inr True"
    using eq un verify_own_signature [OF demo_ed25519_ok length_demo_key(1)]
    by (auto simp: hash_and_sign_def verify_object_def)
  with accepted_signature_binds_fields [OF demo_float_repr_ok demo_ed25519_binds length_demo_key(1)
      demo_objs_ok(1,2) s]
  have "\<forall>k. k \<notin> set HASH_OMIT_FIELDS \<longrightarrow> canon (dget demo_obj' k) = canon (dget demo_obj k)"
    by (auto simp: sha256_collision_def)
  then have "canon (dget demo_obj' ''b'') = canon (dget demo_obj ''b'')" by (simp add: omit_fields_defs)
  with s show ?thesis by blast
qed

end
