(* ===== verification/KeyProvider.thy ===== *)
theory KeyProvider
  imports Encoding
begin

text \<open>
  The signing interface of an identity (\<open>trust/key_provider.py\<close>): the protocol
  \<open>KeyProvider\<close> as a locale, with what a client may rely on, and the in-memory provider that
  implements it; \<open>FileKeyProvider\<close> inherits its operations and adds a path.
\<close>

section \<open>The interface\<close>

text \<open>
  \<open>pub\<close> and \<open>sgn\<close> are the public key text and the signature text of a private key; the other
  parameters are the provider's operations. A key that was added answers with its own public key
  and its own signatures, and adding a key changes no other key.
\<close>

locale key_provider =
  fixes pub :: "bytes \<Rightarrow> string"
    and sgn :: "bytes \<Rightarrow> bytes \<Rightarrow> string"
    and empty :: "'p"
    and add :: "'p \<Rightarrow> string \<Rightarrow> bytes \<Rightarrow> bool \<Rightarrow> 'p"
    and public_key :: "'p \<Rightarrow> string \<Rightarrow> string res"
    and sign :: "'p \<Rightarrow> string \<Rightarrow> bytes \<Rightarrow> string res"
    and current :: "'p \<Rightarrow> string"
  assumes public_key_add: "public_key (add p k sk c) k' = (if k' = k then Inr (pub sk) else public_key p k')"
    and sign_add: "sign (add p k sk c) k' d = (if k' = k then Inr (sgn sk d) else sign p k' d)"
    and current_add: "current (add p k sk c) = (if c \<or> current p = [] then k else current p)"
    and sign_empty: "sign empty k d = Inl (KeyError k)"
    and current_empty: "current empty = []"
begin

fun add_all :: "'p \<Rightarrow> (string \<times> bytes \<times> bool) list \<Rightarrow> 'p" where
  "add_all p [] = p"
| "add_all p ((k, sk, c) # ks) = add_all (add p k sk c) ks"

text \<open>Whatever signs under an id is the private key whose public key is published under it.\<close>

definition agrees :: "'p \<Rightarrow> bool" where
  "agrees p \<longleftrightarrow> (\<forall>k d s. sign p k d = Inr s \<longrightarrow> (\<exists>sk. public_key p k = Inr (pub sk) \<and> s = sgn sk d))"

lemma agrees_empty: "agrees empty"
  by (simp add: agrees_def sign_empty)

lemma agrees_add: "agrees p \<Longrightarrow> agrees (add p k sk c)"
  by (auto simp: agrees_def public_key_add sign_add)

lemma agrees_add_all: "agrees p \<Longrightarrow> agrees (add_all p ks)"
  by (induction p ks rule: add_all.induct) (auto intro: agrees_add)

lemma sign_add_all_other: "k \<notin> fst ` set ks \<Longrightarrow> sign (add_all p ks) k d = sign p k d"
  by (induction p ks rule: add_all.induct) (auto simp: sign_add)

lemma public_key_add_all_other: "k \<notin> fst ` set ks \<Longrightarrow> public_key (add_all p ks) k = public_key p k"
  by (induction p ks rule: add_all.induct) (auto simp: public_key_add)

text \<open>The first key added becomes the current one and stays so until another is made current.\<close>

lemma current_add_all:
  "current p \<noteq> [] \<Longrightarrow> (\<forall>(k, sk, c) \<in> set ks. \<not> c) \<Longrightarrow> current (add_all p ks) = current p"
  by (induction p ks rule: add_all.induct) (auto simp: current_add)

end

section \<open>The in-memory provider\<close>

record kprov =
  kp_sk :: "string \<rightharpoonup> bytes"
  kp_pk :: "string \<rightharpoonup> string"
  kp_current :: string

definition kp_init :: kprov where
  "kp_init = \<lparr>kp_sk = Map.empty, kp_pk = Map.empty, kp_current = []\<rparr>"

definition kp_add :: "prims \<Rightarrow> 'a kprov_scheme \<Rightarrow> string \<Rightarrow> bytes \<Rightarrow> bool \<Rightarrow> 'a kprov_scheme" where
  "kp_add E p key_id private_key current =
     (let p = p\<lparr>kp_sk := (kp_sk p)(key_id \<mapsto> private_key)\<rparr>;
          p = p\<lparr>kp_pk := (kp_pk p)(key_id \<mapsto> encode_public_key (ed_public E private_key))\<rparr>
      in if current \<or> kp_current p = [] then p\<lparr>kp_current := key_id\<rparr> else p)"

definition kp_public_key :: "'a kprov_scheme \<Rightarrow> string \<Rightarrow> string res" where
  "kp_public_key p key_id = (case kp_pk p key_id of None \<Rightarrow> Inl (KeyError key_id) | Some k \<Rightarrow> Inr k)"

definition kp_private_key :: "'a kprov_scheme \<Rightarrow> string \<Rightarrow> bytes res" where
  "kp_private_key p key_id = (case kp_sk p key_id of None \<Rightarrow> Inl (KeyError key_id) | Some k \<Rightarrow> Inr k)"

definition kp_sign :: "prims \<Rightarrow> 'a kprov_scheme \<Rightarrow> string \<Rightarrow> bytes \<Rightarrow> string res" where
  "kp_sign E p key_id digest =
     bindR (kp_private_key p key_id) (\<lambda>sk. Inr (sign_digest E sk digest))"

definition kp_current_key_id :: "'a kprov_scheme \<Rightarrow> string" where
  "kp_current_key_id p = kp_current p"

interpretation kmem: key_provider "\<lambda>sk. encode_public_key (ed_public E sk)" "sign_digest E" kp_init
    "kp_add E" kp_public_key "kp_sign E" kp_current_key_id
  for E
  by unfold_locales
    (auto simp: kp_add_def kp_public_key_def kp_private_key_def kp_sign_def kp_current_key_id_def
      kp_init_def Let_def)

section \<open>The file provider\<close>

text \<open>The class inherits every operation of the in-memory provider; the path is stored and never read.\<close>

record file_kprov = kprov +
  kp_path :: string

definition file_kp_init :: "string \<Rightarrow> file_kprov" where
  "file_kp_init path = kprov.extend kp_init (file_kprov.fields path)"

interpretation kfile: key_provider "\<lambda>sk. encode_public_key (ed_public E sk)" "sign_digest E" "file_kp_init path"
    "kp_add E" kp_public_key "kp_sign E" kp_current_key_id
  for E path
  by unfold_locales
    (auto simp: kp_add_def kp_public_key_def kp_private_key_def kp_sign_def kp_current_key_id_def
      kp_init_def file_kp_init_def kprov.defs file_kprov.defs Let_def)

lemmas kp_lookup = kmem.public_key_add kmem.sign_add kmem.current_add

end
