(* ===== verification/Identity.thy ===== *)
theory Identity
  imports KeyProvider DemoPrims
begin

text \<open>
  The agent identity (\<open>crypto.py\<close>, \<open>class Identity\<close>): its operational and recovery key, the
  signed messages of its life (enrollment, rotation, revocation, recovery, recovery policy), its
  record form and the two files it is kept in. Key generation, \<open>uuid4\<close> and the clock are the
  argument \<open>fr\<close>, the values they return in this run.
\<close>

section \<open>State\<close>

record identity =
  i_agent_id :: string
  i_private_key :: bytes
  i_public_key_raw :: bytes
  i_key_id :: string
  i_revision :: int
  i_created_at :: string
  i_recovery_key_id :: string
  i_recovery_private_key :: "bytes option"
  i_key_provider :: "kprov option"

text \<open>\<open>generate()\<close> twice, \<open>uuid4().hex[:10]\<close> twice, and the formatted time.\<close>

record fresh =
  fr_sk :: bytes
  fr_kid :: string
  fr_rsk :: bytes
  fr_rid :: string
  fr_now :: string

definition new_key_id :: "fresh \<Rightarrow> string" where
  "new_key_id fr = ''key-'' @ fr_kid fr"

definition post_init :: "prims \<Rightarrow> fresh \<Rightarrow> identity \<Rightarrow> identity" where
  "post_init E fr i =
     (let i = (if i_key_id i = [] then i\<lparr>i_key_id := new_key_id fr\<rparr> else i);
          i = (if i_created_at i = [] then i\<lparr>i_created_at := fr_now fr\<rparr> else i);
          i = (if i_recovery_private_key i = None
               then i\<lparr>i_recovery_private_key := Some (fr_rsk fr),
                      i_recovery_key_id := ''recovery-'' @ fr_rid fr\<rparr> else i)
      in if i_key_provider i = None
         then let provider = kp_add E kp_init (i_key_id i) (i_private_key i) True;
                  provider = kp_add E provider (i_recovery_key_id i)
                               (the (i_recovery_private_key i)) False
              in i\<lparr>i_key_provider := Some provider\<rparr>
         else i)"

definition generate :: "prims \<Rightarrow> fresh \<Rightarrow> string \<Rightarrow> identity" where
  "generate E fr agent_id =
     post_init E fr
       \<lparr>i_agent_id = agent_id, i_private_key = fr_sk fr,
        i_public_key_raw = ed_public E (fr_sk fr), i_key_id = [], i_revision = 1,
        i_created_at = [], i_recovery_key_id = [], i_recovery_private_key = None,
        i_key_provider = None\<rparr>"

definition public_key :: "identity \<Rightarrow> string" where
  "public_key i = encode_public_key (i_public_key_raw i)"

section \<open>Signing\<close>

definition sign_object :: "prims \<Rightarrow> identity \<Rightarrow> dict \<Rightarrow> string res" where
  "sign_object E i obj =
     bindR (canonical_json E (JObj (unsigned_payload obj))) (\<lambda>body.
       let digest = sha256_digest E body in
       case i_key_provider i of
         Some p \<Rightarrow> kp_sign E p (i_key_id i) digest
       | None \<Rightarrow> Inr (sign_digest E (i_private_key i) digest))"

text \<open>\<open>body[field] = self.sign_object(body)\<close>\<close>

definition sign_into :: "prims \<Rightarrow> identity \<Rightarrow> string \<Rightarrow> dict \<Rightarrow> dict res" where
  "sign_into E i field body =
     bindR (sign_object E i body) (\<lambda>s. Inr (dset body field (JStr s)))"

definition rotate :: "prims \<Rightarrow> fresh \<Rightarrow> identity \<Rightarrow> identity" where
  "rotate E fr i =
     (let nxt = generate E fr (i_agent_id i);
          nxt = nxt\<lparr>i_revision := i_revision i + 1,
                    i_recovery_key_id := i_recovery_key_id i,
                    i_recovery_private_key := i_recovery_private_key i\<rparr>
      in case (i_key_provider nxt, i_recovery_private_key i) of
           (Some p, Some rsk) \<Rightarrow>
             if i_recovery_key_id i \<noteq> []
             then nxt\<lparr>i_key_provider := Some (kp_add E p (i_recovery_key_id i) rsk False)\<rparr>
             else nxt
         | _ \<Rightarrow> nxt)"

section \<open>Identity messages\<close>

definition recovery_policy ::
    "prims \<Rightarrow> string \<Rightarrow> identity \<Rightarrow> int option \<Rightarrow> string list \<Rightarrow> dict res" where
  "recovery_policy E now i threshold recovery_keys =
     (let keys = (if recovery_keys \<noteq> [] then recovery_keys
                  else if i_recovery_key_id i \<noteq> [] then [i_recovery_key_id i] else []);
          body = [(''type'', JStr ''identity.recovery.policy''),
                  (''agent_id'', JStr (i_agent_id i)),
                  (''identity_epoch'', JInt (i_revision i)),
                  (''threshold'', JInt (case threshold of Some t \<Rightarrow> t | None \<Rightarrow> 1)),
                  (''recovery_keys'', JArr (map JStr keys)),
                  (''timestamp'', JStr now),
                  (''operational_key_id'', JStr (i_key_id i))]
      in sign_into E i ''signature'' body)"

definition enrollment_message ::
    "prims \<Rightarrow> string \<Rightarrow> identity \<Rightarrow> string \<Rightarrow> string \<Rightarrow> json list \<Rightarrow> dict res" where
  "enrollment_message E now i agent_card_hash recovery_policy_hash recovery_keys =
     bindR (if recovery_keys = [] \<and> i_recovery_key_id i \<noteq> [] then
              (case i_key_provider i of
                 None \<Rightarrow> Inr recovery_keys
               | Some p \<Rightarrow> bindR (kp_public_key p (i_recovery_key_id i)) (\<lambda>pk.
                   Inr [JObj [(''key_id'', JStr (i_recovery_key_id i)), (''public_key'', JStr pk)]]))
            else Inr recovery_keys) (\<lambda>keys.
     bindR (if agent_card_hash \<noteq> [] then Inr agent_card_hash
            else bindR (canonical_json E (JObj [(''agent_id'', JStr (i_agent_id i)), (''key_id'', JStr (i_key_id i))]))
                   (\<lambda>b. Inr (sha256_hex E b))) (\<lambda>card_hash.
     sign_into E i ''signature''
       [(''type'', JStr ''identity.enrollment''),
        (''agent_id'', JStr (i_agent_id i)),
        (''key_id'', JStr (i_key_id i)),
        (''public_key'', JStr (public_key i)),
        (''identity_epoch'', JInt 1),
        (''agent_card_hash'', JStr card_hash),
        (''recovery_policy_hash'',
           JStr (if recovery_policy_hash \<noteq> [] then recovery_policy_hash else sha256_hex E [])),
        (''created_at'', JStr (if i_created_at i \<noteq> [] then i_created_at i else now)),
        (''recovery_keys'', JArr keys)]))"

definition rotation_message :: "prims \<Rightarrow> string \<Rightarrow> identity \<Rightarrow> identity \<Rightarrow> dict res" where
  "rotation_message E now i new =
     sign_into E i ''signature_by_old_key''
       [(''type'', JStr ''identity.key.rotate''),
        (''agent_id'', JStr (i_agent_id i)),
        (''old_key_id'', JStr (i_key_id i)),
        (''new_key'', JObj [(''key_id'', JStr (i_key_id new)), (''public_key'', JStr (public_key new))]),
        (''timestamp'', JStr now)]"

definition revocation_message :: "prims \<Rightarrow> string \<Rightarrow> identity \<Rightarrow> string \<Rightarrow> dict res" where
  "revocation_message E now i key_id =
     sign_into E i ''signature''
       [(''type'', JStr ''identity.key.revoke''),
        (''agent_id'', JStr (i_agent_id i)),
        (''key_id'', JStr key_id),
        (''timestamp'', JStr now)]"

definition recovery_message :: "prims \<Rightarrow> string \<Rightarrow> identity \<Rightarrow> identity \<Rightarrow> dict res" where
  "recovery_message E now i new =
     (let body = [(''type'', JStr ''identity.key.recover''),
                  (''agent_id'', JStr (i_agent_id i)),
                  (''old_identity_epoch'', JInt (i_revision i)),
                  (''new_identity_epoch'', JInt (i_revision new)),
                  (''revoked_keys'', JArr [JStr (i_key_id i)]),
                  (''new_operational_key'',
                     JObj [(''key_id'', JStr (i_key_id new)), (''public_key'', JStr (public_key new))]),
                  (''timestamp'', JStr now)]
      in bindR (canonical_json E (JObj (unsigned_payload body))) (\<lambda>b.
           case i_recovery_private_key i of
             None \<Rightarrow> Inl AssertionError
           | Some rsk \<Rightarrow> Inr (dset body ''recovery_signatures''
               (JArr [JObj [(''key_id'', JStr (i_recovery_key_id i)),
                            (''signature'', JStr (sign_digest E rsk (sha256_digest E b)))]]))))"

section \<open>Records\<close>

definition to_record :: "prims \<Rightarrow> identity \<Rightarrow> bool \<Rightarrow> dict" where
  "to_record E i include_recovery_private =
     (let recovery_keys =
            (case i_recovery_private_key i of
               Some rec_sk \<Rightarrow>
                 if i_recovery_key_id i \<noteq> [] then
                   [JObj ([(''key_id'', JStr (i_recovery_key_id i)),
                           (''public_key'', JStr (encode_public_key (ed_public E rec_sk)))] @
                          (if include_recovery_private
                           then [(''private_key'', JStr (''ed25519:'' @ b64encode rec_sk))] else []))]
                 else []
             | None \<Rightarrow> [])
      in [(''agent_id'', JStr (i_agent_id i)),
          (''key_id'', JStr (i_key_id i)),
          (''revision'', JInt (i_revision i)),
          (''created_at'', JStr (i_created_at i)),
          (''public_key'', JStr (public_key i)),
          (''private_key'', JStr (''ed25519:'' @ b64encode (i_private_key i))),
          (''recovery'', JObj [(''threshold'', JInt 1), (''keys'', JArr recovery_keys)])])"

definition to_recovery_record :: "prims \<Rightarrow> identity \<Rightarrow> dict res" where
  "to_recovery_record E i =
     (case i_recovery_private_key i of
        None \<Rightarrow> Inl (ValueError ''no recovery key'')
      | Some rec_sk \<Rightarrow> Inr
          [(''agent_id'', JStr (i_agent_id i)),
           (''keys'', JArr [JObj
              [(''key_id'', JStr (i_recovery_key_id i)),
               (''public_key'', JStr (encode_public_key (ed_public E rec_sk))),
               (''private_key'', JStr (''ed25519:'' @ b64encode rec_sk))]])])"

text \<open>\<open>Ed25519PrivateKey.from_private_bytes(b64decode(strip_prefix(v, "ed25519:")))\<close>\<close>

definition private_key_of :: "json \<Rightarrow> bytes res" where
  "private_key_of v =
     (case v of
        JStr s \<Rightarrow> bindR (b64decode (strip_prefix s ''ed25519:'')) (\<lambda>raw.
          if length raw = 32 then Inr raw else Inl (ValueError []))
      | _ \<Rightarrow> Inl AttributeError)"

text \<open>
  An \<open>agent_id\<close> that is not a string cannot be stored in the model's record; the records the
  program writes always have one, and \<open>TypeError\<close> stands for the others.

  \<open>keys[0]\<close> for a truthy \<open>keys\<close>.\<close>

definition first_item :: "json \<Rightarrow> json res" where
  "first_item v =
     (case v of
        JArr (x # xs) \<Rightarrow> Inr x
      | JStr s \<Rightarrow> (case utf8_chars s of c # cs \<Rightarrow> Inr (JStr c) | [] \<Rightarrow> Inl TypeError)
      | JObj d \<Rightarrow> Inl (KeyError ''0'')
      | _ \<Rightarrow> Inl TypeError)"

definition from_record ::
    "prims \<Rightarrow> fresh \<Rightarrow> dict \<Rightarrow> dict option \<Rightarrow> identity res" where
  "from_record E fr rcd recovery_record =
     bindR (bindR (ditem rcd ''private_key'') private_key_of) (\<lambda>sk.
     bindR (obj_get (py_or (case recovery_record of Some r \<Rightarrow> JObj r | None \<Rightarrow> JNull)
              (py_or (dget rcd ''recovery'') (JObj []))) ''keys'') (\<lambda>keys0.
     let keys = py_or keys0 (JArr []) in
     bindR (if truthy keys then
              bindR (first_item keys) (\<lambda>k.
              bindR (obj_get k ''private_key'') (\<lambda>priv.
              bindR (obj_get k ''key_id'') (\<lambda>kid.
                if truthy priv then
                  bindR (private_key_of priv) (\<lambda>rsk.
                    Inr (py_str E (py_or kid (JStr ''recovery-1'')), Some rsk))
                else Inr (py_str E (py_or kid (JStr [])), None))))
            else Inr ([], None)) (\<lambda>(rec_id, rec_sk).
     bindR (bindR (ditem rcd ''agent_id'')
              (\<lambda>a. case a of JStr s \<Rightarrow> Inr s | _ \<Rightarrow> Inl TypeError)) (\<lambda>aid.
     bindR (py_int (py_or (dget rcd ''revision'') (JInt 1))) (\<lambda>rev.
       Inr (post_init E fr
         \<lparr>i_agent_id = aid,
          i_private_key = sk,
          i_public_key_raw = ed_public E sk,
          i_key_id = py_str E (py_or (dget rcd ''key_id'') (JStr (new_key_id fr))),
          i_revision = rev,
          i_created_at = py_str E (py_or (dget rcd ''created_at'') (JStr (fr_now fr))),
          i_recovery_key_id = rec_id,
          i_recovery_private_key = rec_sk,
          i_key_provider = None\<rparr>))))))"

section \<open>Identity files\<close>

text \<open>
  The identity file and the recovery file beside it, each absent or holding one dictionary.
  Writing with \<open>json.dumps\<close> and reading with \<open>json.loads\<close> is taken as storing the value.
\<close>

record idfs =
  id_file :: "dict option"
  rec_file :: "dict option"

text \<open>\<open>any(item.get("private_key") for item in ((data.get("recovery") or {}).get("keys") or []))\<close>\<close>

fun any_private :: "json list \<Rightarrow> bool res" where
  "any_private [] = Inr False"
| "any_private (k # ks) =
     bindR (obj_get k ''private_key'') (\<lambda>p. if truthy p then Inr True else any_private ks)"

definition combined_record :: "dict \<Rightarrow> bool res" where
  "combined_record data =
     bindR (obj_get (py_or (dget data ''recovery'') (JObj [])) ''keys'') (\<lambda>ks.
     bindR (py_iter (py_or ks (JArr []))) any_private)"

definition load_or_create ::
    "prims \<Rightarrow> fresh \<Rightarrow> idfs \<Rightarrow> string \<Rightarrow> idfs \<times> identity res" where
  "load_or_create E fr fs agent_id =
     (case id_file fs of
        Some data \<Rightarrow>
          (case from_record E fr data (rec_file fs) of
             Inl e \<Rightarrow> (fs, Inl e)
           | Inr ident \<Rightarrow>
               if i_agent_id ident \<noteq> agent_id then
                 (fs, Inl (ValueError (''identity file agent_id '' @ i_agent_id ident @ '' != '' @ agent_id)))
               else
                 (case combined_record data of
                    Inl e \<Rightarrow> (fs, Inl e)
                  | Inr combined \<Rightarrow>
                      if combined \<or> rec_file fs = None then
                        (case to_recovery_record E ident of
                           Inl e \<Rightarrow> (fs, Inl e)
                         | Inr r \<Rightarrow> (fs\<lparr>rec_file := Some r, id_file := Some (to_record E ident False)\<rparr>, Inr ident))
                      else (fs, Inr ident)))
      | None \<Rightarrow>
          (let ident = generate E fr agent_id;
               fs = fs\<lparr>id_file := Some (to_record E ident False)\<rparr>
           in case to_recovery_record E ident of
                Inl e \<Rightarrow> (fs, Inl e)
              | Inr r \<Rightarrow> (fs\<lparr>rec_file := Some r\<rparr>, Inr ident)))"

section \<open>Well-formed identities\<close>

text \<open>
  The stored public key belongs to the private key, and the provider answers for both keys.
\<close>

definition provider_for :: "prims \<Rightarrow> identity \<Rightarrow> bytes \<Rightarrow> kprov \<Rightarrow> bool" where
  "provider_for E i rsk p \<longleftrightarrow>
     kp_private_key p (i_key_id i) = Inr (i_private_key i) \<and>
     kp_public_key p (i_key_id i) = Inr (encode_public_key (ed_public E (i_private_key i))) \<and>
     kp_private_key p (i_recovery_key_id i) = Inr rsk \<and>
     kp_public_key p (i_recovery_key_id i) = Inr (encode_public_key (ed_public E rsk))"

definition identity_ok :: "prims \<Rightarrow> identity \<Rightarrow> bool" where
  "identity_ok E i \<longleftrightarrow>
     length (i_private_key i) = 32 \<and> i_public_key_raw i = ed_public E (i_private_key i) \<and>
     i_key_id i \<noteq> [] \<and> i_created_at i \<noteq> [] \<and> i_recovery_key_id i \<noteq> [] \<and> i_revision i \<noteq> 0 \<and>
     (\<exists>rsk p. i_recovery_private_key i = Some rsk \<and> length rsk = 32 \<and>
        i_key_provider i = Some p \<and> provider_for E i rsk p)"

text \<open>What key generation and the clock deliver.\<close>

definition fresh_ok :: "fresh \<Rightarrow> bool" where
  "fresh_ok fr \<longleftrightarrow> length (fr_sk fr) = 32 \<and> length (fr_rsk fr) = 32 \<and> fr_now fr \<noteq> []"

lemma kp_private_key_add:
  "kp_private_key (kp_add E p k sk c) k' = (if k' = k then Inr sk else kp_private_key p k')"
  by (simp add: kp_private_key_def kp_add_def Let_def)

lemmas provider_lookup = kp_private_key_add kp_lookup(1)

lemma generate_fields [simp]:
  "i_agent_id (generate E fr a) = a" "i_private_key (generate E fr a) = fr_sk fr"
  "i_public_key_raw (generate E fr a) = ed_public E (fr_sk fr)"
  "i_key_id (generate E fr a) = new_key_id fr" "i_revision (generate E fr a) = 1"
  "i_created_at (generate E fr a) = fr_now fr"
  "i_recovery_key_id (generate E fr a) = ''recovery-'' @ fr_rid fr"
  "i_recovery_private_key (generate E fr a) = Some (fr_rsk fr)"
  "i_key_provider (generate E fr a) =
     Some (kp_add E (kp_add E kp_init (new_key_id fr) (fr_sk fr) True)
             (''recovery-'' @ fr_rid fr) (fr_rsk fr) False)"
  by (simp_all add: generate_def post_init_def new_key_id_def Let_def)

lemma generate_ok: "fresh_ok fr \<Longrightarrow> identity_ok E (generate E fr a)"
  by (simp add: identity_ok_def fresh_ok_def provider_for_def provider_lookup new_key_id_def)

lemma rotate_fields [simp]:
  "i_agent_id (rotate E fr i) = i_agent_id i" "i_private_key (rotate E fr i) = fr_sk fr"
  "i_public_key_raw (rotate E fr i) = ed_public E (fr_sk fr)"
  "i_key_id (rotate E fr i) = new_key_id fr" "i_revision (rotate E fr i) = i_revision i + 1"
  "i_created_at (rotate E fr i) = fr_now fr"
  "i_recovery_key_id (rotate E fr i) = i_recovery_key_id i"
  "i_recovery_private_key (rotate E fr i) = i_recovery_private_key i"
  by (simp_all add: rotate_def Let_def split: option.splits)

lemma rotate_ok:
  assumes "fresh_ok fr" "identity_ok E i" "i_recovery_key_id i \<noteq> new_key_id fr" "i_revision i \<noteq> -1"
  shows "identity_ok E (rotate E fr i)"
proof -
  from assms(2) obtain rsk p where r: "i_recovery_private_key i = Some rsk" "length rsk = 32"
    "i_recovery_key_id i \<noteq> []" by (auto simp: identity_ok_def)
  then have "i_key_provider (rotate E fr i) =
     Some (kp_add E (the (i_key_provider (generate E fr (i_agent_id i)))) (i_recovery_key_id i) rsk False)"
    by (simp add: rotate_def Let_def)
  with assms r show ?thesis
    by (auto simp: identity_ok_def fresh_ok_def provider_for_def provider_lookup new_key_id_def)
qed

lemma sign_object_ok:
  assumes "identity_ok E i" "canonical_json E (JObj (unsigned_payload obj)) = Inr b"
  shows "sign_object E i obj = Inr (sign_digest E (i_private_key i) (sha256_digest E b))"
  using assms by (auto simp: identity_ok_def provider_for_def sign_object_def kp_sign_def)

lemma sign_object_total:
  assumes "identity_ok E i" "finite_json (JObj (unsigned_payload obj))"
  obtains s where "sign_object E i obj = Inr s"
  using sign_object_ok [OF assms(1) canonical_json_emit [OF assms(2)]] by blast

lemma private_key_of_text: "length sk = 32 \<Longrightarrow> private_key_of (JStr (''ed25519:'' @ b64encode sk)) = Inr sk"
  unfolding private_key_of_def json.case strip_prefix_append by simp

lemmas private_key_of_text' [simp] = private_key_of_text [simplified]

lemma sign_into_verifies:
  assumes "ed25519_ok E" "identity_ok E i" "field \<in> set HASH_OMIT_FIELDS" "sign_into E i field body = Inr m"
  shows "\<exists>s. dget m field = JStr s \<and> m = dset body field (JStr s) \<and>
    verify_object E (public_key i) m s = Inr True"
proof -
  from assms(4) obtain s where s: "sign_object E i body = Inr s" and m: "m = dset body field (JStr s)"
    by (auto simp: sign_into_def)
  from s obtain b where b: "canonical_json E (JObj (unsigned_payload body)) = Inr b"
    by (auto simp: sign_object_def)
  with s sign_object_ok [OF assms(2) b] have "s = sign_digest E (i_private_key i) (sha256_digest E b)" by simp
  with assms(1,2) b assms(3) m have "verify_object E (public_key i) m s = Inr True"
    by (simp add: verify_object_def unsigned_dset identity_ok_def public_key_def verify_own_signature)
  with m show ?thesis by simp
qed

section \<open>A concrete identity\<close>

definition demo_fresh :: fresh where
  "demo_fresh = \<lparr>fr_sk = demo_key, fr_kid = ''1'', fr_rsk = demo_key2, fr_rid = ''2'', fr_now = ''now''\<rparr>"

definition demo_identity :: identity where
  "demo_identity = generate demo_prims demo_fresh ''agent''"

lemma demo_fresh_ok [simp]: "fresh_ok demo_fresh"
  by (simp add: fresh_ok_def demo_fresh_def)

lemma demo_identity_ok [simp]: "identity_ok demo_prims demo_identity"
  by (simp add: demo_identity_def generate_ok)

lemma finite_unsigned: "finite_json (JObj d) \<Longrightarrow> finite_json (JObj (unsigned_payload d))"
  by (auto simp: unsigned_payload_def list_all_iff)

lemma sign_into_total:
  assumes "identity_ok E i" "finite_json (JObj body)"
  shows "\<exists>m. sign_into E i field body = Inr m"
  by (rule sign_object_total [OF assms(1) finite_unsigned [OF assms(2)]]) (simp add: sign_into_def)

text \<open>A well-formed identity can always enroll and always sign its recovery.\<close>

lemma enrollment_total:
  assumes "identity_ok E i" "ch \<noteq> []"
  shows "\<exists>em. enrollment_message E now i ch ph [] = Inr em"
proof -
  obtain p pk where "i_key_provider i = Some p" "kp_public_key p (i_recovery_key_id i) = Inr pk"
    "i_recovery_key_id i \<noteq> []"
    using assms(1) unfolding identity_ok_def provider_for_def by blast
  then show ?thesis
    unfolding enrollment_message_def using assms(2) by (simp add: sign_into_total [OF assms(1)])
qed

lemma recovery_total:
  assumes "identity_ok E i"
  shows "\<exists>rm. recovery_message E now i new = Inr rm"
proof -
  let ?body = "[(''type'', JStr ''identity.key.recover''), (''agent_id'', JStr (i_agent_id i)),
     (''old_identity_epoch'', JInt (i_revision i)), (''new_identity_epoch'', JInt (i_revision new)),
     (''revoked_keys'', JArr [JStr (i_key_id i)]),
     (''new_operational_key'', JObj [(''key_id'', JStr (i_key_id new)), (''public_key'', JStr (public_key new))]),
     (''timestamp'', JStr now)]"
  have "finite_json (JObj ?body)" by simp
  then obtain b where "canonical_json E (JObj (unsigned_payload ?body)) = Inr b"
    using canonical_json_emit [OF finite_unsigned] by blast
  with assms show ?thesis by (auto simp: recovery_message_def identity_ok_def Let_def)
qed

lemma verify_object_unsigned:
  "unsigned_payload d = unsigned_payload d' \<Longrightarrow> verify_object E pk d s = verify_object E pk d' s"
  by (simp add: verify_object_def)

lemma object_hash_unsigned:
  "unsigned_payload d = unsigned_payload d' \<Longrightarrow> object_hash E d = object_hash E d'"
  by (simp add: object_hash_def)

lemma sign_object_verifies:
  assumes "ed25519_ok E" "identity_ok E i" "sign_object E i obj = Inr s"
  shows "verify_object E (public_key i) obj s = Inr True"
proof -
  from assms(3) obtain b where b: "canonical_json E (JObj (unsigned_payload obj)) = Inr b"
    by (auto simp: sign_object_def)
  with assms(3) sign_object_ok [OF assms(2) b]
  have "s = sign_digest E (i_private_key i) (sha256_digest E b)" by simp
  with assms(1,2) b show ?thesis
    by (simp add: verify_object_def identity_ok_def public_key_def verify_own_signature)
qed

lemma object_hash_total: "finite_json (JObj d) \<Longrightarrow> \<exists>h. object_hash E d = Inr h"
  using canonical_json_emit [OF finite_unsigned] by (auto simp: object_hash_def)

lemma sign_object_total': "identity_ok E i \<Longrightarrow> finite_json (JObj d) \<Longrightarrow> \<exists>s. sign_object E i d = Inr s"
  by (rule sign_object_total [OF _ finite_unsigned]) auto

lemma sign_object_neq_Nil: "identity_ok E i \<Longrightarrow> sign_object E i d = Inr s \<Longrightarrow> s \<noteq> []"
  using sign_object_ok [of E i d] by (auto simp: sign_object_def sign_digest_def encode_signature_def)

lemma public_key_neq_Nil [simp]: "public_key i \<noteq> []"
  by (simp add: public_key_def encode_public_key_def)

lemma demo_identity_id [simp]: "i_agent_id demo_identity = ''agent''"
  by (simp add: demo_identity_def)

section \<open>Properties\<close>

text \<open>
  What an identity signs verifies under the public key it publishes, and a signature stored
  in the object it signs verifies there.
\<close>

theorem identity_sign_verify:
  assumes "ed25519_ok E" "identity_ok E i" "field \<in> set HASH_OMIT_FIELDS"
    and "sign_into E i field body = Inr m"
  shows "\<exists>s. dget m field = JStr s \<and> verify_object E (public_key i) m s = Inr True \<and>
    (\<forall>k. k \<noteq> field \<longrightarrow> dget m k = dget body k)"
  using sign_into_verifies [OF assms] by auto

lemma identity_sign_verify_witness:
  "\<exists>m s. sign_into demo_prims demo_identity ''signature'' demo_obj = Inr m \<and>
     dget m ''signature'' = JStr s \<and> verify_object demo_prims (public_key demo_identity) m s = Inr True"
proof -
  obtain m where m: "sign_into demo_prims demo_identity ''signature'' demo_obj = Inr m"
    using sign_into_total [OF demo_identity_ok demo_objs_ok(4)] by blast
  with identity_sign_verify [of demo_prims demo_identity "''signature''" demo_obj m]
  show ?thesis by (auto simp: omit_fields_defs)
qed

text \<open>
  C33: key recovery is anchored in enrollment: the recovery message of an identity carries a
  signature by the recovery key that its enrollment message publishes, under the same key id,
  and it names the revoked and the new operational key.
\<close>

theorem recovery_anchored_in_enrollment:
  assumes "ed25519_ok E" "identity_ok E i"
    and "enrollment_message E now i ch ph [] = Inr em" "recovery_message E now' i new = Inr rm"
  shows "\<exists>kid pk s. dget em ''recovery_keys'' = JArr [JObj [(''key_id'', JStr kid), (''public_key'', JStr pk)]] \<and>
    dget rm ''recovery_signatures'' = JArr [JObj [(''key_id'', JStr kid), (''signature'', JStr s)]] \<and>
    verify_object E pk rm s = Inr True \<and>
    dget rm ''revoked_keys'' = JArr [JStr (i_key_id i)] \<and>
    dget rm ''new_operational_key'' =
      JObj [(''key_id'', JStr (i_key_id new)), (''public_key'', JStr (public_key new))]"
proof -
  from assms(2) obtain rsk p where r: "i_recovery_private_key i = Some rsk" "length rsk = 32"
    "i_key_provider i = Some p" "kp_public_key p (i_recovery_key_id i) = Inr (encode_public_key (ed_public E rsk))"
    "i_recovery_key_id i \<noteq> []"
    by (auto simp: identity_ok_def provider_for_def)
  from assms(3) r have em: "dget em ''recovery_keys'' =
     JArr [JObj [(''key_id'', JStr (i_recovery_key_id i)),
                 (''public_key'', JStr (encode_public_key (ed_public E rsk)))]]"
    by (auto simp: enrollment_message_def sign_into_def split: if_splits)
  define body where "body =
    [(''type'', JStr ''identity.key.recover''), (''agent_id'', JStr (i_agent_id i)),
     (''old_identity_epoch'', JInt (i_revision i)), (''new_identity_epoch'', JInt (i_revision new)),
     (''revoked_keys'', JArr [JStr (i_key_id i)]),
     (''new_operational_key'', JObj [(''key_id'', JStr (i_key_id new)), (''public_key'', JStr (public_key new))]),
     (''timestamp'', JStr now')]"
  from assms(4) r obtain b where b: "canonical_json E (JObj (unsigned_payload body)) = Inr b"
    and rm: "rm = dset body ''recovery_signatures''
      (JArr [JObj [(''key_id'', JStr (i_recovery_key_id i)), (''signature'', JStr (sign_digest E rsk (sha256_digest E b)))]])"
    by (auto simp: recovery_message_def body_def Let_def)
  have "''recovery_signatures'' \<in> set HASH_OMIT_FIELDS" by (simp add: omit_fields_defs)
  with b rm r assms(1)
  have "verify_object E (encode_public_key (ed_public E rsk)) rm (sign_digest E rsk (sha256_digest E b)) = Inr True"
    by (simp add: verify_object_def unsigned_dset verify_own_signature)
  with em rm show ?thesis by (auto simp: body_def)
qed

lemma recovery_anchored_in_enrollment_witness:
  "\<exists>em rm kid s. enrollment_message demo_prims ''t'' demo_identity ''h'' [] [] = Inr em \<and>
     recovery_message demo_prims ''t'' demo_identity (rotate demo_prims demo_fresh demo_identity) = Inr rm \<and>
     dget rm ''recovery_signatures'' = JArr [JObj [(''key_id'', JStr kid), (''signature'', JStr s)]]"
proof -
  obtain em where em: "enrollment_message demo_prims ''t'' demo_identity ''h'' [] [] = Inr em"
    using enrollment_total [OF demo_identity_ok] by blast
  obtain rm where rm: "recovery_message demo_prims ''t'' demo_identity (rotate demo_prims demo_fresh demo_identity) = Inr rm"
    using recovery_total [OF demo_identity_ok] by blast
  from recovery_anchored_in_enrollment [OF demo_ed25519_ok demo_identity_ok em rm] em rm
  show ?thesis by blast
qed

text \<open>The life of an identity: created once, then rotated any number of times.\<close>

inductive identity_life :: "prims \<Rightarrow> string \<Rightarrow> fresh \<Rightarrow> nat \<Rightarrow> identity \<Rightarrow> bool" for E a fr0 where
  created: "fresh_ok fr0 \<Longrightarrow> identity_life E a fr0 0 (generate E fr0 a)"
| rotated: "identity_life E a fr0 n i \<Longrightarrow> fresh_ok fr \<Longrightarrow> identity_life E a fr0 (Suc n) (rotate E fr i)"

lemma recovery_not_key_id: "''recovery-'' @ x \<noteq> new_key_id fr"
  by (simp add: new_key_id_def)

text \<open>
  C32: through any number of rotations the identity stays well-formed, keeps its agent id and its
  recovery key, and its revision counts the rotations.
\<close>

theorem identity_life_invariant:
  assumes "identity_life E a fr0 n i"
  shows "identity_ok E i \<and> i_agent_id i = a \<and> i_revision i = int n + 1 \<and>
    i_recovery_private_key i = Some (fr_rsk fr0) \<and> i_recovery_key_id i = ''recovery-'' @ fr_rid fr0"
  using assms
proof (induction rule: identity_life.induct)
  case created
  then show ?case using generate_ok by simp
next
  case (rotated n i fr)
  then have "i_recovery_key_id i \<noteq> new_key_id fr"
    using recovery_not_key_id by metis
  with rotated rotate_ok [of fr E i] show ?case by simp
qed

lemma identity_life_invariant_witness:
  "i_revision (rotate demo_prims demo_fresh demo_identity) = 2 \<and>
   identity_ok demo_prims (rotate demo_prims demo_fresh demo_identity)"
proof -
  have "identity_life demo_prims ''agent'' demo_fresh (Suc 0) (rotate demo_prims demo_fresh demo_identity)"
    unfolding demo_identity_def by (intro identity_life.intros demo_fresh_ok)
  from identity_life_invariant [OF this] show ?thesis by simp
qed

text \<open>
  The identity files are stable: after the first start has created them, every later start
  returns the same identity, whatever randomness and time it draws, and leaves the files as they
  are.
\<close>

theorem load_after_create:
  assumes "fresh_ok fr" "load_or_create E fr \<lparr>id_file = None, rec_file = None\<rparr> a = (fs, Inr i)"
  shows "load_or_create E fr' fs a = (fs, Inr i)"
  using assms
  by (auto simp: load_or_create_def from_record_def to_record_def to_recovery_record_def
      combined_record_def fresh_ok_def post_init_def generate_def new_key_id_def Let_def py_or_def
      first_item_def public_key_def)

lemma load_after_create_witness:
  "\<exists>fs. load_or_create demo_prims demo_fresh \<lparr>id_file = None, rec_file = None\<rparr> ''agent'' = (fs, Inr demo_identity) \<and>
     load_or_create demo_prims (demo_fresh\<lparr>fr_sk := demo_key2\<rparr>) fs ''agent'' = (fs, Inr demo_identity)"
proof -
  obtain fs where fs: "load_or_create demo_prims demo_fresh \<lparr>id_file = None, rec_file = None\<rparr> ''agent'' =
      (fs, Inr demo_identity)"
    by (simp add: load_or_create_def to_recovery_record_def demo_identity_def Let_def)
  with load_after_create [OF demo_fresh_ok fs] show ?thesis by blast
qed

text \<open>
  Loading never hands out an identity of another agent, and a load that fails leaves both
  files untouched.
\<close>

theorem load_or_create_guard:
  "case load_or_create E fr fs a of
     (fs', Inr i) \<Rightarrow> i_agent_id i = a
   | (fs', Inl e) \<Rightarrow> fs' = fs"
  by (auto simp: load_or_create_def to_recovery_record_def Let_def
      split: option.splits sum.splits if_splits)

text \<open>
  When only the recovery file is missing, the start that loads the identity does not
  refuse: it replaces the recovery key whose public part the identity file records by a newly
  generated one, in memory and in both files.
\<close>

theorem missing_recovery_file_replaces_key:
  assumes "identity_ok E i" "fresh_ok fr"
    and "load_or_create E fr \<lparr>id_file = Some (to_record E i False), rec_file = None\<rparr> (i_agent_id i) = (fs', r)"
  shows "\<exists>j. r = Inr j \<and> i_recovery_private_key j = Some (fr_rsk fr) \<and>
    i_recovery_key_id j = ''recovery-'' @ fr_rid fr \<and> i_private_key j = i_private_key i \<and>
    id_file fs' = Some (to_record E j False) \<and> rec_file fs' \<noteq> None"
  using assms
  by (auto simp: load_or_create_def from_record_def to_record_def to_recovery_record_def
      combined_record_def fresh_ok_def post_init_def new_key_id_def Let_def py_or_def
      first_item_def public_key_def identity_ok_def)

lemma missing_recovery_file_replaces_key_witness:
  "\<exists>fs' j. load_or_create demo_prims (demo_fresh\<lparr>fr_rsk := demo_key\<rparr>)
       \<lparr>id_file = Some (to_record demo_prims demo_identity False), rec_file = None\<rparr> ''agent'' = (fs', Inr j) \<and>
     i_recovery_private_key j \<noteq> i_recovery_private_key demo_identity"
proof -
  have id: "i_agent_id demo_identity = ''agent''" "i_recovery_private_key demo_identity = Some demo_key2"
    by (simp_all add: demo_identity_def demo_fresh_def)
  have ne: "demo_key \<noteq> demo_key2" by (simp add: demo_key_def demo_key2_def)
  have ok: "fresh_ok (demo_fresh\<lparr>fr_rsk := demo_key\<rparr>)" by (simp add: fresh_ok_def demo_fresh_def)
  obtain fs' r where l: "load_or_create demo_prims (demo_fresh\<lparr>fr_rsk := demo_key\<rparr>)
       \<lparr>id_file = Some (to_record demo_prims demo_identity False), rec_file = None\<rparr> ''agent'' = (fs', r)"
    by fastforce
  with missing_recovery_file_replaces_key [OF demo_identity_ok ok, of fs' r] id ne
  show ?thesis by auto
qed

end
