(* ===== verification/Errors.thy ===== *)
theory Errors
  imports PyValue
begin

text \<open>
  The error envelope of the wire (\<open>errors.py\<close>): which codes may be retried, how an envelope is
  made from a code, and the retry decision of a client.
\<close>

definition RETRYABLE_CODES :: "string list" where
  "RETRYABLE_CODES = [''AGENT_BUSY'', ''AGENT_UNREACHABLE'', ''RATE_LIMITED'', ''INTERNAL_ERROR'']"

definition NON_RETRYABLE_CODES :: "string list" where
  "NON_RETRYABLE_CODES =
     [''INVALID_SIGNATURE'', ''INVALID_REQUEST'', ''UNSUPPORTED_CAPABILITY'', ''UNSUPPORTED_VERSION'',
      ''TASK_REJECTED'', ''TASK_EXPIRED'', ''TASK_FAILED'', ''ARTIFACT_NOT_FOUND'',
      ''ARTIFACT_HASH_MISMATCH'', ''VERIFICATION_FAILED'', ''IMMUTABLE_OBJECT_CONFLICT'',
      ''CONTRACT_IMMUTABLE'', ''TAMPER_DETECTED'', ''ROLLBACK_DETECTED'', ''KEY_NOT_VALID_AT'',
      ''ROLE_FORBIDDEN'', ''SELF_VERIFICATION_FORBIDDEN'', ''CAUSAL_CHAIN_CONFLICT'',
      ''VERIFIER_NOT_AUTHORIZED'', ''UNTRUSTED_PEER'', ''VERIFICATION_INVALID'', ''CLOCK_SKEW'',
      ''SCHEMA_INVALID'', ''SEAL_CONFLICT'', ''HISTORICAL_IMPORT_DISABLED'', ''EQUIVOCATION'',
      ''VERIFIER_EQUIVOCATION'', ''VERIFICATION_NOT_READY'', ''PEER_KEY_CONFLICT'', ''KEY_NOT_FOUND'']"

record envelope =
  ev_code :: string
  ev_message :: string
  ev_retryable :: bool
  ev_retry_after_ms :: "int option"
  ev_details :: dict

definition envelope_to_dict :: "envelope \<Rightarrow> json" where
  "envelope_to_dict e = JObj
     [(''code'', JStr (ev_code e)), (''message'', JStr (ev_message e)),
      (''retryable'', JBool (ev_retryable e)),
      (''retry_after_ms'', case ev_retry_after_ms e of None \<Rightarrow> JNull | Some n \<Rightarrow> JInt n),
      (''details'', JObj (ev_details e))]"

definition envelope_of :: "string \<Rightarrow> string \<Rightarrow> int option \<Rightarrow> dict option \<Rightarrow> envelope" where
  "envelope_of code message retry_after_ms details =
     (let retryable = code \<in> set RETRYABLE_CODES in
      \<lparr>ev_code = code, ev_message = (if message \<noteq> [] then message else code),
       ev_retryable = retryable, ev_retry_after_ms = (if retryable then retry_after_ms else None),
       ev_details = (case details of Some d \<Rightarrow> d | None \<Rightarrow> [])\<rparr>)"

abbreviation error_envelope :: "string \<Rightarrow> string \<Rightarrow> envelope" where
  "error_envelope code message \<equiv> envelope_of code message None None"

definition can_retry :: "envelope \<Rightarrow> string \<Rightarrow> bool \<Rightarrow> bool" where
  "can_retry e side_effects has_idempotency =
     (if \<not> ev_retryable e then False
      else if side_effects = ''IRREVERSIBLE'' \<and> \<not> has_idempotency then False
      else True)"

text \<open>The envelope that a \<open>NetworkError\<close> carries; an explicit flag overrides the code's.\<close>

definition network_envelope :: "string \<Rightarrow> string \<Rightarrow> bool option \<Rightarrow> envelope" where
  "network_envelope code message retryable =
     (case retryable of
        None \<Rightarrow> error_envelope code message
      | Some b \<Rightarrow> (error_envelope code message)\<lparr>ev_retryable := b\<rparr>)"

text \<open>The exceptions of the network as \<open>err\<close> values, with the code each one carries.\<close>

fun err_code :: "err \<Rightarrow> string option" where
  "err_code (NetworkError code _) = Some code"
| "err_code (IdentityInvalid _) = Some ''IDENTITY_INVALID''"
| "err_code (NoAvailableAgent _) = Some ''NO_AVAILABLE_AGENT''"
| "err_code _ = None"

lemma codes_disjoint: "set RETRYABLE_CODES \<inter> set NON_RETRYABLE_CODES = {}"
  by (simp add: RETRYABLE_CODES_def NON_RETRYABLE_CODES_def)

lemma non_retryable_never_retried:
  "code \<in> set NON_RETRYABLE_CODES \<Longrightarrow> \<not> can_retry (envelope_of code m r d) se idem"
  using codes_disjoint by (auto simp: can_retry_def envelope_of_def Let_def)

lemma can_retry_iff:
  "can_retry (envelope_of code m r d) se idem \<longleftrightarrow>
     code \<in> set RETRYABLE_CODES \<and> (se = ''IRREVERSIBLE'' \<longrightarrow> idem)"
  by (simp add: can_retry_def envelope_of_def Let_def)

lemma envelope_of_fields [simp]:
  "ev_code (envelope_of c m r d) = c"
  "ev_retryable (envelope_of c m r d) = (c \<in> set RETRYABLE_CODES)"
  by (simp_all add: envelope_of_def Let_def)

end
