(* ===== verification/Capability.thy ===== *)
theory Capability
  imports PyValue "HOL-Library.Product_Lexorder"
begin

text \<open>
  Capability descriptors, version constraints and the payload schema check
  (\<open>capability.py\<close>). A version is a triple of integers compared lexicographically; a constraint
  is text: a wildcard, a comma-separated conjunction, or one comparison.
\<close>

section \<open>Descriptors\<close>

record capability =
  c_id :: json
  c_version :: string
  c_input_schema :: dict
  c_output_schema :: dict
  c_side_effects :: string

definition capability_to_dict :: "capability \<Rightarrow> json" where
  "capability_to_dict c = JObj
     [(''id'', c_id c), (''version'', JStr (c_version c)),
      (''input_schema'', JObj (c_input_schema c)), (''output_schema'', JObj (c_output_schema c)),
      (''side_effects'', JStr (c_side_effects c))]"

fun from_value :: "prims \<Rightarrow> json \<Rightarrow> capability res" where
  "from_value E (JStr s) = Inr
     \<lparr>c_id = JStr s, c_version = ''1.0.0'', c_input_schema = [], c_output_schema = [],
      c_side_effects = ''NONE''\<rparr>"
| "from_value E (JObj d) =
     bindR (ditem d ''id'') (\<lambda>i.
     bindR (py_dict (py_or (dget d ''input_schema'') (JObj []))) (\<lambda>ins.
     bindR (py_dict (py_or (dget d ''output_schema'') (JObj []))) (\<lambda>outs.
       Inr \<lparr>c_id = i,
            c_version = py_str E (py_or (dget d ''version'') (JStr ''1.0.0'')),
            c_input_schema = ins, c_output_schema = outs,
            c_side_effects = py_str E (py_or (dget d ''side_effects'') (JStr ''NONE''))\<rparr>)))"
| "from_value E _ = Inl TypeError"

section \<open>Versions\<close>

type_synonym version = "int \<times> int \<times> int"

text \<open>A piece that is not an integer counts as 0; at most three pieces, padded with 0.\<close>

definition version_piece :: "string \<Rightarrow> int" where
  "version_piece p = (case parse_int p of Some i \<Rightarrow> i | None \<Rightarrow> 0)"

definition parse_version :: "string \<Rightarrow> version" where
  "parse_version text =
     (let raw = lstrip_chars ''vV'' (strip_ws text);
          parts = split_on CHR ''.'' (replace_char CHR ''x'' CHR ''0'' raw);
          nums = map version_piece (take 3 parts)
      in case nums @ [0, 0, 0] of a # b # c # _ \<Rightarrow> (a, b, c) | _ \<Rightarrow> (0, 0, 0))"

text \<open>\<open>all(...)\<close> over an expression that may raise: stops at the first False or exception.\<close>

fun allR :: "('a \<Rightarrow> bool res) \<Rightarrow> 'a list \<Rightarrow> bool res" where
  "allR f [] = Inr True"
| "allR f (x # xs) = bindR (f x) (\<lambda>b. if b then allR f xs else Inr False)"

lemma allR_cong [fundef_cong]:
  "xs = ys \<Longrightarrow> (\<And>x. x \<in> set ys \<Longrightarrow> f x = g x) \<Longrightarrow> allR f xs = allR g ys"
  by (induction ys arbitrary: xs) (auto intro!: bindR_cong)

text \<open>The comparison operators, in the order the code tests them.\<close>

definition compare_version :: "version \<Rightarrow> string \<Rightarrow> bool" where
  "compare_version avail c =
     (if startswith c ''>='' then avail \<ge> parse_version (drop 2 c)
      else if startswith c ''<='' then avail \<le> parse_version (drop 2 c)
      else if startswith c ''>'' then avail > parse_version (drop 1 c)
      else if startswith c ''<'' then avail < parse_version (drop 1 c)
      else avail = parse_version c)"

function version_matches_text :: "string \<Rightarrow> string \<Rightarrow> bool res" where
  "version_matches_text available text =
     (if text = [] \<or> text = ''*'' \<or> text = ''any'' then Inr True
      else let c = strip_ws text in
        if endswith c ''.x'' then
          (case parse_int (hd (split_on CHR ''.'' c)) of
             None \<Rightarrow> Inl (ValueError [])
           | Some major \<Rightarrow> Inr (fst (parse_version available) = major))
        else if CHR '','' \<in> set c then
          allR (version_matches_text available) (split_on CHR '','' c)
        else Inr (compare_version (parse_version available) c))"
  by pat_completeness auto
termination
  by (relation "measure (\<lambda>(a, t). length t)")
    (auto dest!: split_on_shorter intro: less_le_trans length_strip_ws)

declare version_matches_text.simps [simp del]

definition version_matches :: "string \<Rightarrow> string option \<Rightarrow> bool res" where
  "version_matches available constraint =
     (case constraint of None \<Rightarrow> Inr True | Some text \<Rightarrow> version_matches_text available text)"

section \<open>Payload schema\<close>

fun is_str :: "json \<Rightarrow> bool" where
  "is_str (JStr _) = True"
| "is_str _ = False"

text \<open>In Python \<open>bool\<close> is a subclass of \<open>int\<close>.\<close>

fun is_int :: "json \<Rightarrow> bool" where
  "is_int (JInt _) = True"
| "is_int (JBool _) = True"
| "is_int _ = False"

fun is_number :: "json \<Rightarrow> bool" where
  "is_number (JFloat _) = True"
| "is_number v = is_int v"

fun is_dict :: "json \<Rightarrow> bool" where
  "is_dict (JObj _) = True"
| "is_dict _ = False"

fun is_list :: "json \<Rightarrow> bool" where
  "is_list (JArr _) = True"
| "is_list _ = False"

abbreviation invalid_request :: err where
  "invalid_request \<equiv> ValueError ''INVALID_REQUEST''"

text \<open>\<open>key not in payload\<close>: lists and dictionaries are not hashable.\<close>

fun check_required :: "dict \<Rightarrow> json list \<Rightarrow> unit res" where
  "check_required payload [] = Inr ()"
| "check_required payload (k # ks) =
     (case k of
        JStr s \<Rightarrow> if dhas payload s then check_required payload ks else Inl invalid_request
      | JArr _ \<Rightarrow> Inl TypeError
      | JObj _ \<Rightarrow> Inl TypeError
      | _ \<Rightarrow> Inl invalid_request)"

definition value_fits :: "json \<Rightarrow> json \<Rightarrow> bool" where
  "value_fits want v =
     (\<not> (want = JStr ''string'' \<and> \<not> is_str v) \<and>
      \<not> (want = JStr ''integer'' \<and> \<not> is_int v) \<and>
      \<not> (want = JStr ''number'' \<and> \<not> is_number v) \<and>
      \<not> (want = JStr ''object'' \<and> \<not> is_dict v) \<and>
      \<not> (want = JStr ''array'' \<and> \<not> is_list v))"

fun check_props :: "dict \<Rightarrow> dict \<Rightarrow> unit res" where
  "check_props payload [] = Inr ()"
| "check_props payload ((key, spec) # ps) =
     (if \<not> dhas payload key then check_props payload ps
      else bindR (obj_get (py_or spec (JObj [])) ''type'') (\<lambda>want.
        if value_fits want (dget payload key) then check_props payload ps
        else Inl invalid_request))"

definition schema_validate :: "json \<Rightarrow> json \<Rightarrow> unit res" where
  "schema_validate schema payload =
     (if \<not> truthy schema then Inr ()
      else bindR (obj_get schema ''type'') (\<lambda>expected.
        if expected = JStr ''object'' then
          (case payload of
             JObj p \<Rightarrow>
               bindR (obj_get schema ''required'') (\<lambda>req.
               bindR (py_iter (py_or req (JArr []))) (\<lambda>keys.
               bindR (check_required p keys) (\<lambda>_.
               bindR (obj_get schema ''properties'') (\<lambda>props.
                 case py_or props (JObj []) of
                   JObj ps \<Rightarrow> check_props p ps
                 | _ \<Rightarrow> Inl AttributeError))))
           | _ \<Rightarrow> Inl invalid_request)
        else if expected = JStr ''string'' \<and> \<not> is_str payload then Inl invalid_request
        else Inr ()))"

section \<open>Properties of versions\<close>

definition vtext :: "nat \<times> nat \<times> nat \<Rightarrow> string" where
  "vtext v = (case v of (a, b, c) \<Rightarrow> show_nat a @ CHR ''.'' # show_nat b @ CHR ''.'' # show_nat c)"

definition vint :: "nat \<times> nat \<times> nat \<Rightarrow> version" where
  "vint v = (case v of (a, b, c) \<Rightarrow> (int a, int b, int c))"

lemma vtext_chars: "c \<in> set (vtext v) \<Longrightarrow> is_digit c \<or> c = CHR ''.''"
  by (auto simp: vtext_def dest: show_nat_digits split: prod.splits)

lemma vtext_ends [simp]:
  "vtext v \<noteq> []" "is_digit (hd (vtext v))" "is_digit (last (vtext v))"
  using hd_show_nat show_nat_digits [of "last (show_nat n)" n for n]
  by (auto simp: vtext_def split: prod.splits)

lemma vtext_not_in [simp]: "CHR '','' \<notin> set (vtext v)" "CHR ''x'' \<notin> set (vtext v)"
  by (auto dest: vtext_chars)

lemma show_nat_not_in [simp]:
  "CHR ''.'' \<notin> set (show_nat n)" "CHR '','' \<notin> set (show_nat n)" "CHR ''x'' \<notin> set (show_nat n)"
  by (auto dest: show_nat_digits)

lemma digit_not_v: "is_digit c \<Longrightarrow> c \<notin> set ''vV''"
  by auto

lemma strip_ws_vtext: "strip_ws (vtext v) = vtext v"
  by (rule strip_ws_id) simp_all

lemma split_vtext:
  "split_on CHR ''.'' (vtext (a, b, c)) = [show_nat a, show_nat b, show_nat c]"
  by (simp add: vtext_def split_on_append split_on_notin)

lemma parse_version_vtext: "parse_version (vtext v) = vint v"
proof -
  obtain a b c where v: "v = (a, b, c)" by (cases v)
  have "lstrip_chars ''vV'' (vtext v) = vtext v"
    by (rule lstrip_chars_id) (simp_all only: vtext_ends digit_not_v not_False_eq_True)
  then show ?thesis
    by (simp add: parse_version_def strip_ws_vtext replace_char_id v split_vtext
        version_piece_def vint_def)
qed

lemma endswith_last: "endswith s (t @ [c]) \<Longrightarrow> s \<noteq> [] \<and> last s = c"
  by (cases s rule: rev_cases) (auto simp: endswith_def)

lemma not_endswith_digit: "is_digit (last s) \<Longrightarrow> \<not> endswith s ''.x''"
  using endswith_last [of s "''.''" "CHR ''x''"] by auto

lemma last_app_vtext [simp]: "last (p @ vtext v) = last (vtext v)"
  by simp

lemma strip_ws_op: "p \<noteq> [] \<Longrightarrow> hd p \<notin> set py_space \<Longrightarrow> strip_ws (p @ vtext v) = p @ vtext v"
  by (rule strip_ws_id) simp_all

lemma op_not_space [simp]:
  "CHR ''>'' \<notin> set py_space" "CHR ''<'' \<notin> set py_space" "CHR ''='' \<notin> set py_space"
  by (rule not_space_code, simp)+

text \<open>The three kinds of constraint text.\<close>

lemma version_text_wildcard:
  "strip_ws t = t \<Longrightarrow> endswith t ''.x'' \<Longrightarrow> version_matches_text a t =
     (case parse_int (hd (split_on CHR ''.'' t)) of
        None \<Rightarrow> Inl (ValueError []) | Some major \<Rightarrow> Inr (fst (parse_version a) = major))"
  using endswith_last [of t "''.''" "CHR ''x''"]
  by (subst version_matches_text.simps) (auto simp: endswith_def)

lemma version_text_list:
  "strip_ws t = t \<Longrightarrow> \<not> endswith t ''.x'' \<Longrightarrow> CHR '','' \<in> set t \<Longrightarrow>
   version_matches_text a t = allR (version_matches_text a) (split_on CHR '','' t)"
  by (subst version_matches_text.simps) auto

text \<open>One comparison: an operator (or none) followed by a version.\<close>

lemma version_matches_single:
  assumes "p = [] \<or> hd p \<in> set ''<>=''" "CHR '','' \<notin> set p"
  shows "version_matches_text a (p @ vtext v) = Inr (compare_version (parse_version a) (p @ vtext v))"
proof -
  let ?t = "p @ vtext v"
  have last: "is_digit (last ?t)" by simp
  have ne: "?t \<noteq> []" by simp
  have "?t \<noteq> s" if "\<not> is_digit (last s)" for s
    using last that by metis
  from this [of "''*''"] this [of "''any''"] have sp: "?t \<noteq> ''*''" "?t \<noteq> ''any''" by simp_all
  have st: "strip_ws ?t = ?t"
    using assms strip_ws_vtext [of v] by (cases "p = []") (auto intro: strip_ws_op)
  show ?thesis
    using ne sp st not_endswith_digit [OF last] assms(2)
    by (simp add: version_matches_text.simps [of a ?t] Let_def)
qed

lemma compare_vtext:
  "compare_version x (''>='' @ vtext v) = (x \<ge> vint v)"
  "compare_version x (''<='' @ vtext v) = (x \<le> vint v)"
  "compare_version x (''>'' @ vtext v) = (x > vint v)"
  "compare_version x (''<'' @ vtext v) = (x < vint v)"
  "compare_version x (vtext v) = (x = vint v)"
proof -
  obtain d ds where d: "vtext v = d # ds" "is_digit d"
    using vtext_ends [of v] by (cases "vtext v") auto
  have ne: "d \<noteq> CHR ''=''" "d \<noteq> CHR ''<''" "d \<noteq> CHR ''>''" using d(2) by auto
  show "compare_version x (''>='' @ vtext v) = (x \<ge> vint v)"
    by (simp add: compare_version_def startswith_def parse_version_vtext)
  show "compare_version x (''<='' @ vtext v) = (x \<le> vint v)"
    by (simp add: compare_version_def startswith_def parse_version_vtext)
  show "compare_version x (''>'' @ vtext v) = (x > vint v)"
    using ne d(1) by (simp add: compare_version_def startswith_def flip: parse_version_vtext)
  show "compare_version x (''<'' @ vtext v) = (x < vint v)"
    using ne d(1) by (simp add: compare_version_def startswith_def flip: parse_version_vtext)
  show "compare_version x (vtext v) = (x = vint v)"
    using ne d(1) by (simp add: compare_version_def startswith_def flip: parse_version_vtext)
qed

lemmas version_single = version_matches_single [where p = "''>=''"]
  version_matches_single [where p = "''<=''"] version_matches_single [where p = "''>''"]
  version_matches_single [where p = "''<''"] version_matches_single [where p = "[]"]

text \<open>
  On rendered versions the single comparisons mean what their operators say, in the
  lexicographic order of (major, minor, patch).
\<close>

theorem version_matches_compare:
  "version_matches (vtext u) (Some (''>='' @ vtext v)) = Inr (vint u \<ge> vint v) \<and>
   version_matches (vtext u) (Some (''<='' @ vtext v)) = Inr (vint u \<le> vint v) \<and>
   version_matches (vtext u) (Some (''>'' @ vtext v)) = Inr (vint u > vint v) \<and>
   version_matches (vtext u) (Some (''<'' @ vtext v)) = Inr (vint u < vint v) \<and>
   version_matches (vtext u) (Some (vtext v)) = Inr (vint u = vint v)"
  using version_single [of "vtext u" v] compare_vtext [of "vint u" v]
  by (simp add: version_matches_def parse_version_vtext)

text \<open>
  A range, such as \<open>>=1.0.0,<2.0.0\<close>, is the half-open interval of versions.
\<close>

theorem version_matches_range:
  "version_matches (vtext u) (Some (''>='' @ vtext lo @ '',<'' @ vtext hi)) =
     Inr (vint lo \<le> vint u \<and> vint u < vint hi)"
proof -
  let ?t = "''>='' @ vtext lo @ '',<'' @ vtext hi"
  have last: "is_digit (last ?t)" by simp
  have st: "strip_ws ?t = ?t" by (rule strip_ws_id) simp_all
  have sp: "split_on CHR '','' ?t = [''>='' @ vtext lo, ''<'' @ vtext hi]"
    by (simp add: split_on_append split_on_notin)
  have "version_matches_text (vtext u) ?t =
     allR (version_matches_text (vtext u)) [''>='' @ vtext lo, ''<'' @ vtext hi]"
  proof -
    have "CHR '','' \<in> set ?t" by simp
    from version_text_list [OF st not_endswith_digit [OF last] this] show ?thesis unfolding sp .
  qed
  then show ?thesis
    using version_single [of "vtext u" lo] version_single [of "vtext u" hi]
      compare_vtext [of "vint u" lo] compare_vtext [of "vint u" hi]
    by (simp add: version_matches_def parse_version_vtext)
qed

text \<open>
  A wildcard constrains the major version only: \<open>M.x\<close> accepts exactly the versions with
  major \<open>M\<close>, and so does \<open>M.m.x\<close>, whose minor number is ignored.
\<close>

theorem version_wildcard_major_only:
  "version_matches (vtext (a, b, c)) (Some (show_nat m @ ''.x'')) = Inr (a = m) \<and>
   version_matches (vtext (a, b, c)) (Some (show_nat m @ ''.'' @ show_nat n @ ''.x'')) = Inr (a = m)"
proof -
  have *: "version_matches_text (vtext (a, b, c)) (show_nat m @ CHR ''.'' # r @ ''x'') = Inr (a = m)"
    if "r = [] \<or> (\<exists>q. r = q @ ''.'')" for r
  proof -
    let ?t = "show_nat m @ CHR ''.'' # r @ ''x''"
    have st: "strip_ws ?t = ?t"
      by (rule strip_ws_id) (simp_all add: hd_show_nat not_space_code)
    have e: "endswith ?t ''.x''" using that by (auto simp: endswith_def)
    have sp: "hd (split_on CHR ''.'' ?t) = show_nat m" by (simp add: split_on_append)
    show ?thesis
      unfolding version_text_wildcard [OF st e] sp by (simp add: parse_version_vtext vint_def)
  qed
  from * [of "[]"] * [of "show_nat n @ ''.''"] show ?thesis by (simp add: version_matches_def)
qed

text \<open>
  A constraint that ends in a wildcard but starts with an operator is not a constraint for
  the code: it raises \<open>ValueError\<close>, also when it is the end of a range.
\<close>

theorem version_operator_wildcard_raises:
  assumes "c \<in> {CHR ''>'', CHR ''<'', CHR ''=''}"
  shows "version_matches a (Some (c # s @ ''.x'')) = Inl (ValueError [])"
proof -
  let ?t = "c # s @ ''.x''"
  from assms have c: "\<not> is_digit c" "c \<notin> set py_space" "c \<noteq> CHR ''-''" "c \<noteq> CHR ''+''" "c \<noteq> CHR ''.''"
    by auto
  then have st: "strip_ws ?t = ?t" by (intro strip_ws_id) (simp_all add: not_space_code)
  have e: "endswith ?t ''.x''" by (simp add: endswith_def)
  obtain q where q: "hd (split_on CHR ''.'' ?t) = c # q"
    using c by (cases "split_on CHR ''.'' (s @ ''.x'')") auto
  show ?thesis
    unfolding version_matches_def option.case version_text_wildcard [OF st e] q
    using parse_int_no_number [OF c(1-4)] by simp
qed

lemma version_operator_wildcard_raises_witness:
  "version_matches ''1.5.0'' (Some ''>=1.x'') = Inl (ValueError [])"
  using version_operator_wildcard_raises [of "CHR ''>''" "''1.5.0''" "''=1''"] by simp

section \<open>Properties of descriptors and schemas\<close>

text \<open>
  The dictionary form of a descriptor reads back as the same descriptor.
\<close>

theorem capability_roundtrip:
  assumes "c_version c \<noteq> []" "c_side_effects c \<noteq> []"
  shows "from_value E (capability_to_dict c) = Inr c"
  using assms by (cases c) (simp add: capability_to_dict_def py_or_def)

lemma capability_roundtrip_witness:
  "\<forall>E. from_value E (capability_to_dict \<lparr>c_id = JStr ''report'', c_version = ''2.0.1'', c_input_schema = [],
       c_output_schema = [], c_side_effects = ''NONE''\<rparr>) =
     Inr \<lparr>c_id = JStr ''report'', c_version = ''2.0.1'', c_input_schema = [], c_output_schema = [],
       c_side_effects = ''NONE''\<rparr>"
  by (intro allI capability_roundtrip) simp_all

text \<open>A schema of the shape the documents describe: names required, a type per property.\<close>

definition object_schema :: "string list \<Rightarrow> (string \<times> dict) list \<Rightarrow> json" where
  "object_schema req props = JObj
     [(''type'', JStr ''object''), (''required'', JArr (map JStr req)),
      (''properties'', JObj (map (\<lambda>(k, d). (k, JObj d)) props))]"

definition conforms :: "string list \<Rightarrow> (string \<times> dict) list \<Rightarrow> json \<Rightarrow> bool" where
  "conforms req props payload \<longleftrightarrow>
     (\<exists>p. payload = JObj p \<and> (\<forall>k \<in> set req. dhas p k) \<and>
        (\<forall>(k, d) \<in> set props. dhas p k \<longrightarrow> value_fits (dget d ''type'') (dget p k)))"

lemma check_required_strs:
  "check_required p (map JStr req) =
     (if \<forall>k \<in> set req. dhas p k then Inr () else Inl invalid_request)"
  by (induction req) auto

lemma check_props_objs:
  "check_props p (map (\<lambda>(k, d). (k, JObj d)) props) =
     (if \<forall>(k, d) \<in> set props. dhas p k \<longrightarrow> value_fits (dget d ''type'') (dget p k)
      then Inr () else Inl invalid_request)"
  by (induction props) (auto split: if_splits)


end
