(* ===== verification/Policy.thy ===== *)
theory Policy
  imports DemoPrims
begin

text \<open>
  Verification policies and quorum (\<open>verification_policy.py\<close>): which verifiers a contract names,
  the sign-time validation of the policy, its canonical form and hash, and the count of
  qualifying PASS receipts. Receipts are dictionaries as they arrive; a set of verifiers is a
  list without duplicates.
\<close>

definition ALLOWED_POLICIES :: "string list" where
  "ALLOWED_POLICIES = [''REQUESTER_SELECTS'', ''MULTI_VERIFIER'', ''REPUTATION_WEIGHTED'']"

definition RESERVED_POLICIES :: "string list" where
  "RESERVED_POLICIES = [''MUTUAL_SELECTION'', ''NETWORK_RANDOM'']"

section \<open>Named verifiers and validation\<close>

definition named_verifiers :: "prims \<Rightarrow> dict \<Rightarrow> string list res" where
  "named_verifiers E verification =
     bindR (py_iter (py_or (dget verification ''verifiers'') (JArr []))) (\<lambda>items.
       let verifiers = map (py_str E) (filter truthy items);
           unique = rev (remdups (rev verifiers));
           v = dget verification ''verifier_agent_id''
       in Inr (if truthy v \<and> \<not> py_in v (map JStr unique) then unique @ [py_str E v] else unique))"

definition validate_named_verifiers ::
    "prims \<Rightarrow> dict \<Rightarrow> json \<Rightarrow> int \<Rightarrow> int \<Rightarrow> unit res" where
  "validate_named_verifiers E verification executor min_count min_passes =
     bindR (named_verifiers E verification) (\<lambda>unique.
       if executor \<in> JStr ` set unique then
         Inl (VerifierSelectionError ''executor cannot verify itself'')
       else if int (length unique) < min_count then
         Inl (VerifierSelectionError (''policy requires at least '' @ show_int min_count @ '' verifier(s)''))
       else
         let raw = dget verification ''required_passes'' in
         bindR (py_int (if raw \<noteq> JNull then raw else JInt min_passes)) (\<lambda>passes.
           if passes < min_passes \<or> passes > int (length unique) then
             Inl (VerifierSelectionError ''required_passes must be between the minimum and the verifier count'')
           else Inr ()))"

text \<open>
  \<open>policy in {...}\<close>: lists and dictionaries are not hashable. The executor is a value as it comes
  from a proposal; only a string can be equal to one of the names.
\<close>

definition unhashable :: "json \<Rightarrow> bool" where
  "unhashable v = (case v of JArr _ \<Rightarrow> True | JObj _ \<Rightarrow> True | _ \<Rightarrow> False)"

definition validate_verification :: "prims \<Rightarrow> dict \<Rightarrow> json \<Rightarrow> unit res" where
  "validate_verification E verification executor =
     (if verification = [] \<or> \<not> truthy (dget verification ''required'') then Inr ()
      else
        let policy = py_or (dget verification ''policy'') (JStr ''REQUESTER_SELECTS'') in
        if unhashable policy then Inl TypeError
        else if policy \<in> JStr ` set RESERVED_POLICIES then
          Inl (VerifierSelectionError (''UNSUPPORTED_POLICY:'' @ py_str E policy))
        else if policy \<notin> JStr ` set ALLOWED_POLICIES then
          Inl (VerifierSelectionError ''INVALID_REQUEST'')
        else
          let verifier = dget verification ''verifier_agent_id'' in
          if policy = JStr ''MULTI_VERIFIER'' then
            bindR (named_verifiers E verification) (\<lambda>unique.
              if executor \<in> JStr ` set unique then
                Inl (VerifierSelectionError ''executor cannot verify itself'')
              else if length unique < 2 then
                Inl (VerifierSelectionError ''MULTI_VERIFIER requires at least two verifiers'')
              else
                bindR (py_int (py_or (dget verification ''required_passes'') (JInt 0))) (\<lambda>passes.
                  if passes < 2 \<or> passes > int (length unique) then
                    Inl (VerifierSelectionError ''required_passes must be between 2 and the verifier count'')
                  else Inr ()))
          else if policy = JStr ''REPUTATION_WEIGHTED'' then
            validate_named_verifiers E verification executor 1 1
          else if \<not> truthy verifier then
            Inl (VerifierSelectionError ''verifier_agent_id required for REQUESTER_SELECTS'')
          else if py_eq verifier executor then
            Inl (VerifierSelectionError ''executor cannot verify itself'')
          else Inr ())"

section \<open>Canonical policy and quorum\<close>

text \<open>\<open>verification\<close> may be \<open>None\<close>, which is treated as the empty dictionary.\<close>

definition canonical_policy :: "dict \<Rightarrow> dict res" where
  "canonical_policy verification =
     (if verification = [] \<or> \<not> truthy (dget verification ''required'') then
        Inr [(''policy'', JStr ''NONE''), (''required'', JBool False), (''verifiers'', JArr []),
             (''required_passes'', JInt 0), (''acceptance'', JArr [])]
      else
        bindR (py_iter (py_or (dget verification ''verifiers'') (JArr []))) (\<lambda>verifiers.
        let v = dget verification ''verifier_agent_id'';
            verifiers = (if truthy v \<and> \<not> py_in v verifiers then verifiers @ [v] else verifiers)
        in
        bindR (py_int (py_or (dget verification ''required_passes'') (JInt 1))) (\<lambda>passes.
        bindR (py_iter (py_or (dget verification ''acceptance'') (JArr []))) (\<lambda>acceptance.
          Inr [(''policy'', py_or (dget verification ''policy'') (JStr ''REQUESTER_SELECTS'')),
               (''verifiers'', JArr verifiers),
               (''required_passes'', JInt passes),
               (''acceptance'', JArr acceptance),
               (''required'', JBool True)]))))"

definition policy_hash :: "prims \<Rightarrow> dict \<Rightarrow> string res" where
  "policy_hash E verification =
     bindR (canonical_policy verification) (\<lambda>p.
     bindR (canonical_json E (JObj p)) (\<lambda>b. Inr (sha256_hex E b)))"

definition authorized_verifiers :: "prims \<Rightarrow> dict \<Rightarrow> string list res" where
  "authorized_verifiers E verification =
     bindR (canonical_policy verification) (\<lambda>p.
     bindR (py_iter (py_or (dget p ''verifiers'') (JArr []))) (\<lambda>items.
       Inr (remdups (map (py_str E) (filter truthy items)))))"

definition required_pass_count :: "dict \<Rightarrow> int res" where
  "required_pass_count verification =
     bindR (canonical_policy verification) (\<lambda>policy.
       if \<not> truthy (dget policy ''required'') then Inr 0
       else bindR (py_int (py_or (dget policy ''required_passes'') (JInt 1))) (\<lambda>n. Inr (max 1 n)))"

text \<open>One pass of the loop of \<open>qualifying_pass_verifiers\<close>: the verifier a receipt counts for.\<close>

definition receipt_verifier ::
    "prims \<Rightarrow> string list \<Rightarrow> string \<Rightarrow> string \<Rightarrow> string option \<Rightarrow> dict \<Rightarrow> string option" where
  "receipt_verifier E allowed contract_id contract_hash manifest_hash row =
     (if dget row ''contract_id'' \<noteq> JStr contract_id \<or> dget row ''contract_hash'' \<noteq> JStr contract_hash
      then None
      else if (case manifest_hash of
                 Some h \<Rightarrow> h \<noteq> [] \<and> dget row ''artifact_manifest_hash'' \<noteq> JStr h | None \<Rightarrow> False)
      then None
      else if dget row ''result'' \<noteq> JStr ''PASS'' then None
      else if \<not> truthy (dget row ''signature'') then None
      else
        let verifier = py_str E (py_or (dget row ''verifier'') (JStr [])) in
        if verifier = [] then None
        else if allowed \<noteq> [] \<and> verifier \<notin> set allowed then None
        else Some verifier)"

definition qualifying_pass_verifiers ::
    "prims \<Rightarrow> dict \<Rightarrow> dict list \<Rightarrow> string \<Rightarrow> string \<Rightarrow> string option \<Rightarrow> string list res" where
  "qualifying_pass_verifiers E verification receipts contract_id contract_hash manifest_hash =
     bindR (authorized_verifiers E verification) (\<lambda>allowed.
       Inr (remdups (List.map_filter
              (receipt_verifier E allowed contract_id contract_hash manifest_hash) receipts)))"

definition quorum_met ::
    "prims \<Rightarrow> dict \<Rightarrow> dict list \<Rightarrow> string \<Rightarrow> string \<Rightarrow> string option \<Rightarrow> bool res" where
  "quorum_met E verification receipts contract_id contract_hash manifest_hash =
     bindR (required_pass_count verification) (\<lambda>needed.
       if needed \<le> 0 then Inr True
       else bindR (qualifying_pass_verifiers E verification receipts contract_id contract_hash manifest_hash)
              (\<lambda>found. Inr (int (length found) \<ge> needed)))"

text \<open>\<open>(out.get("policy") or "") != "REPUTATION_WEIGHTED"\<close> leaves the policy alone.\<close>

definition apply_available_quorum :: "prims \<Rightarrow> dict \<Rightarrow> dict res" where
  "apply_available_quorum E verification =
     (let out = verification in
      if dget out ''policy'' \<noteq> JStr ''REPUTATION_WEIGHTED'' then Inr out
      else bindR (named_verifiers E out) (\<lambda>names.
        let out = dset out ''verifiers'' (JArr (map JStr names)) in
        if \<not> dhas verification ''required_passes'' \<or> dget verification ''required_passes'' = JNull
        then Inr (dset out ''required_passes'' (JInt (if 2 \<le> length names then 2 else 1)))
        else bindR (py_int (dget verification ''required_passes'')) (\<lambda>n.
          Inr (dset out ''required_passes'' (JInt n)))))"

section \<open>Named and authorized verifiers\<close>

lemma set_map_filter_receipts:
  "set (List.map_filter f xs) = {y. \<exists>x \<in> set xs. f x = Some y}"
  by (induction xs) (auto simp: List.map_filter_simps split: option.splits)

text \<open>The items of a policy, as both computations read them.\<close>

definition named_set :: "prims \<Rightarrow> dict \<Rightarrow> json list \<Rightarrow> string set" where
  "named_set E V items = py_str E ` {i \<in> set items. truthy i} \<union>
     (if truthy (dget V ''verifier_agent_id'') then {py_str E (dget V ''verifier_agent_id'')} else {})"

lemma named_verifiers_items:
  assumes "named_verifiers E V = Inr ns"
  shows "\<exists>items. py_iter (py_or (dget V ''verifiers'') (JArr [])) = Inr items \<and> set ns = named_set E V items"
proof -
  let ?v = "dget V ''verifier_agent_id''"
  from assms obtain items where items: "py_iter (py_or (dget V ''verifiers'') (JArr [])) = Inr items"
    and ns: "ns = (let u = rev (remdups (rev (map (py_str E) (filter truthy items))))
       in if truthy ?v \<and> \<not> py_in ?v (map JStr u) then u @ [py_str E ?v] else u)"
    by (auto simp: named_verifiers_def Let_def)
  have "set ns = named_set E V items"
    unfolding ns named_set_def Let_def by (auto simp: image_iff)
  with items show ?thesis by blast
qed

text \<open>The policy names verifiers by strings, as its schema says.\<close>

definition named_by_strings :: "dict \<Rightarrow> bool" where
  "named_by_strings V \<longleftrightarrow>
     (\<exists>ss. py_or (dget V ''verifiers'') (JArr []) = JArr (map JStr ss)) \<and>
     (truthy (dget V ''verifier_agent_id'') \<longrightarrow> (\<exists>s. dget V ''verifier_agent_id'' = JStr s))"

lemma named_distinct:
  "named_by_strings V \<Longrightarrow> named_verifiers E V = Inr ns \<Longrightarrow> distinct ns"
  by (auto simp: named_verifiers_def named_by_strings_def Let_def split: if_splits)

lemma canonical_policyE:
  assumes "canonical_policy V = Inr p" "truthy (dget V ''required'')"
  obtains items passes where "py_iter (py_or (dget V ''verifiers'') (JArr [])) = Inr items"
    and "dget p ''verifiers'' = JArr (if truthy (dget V ''verifier_agent_id'') \<and>
           \<not> py_in (dget V ''verifier_agent_id'') items then items @ [dget V ''verifier_agent_id''] else items)"
    and "py_int (py_or (dget V ''required_passes'') (JInt 1)) = Inr passes"
    and "dget p ''required_passes'' = JInt passes" and "dget p ''required'' = JBool True"
  using assms by (auto simp: canonical_policy_def Let_def split: if_splits)

lemma authorized_set:
  assumes "authorized_verifiers E V = Inr A" "truthy (dget V ''required'')"
    and "py_iter (py_or (dget V ''verifiers'') (JArr [])) = Inr items"
  shows "set A = py_str E ` {i \<in> set (if truthy (dget V ''verifier_agent_id'') \<and>
      \<not> py_in (dget V ''verifier_agent_id'') items then items @ [dget V ''verifier_agent_id''] else items). truthy i}"
proof -
  from assms obtain p where p: "canonical_policy V = Inr p"
    and A: "bindR (py_iter (py_or (dget p ''verifiers'') (JArr []))) (\<lambda>items.
       Inr (remdups (map (py_str E) (filter truthy items)))) = Inr A"
    by (auto simp: authorized_verifiers_def)
  show ?thesis
    by (rule canonical_policyE [OF p assms(2)]) (use A assms(3) in auto)
qed

lemma authorized_nonempty:
  assumes "authorized_verifiers E V = Inr A" "truthy (dget V ''required'')"
    and "py_iter (py_or (dget V ''verifiers'') (JArr [])) = Inr items"
    and "named_set E V items \<noteq> {}"
  shows "A \<noteq> []"
proof -
  have "\<exists>i \<in> set (if truthy (dget V ''verifier_agent_id'') \<and>
      \<not> py_in (dget V ''verifier_agent_id'') items then items @ [dget V ''verifier_agent_id''] else items). truthy i"
    using assms(4) by (auto simp: named_set_def py_in_def list_ex_iff dest: py_eq_truthy split: if_splits)
  then have "set A \<noteq> {}" unfolding authorized_set [OF assms(1-3)] by blast
  then show ?thesis by auto
qed

lemma authorized_items:
  assumes "authorized_verifiers E V = Inr A" "truthy (dget V ''required'')"
    and "py_iter (py_or (dget V ''verifiers'') (JArr [])) = Inr items"
  shows "set A \<subseteq> named_set E V items" and "named_by_strings V \<Longrightarrow> set A = named_set E V items"
proof -
  let ?v = "dget V ''verifier_agent_id''"
  note set_A = authorized_set [OF assms]
  then show "set A \<subseteq> named_set E V items" by (auto simp: named_set_def)
  assume str: "named_by_strings V"
  then obtain ss where ss: "items = map JStr ss"
    using assms(3) by (auto simp: named_by_strings_def)
  show "set A = named_set E V items"
  proof (cases "truthy ?v \<and> py_in ?v items")
    case True
    with ss obtain s where "?v = JStr s" "s \<in> set ss" by auto
    with True ss have "s \<in> py_str E ` {i \<in> set items. truthy i}"
      by (intro image_eqI [of _ _ "JStr s"]) auto
    with True set_A \<open>?v = JStr s\<close> show ?thesis by (auto simp: named_set_def)
  next
    case False
    then show ?thesis unfolding set_A named_set_def by auto
  qed
qed

section \<open>What validation guarantees\<close>

text \<open>The policies that validate all named verifiers.\<close>

definition checks_all_names :: "dict \<Rightarrow> bool" where
  "checks_all_names V \<longleftrightarrow> truthy (dget V ''required'') \<and>
     dget V ''policy'' \<in> {JStr ''MULTI_VERIFIER'', JStr ''REPUTATION_WEIGHTED''}"

lemma validate_named_verifiersE:
  assumes "validate_named_verifiers E V (JStr ex) c m = Inr ()"
  obtains ns k where "named_verifiers E V = Inr ns" "ex \<notin> set ns"
    "py_int (if dget V ''required_passes'' \<noteq> JNull then dget V ''required_passes'' else JInt m) = Inr k"
    "m \<le> k" "k \<le> int (length ns)"
  using assms by (auto simp: validate_named_verifiers_def Let_def not_less split: if_splits)

lemma validated_names:
  assumes "checks_all_names V" "validate_verification E V (JStr ex) = Inr ()"
  obtains ns passes where "named_verifiers E V = Inr ns" and "ex \<notin> set ns"
    and "py_int (py_or (dget V ''required_passes'') (JInt 1)) = Inr passes"
    and "1 \<le> passes" and "passes \<le> int (length ns)"
    and "dget V ''policy'' = JStr ''MULTI_VERIFIER'' \<longrightarrow> 2 \<le> passes"
proof -
  from assms(1) have V: "V \<noteq> []" "truthy (dget V ''required'')"
    by (auto simp: checks_all_names_def)
  have rp: "py_or r (JInt d) = r" if "py_int (py_or r (JInt d)) = Inr k" "k \<noteq> d" for r d k
    using that by (auto simp: py_or_def split: if_splits)
  consider (multi) "dget V ''policy'' = JStr ''MULTI_VERIFIER''"
    | (rep) "dget V ''policy'' = JStr ''REPUTATION_WEIGHTED''"
    using assms(1) by (auto simp: checks_all_names_def)
  then show ?thesis
  proof cases
    case multi
    with assms(2) V obtain ns k where *: "named_verifiers E V = Inr ns" "ex \<notin> set ns"
      "py_int (py_or (dget V ''required_passes'') (JInt 0)) = Inr k" "2 \<le> k" "k \<le> int (length ns)"
      by (auto simp: validate_verification_def py_or_def unhashable_def RESERVED_POLICIES_def
          ALLOWED_POLICIES_def Let_def split: if_splits)
    then have "truthy (dget V ''required_passes'')" by (auto simp: py_or_def split: if_splits)
    with * that show ?thesis by (simp add: py_or_def)
  next
    case rep
    with assms(2) V have "validate_named_verifiers E V (JStr ex) 1 1 = Inr ()"
      by (simp add: validate_verification_def py_or_def unhashable_def
          RESERVED_POLICIES_def ALLOWED_POLICIES_def Let_def)
    then obtain ns k where *: "named_verifiers E V = Inr ns" "ex \<notin> set ns"
      "py_int (if dget V ''required_passes'' \<noteq> JNull then dget V ''required_passes'' else JInt 1) = Inr k"
      "1 \<le> k" "k \<le> int (length ns)"
      by (rule validate_named_verifiersE)
    have "py_int (py_or (dget V ''required_passes'') (JInt 1)) = Inr k"
    proof (cases "truthy (dget V ''required_passes'')")
      case True
      with *(3) show ?thesis by (auto simp: py_or_def split: if_splits)
    next
      case False
      with *(3,4) show ?thesis
        by (cases "dget V ''required_passes''")
          (auto simp: py_or_def parse_int_def strip_ws_def lstrip_chars_def rstrip_chars_def
            float_trunc_def split: if_splits pyfloat.splits)
    qed
    with * rep that show ?thesis by simp
  qed
qed

section \<open>Quorum\<close>

text \<open>The verification target of a receipt: contract, its hash and, when given, the artifact revision.\<close>

definition on_target :: "string \<Rightarrow> string \<Rightarrow> string option \<Rightarrow> dict \<Rightarrow> bool" where
  "on_target contract_id contract_hash manifest_hash row \<longleftrightarrow>
     dget row ''contract_id'' = JStr contract_id \<and> dget row ''contract_hash'' = JStr contract_hash \<and>
     (\<forall>h. manifest_hash = Some h \<and> h \<noteq> [] \<longrightarrow> dget row ''artifact_manifest_hash'' = JStr h)"

text \<open>A PASS receipt of one verifier on the target.\<close>

definition pass_receipt ::
    "prims \<Rightarrow> string \<Rightarrow> string \<Rightarrow> string \<Rightarrow> string option \<Rightarrow> dict \<Rightarrow> bool" where
  "pass_receipt E v contract_id contract_hash manifest_hash row \<longleftrightarrow>
     on_target contract_id contract_hash manifest_hash row \<and> dget row ''result'' = JStr ''PASS'' \<and>
     truthy (dget row ''signature'') \<and> v \<noteq> [] \<and> py_str E (py_or (dget row ''verifier'') (JStr [])) = v"

lemma receipt_verifier_iff:
  "receipt_verifier E A cid ch mh row = Some v \<longleftrightarrow>
     pass_receipt E v cid ch mh row \<and> (A = [] \<or> v \<in> set A)"
  by (auto simp: receipt_verifier_def pass_receipt_def on_target_def Let_def split: option.splits)

lemma qualifying_set:
  assumes "qualifying_pass_verifiers E V rs cid ch mh = Inr F"
  obtains A where "authorized_verifiers E V = Inr A" "distinct F"
    and "set F = {v. (\<exists>row \<in> set rs. pass_receipt E v cid ch mh row) \<and> (A = [] \<or> v \<in> set A)}"
  using assms
  by (auto simp: qualifying_pass_verifiers_def set_map_filter_receipts receipt_verifier_iff)

lemma required_pass_countE:
  assumes "required_pass_count V = Inr n" "truthy (dget V ''required'')"
    and "py_int (py_or (dget V ''required_passes'') (JInt 1)) = Inr passes" "1 \<le> passes"
  shows "n = passes"
proof -
  from assms obtain p where p: "canonical_policy V = Inr p" by (auto simp: required_pass_count_def)
  show ?thesis
    by (rule canonical_policyE [OF p assms(2)])
      (use assms p in \<open>auto simp: required_pass_count_def py_or_def split: if_splits\<close>)
qed

lemma named_truthy: "V \<noteq> [] \<and> truthy (dget V ''required'') \<longleftrightarrow> truthy (dget V ''required'')"
  by (cases V) auto

section \<open>A policy with two verifiers, and a receipt\<close>

text \<open>A minimal receipt.\<close>

definition receipt_by :: "string \<Rightarrow> string \<Rightarrow> string \<Rightarrow> string \<Rightarrow> dict" where
  "receipt_by v s cid ch =
     [(''contract_id'', JStr cid), (''contract_hash'', JStr ch), (''result'', JStr ''PASS''),
      (''verifier'', JStr v), (''signature'', JStr s)]"

definition demo_policy :: dict where
  "demo_policy =
     [(''required'', JBool True), (''policy'', JStr ''MULTI_VERIFIER''),
      (''verifiers'', JArr [JStr ''v1'', JStr ''v2'']), (''required_passes'', JInt 2)]"

lemmas policy_eval = validate_verification_def unhashable_def RESERVED_POLICIES_def ALLOWED_POLICIES_def
  py_or_def quorum_met_def required_pass_count_def canonical_policy_def py_in_def
  qualifying_pass_verifiers_def authorized_verifiers_def receipt_verifier_def Let_def
  List.map_filter_def named_verifiers_def

lemma demo_policy_facts:
  "checks_all_names demo_policy" "named_by_strings demo_policy"
  "validate_verification demo_prims demo_policy (JStr ''executor'') = Inr ()"
  "authorized_verifiers demo_prims demo_policy = Inr [''v1'', ''v2'']"
  "\<exists>p. canonical_policy demo_policy = Inr p"
  by (auto simp: checks_all_names_def named_by_strings_def demo_policy_def policy_eval
      intro: exI [of _ "[''v1'', ''v2'']"])

lemma demo_quorum:
  "quorum_met demo_prims demo_policy [receipt_by ''v2'' ''s'' ''c'' ''h'', receipt_by ''v1'' ''s'' ''c'' ''h''] ''c'' ''h'' None
     = Inr True"
  by (simp add: demo_policy_def receipt_by_def policy_eval)

section \<open>Properties\<close>



text \<open>
  A validated policy whose verifiers are named by strings can be satisfied: once every
  authorized verifier has a PASS receipt on the target, the quorum is met.
\<close>

theorem validated_quorum_attainable:
  assumes "checks_all_names V" "named_by_strings V" "validate_verification E V (JStr ex) = Inr ()"
    and "canonical_policy V = Inr p" "authorized_verifiers E V = Inr A"
    and all: "\<And>v. v \<in> set A \<Longrightarrow> \<exists>row \<in> set rs. pass_receipt E v cid ch mh row"
  shows "quorum_met E V rs cid ch mh = Inr True"
proof -
  obtain ns passes where ns: "named_verifiers E V = Inr ns"
    and passes: "py_int (py_or (dget V ''required_passes'') (JInt 1)) = Inr passes" "1 \<le> passes"
      "passes \<le> int (length ns)"
    by (rule validated_names [OF assms(1,3)])
  have req: "truthy (dget V ''required'')" using assms(1) by (simp add: checks_all_names_def)
  obtain items where items: "py_iter (py_or (dget V ''verifiers'') (JArr [])) = Inr items"
    "set ns = named_set E V items"
    using named_verifiers_items [OF ns] by blast
  have "\<exists>n. required_pass_count V = Inr n"
    by (rule canonical_policyE [OF assms(4) req])
      (use assms(4) in \<open>simp add: required_pass_count_def py_or_def\<close>)
  then obtain n where n: "required_pass_count V = Inr n" by blast
  have np: "n = passes" by (rule required_pass_countE [OF n req passes(1,2)])
  obtain F where F: "qualifying_pass_verifiers E V rs cid ch mh = Inr F"
    using assms(5) by (simp add: qualifying_pass_verifiers_def)
  obtain A' where A': "authorized_verifiers E V = Inr A'" "distinct F"
    "set F = {v. (\<exists>row \<in> set rs. pass_receipt E v cid ch mh row) \<and> (A' = [] \<or> v \<in> set A')}"
    by (rule qualifying_set [OF F])
  with assms(5) all have "set A \<subseteq> set F" by auto
  moreover have "set A = set ns"
    using authorized_items(2) [OF assms(5) req items(1) assms(2)] items(2) by simp
  ultimately have "card (set ns) \<le> card (set F)" by (simp add: card_mono)
  then have "length ns \<le> length F"
    using named_distinct [OF assms(2) ns] A'(2) by (simp add: distinct_card)
  with n np passes F show ?thesis by (simp add: quorum_met_def)
qed

lemma validated_quorum_attainable_witness:
  "quorum_met demo_prims demo_policy [receipt_by ''v1'' ''s'' ''c'' ''h'', receipt_by ''v2'' ''s'' ''c'' ''h''] ''c'' ''h'' None
     = Inr True"
proof -
  obtain p where "canonical_policy demo_policy = Inr p" using demo_policy_facts(5) by blast
  then show ?thesis
    by (rule validated_quorum_attainable [OF demo_policy_facts(1-3) _ demo_policy_facts(4)])
      (auto simp: pass_receipt_def on_target_def receipt_by_def py_or_def)
qed

text \<open>
  The quorum counts verifiers on the target, not receipts: repeating a receipt, reordering
  the receipts, or adding receipts for another contract, another hash or another artifact
  revision never changes the verdict.
\<close>

theorem quorum_target_scoped:
  assumes "set (filter (on_target cid ch mh) rs) = set (filter (on_target cid ch mh) rs')"
  shows "quorum_met E V rs cid ch mh = quorum_met E V rs' cid ch mh"
proof -
  have sub: "{y. \<exists>x \<in> set rs. receipt_verifier E A cid ch mh x = Some y} =
        {y. \<exists>x \<in> set (filter (on_target cid ch mh) rs). receipt_verifier E A cid ch mh x = Some y}" for A rs
    by (auto simp: receipt_verifier_iff pass_receipt_def)
  have len: "length (remdups (List.map_filter (receipt_verifier E A cid ch mh) rs)) =
      length (remdups (List.map_filter (receipt_verifier E A cid ch mh) rs'))" for A
    unfolding length_remdups_card_conv set_map_filter_receipts sub [of rs A] sub [of rs' A] assms ..
  show ?thesis
    unfolding quorum_met_def qualifying_pass_verifiers_def
    by (cases "required_pass_count V"; cases "authorized_verifiers E V") (simp_all add: len)
qed

lemma quorum_target_scoped_witness:
  "quorum_met demo_prims demo_policy [receipt_by ''v1'' ''s'' ''c'' ''h'', receipt_by ''v1'' ''s'' ''c'' ''h'',
       receipt_by ''v2'' ''s'' ''other'' ''h''] ''c'' ''h'' None =
   quorum_met demo_prims demo_policy [receipt_by ''v1'' ''s'' ''c'' ''h''] ''c'' ''h'' None"
  by (rule quorum_target_scoped) (simp add: on_target_def receipt_by_def)

text \<open>A policy with two names in different fields.\<close>

definition selects_policy :: "string \<Rightarrow> string \<Rightarrow> dict" where
  "selects_policy v other =
     [(''required'', JBool True), (''policy'', JStr ''REQUESTER_SELECTS''),
      (''verifier_agent_id'', JStr v), (''verifiers'', JArr [JStr other])]"

text \<open>
  Under the default policy \<open>REQUESTER_SELECTS\<close> the list \<open>verifiers\<close> is not validated: a
  contract that names another agent as its verifier and lists the executor there passes
  validation, and the executor's own receipt then meets the quorum.
\<close>

theorem requester_selects_allows_executor:
  assumes "ex \<noteq> v" "v \<noteq> []" "ex \<noteq> []" "s \<noteq> []"
  shows "validate_verification E (selects_policy v ex) (JStr ex) = Inr () \<and>
    quorum_met E (selects_policy v ex) [receipt_by ex s cid ch] cid ch None = Inr True"
  using assms by (simp add: selects_policy_def receipt_by_def policy_eval)

lemma requester_selects_allows_executor_witness:
  "validate_verification demo_prims (selects_policy ''v'' ''executor'') (JStr ''executor'') = Inr () \<and>
   quorum_met demo_prims (selects_policy ''v'' ''executor'') [receipt_by ''executor'' ''s'' ''c'' ''h''] ''c'' ''h'' None
     = Inr True"
  by (rule requester_selects_allows_executor) simp_all

text \<open>
  Filling in the available quorum names exactly the verifiers of the policy, keeps an
  explicit number of passes, defaults it to two when two or more are named and to one otherwise,
  and touches no other field.
\<close>

theorem available_quorum:
  assumes "dget V ''policy'' = JStr ''REPUTATION_WEIGHTED''" "apply_available_quorum E V = Inr V'"
  shows "\<exists>ns. named_verifiers E V = Inr ns \<and> dget V' ''verifiers'' = JArr (map JStr ns) \<and>
    (dget V ''required_passes'' = JNull \<longrightarrow>
       dget V' ''required_passes'' = JInt (if 2 \<le> length ns then 2 else 1)) \<and>
    (dget V ''required_passes'' \<noteq> JNull \<longrightarrow>
       (\<exists>n. py_int (dget V ''required_passes'') = Inr n \<and> dget V' ''required_passes'' = JInt n)) \<and>
    (\<forall>k. k \<noteq> ''verifiers'' \<and> k \<noteq> ''required_passes'' \<longrightarrow> dget V' k = dget V k)"
proof -
  have nohas: "dget V k = JNull" if "\<not> dhas V k" for k
    using that by (auto simp: dhas_def dget_def)
  from assms obtain ns where ns: "named_verifiers E V = Inr ns"
    by (auto simp: apply_available_quorum_def Let_def)
  from assms ns show ?thesis
    by (intro exI [of _ ns]) (auto simp: apply_available_quorum_def Let_def nohas split: if_splits)
qed

lemma available_quorum_witness:
  "\<exists>V'. apply_available_quorum demo_prims [(''policy'', JStr ''REPUTATION_WEIGHTED''),
        (''verifiers'', JArr [JStr ''v1''])] = Inr V' \<and>
     dget V' ''required_passes'' = JInt 1 \<and> dget V' ''policy'' = JStr ''REPUTATION_WEIGHTED''"
proof -
  let ?V = "[(''policy'', JStr ''REPUTATION_WEIGHTED''), (''verifiers'', JArr [JStr ''v1''])]"
  obtain V' where V': "apply_available_quorum demo_prims ?V = Inr V'"
    by (simp add: apply_available_quorum_def policy_eval)
  have "named_verifiers demo_prims ?V = Inr [''v1'']" by (simp add: policy_eval)
  with V' available_quorum [of ?V demo_prims V'] show ?thesis by auto
qed

end
