(* ===== verification/Idempotency.thy ===== *)
theory Idempotency
  imports Prelude
begin

text \<open>
  The idempotency store (\<open>idempotency.py\<close>): results by key with a time to live, in memory and
  optionally in an SQLite table beside it. \<open>'v\<close> is the type of stored values (a stored value is
  never \<open>None\<close>); SQLite's JSON column is taken to return the value written. Times are integer
  ticks, each operation is given the clock readings it makes.

  What a client may rely on is the locale \<open>idem_store\<close>; the store without a file implements it.
  The store with a file does not, see \<open>stale_after_restart\<close>.
\<close>

section \<open>The store\<close>

record 'v istore =
  is_values :: "string \<rightharpoonup> 'v"
  is_expires :: "string \<rightharpoonup> int"
  is_ttl :: int
  is_db :: "(string \<rightharpoonup> 'v \<times> int) option"

text \<open>A new process: memory empty; the table, if there is a path, as it was left.\<close>

definition is_init :: "int \<Rightarrow> (string \<rightharpoonup> 'v \<times> int) option \<Rightarrow> 'v istore" where
  "is_init ttl db = \<lparr>is_values = Map.empty, is_expires = Map.empty, is_ttl = ttl, is_db = db\<rparr>"

definition is_dead :: "'v istore \<Rightarrow> int \<Rightarrow> string \<Rightarrow> bool" where
  "is_dead s now k = (case is_expires s k of Some e \<Rightarrow> e \<le> now | None \<Rightarrow> False)"

definition is_purge :: "'v istore \<Rightarrow> int \<Rightarrow> 'v istore" where
  "is_purge s now = s\<lparr>
     is_values := (\<lambda>k. if is_dead s now k then None else is_values s k),
     is_expires := (\<lambda>k. if is_dead s now k then None else is_expires s k),
     is_db := map_option (\<lambda>db k. case db k of
         Some (v, e) \<Rightarrow> if e \<le> now then None else Some (v, e)
       | None \<Rightarrow> None) (is_db s)\<rparr>"

text \<open>\<open>now\<close> is read by the purge, \<open>now'\<close> when the row is looked at.\<close>

definition is_get :: "'v istore \<Rightarrow> int \<Rightarrow> int \<Rightarrow> string \<Rightarrow> 'v istore \<times> 'v option" where
  "is_get s now now' key =
     (let s = is_purge s now in
      case is_values s key of
        Some v \<Rightarrow> (s, Some v)
      | None \<Rightarrow>
          (case is_db s of
             None \<Rightarrow> (s, None)
           | Some db \<Rightarrow>
               (case db key of
                  None \<Rightarrow> (s, None)
                | Some (v, expires_at) \<Rightarrow>
                    if expires_at \<le> now' then (s, None)
                    else (s\<lparr>is_values := (is_values s)(key \<mapsto> v)\<rparr>, Some v))))"

definition is_put :: "'v istore \<Rightarrow> int \<Rightarrow> string \<Rightarrow> 'v \<Rightarrow> 'v istore" where
  "is_put s now key v =
     (let expires = now + is_ttl s in
      s\<lparr>is_values := (is_values s)(key \<mapsto> v),
        is_expires := (is_expires s)(key \<mapsto> expires),
        is_db := map_option (\<lambda>db. db(key \<mapsto> (v, expires))) (is_db s)\<rparr>)"

definition msg_key :: "string \<Rightarrow> string \<Rightarrow> string" where
  "msg_key sender message_id = ''msg:'' @ sender @ '':'' @ message_id"

definition is_get_message :: "'v istore \<Rightarrow> int \<Rightarrow> int \<Rightarrow> string \<Rightarrow> string \<Rightarrow> 'v istore \<times> 'v option" where
  "is_get_message s now now' sender message_id = is_get s now now' (msg_key sender message_id)"

definition is_put_message :: "'v istore \<Rightarrow> int \<Rightarrow> string \<Rightarrow> string \<Rightarrow> 'v \<Rightarrow> 'v istore" where
  "is_put_message s now sender message_id v = is_put s now (msg_key sender message_id) v"

definition is_seen_message :: "'v istore \<Rightarrow> int \<Rightarrow> int \<Rightarrow> string \<Rightarrow> string \<Rightarrow> 'v istore \<times> bool" where
  "is_seen_message s now now' sender message_id =
     (let (s, r) = is_get_message s now now' sender message_id in (s, r \<noteq> None))"

text \<open>
  \<open>run\<close>: \<open>fn\<close> acts on a world \<open>'w\<close> and may raise; \<open>later\<close> is the time when its result is stored.
\<close>

definition is_run ::
    "'v istore \<Rightarrow> int \<Rightarrow> int \<Rightarrow> int \<Rightarrow> string \<Rightarrow> ('w \<Rightarrow> 'w \<times> 'v res) \<Rightarrow> 'w \<Rightarrow> 'v istore \<times> 'w \<times> 'v res" where
  "is_run s now now' later key fn w =
     (case is_get s now now' key of
        (s, Some v) \<Rightarrow> (s, w, Inr v)
      | (s, None) \<Rightarrow>
          (case fn w of
             (w, Inl e) \<Rightarrow> (s, w, Inl e)
           | (w, Inr v) \<Rightarrow> (is_put s later key v, w, Inr v)))"

section \<open>What a client relies on\<close>

text \<open>
  \<open>look\<close> is the value an inspection finds, \<open>touch\<close> the state it leaves. A stored value is found
  until its time to live has passed and not after; other keys are not affected; looking changes
  nothing that can be observed later.
\<close>

locale idem_store =
  fixes inv :: "'s \<Rightarrow> bool"
    and ttl :: "'s \<Rightarrow> int"
    and look :: "'s \<Rightarrow> int \<Rightarrow> string \<Rightarrow> 'v option"
    and touch :: "'s \<Rightarrow> int \<Rightarrow> string \<Rightarrow> 's"
    and put :: "'s \<Rightarrow> int \<Rightarrow> string \<Rightarrow> 'v \<Rightarrow> 's"
  assumes inv_put: "inv s \<Longrightarrow> inv (put s t k v)"
    and inv_touch: "inv s \<Longrightarrow> inv (touch s t k)"
    and ttl_put: "ttl (put s t k v) = ttl s"
    and ttl_touch: "ttl (touch s t k) = ttl s"
    and look_put: "inv s \<Longrightarrow> look (put s t k v) t' k' =
          (if k' = k then if t' < t + ttl s then Some v else None else look s t' k')"
    and look_touch: "inv s \<Longrightarrow> t \<le> t' \<Longrightarrow> look (touch s t k) t' k' = look s t' k'"
begin

text \<open>A step of some client at a time: a lookup, or a lookup followed by storing a value.\<close>

fun step :: "'s \<Rightarrow> int \<times> string \<times> 'v option \<Rightarrow> 's" where
  "step s (t, k, None) = touch s t k"
| "step s (t, k, Some v) = put (touch s t k) t k v"

text \<open>
  A value stays available through any history of other clients that does not store under its
  key, while its time lasts.
\<close>

lemma inv_step: "inv s \<Longrightarrow> inv (step s x)"
  by (cases "(s, x)" rule: step.cases) (auto intro: inv_put inv_touch)

lemma look_step:
  assumes "inv s" "fst x \<le> t" "fst (snd x) = k \<longrightarrow> snd (snd x) = None"
  shows "look (step s x) t k = look s t k"
  using assms by (cases "(s, x)" rule: step.cases) (auto simp: look_touch look_put inv_touch)

lemma look_history:
  assumes "inv s" "\<And>x. x \<in> set xs \<Longrightarrow> fst x \<le> t \<and> (fst (snd x) = k \<longrightarrow> snd (snd x) = None)"
  shows "look (foldl step s xs) t k = look s t k"
  using assms
proof (induction xs arbitrary: s)
  case (Cons x xs)
  then show ?case using look_step [of s x t k] inv_step by simp
qed simp

lemma replay_window:
  assumes "inv s" "t < t0 + ttl s"
    and "\<And>x. x \<in> set xs \<Longrightarrow> fst x \<le> t \<and> (fst (snd x) = k \<longrightarrow> snd (snd x) = None)"
  shows "look (foldl step (put s t0 k v) xs) t k = Some v"
  using look_history [OF inv_put [OF assms(1)] assms(3)] assms(1,2) by (simp add: look_put)

lemma expired:
  assumes "inv s" "t0 + ttl s \<le> t"
    and "\<And>x. x \<in> set xs \<Longrightarrow> fst x \<le> t \<and> (fst (snd x) = k \<longrightarrow> snd (snd x) = None)"
  shows "look (foldl step (put s t0 k v) xs) t k = None"
  using look_history [OF inv_put [OF assms(1)] assms(3)] assms(1,2) by (simp add: look_put)

end

section \<open>The store without a file\<close>

definition is_look :: "'v istore \<Rightarrow> int \<Rightarrow> string \<Rightarrow> 'v option" where
  "is_look s t k = snd (is_get s t t k)"

definition is_touch :: "'v istore \<Rightarrow> int \<Rightarrow> string \<Rightarrow> 'v istore" where
  "is_touch s t k = fst (is_get s t t k)"

definition in_memory :: "'v istore \<Rightarrow> bool" where
  "in_memory s \<longleftrightarrow> is_db s = None"

lemma is_get_memory:
  "in_memory s \<Longrightarrow> is_get s t t' k = (is_purge s t, is_values (is_purge s t) k)"
  by (auto simp: is_get_def is_purge_def in_memory_def Let_def split: option.splits)

lemma in_memory_simps [simp]:
  "in_memory (is_purge s t) = in_memory s" "in_memory (is_put s t k v) = in_memory s"
  "is_ttl (is_purge s t) = is_ttl s" "is_ttl (is_put s t k v) = is_ttl s"
  "in_memory (is_init ttl None)" "is_ttl (is_init ttl db) = ttl"
  by (auto simp: in_memory_def is_purge_def is_put_def is_init_def Let_def)

lemma is_purge_simps [simp]:
  "is_values (is_purge s t) k = (if is_dead s t k then None else is_values s k)"
  "is_dead (is_purge s t) t' k \<longleftrightarrow> \<not> is_dead s t k \<and> is_dead s t' k"
  by (auto simp: is_purge_def is_dead_def split: option.splits)

lemma is_put_simps [simp]:
  "is_values (is_put s t k v) k' = (if k' = k then Some v else is_values s k')"
  "is_dead (is_put s t k v) t' k' \<longleftrightarrow> (if k' = k then t + is_ttl s \<le> t' else is_dead s t' k')"
  by (auto simp: is_put_def is_dead_def Let_def)

lemma is_init_empty [simp]:
  "is_values (is_init ttl db) k = None" "is_dead (is_init ttl db) t k = False"
  by (simp_all add: is_init_def is_dead_def)

lemma is_look_memory:
  "in_memory s \<Longrightarrow> is_look s t k = (if is_dead s t k then None else is_values s k)"
  by (simp add: is_look_def is_get_memory)

lemma is_touch_memory: "in_memory s \<Longrightarrow> is_touch s t k = is_purge s t"
  by (simp add: is_touch_def is_get_memory)

lemma is_dead_mono: "is_dead s t k \<Longrightarrow> t \<le> t' \<Longrightarrow> is_dead s t' k"
  by (auto simp: is_dead_def split: option.splits)

interpretation imem: idem_store in_memory is_ttl is_look is_touch is_put
proof unfold_locales
  fix s :: "'a istore" and t k
  show "is_ttl (is_touch s t k) = is_ttl s"
    by (auto simp: is_touch_def is_get_def Let_def split: option.splits prod.splits)
qed (auto simp: is_look_memory is_touch_memory intro: is_dead_mono)

lemmas is_memory_look = is_get_memory is_look_def

section \<open>Properties\<close>



text \<open>A failed run stores nothing, so the next run tries again.\<close>

lemma failed_run_not_stored:
  assumes "in_memory s" "is_run s t t' u k fn w = (s1, w1, Inl e)" "t \<le> t2"
  shows "is_look s1 t2 k' = is_look s t2 k'"
  using assms imem.look_touch [of s t t2 k k']
  by (auto simp: is_run_def is_memory_look is_touch_def split: prod.splits sum.splits option.splits)

text \<open>
  A store with a file survives a restart: a new process on the same table finds the value
  until it expires.
\<close>

theorem restart_keeps_value:
  assumes "is_db s = Some db" "u < t + is_ttl s" "u' < t + is_ttl s"
  shows "snd (is_get (is_init ttl' (is_db (is_put s t k v))) u u' k) = Some v"
  using assms by (simp add: is_get_def is_put_def is_init_def is_purge_def is_dead_def Let_def)

lemma restart_keeps_value_witness:
  "snd (is_get (is_init 10 (is_db (is_put (is_init 10 (Some Map.empty)) 0 ''k'' ''r''))) 5 5 ''k'') = Some ''r''"
  by (rule restart_keeps_value [of _ Map.empty]) (simp_all add: is_init_def)

text \<open>
  After such a restart the time to live is lost: the first lookup copies the value to memory
  without its expiry, and from then on every lookup returns it, at any time.
\<close>

theorem stale_after_restart:
  assumes "is_db s = Some db" "u < t + is_ttl s" "u' < t + is_ttl s"
  shows "snd (is_get (fst (is_get (is_init ttl' (is_db (is_put s t k v))) u u' k)) t3 t3' k) = Some v"
  using assms by (simp add: is_get_def is_put_def is_init_def is_purge_def is_dead_def Let_def)

lemma stale_after_restart_witness:
  "snd (is_get (fst (is_get (is_init 10 (is_db (is_put (is_init 10 (Some Map.empty)) 0 ''k'' ''r''))) 5 5 ''k''))
      1000 1000 ''k'') = Some ''r''"
  by (rule stale_after_restart [of _ Map.empty]) (simp_all add: is_init_def)

text \<open>
  Message keys of different senders can coincide: a message id of one sender that contains a
  colon is answered with the result stored for another sender.
\<close>

theorem message_keys_collide:
  assumes "in_memory s" "t2 < t + is_ttl s"
  shows "snd (is_get_message (is_put_message s t (a @ '':'' @ b) c v) t2 t2' a (b @ '':'' @ c)) = Some v"
proof -
  have key: "msg_key a (b @ '':'' @ c) = msg_key (a @ '':'' @ b) c"
    by (simp add: msg_key_def)
  show ?thesis
    unfolding is_get_message_def is_put_message_def key
    using assms by (simp add: is_get_memory)
qed

lemma message_keys_collide_witness:
  "snd (is_get_message (is_put_message (is_init 10 None) 0 ''a:b'' ''c'' ''r'') 5 5 ''a'' ''b:c'') = Some ''r''"
  using message_keys_collide [of "is_init 10 None" 5 0 "''a''" "''b''" "''c''" "''r''" 5] by simp

end
