(* ===== verification/Models.thy ===== *)
theory Models
  imports Policy
begin

text \<open>
  The dataclasses of the wire (\<open>models.py\<close>). Nothing checks the annotated types of their fields
  at run time, so every field holds a value as it came off the wire. \<open>to_dict\<close> is \<open>asdict\<close>:
  a dictionary with one entry per field, in field order; \<open>from_dict\<close> drops the unknown keys and
  calls the constructor, which fills in the defaults and raises \<open>TypeError\<close> when a field without
  default is missing. What all of them share is the locale \<open>wire_object\<close>.
\<close>

section \<open>Dataclass construction\<close>

text \<open>The fields of a dataclass with their default values.\<close>

type_synonym dc_fields = "(string \<times> json option) list"

definition dc_value :: "dict \<Rightarrow> string \<times> json option \<Rightarrow> json" where
  "dc_value data f =
     (case map_of data (fst f) of
        Some v \<Rightarrow> v
      | None \<Rightarrow> (case snd f of Some v \<Rightarrow> v | None \<Rightarrow> JNull))"

definition dc_init :: "dc_fields \<Rightarrow> dict \<Rightarrow> dict res" where
  "dc_init flds data =
     (if list_all (\<lambda>f. snd f \<noteq> None \<or> dhas data (fst f)) flds
      then Inr (map (\<lambda>f. (fst f, dc_value data f)) flds)
      else Inl TypeError)"

locale wire_object =
  fixes flds :: dc_fields
    and to_dict :: "'o \<Rightarrow> dict"
    and from_dict :: "dict \<Rightarrow> 'o res"
  assumes from_to: "from_dict (to_dict x) = Inr x"
    and from_cong: "(\<And>k. k \<in> fst ` set flds \<Longrightarrow> map_of d k = map_of d' k) \<Longrightarrow> from_dict d = from_dict d'"
    and from_error: "from_dict d = Inl e \<longleftrightarrow> e = TypeError \<and> (\<exists>k. (k, None) \<in> set flds \<and> \<not> dhas d k)"
begin

lemma to_dict_inj: "to_dict x = to_dict y \<longleftrightarrow> x = y"
proof
  assume "to_dict x = to_dict y"
  then have "from_dict (to_dict x) = from_dict (to_dict y)" by simp
  then show "x = y" unfolding from_to by simp
qed simp

text \<open>Foreign keys are ignored.\<close>

lemma from_foreign:
  assumes "k \<notin> fst ` set flds"
  shows "from_dict (dset d k v) = from_dict d"
proof (rule from_cong)
  fix k' assume "k' \<in> fst ` set flds"
  with assms show "map_of (dset d k v) k' = map_of d k'"
    by (auto simp: dset_def update_conv)
qed

lemma from_to_foreign: "k \<notin> fst ` set flds \<Longrightarrow> from_dict (dset (to_dict x) k v) = Inr x"
  by (simp add: from_foreign from_to)

text \<open>Construction succeeds exactly when the fields without default are there.\<close>

lemma from_defined: "(\<exists>x. from_dict d = Inr x) \<longleftrightarrow> (\<forall>k. (k, None) \<in> set flds \<longrightarrow> dhas d k)"
proof -
  have "(\<exists>x. from_dict d = Inr x) \<longleftrightarrow> \<not> (\<exists>e. from_dict d = Inl e)"
    by (cases "from_dict d") auto
  then show ?thesis by (simp only: from_error) blast
qed

end

lemma dc_init_cong:
  assumes "\<And>k. k \<in> fst ` set flds \<Longrightarrow> map_of d k = map_of d' k"
  shows "dc_init flds d = dc_init flds d'"
proof -
  have "dhas d (fst f) = dhas d' (fst f)" "dc_value d f = dc_value d' f" if "f \<in> set flds" for f
    using assms [of "fst f"] that by (simp_all add: dhas_def dc_value_def)
  then show ?thesis by (auto simp: dc_init_def list_all_iff)
qed

lemma dc_init_error:
  "dc_init flds d = Inl e \<longleftrightarrow> e = TypeError \<and> (\<exists>k. (k, None) \<in> set flds \<and> \<not> dhas d k)"
  by (auto simp: dc_init_def list_all_iff)

text \<open>The three laws follow from the shape of \<open>from_dict\<close>.\<close>

lemma wire_object_dc:
  assumes "\<And>d. from = (\<lambda>d. bindR (dc_init flds d) (\<lambda>f. Inr (of_fields f)))"
    and "\<And>x. bindR (dc_init flds (to x)) (\<lambda>f. Inr (of_fields f)) = Inr x"
  shows "wire_object flds to from"
proof
  show "from (to x) = Inr x" for x using assms by simp
  show "from d = from d'" if "\<And>k. k \<in> fst ` set flds \<Longrightarrow> map_of d k = map_of d' k" for d d'
    using dc_init_cong [of flds d d', OF that] assms(1) by simp
  show "from d = Inl e \<longleftrightarrow> e = TypeError \<and> (\<exists>k. (k, None) \<in> set flds \<and> \<not> dhas d k)" for d e
    using dc_init_error [of flds d e] assms(1) by (auto simp: bindR_Inl_iff)
qed

section \<open>Identifiers and registrations\<close>

text \<open>\<open>hex\<close> is \<open>uuid4().hex[:12]\<close> in this run.\<close>

definition new_id :: "string \<Rightarrow> string \<Rightarrow> string" where
  "new_id p hex = p @ ''-'' @ hex"

definition CONTRACT_STATUSES :: "string list" where
  "CONTRACT_STATUSES =
     [''PROPOSED'', ''NEGOTIATING'', ''SIGNED'', ''ACTIVE'', ''ACCEPTED'', ''EXECUTING'', ''DELIVERED'',
      ''VERIFYING'', ''VERIFIED'', ''ACCEPTED_FINAL'', ''REJECTED'', ''FAILED'', ''CANCELED'', ''EXPIRED'',
      ''VERIFICATION_FAILED'', ''DISPUTED'', ''CLOSED'']"

record registration =
  rg_agent_id :: json
  rg_name :: json
  rg_agent_card_url :: json
  rg_public_key :: json
  rg_capabilities :: json
  rg_metadata :: json
  rg_signature :: json

text \<open>An absent signature is left out.\<close>

definition registration_to_dict :: "registration \<Rightarrow> dict" where
  "registration_to_dict x =
     [(''agent_id'', rg_agent_id x), (''name'', rg_name x), (''agent_card_url'', rg_agent_card_url x),
      (''public_key'', rg_public_key x), (''capabilities'', rg_capabilities x), (''metadata'', rg_metadata x)] @
     (if rg_signature x = JNull then [] else [(''signature'', rg_signature x)])"

record summary =
  sm_agent_id :: json
  sm_name :: json
  sm_agent_card_url :: json
  sm_endpoint :: json
  sm_online :: bool
  sm_public_key :: json
  sm_capabilities :: "json list"
  sm_raw :: dict

definition summary_from_dict :: "dict \<Rightarrow> summary res" where
  "summary_from_dict data =
     bindR (ditem data ''agent_id'') (\<lambda>aid.
     bindR (py_iter (py_or (dget data ''capabilities'') (JArr []))) (\<lambda>caps.
       Inr \<lparr>sm_agent_id = aid,
            sm_name = py_or (dget data ''name'') aid,
            sm_agent_card_url = py_or (dget data ''agent_card_url'') (JStr []),
            sm_endpoint = dget data ''endpoint'',
            sm_online = truthy (dget data ''online''),
            sm_public_key = dget data ''public_key'',
            sm_capabilities = caps,
            sm_raw = data\<rparr>))"

section \<open>Contracts\<close>

record contract =
  tc_contract_id :: json
  tc_requester :: json
  tc_executor :: json
  tc_capability :: json
  tc_objective :: json
  tc_constraints :: json
  tc_deliverables :: json
  tc_verification :: json
  tc_created_at :: json
  tc_status :: json
  tc_expires_at :: json
  tc_economic_terms :: json
  tc_metadata :: json
  tc_proposal_id :: json
  tc_proposal_revision :: json
  tc_proposal_hash :: json
  tc_side_effects :: json
  tc_requester_signature :: json
  tc_executor_signature :: json
  tc_schema_version :: json
  tc_canonicalization :: json
  tc_signature_suite :: json
  tc_requester_key_id :: json
  tc_executor_key_id :: json
  tc_verification_policy_hash :: json
  tc_contract_hash :: json

definition CONTRACT_FIELDS :: "dc_fields" where
  "CONTRACT_FIELDS =
     [(''contract_id'', None),
      (''requester'', None),
      (''executor'', None),
      (''capability'', None),
      (''objective'', None),
      (''constraints'', None),
      (''deliverables'', None),
      (''verification'', None),
      (''created_at'', None),
      (''status'', Some (JStr ''SIGNED'')),
      (''expires_at'', Some JNull),
      (''economic_terms'', Some JNull),
      (''metadata'', Some (JObj [])),
      (''proposal_id'', Some JNull),
      (''proposal_revision'', Some JNull),
      (''proposal_hash'', Some JNull),
      (''side_effects'', Some (JStr ''NONE'')),
      (''requester_signature'', Some JNull),
      (''executor_signature'', Some JNull),
      (''schema_version'', Some (JStr ''0.2'')),
      (''canonicalization'', Some (JStr ''agent-json-v0.1'')),
      (''signature_suite'', Some (JStr ''ed25519-sha256-v1'')),
      (''requester_key_id'', Some JNull),
      (''executor_key_id'', Some JNull),
      (''verification_policy_hash'', Some JNull),
      (''contract_hash'', Some JNull)]"

definition contract_of_fields :: "dict \<Rightarrow> contract" where
  "contract_of_fields d = \<lparr>
     tc_contract_id = dget d ''contract_id'',
     tc_requester = dget d ''requester'',
     tc_executor = dget d ''executor'',
     tc_capability = dget d ''capability'',
     tc_objective = dget d ''objective'',
     tc_constraints = dget d ''constraints'',
     tc_deliverables = dget d ''deliverables'',
     tc_verification = dget d ''verification'',
     tc_created_at = dget d ''created_at'',
     tc_status = dget d ''status'',
     tc_expires_at = dget d ''expires_at'',
     tc_economic_terms = dget d ''economic_terms'',
     tc_metadata = dget d ''metadata'',
     tc_proposal_id = dget d ''proposal_id'',
     tc_proposal_revision = dget d ''proposal_revision'',
     tc_proposal_hash = dget d ''proposal_hash'',
     tc_side_effects = dget d ''side_effects'',
     tc_requester_signature = dget d ''requester_signature'',
     tc_executor_signature = dget d ''executor_signature'',
     tc_schema_version = dget d ''schema_version'',
     tc_canonicalization = dget d ''canonicalization'',
     tc_signature_suite = dget d ''signature_suite'',
     tc_requester_key_id = dget d ''requester_key_id'',
     tc_executor_key_id = dget d ''executor_key_id'',
     tc_verification_policy_hash = dget d ''verification_policy_hash'',
     tc_contract_hash = dget d ''contract_hash''\<rparr>"

definition contract_to_dict :: "contract \<Rightarrow> dict" where
  "contract_to_dict x =
     [(''contract_id'', tc_contract_id x),
      (''requester'', tc_requester x),
      (''executor'', tc_executor x),
      (''capability'', tc_capability x),
      (''objective'', tc_objective x),
      (''constraints'', tc_constraints x),
      (''deliverables'', tc_deliverables x),
      (''verification'', tc_verification x),
      (''created_at'', tc_created_at x),
      (''status'', tc_status x),
      (''expires_at'', tc_expires_at x),
      (''economic_terms'', tc_economic_terms x),
      (''metadata'', tc_metadata x),
      (''proposal_id'', tc_proposal_id x),
      (''proposal_revision'', tc_proposal_revision x),
      (''proposal_hash'', tc_proposal_hash x),
      (''side_effects'', tc_side_effects x),
      (''requester_signature'', tc_requester_signature x),
      (''executor_signature'', tc_executor_signature x),
      (''schema_version'', tc_schema_version x),
      (''canonicalization'', tc_canonicalization x),
      (''signature_suite'', tc_signature_suite x),
      (''requester_key_id'', tc_requester_key_id x),
      (''executor_key_id'', tc_executor_key_id x),
      (''verification_policy_hash'', tc_verification_policy_hash x),
      (''contract_hash'', tc_contract_hash x)]"

definition contract_from_dict :: "dict \<Rightarrow> contract res" where
  "contract_from_dict data = bindR (dc_init CONTRACT_FIELDS data) (\<lambda>f. Inr (contract_of_fields f))"

text \<open>
  \<open>policy_hash\<close> of a value that need not be a dictionary: a falsy value is the empty policy,
  \<open>.get\<close> on another value raises \<open>AttributeError\<close>.
\<close>

definition policy_value :: "json \<Rightarrow> dict res" where
  "policy_value v =
     (case v of
        JObj d \<Rightarrow> Inr d
      | _ \<Rightarrow> if truthy v then Inl AttributeError else Inr [])"

text \<open>\<open>hex\<close> and \<open>now\<close> are the fresh id and the formatted time of this call.\<close>

definition contract_create ::
    "prims \<Rightarrow> string \<Rightarrow> string \<Rightarrow> json \<Rightarrow> json \<Rightarrow> json \<Rightarrow> json \<Rightarrow> json \<Rightarrow> json \<Rightarrow> json \<Rightarrow> json \<Rightarrow> contract res" where
  "contract_create E hex now requester executor capability objective constraints deliverables verification metadata =
     (let verification = py_or verification (JObj [(''required'', JBool False)]) in
     bindR (py_iter (py_or constraints (JArr []))) (\<lambda>cs.
     bindR (py_iter (py_or deliverables (JArr []))) (\<lambda>ds.
     bindR (py_dict (py_or metadata (JObj []))) (\<lambda>md.
     bindR (policy_value verification) (\<lambda>policy.
     bindR (policy_hash E policy) (\<lambda>ph.
       contract_from_dict
         [(''contract_id'', JStr (new_id ''contract'' hex)),
          (''requester'', requester), (''executor'', executor), (''capability'', capability),
          (''objective'', objective), (''constraints'', JArr cs), (''deliverables'', JArr ds),
          (''verification'', verification), (''created_at'', JStr now), (''status'', JStr ''SIGNED''),
          (''metadata'', JObj md), (''verification_policy_hash'', JStr ph)]))))))"

interpretation contract: wire_object CONTRACT_FIELDS contract_to_dict contract_from_dict
  by (rule wire_object_dc [where of_fields = contract_of_fields])
    (simp_all add: fun_eq_iff contract_from_dict_def dc_init_def CONTRACT_FIELDS_def contract_to_dict_def
      contract_of_fields_def dc_value_def)

section \<open>Artifact manifests\<close>

record manifest =
  am_artifact_id :: json
  am_task_id :: json
  am_type :: json
  am_uri :: json
  am_sha256 :: json
  am_owner :: json
  am_revision :: json
  am_media_type :: json
  am_locations :: json
  am_inline :: json
  am_metadata :: json
  am_signature :: json
  am_local_path :: json

definition MANIFEST_FIELDS :: "dc_fields" where
  "MANIFEST_FIELDS =
     [(''artifact_id'', None),
      (''task_id'', None),
      (''type'', None),
      (''uri'', None),
      (''sha256'', None),
      (''owner'', Some JNull),
      (''revision'', Some (JInt 1)),
      (''media_type'', Some JNull),
      (''locations'', Some (JArr [])),
      (''inline'', Some JNull),
      (''metadata'', Some (JObj [])),
      (''signature'', Some JNull),
      (''local_path'', Some JNull)]"

definition manifest_of_fields :: "dict \<Rightarrow> manifest" where
  "manifest_of_fields d = \<lparr>
     am_artifact_id = dget d ''artifact_id'',
     am_task_id = dget d ''task_id'',
     am_type = dget d ''type'',
     am_uri = dget d ''uri'',
     am_sha256 = dget d ''sha256'',
     am_owner = dget d ''owner'',
     am_revision = dget d ''revision'',
     am_media_type = dget d ''media_type'',
     am_locations = dget d ''locations'',
     am_inline = dget d ''inline'',
     am_metadata = dget d ''metadata'',
     am_signature = dget d ''signature'',
     am_local_path = dget d ''local_path''\<rparr>"

definition manifest_to_dict :: "manifest \<Rightarrow> dict" where
  "manifest_to_dict x =
     [(''artifact_id'', am_artifact_id x),
      (''task_id'', am_task_id x),
      (''type'', am_type x),
      (''uri'', am_uri x),
      (''sha256'', am_sha256 x),
      (''owner'', am_owner x),
      (''revision'', am_revision x),
      (''media_type'', am_media_type x),
      (''locations'', am_locations x),
      (''inline'', am_inline x),
      (''metadata'', am_metadata x),
      (''signature'', am_signature x)]"

definition manifest_from_dict :: "dict \<Rightarrow> manifest res" where
  "manifest_from_dict data = bindR (dc_init MANIFEST_FIELDS data) (\<lambda>f. Inr (manifest_of_fields f))"

section \<open>Verification receipts\<close>

record receipt =
  vr_verification_id :: json
  vr_task_id :: json
  vr_artifact_id :: json
  vr_artifact_hash :: json
  vr_verifier :: json
  vr_result :: json
  vr_timestamp :: json
  vr_signature :: json
  vr_checks :: json
  vr_schema_version :: json
  vr_contract_id :: json
  vr_contract_hash :: json
  vr_artifact_manifest_hash :: json
  vr_verifier_key_id :: json
  vr_verification_policy_hash :: json
  vr_verification_method :: json
  vr_evidence_hashes :: json

definition RECEIPT_FIELDS :: "dc_fields" where
  "RECEIPT_FIELDS =
     [(''verification_id'', None),
      (''task_id'', None),
      (''artifact_id'', None),
      (''artifact_hash'', None),
      (''verifier'', None),
      (''result'', None),
      (''timestamp'', None),
      (''signature'', None),
      (''checks'', Some (JObj [])),
      (''schema_version'', Some (JStr ''0.2'')),
      (''contract_id'', Some JNull),
      (''contract_hash'', Some JNull),
      (''artifact_manifest_hash'', Some JNull),
      (''verifier_key_id'', Some JNull),
      (''verification_policy_hash'', Some JNull),
      (''verification_method'', Some JNull),
      (''evidence_hashes'', Some (JArr []))]"

definition receipt_of_fields :: "dict \<Rightarrow> receipt" where
  "receipt_of_fields d = \<lparr>
     vr_verification_id = dget d ''verification_id'',
     vr_task_id = dget d ''task_id'',
     vr_artifact_id = dget d ''artifact_id'',
     vr_artifact_hash = dget d ''artifact_hash'',
     vr_verifier = dget d ''verifier'',
     vr_result = dget d ''result'',
     vr_timestamp = dget d ''timestamp'',
     vr_signature = dget d ''signature'',
     vr_checks = dget d ''checks'',
     vr_schema_version = dget d ''schema_version'',
     vr_contract_id = dget d ''contract_id'',
     vr_contract_hash = dget d ''contract_hash'',
     vr_artifact_manifest_hash = dget d ''artifact_manifest_hash'',
     vr_verifier_key_id = dget d ''verifier_key_id'',
     vr_verification_policy_hash = dget d ''verification_policy_hash'',
     vr_verification_method = dget d ''verification_method'',
     vr_evidence_hashes = dget d ''evidence_hashes''\<rparr>"

definition receipt_to_dict :: "receipt \<Rightarrow> dict" where
  "receipt_to_dict x =
     [(''verification_id'', vr_verification_id x),
      (''task_id'', vr_task_id x),
      (''artifact_id'', vr_artifact_id x),
      (''artifact_hash'', vr_artifact_hash x),
      (''verifier'', vr_verifier x),
      (''result'', vr_result x),
      (''timestamp'', vr_timestamp x),
      (''signature'', vr_signature x),
      (''checks'', vr_checks x),
      (''schema_version'', vr_schema_version x),
      (''contract_id'', vr_contract_id x),
      (''contract_hash'', vr_contract_hash x),
      (''artifact_manifest_hash'', vr_artifact_manifest_hash x),
      (''verifier_key_id'', vr_verifier_key_id x),
      (''verification_policy_hash'', vr_verification_policy_hash x),
      (''verification_method'', vr_verification_method x),
      (''evidence_hashes'', vr_evidence_hashes x)]"

definition receipt_from_dict :: "dict \<Rightarrow> receipt res" where
  "receipt_from_dict data = bindR (dc_init RECEIPT_FIELDS data) (\<lambda>f. Inr (receipt_of_fields f))"

interpretation receipt: wire_object RECEIPT_FIELDS receipt_to_dict receipt_from_dict
  by (rule wire_object_dc [where of_fields = receipt_of_fields])
    (simp_all add: fun_eq_iff receipt_from_dict_def dc_init_def RECEIPT_FIELDS_def receipt_to_dict_def
      receipt_of_fields_def dc_value_def)

section \<open>Acceptances\<close>

record acceptance =
  ta_contract_id :: json
  ta_requester_agent_id :: json
  ta_result :: json
  ta_signature :: json
  ta_artifact_id :: json
  ta_artifact_manifest_hash :: json
  ta_verification_id :: json
  ta_timestamp :: json
  ta_schema_version :: json
  ta_requester_key_id :: json
  ta_contract_hash :: json

definition ACCEPTANCE_FIELDS :: "dc_fields" where
  "ACCEPTANCE_FIELDS =
     [(''contract_id'', None),
      (''requester_agent_id'', None),
      (''result'', None),
      (''signature'', None),
      (''artifact_id'', Some JNull),
      (''artifact_manifest_hash'', Some JNull),
      (''verification_id'', Some JNull),
      (''timestamp'', Some JNull),
      (''schema_version'', Some (JStr ''0.2'')),
      (''requester_key_id'', Some JNull),
      (''contract_hash'', Some JNull)]"

definition acceptance_of_fields :: "dict \<Rightarrow> acceptance" where
  "acceptance_of_fields d = \<lparr>
     ta_contract_id = dget d ''contract_id'',
     ta_requester_agent_id = dget d ''requester_agent_id'',
     ta_result = dget d ''result'',
     ta_signature = dget d ''signature'',
     ta_artifact_id = dget d ''artifact_id'',
     ta_artifact_manifest_hash = dget d ''artifact_manifest_hash'',
     ta_verification_id = dget d ''verification_id'',
     ta_timestamp = dget d ''timestamp'',
     ta_schema_version = dget d ''schema_version'',
     ta_requester_key_id = dget d ''requester_key_id'',
     ta_contract_hash = dget d ''contract_hash''\<rparr>"

definition acceptance_to_dict :: "acceptance \<Rightarrow> dict" where
  "acceptance_to_dict x =
     [(''contract_id'', ta_contract_id x),
      (''requester_agent_id'', ta_requester_agent_id x),
      (''result'', ta_result x),
      (''signature'', ta_signature x),
      (''artifact_id'', ta_artifact_id x),
      (''artifact_manifest_hash'', ta_artifact_manifest_hash x),
      (''verification_id'', ta_verification_id x),
      (''timestamp'', ta_timestamp x),
      (''schema_version'', ta_schema_version x),
      (''requester_key_id'', ta_requester_key_id x),
      (''contract_hash'', ta_contract_hash x)]"

definition acceptance_from_dict :: "dict \<Rightarrow> acceptance res" where
  "acceptance_from_dict data = bindR (dc_init ACCEPTANCE_FIELDS data) (\<lambda>f. Inr (acceptance_of_fields f))"

interpretation acceptance: wire_object ACCEPTANCE_FIELDS acceptance_to_dict acceptance_from_dict
  by (rule wire_object_dc [where of_fields = acceptance_of_fields])
    (simp_all add: fun_eq_iff acceptance_from_dict_def dc_init_def ACCEPTANCE_FIELDS_def acceptance_to_dict_def
      acceptance_of_fields_def dc_value_def)

section \<open>Lifecycle events\<close>

record event =
  le_event_id :: json
  le_contract_id :: json
  le_contract_hash :: json
  le_previous_event_hash :: json
  le_status :: json
  le_actor_agent_id :: json
  le_actor_key_id :: json
  le_timestamp :: json
  le_signature :: json
  le_artifact_hashes :: json
  le_schema_version :: json
  le_canonicalization :: json
  le_signature_suite :: json
  le_event_hash :: json

definition EVENT_FIELDS :: "dc_fields" where
  "EVENT_FIELDS =
     [(''event_id'', None),
      (''contract_id'', None),
      (''contract_hash'', None),
      (''previous_event_hash'', None),
      (''status'', None),
      (''actor_agent_id'', None),
      (''actor_key_id'', None),
      (''timestamp'', None),
      (''signature'', Some (JStr [])),
      (''artifact_hashes'', Some (JArr [])),
      (''schema_version'', Some (JStr ''0.2'')),
      (''canonicalization'', Some (JStr ''agent-json-v0.1'')),
      (''signature_suite'', Some (JStr ''ed25519-sha256-v1'')),
      (''event_hash'', Some JNull)]"

definition event_of_fields :: "dict \<Rightarrow> event" where
  "event_of_fields d = \<lparr>
     le_event_id = dget d ''event_id'',
     le_contract_id = dget d ''contract_id'',
     le_contract_hash = dget d ''contract_hash'',
     le_previous_event_hash = dget d ''previous_event_hash'',
     le_status = dget d ''status'',
     le_actor_agent_id = dget d ''actor_agent_id'',
     le_actor_key_id = dget d ''actor_key_id'',
     le_timestamp = dget d ''timestamp'',
     le_signature = dget d ''signature'',
     le_artifact_hashes = dget d ''artifact_hashes'',
     le_schema_version = dget d ''schema_version'',
     le_canonicalization = dget d ''canonicalization'',
     le_signature_suite = dget d ''signature_suite'',
     le_event_hash = dget d ''event_hash''\<rparr>"

definition event_to_dict :: "event \<Rightarrow> dict" where
  "event_to_dict x =
     [(''event_id'', le_event_id x),
      (''contract_id'', le_contract_id x),
      (''contract_hash'', le_contract_hash x),
      (''previous_event_hash'', le_previous_event_hash x),
      (''status'', le_status x),
      (''actor_agent_id'', le_actor_agent_id x),
      (''actor_key_id'', le_actor_key_id x),
      (''timestamp'', le_timestamp x),
      (''signature'', le_signature x),
      (''artifact_hashes'', le_artifact_hashes x),
      (''schema_version'', le_schema_version x),
      (''canonicalization'', le_canonicalization x),
      (''signature_suite'', le_signature_suite x),
      (''event_hash'', le_event_hash x)]"

definition event_from_dict :: "dict \<Rightarrow> event res" where
  "event_from_dict data = bindR (dc_init EVENT_FIELDS data) (\<lambda>f. Inr (event_of_fields f))"

interpretation event: wire_object EVENT_FIELDS event_to_dict event_from_dict
  by (rule wire_object_dc [where of_fields = event_of_fields])
    (simp_all add: fun_eq_iff event_from_dict_def dc_init_def EVENT_FIELDS_def event_to_dict_def
      event_of_fields_def dc_value_def)

end
