(* ===== verification/Handler.thy ===== *)
theory Handler
  imports Models
begin

text \<open>
  What a skill handler is given and returns (\<open>a2a_server.py\<close>: the payload dictionary and
  \<open>HandlerResult\<close>), and the reading of the data part of a message, which several handlers share.
\<close>

datatype artifact_item = Manifest manifest | Raw json

record handler_result =
  hr_artifacts :: "artifact_item list"
  hr_status :: string
  hr_error_code :: "string option"
  hr_message :: "string option"
  hr_metadata :: dict
  hr_contract :: "contract option"

text \<open>\<open>HandlerResult(metadata=...)\<close> and \<open>HandlerResult(status="failed", error_code=..., message=...)\<close>.\<close>

definition hr_completed :: "dict \<Rightarrow> handler_result" where
  "hr_completed md =
     \<lparr>hr_artifacts = [], hr_status = ''completed'', hr_error_code = None, hr_message = None,
      hr_metadata = md, hr_contract = None\<rparr>"

definition hr_failed :: "string \<Rightarrow> string option \<Rightarrow> dict \<Rightarrow> handler_result" where
  "hr_failed code message md =
     \<lparr>hr_artifacts = [], hr_status = ''failed'', hr_error_code = Some code, hr_message = message,
      hr_metadata = md, hr_contract = None\<rparr>"

text \<open>The payload of a handler; its \<open>identity\<close> entry is the server's own and not repeated.\<close>

record payload =
  pl_message :: dict
  pl_metadata :: dict
  pl_capability :: string
  pl_task_id :: string

text \<open>
  The first part of kind \<open>data\<close> whose data is a dictionary, or the empty dictionary. A part that is
  not a dictionary raises \<open>AttributeError\<close>.
\<close>

fun first_data_part :: "json list \<Rightarrow> dict res" where
  "first_data_part [] = Inr []"
| "first_data_part (part # parts) =
     bindR (obj_get part ''kind'') (\<lambda>kind.
     bindR (obj_get part ''data'') (\<lambda>data.
       case (kind = JStr ''data'', data) of
         (True, JObj d) \<Rightarrow> Inr d
       | _ \<Rightarrow> first_data_part parts))"

definition message_data :: "dict \<Rightarrow> dict res" where
  "message_data message =
     bindR (py_iter (py_or (dget message ''parts'') (JArr []))) first_data_part"

lemma hr_simps [simp]:
  "hr_status (hr_completed md) = ''completed''" "hr_status (hr_failed c m md) = ''failed''"
  "hr_error_code (hr_failed c m md) = Some c" "hr_metadata (hr_completed md) = md"
  "hr_completed md = hr_completed md' \<longleftrightarrow> md = md'" "hr_completed md \<noteq> hr_failed c m md'"
  "hr_failed c m md \<noteq> hr_completed md'"
  by (auto simp: hr_completed_def hr_failed_def)

text \<open>A message with one data part.\<close>

definition data_message :: "dict \<Rightarrow> dict" where
  "data_message d = [(''parts'', JArr [JObj [(''kind'', JStr ''data''), (''data'', JObj d)]])]"

lemma message_data_message [simp]: "message_data (data_message d) = Inr d"
  by (simp add: message_data_def data_message_def)

end
