(* ===== verification/Proposal.thy ===== *)
theory Proposal
  imports Models Identity Capability
begin

text \<open>
  Task proposals (\<open>proposal.py\<close>): creation, counter-proposals, reading a proposal off the wire,
  and the contract both parties sign. As in \<open>Models\<close> the fields hold values as they come.
  The argument \<open>hex\<close> is the random part of the id that the call generates.
\<close>

section \<open>The proposal\<close>

record proposal =
  tp_proposal_id :: json
  tp_revision :: json
  tp_requester :: json
  tp_target :: json
  tp_capability :: json
  tp_objective :: json
  tp_constraints :: json
  tp_deliverables :: json
  tp_verification :: json
  tp_side_effects :: json
  tp_expires_at :: json
  tp_idempotency_key :: json
  tp_signature :: json

definition PROPOSAL_FIELDS :: "dc_fields" where
  "PROPOSAL_FIELDS =
     [(''proposal_id'', None),
      (''revision'', None),
      (''requester'', None),
      (''target'', None),
      (''capability'', None),
      (''objective'', None),
      (''constraints'', Some (JArr [])),
      (''deliverables'', Some (JArr [])),
      (''verification'', Some (JObj [])),
      (''side_effects'', Some (JStr ''NONE'')),
      (''expires_at'', Some JNull),
      (''idempotency_key'', Some JNull),
      (''signature'', Some JNull)]"

definition proposal_of_fields :: "dict \<Rightarrow> proposal" where
  "proposal_of_fields d = \<lparr>
     tp_proposal_id = dget d ''proposal_id'',
     tp_revision = dget d ''revision'',
     tp_requester = dget d ''requester'',
     tp_target = dget d ''target'',
     tp_capability = dget d ''capability'',
     tp_objective = dget d ''objective'',
     tp_constraints = dget d ''constraints'',
     tp_deliverables = dget d ''deliverables'',
     tp_verification = dget d ''verification'',
     tp_side_effects = dget d ''side_effects'',
     tp_expires_at = dget d ''expires_at'',
     tp_idempotency_key = dget d ''idempotency_key'',
     tp_signature = dget d ''signature''\<rparr>"

definition proposal_to_dict :: "proposal \<Rightarrow> dict" where
  "proposal_to_dict x =
     [(''proposal_id'', tp_proposal_id x),
      (''revision'', tp_revision x),
      (''requester'', tp_requester x),
      (''target'', tp_target x),
      (''capability'', tp_capability x),
      (''objective'', tp_objective x),
      (''constraints'', tp_constraints x),
      (''deliverables'', tp_deliverables x),
      (''verification'', tp_verification x),
      (''side_effects'', tp_side_effects x),
      (''expires_at'', tp_expires_at x),
      (''idempotency_key'', tp_idempotency_key x),
      (''signature'', tp_signature x)]"

text \<open>The constructor.\<close>

definition proposal_init :: "dict \<Rightarrow> proposal res" where
  "proposal_init data = bindR (dc_init PROPOSAL_FIELDS data) (\<lambda>f. Inr (proposal_of_fields f))"

definition proposal_create ::
    "prims \<Rightarrow> string \<Rightarrow> json \<Rightarrow> json \<Rightarrow> json \<Rightarrow> json \<Rightarrow> json \<Rightarrow> json \<Rightarrow> json \<Rightarrow> json \<Rightarrow> json \<Rightarrow> json \<Rightarrow> proposal res" where
  "proposal_create E hex requester target capability_id objective capability_version
       constraints deliverables verification side_effects idempotency_key =
     bindR (py_dict (py_or verification (JObj [(''required'', JBool False)]))) (\<lambda>verification.
     bindR (if truthy (dget verification ''required'') then validate_verification E verification target
            else Inr ()) (\<lambda>_.
     bindR (py_iter (py_or constraints (JArr []))) (\<lambda>cs.
     bindR (py_iter (py_or deliverables (JArr []))) (\<lambda>ds.
       proposal_init
         [(''proposal_id'', JStr (new_id ''proposal'' hex)), (''revision'', JInt 1),
          (''requester'', requester), (''target'', target),
          (''capability'', JObj [(''id'', capability_id), (''version'', capability_version)]),
          (''objective'', objective), (''constraints'', JArr cs), (''deliverables'', JArr ds),
          (''verification'', JObj verification), (''side_effects'', side_effects),
          (''idempotency_key'', idempotency_key)]))))"

definition proposal_counter :: "prims \<Rightarrow> proposal \<Rightarrow> dict \<Rightarrow> proposal res" where
  "proposal_counter E p changes =
     (let data = dupdate (proposal_to_dict p) changes in
      bindR (py_succ E (tp_revision p)) (\<lambda>rev.
        let data = dset data ''revision'' rev;
            data = dset data ''signature'' JNull
        in proposal_init data))"

definition proposal_from_dict :: "string \<Rightarrow> dict \<Rightarrow> proposal res" where
  "proposal_from_dict hex data =
     (let payload = (case dget data ''capability'' of
            JStr cap \<Rightarrow> dset data ''capability''
              (JObj [(''id'', JStr cap), (''version'', py_or (dget data ''capability_version'') (JStr ''1.0.0''))])
          | _ \<Rightarrow> data);
          payload = dsetdefault payload ''proposal_id'' (JStr (new_id ''proposal'' hex));
          payload = dsetdefault payload ''revision'' (JInt 1);
          payload = dsetdefault payload ''requester'' (JStr []);
          payload = dsetdefault payload ''target'' (JStr []);
          payload = dsetdefault payload ''capability'' (JObj [(''id'', JStr []), (''version'', JStr ''1.0.0'')]);
          payload = dsetdefault payload ''objective'' (JStr [])
      in proposal_init payload)"

section \<open>The contract\<close>

text \<open>
  The assignments to the contract's fields and the three calls on it, in the order of the code:
  each signature is made over the contract as it then is.
\<close>

definition sign_contract_from_proposal ::
    "prims \<Rightarrow> string \<Rightarrow> string \<Rightarrow> proposal \<Rightarrow> identity \<Rightarrow> identity \<Rightarrow> contract res" where
  "sign_contract_from_proposal E hex now p requester executor =
     bindR (obj_get (tp_verification p) ''required'') (\<lambda>required.
     bindR (policy_value (tp_verification p)) (\<lambda>verification.
     bindR (if truthy required then validate_verification E verification (tp_target p) else Inr ()) (\<lambda>_.
     bindR (obj_item (tp_capability p) ''id'') (\<lambda>cap.
     bindR (contract_create E hex now (tp_requester p) (tp_target p) cap (tp_objective p)
              (tp_constraints p) (tp_deliverables p) (tp_verification p)
              (JObj [(''proposal_id'', tp_proposal_id p)])) (\<lambda>c.
     bindR (object_hash E (proposal_to_dict p)) (\<lambda>ph.
     bindR (policy_hash E verification) (\<lambda>vh.
     let c = c\<lparr>tc_proposal_id := tp_proposal_id p,
               tc_proposal_revision := tp_revision p,
               tc_proposal_hash := JStr ph,
               tc_side_effects := tp_side_effects p,
               tc_status := JStr ''SIGNED'',
               tc_requester_key_id := JStr (i_key_id requester),
               tc_executor_key_id := JStr (i_key_id executor),
               tc_verification_policy_hash := JStr vh\<rparr> in
     bindR (sign_object E requester (contract_to_dict c)) (\<lambda>rs.
     let c = c\<lparr>tc_requester_signature := JStr rs\<rparr> in
     bindR (sign_object E executor (contract_to_dict c)) (\<lambda>es.
     let c = c\<lparr>tc_executor_signature := JStr es\<rparr> in
     bindR (object_hash E (contract_to_dict c)) (\<lambda>ch.
       Inr (c\<lparr>tc_contract_hash := JStr ch\<rparr>)))))))))))"

section \<open>Facts\<close>

lemmas proposal_fields = PROPOSAL_FIELDS_def proposal_of_fields_def dc_value_def dc_init_def

lemma proposal_init_to_dict: "proposal_init (proposal_to_dict p) = Inr p"
  by (simp add: proposal_init_def proposal_fields proposal_to_dict_def)

text \<open>Reading a proposal cannot fail: every field without default is filled in.\<close>

lemma proposal_init_total:
  assumes "list_all (dhas d) [''proposal_id'', ''revision'', ''requester'', ''target'', ''capability'', ''objective'']"
  shows "\<exists>p. proposal_init d = Inr p"
  using assms by (simp add: proposal_init_def dc_init_def PROPOSAL_FIELDS_def)

lemma dhas_dsetdefault [simp]: "dhas (dsetdefault d k v) k' \<longleftrightarrow> k' = k \<or> dhas d k'"
  by (auto simp: dsetdefault_def)

lemma proposal_from_dict_total: "\<exists>p. proposal_from_dict hex d = Inr p"
  unfolding proposal_from_dict_def Let_def by (rule proposal_init_total) simp

lemma dhas_proposal_to_dict:
  "list_all (dhas (proposal_to_dict p)) (map fst PROPOSAL_FIELDS)"
  by (simp add: proposal_to_dict_def PROPOSAL_FIELDS_def)

lemma proposal_from_to:
  assumes "\<not> is_str (tp_capability p)"
  shows "proposal_from_dict hex (proposal_to_dict p) = Inr p"
proof -
  have cap: "dget (proposal_to_dict p) ''capability'' = tp_capability p"
    by (simp add: proposal_to_dict_def)
  have d: "dsetdefault (proposal_to_dict p) k v = proposal_to_dict p" if "k \<in> fst ` set PROPOSAL_FIELDS" for k v
    using dhas_proposal_to_dict [of p] that by (auto simp: dsetdefault_def list_all_iff)
  show ?thesis
    using assms by (cases "tp_capability p")
      (simp_all add: proposal_from_dict_def cap d Let_def proposal_init_to_dict PROPOSAL_FIELDS_def)
qed

section \<open>What both signatures cover\<close>

text \<open>The signed part of a contract, without its two signatures and its hash.\<close>

lemma contract_unsigned_update:
  "unsigned_payload (contract_to_dict (c\<lparr>tc_requester_signature := a\<rparr>)) = unsigned_payload (contract_to_dict c)"
  "unsigned_payload (contract_to_dict (c\<lparr>tc_executor_signature := a\<rparr>)) = unsigned_payload (contract_to_dict c)"
  "unsigned_payload (contract_to_dict (c\<lparr>tc_contract_hash := a\<rparr>)) = unsigned_payload (contract_to_dict c)"
  by (simp_all add: contract_to_dict_def unsigned_payload_def omit_fields_defs)

text \<open>
  The contract is the doubly signed form of a draft: the draft carries the fields of the
  proposal, and the contract differs from it in the two signatures and the hash only.
\<close>

definition signed_draft ::
    "prims \<Rightarrow> identity \<Rightarrow> identity \<Rightarrow> contract \<Rightarrow> contract \<Rightarrow> bool" where
  "signed_draft E requester executor draft c \<longleftrightarrow>
     (\<exists>rs es ch. c = draft\<lparr>tc_requester_signature := JStr rs, tc_executor_signature := JStr es,
                           tc_contract_hash := JStr ch\<rparr> \<and>
        verify_object E (public_key requester) (contract_to_dict c) rs = Inr True \<and>
        verify_object E (public_key executor) (contract_to_dict c) es = Inr True \<and>
        object_hash E (contract_to_dict c) = Inr ch)"

definition follows_proposal :: "prims \<Rightarrow> proposal \<Rightarrow> contract \<Rightarrow> bool" where
  "follows_proposal E p c \<longleftrightarrow>
     (\<exists>ph. object_hash E (proposal_to_dict p) = Inr ph \<and> tc_proposal_hash c = JStr ph) \<and>
     tc_proposal_id c = tp_proposal_id p \<and> tc_proposal_revision c = tp_revision p \<and>
     tc_requester c = tp_requester p \<and> tc_executor c = tp_target p \<and>
     tc_objective c = tp_objective p \<and> tc_side_effects c = tp_side_effects p \<and>
     tc_verification c = py_or (tp_verification p) (JObj [(''required'', JBool False)]) \<and>
     obj_item (tp_capability p) ''id'' = Inr (tc_capability c) \<and>
     (\<exists>V h. policy_value (tp_verification p) = Inr V \<and> policy_hash E V = Inr h \<and>
        tc_verification_policy_hash c = JStr h)"

lemma contract_from_dict_eq:
  "contract_from_dict d = (if list_all (\<lambda>f. snd f \<noteq> None \<or> dhas d (fst f)) CONTRACT_FIELDS
     then Inr (contract_of_fields (map (\<lambda>f. (fst f, dc_value d f)) CONTRACT_FIELDS)) else Inl TypeError)"
  by (simp add: contract_from_dict_def dc_init_def)

lemma contract_create_fields:
  assumes "contract_create E hex now r x cap obj cs ds V md = Inr c"
  shows "tc_requester c = r \<and> tc_executor c = x \<and> tc_capability c = cap \<and> tc_objective c = obj \<and>
    tc_verification c = py_or V (JObj [(''required'', JBool False)]) \<and>
    tc_contract_id c = JStr (new_id ''contract'' hex) \<and>
    tc_requester_signature c = JNull \<and> tc_executor_signature c = JNull \<and> tc_contract_hash c = JNull"
  using assms
  by (auto simp: contract_create_def contract_from_dict_eq CONTRACT_FIELDS_def contract_of_fields_def
      dc_value_def Let_def)

lemma sign_contract_draft:
  assumes "ed25519_ok E" "identity_ok E r" "identity_ok E x"
    and "sign_contract_from_proposal E hex now p r x = Inr c"
  shows "\<exists>draft. signed_draft E r x draft c \<and> follows_proposal E p draft"
proof -
  from assms(4) obtain verification cap c0 ph vh rs es ch
    where v: "policy_value (tp_verification p) = Inr verification"
      and cap: "obj_item (tp_capability p) ''id'' = Inr cap"
      and c0: "contract_create E hex now (tp_requester p) (tp_target p) cap (tp_objective p)
              (tp_constraints p) (tp_deliverables p) (tp_verification p)
              (JObj [(''proposal_id'', tp_proposal_id p)]) = Inr c0"
      and ph: "object_hash E (proposal_to_dict p) = Inr ph"
      and vh: "policy_hash E verification = Inr vh"
      and draft: "\<exists>draft. draft = c0\<lparr>tc_proposal_id := tp_proposal_id p,
               tc_proposal_revision := tp_revision p, tc_proposal_hash := JStr ph,
               tc_side_effects := tp_side_effects p, tc_status := JStr ''SIGNED'',
               tc_requester_key_id := JStr (i_key_id r), tc_executor_key_id := JStr (i_key_id x),
               tc_verification_policy_hash := JStr vh\<rparr> \<and>
             sign_object E r (contract_to_dict draft) = Inr rs \<and>
             sign_object E x (contract_to_dict (draft\<lparr>tc_requester_signature := JStr rs\<rparr>)) = Inr es \<and>
             object_hash E (contract_to_dict (draft\<lparr>tc_requester_signature := JStr rs, tc_executor_signature := JStr es\<rparr>)) = Inr ch \<and>
             c = draft\<lparr>tc_requester_signature := JStr rs, tc_executor_signature := JStr es,
                       tc_contract_hash := JStr ch\<rparr>"
    unfolding sign_contract_from_proposal_def Let_def by (auto elim!: bindR_InrE)
  then obtain draft where d: "draft = c0\<lparr>tc_proposal_id := tp_proposal_id p,
               tc_proposal_revision := tp_revision p, tc_proposal_hash := JStr ph,
               tc_side_effects := tp_side_effects p, tc_status := JStr ''SIGNED'',
               tc_requester_key_id := JStr (i_key_id r), tc_executor_key_id := JStr (i_key_id x),
               tc_verification_policy_hash := JStr vh\<rparr>"
    and rs: "sign_object E r (contract_to_dict draft) = Inr rs"
    and es: "sign_object E x (contract_to_dict (draft\<lparr>tc_requester_signature := JStr rs\<rparr>)) = Inr es"
    and ch: "object_hash E (contract_to_dict (draft\<lparr>tc_requester_signature := JStr rs, tc_executor_signature := JStr es\<rparr>)) = Inr ch"
    and c: "c = draft\<lparr>tc_requester_signature := JStr rs, tc_executor_signature := JStr es,
                       tc_contract_hash := JStr ch\<rparr>"
    by blast
  have un: "unsigned_payload (contract_to_dict c) = unsigned_payload (contract_to_dict draft)"
    unfolding c by (simp only: contract_unsigned_update)
  have "verify_object E (public_key r) (contract_to_dict c) rs = Inr True"
    using sign_object_verifies [OF assms(1,2) rs] verify_object_unsigned [OF un] by simp
  moreover have "verify_object E (public_key x) (contract_to_dict c) es = Inr True"
    using sign_object_verifies [OF assms(1,3) es]
      verify_object_unsigned [OF trans [OF un contract_unsigned_update(1) [symmetric]]] by metis
  moreover have "object_hash E (contract_to_dict c) = Inr ch"
    using ch unfolding c by (simp add: object_hash_def contract_unsigned_update)
  moreover have "follows_proposal E p draft"
    using contract_create_fields [OF c0] v cap ph vh unfolding d follows_proposal_def by auto
  ultimately show ?thesis unfolding signed_draft_def c by blast
qed

section \<open>A valid proposal can be signed\<close>

text \<open>
  What a requester must put into a proposal so that both can sign it; \<open>proposal_fit\<close> leaves out the
  validation of the policy.
\<close>

definition proposal_fit :: "prims \<Rightarrow> proposal \<Rightarrow> bool" where
  "proposal_fit E p \<longleftrightarrow> finite_json (JObj (proposal_to_dict p)) \<and>
     (\<exists>d cap. tp_capability p = JObj d \<and> ditem d ''id'' = Inr cap) \<and>
     (\<exists>cs. py_iter (py_or (tp_constraints p) (JArr [])) = Inr cs \<and> list_all finite_json cs) \<and>
     (\<exists>ds. py_iter (py_or (tp_deliverables p) (JArr [])) = Inr ds \<and> list_all finite_json ds) \<and>
     (\<exists>V h. tp_verification p = JObj V \<and> policy_hash E V = Inr h)"

definition signable :: "prims \<Rightarrow> proposal \<Rightarrow> bool" where
  "signable E p \<longleftrightarrow> proposal_fit E p \<and>
     (\<exists>V. tp_verification p = JObj V \<and>
        (truthy (dget V ''required'') \<longrightarrow> validate_verification E V (tp_target p) = Inr ()))"

lemma ditem_finite: "ditem d k = Inr v \<Longrightarrow> finite_json (JObj d) \<Longrightarrow> finite_json v"
  by (auto simp: ditem_def list_all_iff split: option.splits dest: map_of_SomeD)

lemma contract_create_total:
  assumes "py_iter (py_or cs (JArr [])) = Inr cs'" "py_iter (py_or ds (JArr [])) = Inr ds'"
    and "policy_value (py_or V (JObj [(''required'', JBool False)])) = Inr W" "policy_hash E W = Inr h"
    and "list_all finite_json cs'" "list_all finite_json ds'"
    and "finite_json r" "finite_json x" "finite_json cap" "finite_json obj" "finite_json V" "finite_json (JObj md)"
  shows "\<exists>c. contract_create E hex now r x cap obj cs ds V (JObj md) = Inr c \<and> finite_json (JObj (contract_to_dict c))"
  using assms
  by (auto simp: contract_create_def contract_from_dict_eq CONTRACT_FIELDS_def contract_of_fields_def
      contract_to_dict_def dc_value_def py_or_def Let_def)

lemma fit_contract:
  assumes "proposal_fit E p" "finite_json x" "finite_json (JObj md)"
  shows "\<exists>d cap V vh c. tp_capability p = JObj d \<and> ditem d ''id'' = Inr cap \<and>
    tp_verification p = JObj V \<and> policy_hash E V = Inr vh \<and>
    finite_json (tp_objective p) \<and> finite_json (tp_proposal_id p) \<and> finite_json (tp_revision p) \<and>
    finite_json (tp_side_effects p) \<and> finite_json (JObj (proposal_to_dict p)) \<and>
    contract_create E hex now (tp_requester p) x cap (tp_objective p) (tp_constraints p)
      (tp_deliverables p) (JObj V) (JObj md) = Inr c \<and> finite_json (JObj (contract_to_dict c))"
proof -
  from assms(1) obtain d cap cs ds V vh where
    fin: "finite_json (JObj (proposal_to_dict p))" and
    cap: "tp_capability p = JObj d" "ditem d ''id'' = Inr cap" and
    cs: "py_iter (py_or (tp_constraints p) (JArr [])) = Inr cs" "list_all finite_json cs" and
    ds: "py_iter (py_or (tp_deliverables p) (JArr [])) = Inr ds" "list_all finite_json ds" and
    V: "tp_verification p = JObj V" "policy_hash E V = Inr vh"
    by (auto simp: proposal_fit_def)
  have fields: "finite_json (tp_requester p)" "finite_json (tp_objective p)" "finite_json (tp_verification p)"
    "finite_json (tp_proposal_id p)" "finite_json (tp_revision p)" "finite_json (tp_side_effects p)" "finite_json (JObj d)"
    using fin cap by (simp_all add: proposal_to_dict_def)
  have "\<exists>W h. policy_value (py_or (JObj V) (JObj [(''required'', JBool False)])) = Inr W \<and> policy_hash E W = Inr h"
    using V(2) by (cases "V = []") (auto simp: policy_value_def policy_hash_def canonical_policy_def)
  then obtain W h where W: "policy_value (py_or (JObj V) (JObj [(''required'', JBool False)])) = Inr W"
    "policy_hash E W = Inr h" by blast
  have "finite_json (JObj V)" using fields(3) V(1) by simp
  from contract_create_total [OF cs(1) ds(1) W cs(2) ds(2) fields(1) assms(2) ditem_finite [OF cap(2) fields(7)]
        fields(2) this assms(3), of hex now]
  show ?thesis using cap V fields fin by blast
qed

lemma finite_contract_update [simp]:
  assumes "finite_json (JObj (contract_to_dict c))"
  shows "finite_json (JObj (contract_to_dict (c\<lparr>tc_requester_signature := JStr s\<rparr>)))"
    "finite_json (JObj (contract_to_dict (c\<lparr>tc_executor_signature := JStr s\<rparr>)))"
  using assms by (simp_all add: contract_to_dict_def)

lemma signable_signed:
  assumes "signable E p" "identity_ok E r" "identity_ok E x"
  shows "\<exists>c. sign_contract_from_proposal E hex now p r x = Inr c"
proof -
  obtain d cap cs ds V vh c0 where p: "tp_capability p = JObj d" "ditem d ''id'' = Inr cap"
      "tp_verification p = JObj V" "policy_hash E V = Inr vh"
    and fields: "finite_json (tp_objective p)" "finite_json (tp_proposal_id p)" "finite_json (tp_revision p)"
      "finite_json (tp_side_effects p)" "finite_json (JObj (proposal_to_dict p))"
    and c0: "contract_create E hex now (tp_requester p) (tp_target p) cap (tp_objective p)
       (tp_constraints p) (tp_deliverables p) (JObj V) (JObj [(''proposal_id'', tp_proposal_id p)]) = Inr c0"
      "finite_json (JObj (contract_to_dict c0))"
  proof -
    have pf: "proposal_fit E p" and t: "finite_json (tp_target p)" "finite_json (tp_proposal_id p)"
      using assms(1) by (simp_all add: signable_def proposal_fit_def proposal_to_dict_def)
    from t(2) have md: "finite_json (JObj [(''proposal_id'', tp_proposal_id p)])" by simp
    from fit_contract [OF pf t(1) md, of hex now] that show ?thesis by metis
  qed
  obtain ph where ph: "object_hash E (proposal_to_dict p) = Inr ph"
    using object_hash_total [OF fields(5)] by blast
  from assms(1) p(3) have V: "truthy (dget V ''required'') \<longrightarrow> validate_verification E V (tp_target p) = Inr ()"
    by (auto simp: signable_def)
  define draft where "draft = c0\<lparr>tc_proposal_id := tp_proposal_id p,
     tc_proposal_revision := tp_revision p, tc_proposal_hash := JStr ph,
     tc_side_effects := tp_side_effects p, tc_status := JStr ''SIGNED'',
     tc_requester_key_id := JStr (i_key_id r), tc_executor_key_id := JStr (i_key_id x),
     tc_verification_policy_hash := JStr vh\<rparr>"
  have fd: "finite_json (JObj (contract_to_dict draft))"
    using c0(2) fields by (simp add: draft_def contract_to_dict_def)
  obtain rs where rs: "sign_object E r (contract_to_dict draft) = Inr rs"
    using sign_object_total' [OF assms(2) fd] by blast
  obtain es where es: "sign_object E x (contract_to_dict (draft\<lparr>tc_requester_signature := JStr rs\<rparr>)) = Inr es"
    using sign_object_total' [OF assms(3) finite_contract_update(1) [OF fd]] by blast
  obtain ch where ch: "object_hash E (contract_to_dict
      (draft\<lparr>tc_requester_signature := JStr rs, tc_executor_signature := JStr es\<rparr>)) = Inr ch"
    using object_hash_total [OF finite_contract_update(2) [OF finite_contract_update(1) [OF fd]]] by blast
  show ?thesis
    using V p c0(1) ph rs es ch
    by (simp add: sign_contract_from_proposal_def policy_value_def draft_def Let_def)
qed

section \<open>A concrete proposal\<close>

definition demo_identity2 :: identity where
  "demo_identity2 = generate demo_prims (demo_fresh\<lparr>fr_sk := demo_key2, fr_kid := ''3''\<rparr>) ''worker''"

lemma demo_identity2_ok [simp]: "identity_ok demo_prims demo_identity2"
  by (simp add: demo_identity2_def generate_ok fresh_ok_def demo_fresh_def)

definition demo_proposal :: proposal where
  "demo_proposal = proposal_of_fields
     [(''proposal_id'', JStr ''p-1''), (''revision'', JInt 1), (''requester'', JStr ''agent''),
      (''target'', JStr ''worker''), (''capability'', JObj [(''id'', JStr ''report''), (''version'', JStr ''1.0.0'')]),
      (''objective'', JStr ''o''), (''constraints'', JArr []), (''deliverables'', JArr []),
      (''verification'', JObj [(''required'', JBool False)]), (''side_effects'', JStr ''NONE'')]"

lemma demo_proposal_signable: "signable demo_prims demo_proposal"
  using canonical_json_emit [of "JObj [(''policy'', JStr ''NONE''), (''required'', JBool False), (''verifiers'', JArr []),
     (''required_passes'', JInt 0), (''acceptance'', JArr [])]" demo_prims]
  by (auto simp: signable_def proposal_fit_def demo_proposal_def proposal_of_fields_def proposal_to_dict_def policy_hash_def
      canonical_policy_def)

section \<open>Properties\<close>



text \<open>
  A proposal that is well-formed and whose policy passes validation can always be signed.
\<close>

theorem signable_proposal_is_signed:
  assumes "signable E p" "identity_ok E r" "identity_ok E x"
  shows "\<exists>c. sign_contract_from_proposal E hex now p r x = Inr c"
  using assms by (rule signable_signed)

lemma signable_proposal_is_signed_witness:
  "\<exists>c. sign_contract_from_proposal demo_prims ''h'' ''now'' demo_proposal demo_identity demo_identity2 = Inr c"
  by (rule signable_proposal_is_signed [OF demo_proposal_signable demo_identity_ok demo_identity2_ok])

text \<open>
  A counter-proposal is a new, unsigned revision: it carries the next revision number and the
  changed fields, and its hash differs from the hash of the proposal it answers, so a contract
  that carries one of the hashes cannot be presented for the other revision (unless SHA-256
  collides).
\<close>

theorem counter_is_new_revision:
  assumes "float_repr_ok E" "proposal_counter E p changes = Inr q" "tp_revision p = JInt n"
    and "wf_json (JObj (proposal_to_dict p))" "wf_json (JObj (proposal_to_dict q))"
  shows "tp_revision q = JInt (n + 1) \<and> tp_signature q = JNull \<and>
    (\<forall>h. object_hash E (proposal_to_dict p) = Inr h \<and> object_hash E (proposal_to_dict q) = Inr h \<longrightarrow>
       sha256_collision E (proposal_to_dict p) (proposal_to_dict q))"
proof -
  let ?d = "dset (dset (dupdate (proposal_to_dict p) changes) ''revision'' (JInt (n + 1))) ''signature'' JNull"
  from assms(2,3) have "proposal_init ?d = Inr q" by (simp add: proposal_counter_def Let_def)
  then have q: "tp_revision q = JInt (n + 1)" "tp_signature q = JNull"
  proof -
    have "map_of ?d ''revision'' = Some (JInt (n + 1))" "map_of ?d ''signature'' = Some JNull"
      by (simp_all add: dset_def update_conv)
    with \<open>proposal_init ?d = Inr q\<close> show "tp_revision q = JInt (n + 1)" "tp_signature q = JNull"
      by (auto simp: proposal_init_def proposal_fields split: if_splits)
  qed
  have "sha256_collision E (proposal_to_dict p) (proposal_to_dict q)"
    if h: "object_hash E (proposal_to_dict p) = Inr h" "object_hash E (proposal_to_dict q) = Inr h" for h
  proof -
    have "canon (dget (proposal_to_dict q) ''revision'') \<noteq> canon (dget (proposal_to_dict p) ''revision'')"
      using q assms(3) by (simp add: proposal_to_dict_def)
    moreover have "''revision'' \<notin> set HASH_OMIT_FIELDS" by (simp add: omit_fields_defs)
    ultimately show ?thesis using object_hash_binds [OF assms(1,4,5) h] by blast
  qed
  with q show ?thesis by blast
qed

lemma counter_is_new_revision_witness:
  "\<exists>q. proposal_counter demo_prims demo_proposal [(''objective'', JStr ''better'')] = Inr q \<and>
     tp_revision q = JInt 2 \<and> tp_signature q = JNull"
proof -
  have d: "proposal_counter demo_prims demo_proposal [(''objective'', JStr ''better'')] =
     Inr (demo_proposal\<lparr>tp_objective := JStr ''better'', tp_revision := JInt 2\<rparr>)"
    by (simp add: proposal_counter_def demo_proposal_def proposal_of_fields_def proposal_to_dict_def
        dupdate_def dset_def proposal_init_def dc_init_def dc_value_def PROPOSAL_FIELDS_def)
  have "tp_revision demo_proposal = JInt 1" "wf_json (JObj (proposal_to_dict demo_proposal))"
    "wf_json (JObj (proposal_to_dict (demo_proposal\<lparr>tp_objective := JStr ''better'', tp_revision := JInt 2\<rparr>)))"
    by (simp_all add: demo_proposal_def proposal_of_fields_def proposal_to_dict_def)
  from counter_is_new_revision [OF demo_float_repr_ok d this] d show ?thesis by auto
qed

text \<open>
  Reading a proposal never fails, whatever the dictionary holds, and reading back a written
  proposal returns it.
\<close>

theorem proposal_reading:
  "(\<exists>p. proposal_from_dict hex d = Inr p) \<and>
   (is_str (tp_capability p) \<or> proposal_from_dict hex (proposal_to_dict p) = Inr p)"
  using proposal_from_dict_total proposal_from_to by blast

end
