(* ===== verification/Artifact.thy ===== *)
theory Artifact
  imports Proposal Errors
begin

text \<open>
  Artifact references (\<open>artifact_ref.py\<close>): the dataclass \<open>ArtifactRef\<close>, the bytes a reference
  stands for (inline or downloaded), the signed headers of a download and the check the producer
  makes before it serves one. Times are microseconds since the epoch.
\<close>

definition INLINE_MAX_BYTES :: nat where
  "INLINE_MAX_BYTES = 64 * 1024"

definition ARTIFACT_GET_MAX_SKEW :: int where
  "ARTIFACT_GET_MAX_SKEW = 5 * 60 * 1000000"

section \<open>References\<close>

record artifact_ref =
  ar_artifact_id :: json
  ar_task_id :: json
  ar_producer_agent_id :: json
  ar_sha256 :: json
  ar_revision :: json
  ar_media_type :: json
  ar_size :: json
  ar_locations :: json
  ar_inline :: json
  ar_created_at :: json
  ar_signature :: json

definition REF_FIELDS :: "dc_fields" where
  "REF_FIELDS =
     [(''artifact_id'', None),
      (''task_id'', None),
      (''producer_agent_id'', None),
      (''sha256'', None),
      (''revision'', Some (JInt 1)),
      (''media_type'', Some (JStr ''application/octet-stream'')),
      (''size'', Some (JInt 0)),
      (''locations'', Some (JArr [])),
      (''inline'', Some JNull),
      (''created_at'', Some JNull),
      (''signature'', Some JNull)]"

definition artifact_ref_of_fields :: "dict \<Rightarrow> artifact_ref" where
  "artifact_ref_of_fields d = \<lparr>
     ar_artifact_id = dget d ''artifact_id'',
     ar_task_id = dget d ''task_id'',
     ar_producer_agent_id = dget d ''producer_agent_id'',
     ar_sha256 = dget d ''sha256'',
     ar_revision = dget d ''revision'',
     ar_media_type = dget d ''media_type'',
     ar_size = dget d ''size'',
     ar_locations = dget d ''locations'',
     ar_inline = dget d ''inline'',
     ar_created_at = dget d ''created_at'',
     ar_signature = dget d ''signature''\<rparr>"

definition artifact_ref_to_dict :: "artifact_ref \<Rightarrow> dict" where
  "artifact_ref_to_dict x =
     [(''artifact_id'', ar_artifact_id x),
      (''task_id'', ar_task_id x),
      (''producer_agent_id'', ar_producer_agent_id x),
      (''sha256'', ar_sha256 x),
      (''revision'', ar_revision x),
      (''media_type'', ar_media_type x),
      (''size'', ar_size x),
      (''locations'', ar_locations x),
      (''inline'', ar_inline x),
      (''created_at'', ar_created_at x),
      (''signature'', ar_signature x)]"

definition artifact_ref_init :: "dict \<Rightarrow> artifact_ref res" where
  "artifact_ref_init data = bindR (dc_init REF_FIELDS data) (\<lambda>f. Inr (artifact_ref_of_fields f))"

definition artifact_ref_from_dict :: "dict \<Rightarrow> artifact_ref res" where
  "artifact_ref_from_dict data =
     (let payload = data;
          payload = (if \<not> dhas payload ''producer_agent_id'' \<and> truthy (dget payload ''owner'')
                     then dset payload ''producer_agent_id'' (dget payload ''owner'') else payload);
          payload = dsetdefault payload ''task_id'' (JStr []);
          payload = dsetdefault payload ''producer_agent_id''
                      (py_or (dget payload ''producer_agent_id'') (JStr []))
      in artifact_ref_init payload)"

definition from_inline ::
    "prims \<Rightarrow> json \<Rightarrow> json \<Rightarrow> json \<Rightarrow> bytes \<Rightarrow> json \<Rightarrow> json \<Rightarrow> artifact_ref res" where
  "from_inline E artifact_id task_id producer data media_type revision =
     (if length data > INLINE_MAX_BYTES then Inl (ValueError ''inline artifact exceeds 64 KiB'')
      else artifact_ref_init
        [(''artifact_id'', artifact_id), (''task_id'', task_id), (''producer_agent_id'', producer),
         (''sha256'', JStr (sha256_hex E data)), (''revision'', revision), (''media_type'', media_type),
         (''size'', JInt (int (length data))),
         (''inline'', JObj [(''encoding'', JStr ''base64''), (''data'', JStr (b64encode data))])])"

definition with_revision :: "prims \<Rightarrow> artifact_ref \<Rightarrow> bytes \<Rightarrow> artifact_ref res" where
  "with_revision E r data =
     bindR (py_succ E (ar_revision r)) (\<lambda>rev.
     bindR (from_inline E (ar_artifact_id r) (ar_task_id r) (ar_producer_agent_id r) data
              (ar_media_type r) rev) (\<lambda>nxt.
     bindR (py_iter (ar_locations r)) (\<lambda>locs.
       Inr (nxt\<lparr>ar_locations := JArr locs\<rparr>))))"

section \<open>The bytes of a reference\<close>

text \<open>
  \<open>b64decode(raw) if encoding == "base64" else raw.encode(encoding)\<close>: both call \<open>.encode\<close> of
  \<open>raw\<close>; an encoding that is not a string is a \<open>TypeError\<close>.
\<close>

definition decode_body :: "prims \<Rightarrow> json \<Rightarrow> json \<Rightarrow> bytes res" where
  "decode_body E encoding raw =
     (case raw of
        JStr s \<Rightarrow>
          (if encoding = JStr ''base64'' then b64decode s
           else case encoding of JStr enc \<Rightarrow> py_encode E s enc | _ \<Rightarrow> Inl TypeError)
      | _ \<Rightarrow> Inl AttributeError)"

definition materialize_ref :: "prims \<Rightarrow> artifact_ref \<Rightarrow> bytes res" where
  "materialize_ref E obj =
     (case ar_inline obj of
        JObj d \<Rightarrow>
          if dget d ''data'' \<noteq> JNull then
            bindR (decode_body E (py_or (dget d ''encoding'') (JStr ''utf-8'')) (dget d ''data'')) (\<lambda>body.
              if ar_sha256 obj \<noteq> JStr (sha256_hex E body) then Inl ArtifactHashMismatch else Inr body)
          else Inl (ValueError ''ARTIFACT_NOT_FOUND'')
      | _ \<Rightarrow> Inl (ValueError ''ARTIFACT_NOT_FOUND''))"

text \<open>\<open>ref if isinstance(ref, ArtifactRef) else ArtifactRef.from_dict(ref)\<close>\<close>

definition as_ref :: "artifact_ref + dict \<Rightarrow> artifact_ref res" where
  "as_ref r = (case r of Inl x \<Rightarrow> Inr x | Inr d \<Rightarrow> artifact_ref_from_dict d)"

definition materialize_artifact :: "prims \<Rightarrow> artifact_ref + dict \<Rightarrow> bytes res" where
  "materialize_artifact E r = bindR (as_ref r) (materialize_ref E)"

section \<open>Signed downloads\<close>

type_synonym headers = "(string \<times> string) list"

definition artifact_download_headers ::
    "prims \<Rightarrow> string \<Rightarrow> identity \<Rightarrow> json \<Rightarrow> string option \<Rightarrow> headers res" where
  "artifact_download_headers E now i artifact_id timestamp =
     (let ts = (case timestamp of Some t \<Rightarrow> if t \<noteq> [] then t else now | None \<Rightarrow> now);
          payload = [(''artifact_id'', artifact_id), (''timestamp'', JStr ts)]
      in bindR (sign_object E i payload) (\<lambda>s.
           Inr [(''X-Agent-Id'', i_agent_id i), (''X-Timestamp'', ts),
                (''X-Public-Key'', public_key i), (''X-Signature'', s)]))"

text \<open>\<open>headers.get(a) or headers.get(b) or ""\<close>\<close>

definition header :: "(string \<Rightarrow> string option) \<Rightarrow> string \<Rightarrow> string \<Rightarrow> string" where
  "header h a b =
     (case h a of
        Some (c # cs) \<Rightarrow> c # cs
      | _ \<Rightarrow> (case h b of Some s \<Rightarrow> s | None \<Rightarrow> []))"

text \<open>\<open>timestamp.replace("Z", "+00:00")\<close>\<close>

definition expand_Z :: "string \<Rightarrow> string" where
  "expand_Z s = concat (map (\<lambda>c. if c = CHR ''Z'' then ''+00:00'' else [c]) s)"

text \<open>
  The result is the error envelope, if any, and the HTTP status. A party key that is not a string
  reaches \<open>startswith\<close> in \<open>verify_digest\<close>.
\<close>

definition authorize_artifact_get ::
    "prims \<Rightarrow> int \<Rightarrow> string \<Rightarrow> (string \<Rightarrow> string option) \<Rightarrow> json list \<Rightarrow> dict \<Rightarrow> (envelope option \<times> int) res" where
  "authorize_artifact_get E now artifact_id headers allowed party_keys =
     (let agent_id = header headers ''X-Agent-Id'' ''x-agent-id'';
          timestamp = header headers ''X-Timestamp'' ''x-timestamp'';
          signature = header headers ''X-Signature'' ''x-signature'';
          presented = header headers ''X-Public-Key'' ''x-public-key''
      in if agent_id = [] then Inr (Some (error_envelope ''INVALID_REQUEST'' ''X-Agent-Id required''), 401)
      else if allowed \<noteq> [] \<and> JStr agent_id \<notin> set allowed then
        Inr (Some (error_envelope ''INVALID_REQUEST'' ''not a contract party''), 403)
      else if timestamp = [] \<or> signature = [] then
        Inr (Some (error_envelope ''INVALID_REQUEST'' ''signed artifact GET required''), 401)
      else case iso_parse E (expand_Z timestamp) of
        None \<Rightarrow> Inr (Some (error_envelope ''INVALID_REQUEST'' ''invalid timestamp''), 401)
      | Some parsed \<Rightarrow>
          if \<bar>now - parsed\<bar> > ARTIFACT_GET_MAX_SKEW then
            Inr (Some (error_envelope ''INVALID_REQUEST'' ''timestamp outside window''), 401)
          else
            let public_key = py_or (dget party_keys agent_id) (JStr presented) in
            if \<not> truthy public_key then
              Inr (Some (error_envelope ''INVALID_REQUEST'' ''X-Public-Key required''), 401)
            else case public_key of
              JStr pk \<Rightarrow>
                bindR (verify_object E pk
                    [(''artifact_id'', JStr artifact_id), (''timestamp'', JStr timestamp)] signature) (\<lambda>ok.
                  if \<not> ok then
                    Inr (Some (error_envelope ''INVALID_SIGNATURE'' ''artifact GET signature failed''), 401)
                  else Inr (None, 200))
            | _ \<Rightarrow> Inl AttributeError)"

text \<open>
  The download loop. \<open>http n url headers\<close> is what the client's \<open>n\<close>-th request returns, a status and a
  body, or the exception it raises.
\<close>

type_synonym http = "nat \<Rightarrow> string \<Rightarrow> headers \<Rightarrow> (int \<times> bytes) res"

fun fetch_locations ::
    "prims \<Rightarrow> http \<Rightarrow> headers \<Rightarrow> json \<Rightarrow> nat \<Rightarrow> json list \<Rightarrow> bytes res" where
  "fetch_locations E http hs sha n [] = Inl (ValueError ''ARTIFACT_NOT_FOUND'')"
| "fetch_locations E http hs sha n (loc # locs) =
     bindR (obj_get loc ''url'') (\<lambda>u.
     bindR (obj_get loc ''transport'') (\<lambda>transport.
     let url = py_or u (JStr []) in
     bindR (if unhashable transport then Inl TypeError
            else if transport \<in> {JStr ''http'', JStr ''https''} then Inr False
            else case url of JStr s \<Rightarrow> Inr (\<not> startswith s ''http'') | _ \<Rightarrow> Inl AttributeError) (\<lambda>skip.
     if skip then fetch_locations E http hs sha n locs
     else case url of
       JStr s \<Rightarrow>
         bindR (http n s hs) (\<lambda>(status, body).
           if 400 \<le> status then fetch_locations E http hs sha (Suc n) locs
           else if sha \<noteq> JStr (sha256_hex E body) then Inl ArtifactHashMismatch
           else Inr body)
     | _ \<Rightarrow> Inl TypeError)))"

definition fetch_artifact ::
    "prims \<Rightarrow> string \<Rightarrow> http \<Rightarrow> identity \<Rightarrow> artifact_ref + dict \<Rightarrow> bytes res" where
  "fetch_artifact E now http i r =
     bindR (as_ref r) (\<lambda>obj.
       case materialize_ref E obj of
         Inr body \<Rightarrow> Inr body
       | Inl ArtifactHashMismatch \<Rightarrow> Inl ArtifactHashMismatch
       | Inl e \<Rightarrow>
           if is_value_error e then
             bindR (artifact_download_headers E now i (ar_artifact_id obj) None) (\<lambda>hs.
             bindR (py_iter (ar_locations obj)) (\<lambda>locs.
               fetch_locations E http hs (ar_sha256 obj) 0 locs))
           else Inl e)"

section \<open>Facts\<close>

lemmas ref_fields = REF_FIELDS_def artifact_ref_of_fields_def dc_value_def dc_init_def

lemma artifact_ref_from_to [simp]: "artifact_ref_from_dict (artifact_ref_to_dict r) = Inr r"
  by (simp add: artifact_ref_from_dict_def artifact_ref_init_def ref_fields artifact_ref_to_dict_def
      dsetdefault_def Let_def)

lemma materialize_ref_hash: "materialize_ref E r = Inr b \<Longrightarrow> ar_sha256 r = JStr (sha256_hex E b)"
  by (auto simp: materialize_ref_def split: json.splits if_splits)

lemma fetch_locations_hash:
  "fetch_locations E http hs sha n locs = Inr b \<Longrightarrow> sha = JStr (sha256_hex E b)"
proof (induction locs arbitrary: n)
  case (Cons loc locs)
  then show ?case
    by (auto simp: Let_def split: json.splits if_splits)
qed simp

lemma fetch_hash:
  "fetch_artifact E now http i r = Inr b \<Longrightarrow>
   \<exists>obj. as_ref r = Inr obj \<and> ar_sha256 obj = JStr (sha256_hex E b)"
  by (auto simp: fetch_artifact_def split: sum.splits err.splits if_splits
      dest!: materialize_ref_hash fetch_locations_hash)

lemma from_inline_materializes:
  "from_inline E aid tid owner data mt n = Inr r \<Longrightarrow> materialize_ref E r = Inr data"
  by (auto simp: from_inline_def artifact_ref_init_def ref_fields materialize_ref_def decode_body_def
      b64_roundtrip_aux split: if_splits)

text \<open>What the check accepts.\<close>

lemma authorize_ok_iff:
  "authorize_artifact_get E now aid h allowed keys = Inr (None, 200) \<longleftrightarrow>
     (let agent = header h ''X-Agent-Id'' ''x-agent-id''; ts = header h ''X-Timestamp'' ''x-timestamp'';
          sig = header h ''X-Signature'' ''x-signature'';
          pk = py_or (dget keys agent) (JStr (header h ''X-Public-Key'' ''x-public-key''))
      in agent \<noteq> [] \<and> (allowed = [] \<or> JStr agent \<in> set allowed) \<and> ts \<noteq> [] \<and> sig \<noteq> [] \<and>
         (\<exists>t. iso_parse E (expand_Z ts) = Some t \<and> \<bar>now - t\<bar> \<le> ARTIFACT_GET_MAX_SKEW) \<and>
         truthy pk \<and>
         (\<exists>k. pk = JStr k \<and> verify_object E k [(''artifact_id'', JStr aid), (''timestamp'', JStr ts)] sig = Inr True))"
  by (auto simp: authorize_artifact_get_def Let_def bindR_Inr_iff split: if_splits option.splits json.splits)

lemma download_headers:
  assumes "artifact_download_headers E now i aid (Some ts) = Inr hs" "ts \<noteq> []"
  obtains s where "sign_object E i [(''artifact_id'', aid), (''timestamp'', JStr ts)] = Inr s"
    and "hs = [(''X-Agent-Id'', i_agent_id i), (''X-Timestamp'', ts),
               (''X-Public-Key'', public_key i), (''X-Signature'', s)]"
  using assms by (auto simp: artifact_download_headers_def Let_def)

lemma header_Some: "h a = Some s \<Longrightarrow> s \<noteq> [] \<Longrightarrow> header h a b = s"
  by (cases s) (simp_all add: header_def)

lemma signed_get_accepted:
  assumes "ed25519_ok E" "identity_ok E i" "i_agent_id i \<noteq> []"
    and "artifact_download_headers E now i (JStr aid) (Some ts) = Inr hs" "ts \<noteq> []"
    and "iso_parse E (expand_Z ts) = Some t" "\<bar>clock - t\<bar> \<le> ARTIFACT_GET_MAX_SKEW"
    and "allowed = [] \<or> JStr (i_agent_id i) \<in> set allowed"
    and "\<not> truthy (dget keys (i_agent_id i)) \<or> dget keys (i_agent_id i) = JStr (public_key i)"
  shows "authorize_artifact_get E clock aid (map_of hs) allowed keys = Inr (None, 200)"
proof -
  obtain s where s: "sign_object E i [(''artifact_id'', JStr aid), (''timestamp'', JStr ts)] = Inr s"
    and hs: "hs = [(''X-Agent-Id'', i_agent_id i), (''X-Timestamp'', ts),
               (''X-Public-Key'', public_key i), (''X-Signature'', s)]"
    by (rule download_headers [OF assms(4,5)])
  have h: "header (map_of hs) ''X-Agent-Id'' ''x-agent-id'' = i_agent_id i"
    "header (map_of hs) ''X-Timestamp'' ''x-timestamp'' = ts"
    "header (map_of hs) ''X-Public-Key'' ''x-public-key'' = public_key i"
    "header (map_of hs) ''X-Signature'' ''x-signature'' = s"
    using assms(3,5) sign_object_neq_Nil [OF assms(2) s] by (simp_all add: hs header_Some)
  have "py_or (dget keys (i_agent_id i)) (JStr (public_key i)) = JStr (public_key i)"
    using assms(9) by auto
  with sign_object_verifies [OF assms(1,2) s] show ?thesis
    using assms sign_object_neq_Nil [OF assms(2) s] by (simp add: authorize_ok_iff h Let_def)
qed

section \<open>Properties\<close>

text \<open>
  C21: artifact integrity: whatever the encoding, the locations and the servers' answers, bytes that
  are materialized or downloaded for a reference have the hash the reference states.
\<close>

theorem artifact_bytes_match_hash:
  "case fetch_artifact E now http i r of
     Inr b \<Rightarrow> \<exists>obj. as_ref r = Inr obj \<and> ar_sha256 obj = JStr (sha256_hex E b)
   | Inl _ \<Rightarrow> True"
  using fetch_hash [of E now http i r] by (auto split: sum.split)

text \<open>
  Inline artifacts: data of at most 64 KiB becomes a reference whose bytes, directly, through
  its dictionary and through a download, are the data again; longer data is refused.
\<close>

theorem inline_artifact_roundtrip:
  "case from_inline E aid tid owner data mt n of
     Inr r \<Rightarrow> length data \<le> INLINE_MAX_BYTES \<and> materialize_artifact E (Inl r) = Inr data \<and>
       materialize_artifact E (Inr (artifact_ref_to_dict r)) = Inr data \<and>
       fetch_artifact E now http i (Inr (artifact_ref_to_dict r)) = Inr data
   | Inl e \<Rightarrow> length data > INLINE_MAX_BYTES \<and> e = ValueError ''inline artifact exceeds 64 KiB''"
proof (cases "from_inline E aid tid owner data mt n")
  case (Inl e)
  then show ?thesis
    by (auto simp: from_inline_def artifact_ref_init_def ref_fields split: if_splits)
next
  case (Inr r)
  with from_inline_materializes [OF Inr] show ?thesis
    by (auto simp: materialize_artifact_def as_ref_def fetch_artifact_def from_inline_def split: if_splits)
qed

text \<open>
  The signed headers an agent sends for an artifact are accepted by the producer while they are
  fresh, when the agent is a party and the producer knows its key or knows none for it.
\<close>

theorem download_headers_authorized:
  assumes "ed25519_ok E" "identity_ok E i" "i_agent_id i \<noteq> []"
    and "artifact_download_headers E now i (JStr aid) (Some ts) = Inr hs" "ts \<noteq> []"
    and "iso_parse E (expand_Z ts) = Some t" "\<bar>clock - t\<bar> \<le> ARTIFACT_GET_MAX_SKEW"
    and "allowed = [] \<or> JStr (i_agent_id i) \<in> set allowed"
    and "\<not> truthy (dget keys (i_agent_id i)) \<or> dget keys (i_agent_id i) = JStr (public_key i)"
  shows "authorize_artifact_get E clock aid (map_of hs) allowed keys = Inr (None, 200)"
  using assms by (rule signed_get_accepted)

lemma demo_headers:
  obtains hs where "artifact_download_headers demo_prims ''t'' demo_identity (JStr ''a'') (Some ''1000'') = Inr hs"
  using sign_object_total' [OF demo_identity_ok, of "[(''artifact_id'', JStr ''a''), (''timestamp'', JStr ''1000'')]"]
  by (auto simp: artifact_download_headers_def Let_def)

lemma demo_iso: "iso_parse demo_prims (expand_Z ''1000'') = Some 1000"
proof -
  have "parse_int (expand_Z ''1000'') = Some 1000" by code_simp
  then show ?thesis by simp
qed

lemma download_headers_authorized_witness:
  "\<exists>hs. artifact_download_headers demo_prims ''t'' demo_identity (JStr ''a'') (Some ''1000'') = Inr hs \<and>
     authorize_artifact_get demo_prims 2000 ''a'' (map_of hs) [JStr ''agent''] [] = Inr (None, 200)"
proof -
  obtain hs where hs: "artifact_download_headers demo_prims ''t'' demo_identity (JStr ''a'') (Some ''1000'') = Inr hs"
    by (rule demo_headers)
  with download_headers_authorized [OF demo_ed25519_ok demo_identity_ok _ hs _ demo_iso,
      of 2000 "[JStr ''agent'']" "[]"]
  show ?thesis by (simp add: ARTIFACT_GET_MAX_SKEW_def)
qed



text \<open>
  For a party whose key the producer does not know, the presented key is trusted: any identity
  that calls itself by the party's id is admitted with its own key.
\<close>

theorem unknown_party_key_admits_namesake:
  assumes "ed25519_ok E" "fresh_ok fr" "party \<noteq> []"
    and "artifact_download_headers E now (generate E fr party) (JStr aid) (Some ts) = Inr hs" "ts \<noteq> []"
    and "iso_parse E (expand_Z ts) = Some t" "\<bar>clock - t\<bar> \<le> ARTIFACT_GET_MAX_SKEW"
    and "JStr party \<in> set allowed" "dget keys party = JNull"
  shows "authorize_artifact_get E clock aid (map_of hs) allowed keys = Inr (None, 200)"
  using signed_get_accepted [OF assms(1) generate_ok [OF assms(2)] _ assms(4,5,6,7)] assms(3,8,9) by simp

lemma unknown_party_key_admits_namesake_witness:
  "\<exists>hs. artifact_download_headers demo_prims ''t'' (generate demo_prims demo_fresh ''agent'') (JStr ''a'') (Some ''1000'') = Inr hs \<and>
     authorize_artifact_get demo_prims 2000 ''a'' (map_of hs) [JStr ''agent''] [] = Inr (None, 200)"
proof -
  obtain hs where hs: "artifact_download_headers demo_prims ''t'' (generate demo_prims demo_fresh ''agent'')
      (JStr ''a'') (Some ''1000'') = Inr hs"
    using demo_headers unfolding demo_identity_def by blast
  with unknown_party_key_admits_namesake [OF demo_ed25519_ok demo_fresh_ok _ hs _ demo_iso,
      of 2000 "[JStr ''agent'']" "[]"]
  show ?thesis by (simp add: ARTIFACT_GET_MAX_SKEW_def)
qed

end
