(* ===== verification/Seed.thy ===== *)
theory Seed
  imports Handler Identity Capability
begin

text \<open>
  The reference Seed (\<open>reference_seed/app.py\<close>): the directory of announced agents and the handlers of
  join, renew, leave, discover and report. A reading of \<open>time.time()\<close> is a double between $2^{30}$ and
  $2^{31}$ (until 2038), a multiple of $2^{-22}$ seconds; times are integers in that unit, so that adding
  whole seconds is exact as it is on those doubles.
\<close>

section \<open>The directory\<close>

definition seconds :: "int \<Rightarrow> int" where
  "seconds n = n * 2 ^ 22"

definition time_json :: "int \<Rightarrow> json" where
  "time_json t = JFloat (mk_float t (- 22))"

record entry =
  en_agent_id :: string
  en_public_key :: string
  en_agent_card_url :: string
  en_endpoint :: string
  en_capabilities :: "json list"
  en_availability :: string
  en_lease_expires_at :: int
  en_last_seen :: int

text \<open>\<open>self.agents\<close>, in insertion order.\<close>

type_synonym directory = "(string \<times> entry) list"

definition dir_put :: "directory \<Rightarrow> entry \<Rightarrow> directory" where
  "dir_put d e = AList.update (en_agent_id e) e d"

definition dir_get :: "directory \<Rightarrow> string \<Rightarrow> entry option" where
  "dir_get d a = map_of d a"

text \<open>A result row of \<open>discover\<close>; its constant fields are added by \<open>row_to_dict\<close>.\<close>

record row =
  rw_entry :: entry
  rw_capability :: capability

definition row_to_dict :: "row \<Rightarrow> dict" where
  "row_to_dict r =
     [(''agent_id'', JStr (en_agent_id (rw_entry r))),
      (''public_key'', JStr (en_public_key (rw_entry r))),
      (''agent_card_url'', JStr (en_agent_card_url (rw_entry r))),
      (''endpoint'', JStr (en_endpoint (rw_entry r))),
      (''network_id'', JStr ''reference.local''),
      (''reachability'', JStr ''REACHABLE''),
      (''availability'', JStr (en_availability (rw_entry r))),
      (''last_seen'', time_json (en_last_seen (rw_entry r))),
      (''lease_expires_at'', time_json (en_lease_expires_at (rw_entry r))),
      (''capability'', capability_to_dict (rw_capability r))]"

definition row_key :: "row \<Rightarrow> int \<times> string" where
  "row_key r = (- en_last_seen (rw_entry r), en_agent_id (rw_entry r))"

text \<open>
  \<open>version_matches\<close> with a constraint from the request: a falsy one matches, a list or dictionary is not
  hashable, another value has no \<open>strip\<close>.
\<close>

definition version_matches_value :: "string \<Rightarrow> json \<Rightarrow> bool res" where
  "version_matches_value available v =
     (if \<not> truthy v then Inr True
      else case v of
        JStr s \<Rightarrow> version_matches available (Some s)
      | JArr _ \<Rightarrow> Inl TypeError
      | JObj _ \<Rightarrow> Inl TypeError
      | _ \<Rightarrow> Inl AttributeError)"

text \<open>The inner loop: the first capability of an entry that matches.\<close>

fun find_capability :: "prims \<Rightarrow> string \<Rightarrow> json \<Rightarrow> json list \<Rightarrow> capability option res" where
  "find_capability E capability version [] = Inr None"
| "find_capability E capability version (raw # raws) =
     bindR (from_value E raw) (\<lambda>cap.
     bindR (if c_id cap = JStr capability then version_matches_value (c_version cap) version else Inr False) (\<lambda>ok.
       if ok then Inr (Some cap) else find_capability E capability version raws))"

definition live :: "int \<Rightarrow> entry \<Rightarrow> bool" where
  "live now e \<longleftrightarrow> \<not> (en_lease_expires_at e \<le> now \<or> en_availability e \<noteq> ''AVAILABLE'')"

fun discover_rows :: "prims \<Rightarrow> int \<Rightarrow> string \<Rightarrow> json \<Rightarrow> entry list \<Rightarrow> row list res" where
  "discover_rows E now capability version [] = Inr []"
| "discover_rows E now capability version (e # es) =
     (if \<not> live now e then discover_rows E now capability version es
      else bindR (find_capability E capability version (en_capabilities e)) (\<lambda>found.
        case found of
          None \<Rightarrow> discover_rows E now capability version es
        | Some cap \<Rightarrow>
            bindR (discover_rows E now capability version es) (\<lambda>rows.
              Inr (\<lparr>rw_entry = e, rw_capability = cap\<rparr> # rows))))"

text \<open>\<open>rows[:limit]\<close>: a negative limit counts from the end.\<close>

definition slice_to :: "int \<Rightarrow> 'a list \<Rightarrow> 'a list" where
  "slice_to limit xs = take (if 0 \<le> limit then nat limit else length xs - nat (- limit)) xs"

definition dir_discover :: "prims \<Rightarrow> int \<Rightarrow> directory \<Rightarrow> string \<Rightarrow> json \<Rightarrow> int \<Rightarrow> row list res" where
  "dir_discover E now d capability version limit =
     bindR (discover_rows E now capability version (map snd d)) (\<lambda>rows.
       Inr (slice_to limit (sort_key row_key rows)))"

section \<open>The handlers\<close>

text \<open>Each handler returns the new directory and its result; an exception leaves the directory.\<close>

type_synonym seed_result = "directory \<times> handler_result res"

definition orE :: "directory \<Rightarrow> seed_result res \<Rightarrow> seed_result" where
  "orE d r = (case r of Inl e \<Rightarrow> (d, Inl e) | Inr x \<Rightarrow> x)"

text \<open>\<open>str(body.get(k) or "")\<close>\<close>

definition text_field :: "prims \<Rightarrow> dict \<Rightarrow> string \<Rightarrow> string" where
  "text_field E body k = py_str E (py_or (dget body k) (JStr []))"

text \<open>The entry of an announcement, and its lease in seconds.\<close>

definition join_entry :: "prims \<Rightarrow> int \<Rightarrow> dict \<Rightarrow> (entry \<times> int) res" where
  "join_entry E now body =
     bindR (py_int (py_or (dget body ''requested_lease_seconds'') (JInt 1800))) (\<lambda>requested.
     let lease = max 30 (min requested 7200) in
     bindR (py_iter (py_or (dget body ''capabilities'') (JArr []))) (\<lambda>items.
     bindR (mapR (\<lambda>item. bindR (from_value E item) (\<lambda>c. Inr (capability_to_dict c))) items) (\<lambda>caps.
     bindR (obj_get (py_or (dget body ''availability'') (JObj [])) ''status'') (\<lambda>status.
       Inr (\<lparr>en_agent_id = text_field E body ''agent_id'',
             en_public_key = text_field E body ''public_key'',
             en_agent_card_url = text_field E body ''agent_card_url'',
             en_endpoint = text_field E body ''endpoint'',
             en_capabilities = caps,
             en_availability = py_str E (py_or status (JStr ''AVAILABLE'')),
             en_lease_expires_at = now + seconds lease,
             en_last_seen = now\<rparr>, lease)))))"

definition seed_join :: "prims \<Rightarrow> int \<Rightarrow> payload \<Rightarrow> directory \<Rightarrow> seed_result" where
  "seed_join E now p d = orE d
     (bindR (message_data (pl_message p)) (\<lambda>body.
      let agent_id = text_field E body ''agent_id'';
          public_key = text_field E body ''public_key'';
          signature = text_field E body ''signature'' in
      bindR (if agent_id = [] \<or> public_key = [] \<or> signature = [] then Inr False
             else verify_object E public_key body signature) (\<lambda>ok.
      if \<not> ok then Inr (d, Inr (hr_failed ''IDENTITY_INVALID'' (Some ''signed announce required'') []))
      else
        bindR (join_entry E now body) (\<lambda>(entry, lease).
          if (case dir_get d agent_id of Some known \<Rightarrow> en_public_key known \<noteq> public_key | None \<Rightarrow> False)
          then Inr (d, Inr (hr_failed ''IDENTITY_INVALID'' (Some ''public key mismatch'') []))
          else Inr (dir_put d entry, Inr (hr_completed
            [(''network_id'', JStr ''reference.local''), (''agent_id'', JStr agent_id),
             (''lease_seconds'', JInt lease), (''lease_expires_at'', time_json (en_lease_expires_at entry))]))))))"

text \<open>The guard that renew and leave share: the known entry whose key signed the body.\<close>

definition signed_entry :: "prims \<Rightarrow> directory \<Rightarrow> dict \<Rightarrow> entry option res" where
  "signed_entry E d body =
     (case dir_get d (text_field E body ''agent_id'') of
        None \<Rightarrow> Inr None
      | Some entry \<Rightarrow>
          bindR (verify_object E (en_public_key entry) body (text_field E body ''signature'')) (\<lambda>ok.
            Inr (if ok then Some entry else None)))"

text \<open>
  The entry is changed in place: it stays at its key. (The key of an entry is its agent id.)
\<close>

definition seed_renew :: "prims \<Rightarrow> int \<Rightarrow> payload \<Rightarrow> directory \<Rightarrow> seed_result" where
  "seed_renew E now p d = orE d
     (bindR (message_data (pl_message p)) (\<lambda>body.
      bindR (signed_entry E d body) (\<lambda>found.
        case found of
          None \<Rightarrow> Inr (d, Inr (hr_failed ''IDENTITY_INVALID'' None []))
        | Some entry \<Rightarrow>
            let entry = entry\<lparr>en_last_seen := now, en_lease_expires_at := now + seconds 1800\<rparr>
            in Inr (AList.update (text_field E body ''agent_id'') entry d,
                    Inr (hr_completed [(''lease_expires_at'', time_json (en_lease_expires_at entry))])))))"

definition seed_leave :: "prims \<Rightarrow> int \<Rightarrow> payload \<Rightarrow> directory \<Rightarrow> seed_result" where
  "seed_leave E now p d = orE d
     (bindR (message_data (pl_message p)) (\<lambda>body.
      bindR (signed_entry E d body) (\<lambda>found.
        case found of
          None \<Rightarrow> Inr (d, Inr (hr_failed ''IDENTITY_INVALID'' None []))
        | Some entry \<Rightarrow>
            let entry = entry\<lparr>en_availability := ''OFFLINE'', en_lease_expires_at := now\<rparr>
            in Inr (AList.update (text_field E body ''agent_id'') entry d,
                    Inr (hr_completed [(''agent_id'', JStr (text_field E body ''agent_id''))])))))"

text \<open>\<open>ts\<close> is \<open>utc_now()\<close>.\<close>

definition seed_discover :: "prims \<Rightarrow> int \<Rightarrow> string \<Rightarrow> payload \<Rightarrow> directory \<Rightarrow> seed_result" where
  "seed_discover E now ts p d = orE d
     (bindR (message_data (pl_message p)) (\<lambda>body.
      bindR (obj_get (py_or (dget body ''criteria'') (JObj [])) ''capability'') (\<lambda>c.
      let capability = py_str E (py_or c (JStr [])) in
      if capability = [] then
        Inr (d, Inr (hr_failed ''INVALID_REQUEST'' (Some ''capability required'') []))
      else
        bindR (obj_get (py_or (dget body ''criteria'') (JObj [])) ''version'') (\<lambda>version.
        bindR (py_int (py_or (dget body ''max_results'') (JInt 10))) (\<lambda>limit.
        bindR (dir_discover E now d capability version limit) (\<lambda>rows.
          Inr (d, Inr (hr_completed
            [(''query_id'', dget body ''query_id''),
             (''agents'', JArr (map (\<lambda>r. JObj (row_to_dict r)) rows)),
             (''timestamp'', JStr ts)]))))))))"

definition seed_report :: "payload \<Rightarrow> directory \<Rightarrow> seed_result" where
  "seed_report p d = (d, Inr (hr_completed [(''accepted'', JBool True)]))"

text \<open>\<open>skills()\<close>: the handler of each capability.\<close>

datatype skill = Join | Renew | Leave | Discover | Report

definition seed_skills :: "(string \<times> skill) list" where
  "seed_skills =
     [(''network.join'', Join), (''network.announce'', Join), (''network.renew'', Renew),
      (''network.leave'', Leave), (''network.discover'', Discover), (''network.report_unreachable'', Report)]"

definition seed_handle :: "prims \<Rightarrow> skill \<Rightarrow> int \<Rightarrow> string \<Rightarrow> payload \<Rightarrow> directory \<Rightarrow> seed_result" where
  "seed_handle E s now ts p d =
     (case s of
        Join \<Rightarrow> seed_join E now p d
      | Renew \<Rightarrow> seed_renew E now p d
      | Leave \<Rightarrow> seed_leave E now p d
      | Discover \<Rightarrow> seed_discover E now ts p d
      | Report \<Rightarrow> seed_report p d)"

section \<open>What a request can change\<close>

text \<open>The key of an entry is its agent id, and no agent has two entries.\<close>

definition dir_ok :: "directory \<Rightarrow> bool" where
  "dir_ok d \<longleftrightarrow> distinct (map fst d) \<and> (\<forall>k e. map_of d k = Some e \<longrightarrow> en_agent_id e = k \<and> k \<noteq> [])"

text \<open>
  A change of the directory: the entry of the agent the body names is replaced; the body is signed
  by the key of the new entry, which is the key of the old one if there was one.
\<close>

definition signed_change :: "prims \<Rightarrow> payload \<Rightarrow> entry \<Rightarrow> directory \<Rightarrow> directory \<Rightarrow> bool" where
  "signed_change E p e d d' \<longleftrightarrow>
     (\<exists>body. message_data (pl_message p) = Inr body \<and>
        en_agent_id e = text_field E body ''agent_id'' \<and> d' = dir_put d e \<and> en_agent_id e \<noteq> [] \<and>
        verify_object E (en_public_key e) body (text_field E body ''signature'') = Inr True \<and>
        (\<forall>known. dir_get d (en_agent_id e) = Some known \<longrightarrow> en_public_key known = en_public_key e))"

lemma orE_simps [simp]: "orE d (Inl e) = (d, Inl e)" "orE d (Inr x) = x"
  by (simp_all add: orE_def)

lemma orE_bindR: "orE d (bindR m f) = (case m of Inl e \<Rightarrow> (d, Inl e) | Inr x \<Rightarrow> orE d (f x))"
  by (simp add: orE_def bindR_def split: sum.split)

lemma join_entry_fields:
  assumes "join_entry E now body = Inr (e, lease)"
  shows "en_agent_id e = text_field E body ''agent_id''" "en_public_key e = text_field E body ''public_key''"
    "30 \<le> lease" "lease \<le> 7200" "en_lease_expires_at e = now + seconds lease" "en_last_seen e = now"
  using assms by (auto simp: join_entry_def Let_def)

lemma seed_join_cases:
  assumes "seed_join E now p d = (d', r)"
  obtains (same) "d' = d" "\<And>md. r \<noteq> Inr (hr_completed md)"
  | (joined) body e lease md where "signed_change E p e d d'" "r = Inr (hr_completed md)"
      "message_data (pl_message p) = Inr body" "join_entry E now body = Inr (e, lease)"
      "dget md ''lease_seconds'' = JInt lease"
proof (cases "d' = d \<and> (\<forall>md. r \<noteq> Inr (hr_completed md))")
  case False
  with assms obtain body e lease md where *: "message_data (pl_message p) = Inr body"
    "join_entry E now body = Inr (e, lease)" "d' = dir_put d e" "r = Inr (hr_completed md)"
    "dget md ''lease_seconds'' = JInt lease" "text_field E body ''agent_id'' \<noteq> []"
    "verify_object E (text_field E body ''public_key'') body (text_field E body ''signature'') = Inr True"
    "\<forall>known. dir_get d (text_field E body ''agent_id'') = Some known \<longrightarrow>
       en_public_key known = text_field E body ''public_key''"
    unfolding seed_join_def
    by (auto simp: orE_bindR Let_def split: sum.splits if_splits option.splits)
  then have "signed_change E p e d d'"
    using join_entry_fields [OF *(2)] by (simp add: signed_change_def)
  with * joined show ?thesis by blast
qed (use same in blast)

text \<open>Renew and leave change the entry whose key signed the body.\<close>

lemma signed_entry_Some:
  assumes "signed_entry E d body = Inr (Some e)"
  shows "dir_get d (text_field E body ''agent_id'') = Some e"
    "verify_object E (en_public_key e) body (text_field E body ''signature'') = Inr True"
  using assms by (auto simp: signed_entry_def split: option.splits if_splits)

lemma signed_change_entry:
  assumes "dir_ok d" "message_data (pl_message p) = Inr body" "signed_entry E d body = Inr (Some e)"
  shows "dir_get d (en_agent_id e) = Some e"
    and "en_agent_id e' = en_agent_id e \<Longrightarrow> en_public_key e' = en_public_key e \<Longrightarrow>
      signed_change E p e' d (AList.update (text_field E body ''agent_id'') e' d)"
proof -
  have id: "en_agent_id e = text_field E body ''agent_id''" "en_agent_id e \<noteq> []"
    using signed_entry_Some(1) [OF assms(3)] assms(1) by (auto simp: dir_ok_def dir_get_def)
  then show "dir_get d (en_agent_id e) = Some e"
    using signed_entry_Some(1) [OF assms(3)] by simp
  then show "signed_change E p e' d (AList.update (text_field E body ''agent_id'') e' d)"
    if "en_agent_id e' = en_agent_id e" "en_public_key e' = en_public_key e"
    using signed_entry_Some(2) [OF assms(3)] assms(2) id that
    by (simp add: signed_change_def dir_put_def)
qed

lemma seed_renew_eq:
  "seed_renew E now p d =
     (case message_data (pl_message p) of
        Inl x \<Rightarrow> (d, Inl x)
      | Inr body \<Rightarrow>
          (case signed_entry E d body of
             Inl x \<Rightarrow> (d, Inl x)
           | Inr None \<Rightarrow> (d, Inr (hr_failed ''IDENTITY_INVALID'' None []))
           | Inr (Some e) \<Rightarrow>
               (AList.update (text_field E body ''agent_id'') (e\<lparr>en_last_seen := now, en_lease_expires_at := now + seconds 1800\<rparr>) d,
                Inr (hr_completed [(''lease_expires_at'', time_json (now + seconds 1800))]))))"
  unfolding seed_renew_def orE_bindR by (simp add: Let_def split: sum.split option.split)

lemma seed_renew_cases:
  assumes "dir_ok d" "seed_renew E now p d = (d', r)"
  obtains (same) "d' = d" "\<And>md. r \<noteq> Inr (hr_completed md)"
  | (renewed) e md where "dir_get d (en_agent_id e) = Some e" "r = Inr (hr_completed md)"
      "signed_change E p (e\<lparr>en_last_seen := now, en_lease_expires_at := now + seconds 1800\<rparr>) d d'"
proof (cases "message_data (pl_message p)")
  case (Inl x)
  with assms(2) show ?thesis by (intro same) (auto simp: seed_renew_eq)
next
  case body: (Inr body)
  show ?thesis
  proof (cases "signed_entry E d body")
    case (Inl x)
    with assms(2) body show ?thesis by (intro same) (auto simp: seed_renew_eq)
  next
    case (Inr found)
    show ?thesis
    proof (cases found)
      case None
      with assms(2) body Inr show ?thesis by (intro same) (auto simp: seed_renew_eq)
    next
      case (Some e)
      with Inr have e: "signed_entry E d body = Inr (Some e)" by simp
      with assms(2) body have *: "d' = AList.update (text_field E body ''agent_id'') (e\<lparr>en_last_seen := now, en_lease_expires_at := now + seconds 1800\<rparr>) d"
        "r = Inr (hr_completed [(''lease_expires_at'', time_json (now + seconds 1800))])" by (simp_all add: seed_renew_eq)
      show ?thesis
        by (rule renewed [OF signed_change_entry(1) [OF assms(1) body e] *(2)])
          (unfold *(1), rule signed_change_entry(2) [OF assms(1) body e], simp_all)
    qed
  qed
qed

lemma seed_leave_eq:
  "seed_leave E now p d =
     (case message_data (pl_message p) of
        Inl x \<Rightarrow> (d, Inl x)
      | Inr body \<Rightarrow>
          (case signed_entry E d body of
             Inl x \<Rightarrow> (d, Inl x)
           | Inr None \<Rightarrow> (d, Inr (hr_failed ''IDENTITY_INVALID'' None []))
           | Inr (Some e) \<Rightarrow>
               (AList.update (text_field E body ''agent_id'') (e\<lparr>en_availability := ''OFFLINE'', en_lease_expires_at := now\<rparr>) d,
                Inr (hr_completed [(''agent_id'', JStr (text_field E body ''agent_id''))]))))"
  unfolding seed_leave_def orE_bindR by (simp add: Let_def split: sum.split option.split)

lemma seed_leave_cases:
  assumes "dir_ok d" "seed_leave E now p d = (d', r)"
  obtains (same) "d' = d" "\<And>md. r \<noteq> Inr (hr_completed md)"
  | (left) e md where "dir_get d (en_agent_id e) = Some e" "r = Inr (hr_completed md)"
      "signed_change E p (e\<lparr>en_availability := ''OFFLINE'', en_lease_expires_at := now\<rparr>) d d'"
proof (cases "message_data (pl_message p)")
  case (Inl x)
  with assms(2) show ?thesis by (intro same) (auto simp: seed_leave_eq)
next
  case body: (Inr body)
  show ?thesis
  proof (cases "signed_entry E d body")
    case (Inl x)
    with assms(2) body show ?thesis by (intro same) (auto simp: seed_leave_eq)
  next
    case (Inr found)
    show ?thesis
    proof (cases found)
      case None
      with assms(2) body Inr show ?thesis by (intro same) (auto simp: seed_leave_eq)
    next
      case (Some e)
      with Inr have e: "signed_entry E d body = Inr (Some e)" by simp
      with assms(2) body have *: "d' = AList.update (text_field E body ''agent_id'') (e\<lparr>en_availability := ''OFFLINE'', en_lease_expires_at := now\<rparr>) d"
        "r = Inr (hr_completed [(''agent_id'', JStr (text_field E body ''agent_id''))])" by (simp_all add: seed_leave_eq)
      show ?thesis
        by (rule left [OF signed_change_entry(1) [OF assms(1) body e] *(2)])
          (unfold *(1), rule signed_change_entry(2) [OF assms(1) body e], simp_all)
    qed
  qed
qed

lemma seed_discover_same: "fst (seed_discover E now ts p d) = d"
  unfolding seed_discover_def by (auto simp: orE_bindR Let_def split: sum.splits)

section \<open>Runs of the Seed\<close>

type_synonym request = "skill \<times> int \<times> string \<times> payload"

definition seed_step :: "prims \<Rightarrow> directory \<Rightarrow> request \<Rightarrow> directory" where
  "seed_step E d r = (case r of (s, now, ts, p) \<Rightarrow> fst (seed_handle E s now ts p d))"

definition seed_run :: "prims \<Rightarrow> directory \<Rightarrow> request list \<Rightarrow> directory" where
  "seed_run E d rs = foldl (seed_step E) d rs"

text \<open>
  A store that keeps the key of a known name: what the Seed's clients rely on when they cache the
  public key of an agent.
\<close>

locale pinned_store =
  fixes ok :: "'s \<Rightarrow> bool"
    and get :: "'s \<Rightarrow> 'k \<Rightarrow> 'e option"
    and key :: "'e \<Rightarrow> 'p"
    and step :: "'s \<Rightarrow> 'r \<Rightarrow> 's"
  assumes ok_step: "ok s \<Longrightarrow> ok (step s r)"
    and pin: "ok s \<Longrightarrow> get s k = Some e \<Longrightarrow> \<exists>e'. get (step s r) k = Some e' \<and> key e' = key e"
begin

lemma run_ok: "ok s \<Longrightarrow> ok (foldl step s rs)"
  by (induction rs arbitrary: s) (auto intro: ok_step)

lemma run_pinned:
  "ok s \<Longrightarrow> get s k = Some e \<Longrightarrow> \<exists>e'. get (foldl step s rs) k = Some e' \<and> key e' = key e"
proof (induction rs arbitrary: s e)
  case (Cons r rs)
  from pin [OF Cons.prems, of r] obtain e' where "get (step s r) k = Some e'" "key e' = key e" by blast
  with Cons.IH [OF ok_step [OF Cons.prems(1)]] show ?case by fastforce
qed simp

text \<open>A property of one name that the steps of some set keep.\<close>

lemma run_keeps:
  assumes "ok s" "Q (get s k)" "\<And>s r. ok s \<Longrightarrow> Q (get s k) \<Longrightarrow> r \<in> set rs \<Longrightarrow> Q (get (step s r) k)"
  shows "Q (get (foldl step s rs) k)"
  using assms by (induction rs arbitrary: s) (auto intro: ok_step)

end

lemma dir_get_put: "dir_get (dir_put d e) a = (if a = en_agent_id e then Some e else dir_get d a)"
  by (simp add: dir_get_def dir_put_def update_conv)

lemma signed_change_ok: "dir_ok d \<Longrightarrow> signed_change E p e d d' \<Longrightarrow> dir_ok d'"
proof -
  assume ok: "dir_ok d" and ch: "signed_change E p e d d'"
  from ch have d': "d' = dir_put d e" "en_agent_id e \<noteq> []" by (auto simp: signed_change_def)
  have "map_of d' k = (if k = en_agent_id e then Some e else map_of d k)" for k
    using dir_get_put [of d e k] by (simp add: d' dir_get_def)
  moreover have "distinct (map fst d')"
    using ok by (simp add: d' dir_put_def distinct_update dir_ok_def)
  ultimately show "dir_ok d'" using ok d'(2) unfolding dir_ok_def by simp
qed

lemma seed_step_cases:
  assumes "dir_ok d"
  shows "seed_step E d (s, now, ts, p) = d \<or>
    (s \<in> {Join, Renew, Leave} \<and> (\<exists>e. signed_change E p e d (seed_step E d (s, now, ts, p))))"
proof (cases s)
  case Join
  obtain d' r where h: "seed_join E now p d = (d', r)" by fastforce
  then have st: "seed_step E d (s, now, ts, p) = d'" by (simp add: seed_step_def seed_handle_def Join)
  show ?thesis
    by (rule seed_join_cases [OF h]) (use st Join in auto)
next
  case Renew
  obtain d' r where h: "seed_renew E now p d = (d', r)" by fastforce
  then have st: "seed_step E d (s, now, ts, p) = d'" by (simp add: seed_step_def seed_handle_def Renew)
  show ?thesis
    by (rule seed_renew_cases [OF assms h]) (use st Renew in auto)
next
  case Leave
  obtain d' r where h: "seed_leave E now p d = (d', r)" by fastforce
  then have st: "seed_step E d (s, now, ts, p) = d'" by (simp add: seed_step_def seed_handle_def Leave)
  show ?thesis
    by (rule seed_leave_cases [OF assms h]) (use st Leave in auto)
qed (simp_all add: seed_step_def seed_handle_def seed_discover_same seed_report_def)

interpretation seed: pinned_store dir_ok dir_get en_public_key "seed_step E" for E
proof
  fix d :: directory and r :: request and k e
  assume ok: "dir_ok d"
  obtain s now ts p where r: "r = (s, now, ts, p)" by (cases r) auto
  consider "seed_step E d r = d" | e' where "signed_change E p e' d (seed_step E d r)"
    using seed_step_cases [OF ok, of E s now ts p] r by blast
  note cs = this
  from cs show "dir_ok (seed_step E d r)" by cases (auto simp: ok intro: signed_change_ok [OF ok])
  assume e: "dir_get d k = Some e"
  from cs show "\<exists>e'. dir_get (seed_step E d r) k = Some e' \<and> en_public_key e' = en_public_key e"
  proof cases
    case (2 e')
    with e show ?thesis by (auto simp: signed_change_def dir_get_put)
  qed (simp add: e)
qed

section \<open>Discovery\<close>

text \<open>An entry provides a capability when one of its descriptors has the id and a matching version.\<close>

definition provides :: "prims \<Rightarrow> string \<Rightarrow> json \<Rightarrow> entry \<Rightarrow> capability \<Rightarrow> bool" where
  "provides E capability version e c \<longleftrightarrow>
     (\<exists>raw \<in> set (en_capabilities e). from_value E raw = Inr c \<and> c_id c = JStr capability \<and>
        version_matches_value (c_version c) version = Inr True)"

definition offers :: "prims \<Rightarrow> int \<Rightarrow> directory \<Rightarrow> string \<Rightarrow> json \<Rightarrow> entry list" where
  "offers E now d capability version =
     filter (\<lambda>e. live now e \<and> (\<exists>c. provides E capability version e c)) (map snd d)"

lemma find_capability_Some:
  "find_capability E cap v raws = Inr (Some c) \<Longrightarrow>
   \<exists>raw \<in> set raws. from_value E raw = Inr c \<and> c_id c = JStr cap \<and>
     version_matches_value (c_version c) v = Inr True"
  by (induction raws) (auto split: if_splits)

lemma find_capability_None:
  "find_capability E cap v raws = Inr None \<Longrightarrow> raw \<in> set raws \<Longrightarrow> from_value E raw = Inr c \<Longrightarrow>
   \<not> (c_id c = JStr cap \<and> version_matches_value (c_version c) v = Inr True)"
  by (induction raws) (auto split: if_splits)

lemma discover_rows_offers:
  "discover_rows E now cap v es = Inr rows \<Longrightarrow>
   map rw_entry rows = filter (\<lambda>e. live now e \<and> (\<exists>c. provides E cap v e c)) es \<and>
   (\<forall>r \<in> set rows. provides E cap v (rw_entry r) (rw_capability r))"
proof (induction es arbitrary: rows)
  case (Cons e es)
  show ?case
  proof (cases "live now e")
    case True
    with Cons.prems obtain found where f: "find_capability E cap v (en_capabilities e) = Inr found"
      by auto
    show ?thesis
    proof (cases found)
      case None
      with f have "\<not> provides E cap v e c" for c
        using find_capability_None unfolding provides_def by blast
      with Cons None True f show ?thesis by simp
    next
      case (Some c)
      with f have "provides E cap v e c" using find_capability_Some unfolding provides_def by fastforce
      with Cons Some True f show ?thesis by auto
    qed
  qed (use Cons in simp)
qed simp

lemma row_key_entry: "row_key r = (- en_last_seen (rw_entry r), en_agent_id (rw_entry r))"
  by (simp add: row_key_def)

lemma sorted_take_least:
  fixes f :: "'a \<Rightarrow> 'b::linorder"
  assumes "sorted (map f xs)" "x \<in> set (take n xs)" "y \<in> set (drop n xs)"
  shows "f x \<le> f y"
  using assms sorted_append [of "map f (take n xs)" "map f (drop n xs)"]
  by (auto simp flip: map_append)

lemma discover_sorted:
  assumes "dir_discover E now d cap v limit = Inr rows"
  obtains all where "map rw_entry all = offers E now d cap v"
    "\<forall>r \<in> set all. provides E cap v (rw_entry r) (rw_capability r)"
    "rows = slice_to limit (sort_key row_key all)"
proof -
  from assms obtain all where all: "discover_rows E now cap v (map snd d) = Inr all"
    "rows = slice_to limit (sort_key row_key all)"
    by (auto simp: dir_discover_def)
  show ?thesis
    by (rule that [of all]) (use discover_rows_offers [OF all(1)] all(2) in \<open>simp_all add: offers_def\<close>)
qed

lemma slice_to_nonneg: "0 \<le> limit \<Longrightarrow> slice_to limit xs = take (nat limit) xs"
  by (simp add: slice_to_def)

section \<open>A concrete Seed\<close>

definition demo_announce :: dict where
  "demo_announce =
     [(''agent_id'', JStr ''agent''), (''public_key'', JStr (public_key demo_identity)),
      (''capabilities'', JArr [JStr ''echo'']), (''requested_lease_seconds'', JInt 120)]"

lemma demo_announce_signed: "\<exists>s. sign_object demo_prims demo_identity demo_announce = Inr s"
  by (rule sign_object_total' [OF demo_identity_ok]) (simp add: demo_announce_def)

definition demo_payload :: payload where
  "demo_payload =
     \<lparr>pl_message = data_message (demo_announce @
        [(''signature'', JStr (projr (sign_object demo_prims demo_identity demo_announce)))]),
      pl_metadata = [], pl_capability = ''network.join'', pl_task_id = ''t''\<rparr>"

lemma demo_signature:
  obtains s where "sign_object demo_prims demo_identity demo_announce = Inr s" "s \<noteq> []"
    "pl_message demo_payload = data_message (demo_announce @ [(''signature'', JStr s)])"
    "verify_object demo_prims (public_key demo_identity) (demo_announce @ [(''signature'', JStr s)]) s = Inr True"
proof -
  obtain s where s: "sign_object demo_prims demo_identity demo_announce = Inr s"
    using demo_announce_signed by blast
  have "unsigned_payload (demo_announce @ [(''signature'', JStr s)]) = unsigned_payload demo_announce"
    by (simp add: unsigned_payload_def omit_fields_defs)
  then have v: "verify_object demo_prims (public_key demo_identity) (demo_announce @ [(''signature'', JStr s)]) s = Inr True"
    using sign_object_verifies [OF demo_ed25519_ok demo_identity_ok s] by (simp only: verify_object_def)
  show ?thesis
    by (rule that [OF s sign_object_neq_Nil [OF demo_identity_ok s] _ v]) (simp add: demo_payload_def s)
qed

lemma demo_join:
  "\<exists>d md. seed_join demo_prims t demo_payload [] = (d, Inr (hr_completed md))"
proof -
  obtain s where s: "s \<noteq> []"
    "pl_message demo_payload = data_message (demo_announce @ [(''signature'', JStr s)])"
    "verify_object demo_prims (public_key demo_identity) (demo_announce @ [(''signature'', JStr s)]) s = Inr True"
    by (rule demo_signature)
  then show ?thesis
    by (simp add: seed_join_def text_field_def demo_announce_def py_or_def join_entry_def Let_def dir_get_def)
qed

section \<open>Properties\<close>

text \<open>
  C14: key pinning: once the Seed knows an agent, no sequence of requests, valid or forged, at any times
  changes the public key under which it knows the agent or makes it forget the agent.
\<close>

theorem seed_key_pinned:
  assumes "dir_ok d" "dir_get d a = Some e"
  shows "\<exists>e'. dir_get (seed_run E d rs) a = Some e' \<and> en_public_key e' = en_public_key e"
  unfolding seed_run_def by (rule seed.run_pinned [OF assms])

lemma dir_ok_Nil [simp]: "dir_ok []"
  by (simp add: dir_ok_def)

lemma demo_joined:
  obtains d md e where "seed_join demo_prims 0 demo_payload [] = (d, Inr (hr_completed md))" "dir_ok d"
    "dir_get d ''agent'' = Some e" "en_agent_id e = ''agent''" "en_public_key e = public_key demo_identity"
proof -
  obtain d md where j: "seed_join demo_prims 0 demo_payload [] = (d, Inr (hr_completed md))"
    using demo_join by blast
  obtain s where s: "s \<noteq> []"
    "pl_message demo_payload = data_message (demo_announce @ [(''signature'', JStr s)])"
    by (rule demo_signature)
  from j show ?thesis
  proof (cases rule: seed_join_cases)
    case (joined body e lease md')
    have body: "body = demo_announce @ [(''signature'', JStr s)]"
      using joined(3) s(2) by simp
    have "en_agent_id e = ''agent''" "en_public_key e = public_key demo_identity"
      using join_entry_fields(1,2) [OF joined(4)]
      by (simp_all add: body demo_announce_def text_field_def py_or_def)
    moreover from joined(1) have "d = dir_put [] e" by (auto simp: signed_change_def)
    ultimately show ?thesis
      using that [OF j signed_change_ok [OF dir_ok_Nil joined(1)]] by (simp add: dir_get_put)
  qed blast
qed

lemma seed_key_pinned_witness:
  "\<exists>d md e. seed_join demo_prims 0 demo_payload [] = (d, Inr (hr_completed md)) \<and>
     dir_get (seed_run demo_prims d [(Leave, 5, ''ts'', demo_payload), (Join, 9, ''ts'', demo_payload)]) ''agent'' = Some e \<and>
     en_public_key e = public_key demo_identity"
proof -
  obtain d md e where d: "seed_join demo_prims 0 demo_payload [] = (d, Inr (hr_completed md))" "dir_ok d"
    "dir_get d ''agent'' = Some e" "en_public_key e = public_key demo_identity"
    by (rule demo_joined)
  with seed_key_pinned [OF d(2,3)] show ?thesis by metis
qed

text \<open>
  C15: the directory is authenticated: a request changes the directory only if it is a join, renew or
  leave whose body is signed by the key of the entry it writes; it then replaces the entry of the
  agent the body names and no other, and that agent's known key stays.
\<close>

theorem seed_changes_are_signed:
  assumes "dir_ok d" "seed_step E d (s, now, ts, p) \<noteq> d"
  shows "s \<in> {Join, Renew, Leave} \<and>
    (\<exists>e. signed_change E p e d (seed_step E d (s, now, ts, p)))"
  using seed_step_cases [OF assms(1)] assms(2) by metis

lemma seed_changes_are_signed_witness:
  "\<exists>e. signed_change demo_prims demo_payload e [] (seed_step demo_prims [] (Join, 0, ''ts'', demo_payload))"
proof -
  obtain d md e where d: "seed_join demo_prims 0 demo_payload [] = (d, Inr (hr_completed md))"
    "dir_get d ''agent'' = Some e"
    by (rule demo_joined)
  then have "seed_step demo_prims [] (Join, 0, ''ts'', demo_payload) \<noteq> []"
    by (auto simp: seed_step_def seed_handle_def dir_get_def)
  from seed_changes_are_signed [OF dir_ok_Nil this] show ?thesis by blast
qed

text \<open>
  C29: discovery returns the best offers: the rows are entries whose lease has not expired, that are
  available and provide the capability in a matching version, each with such a descriptor; they are
  ordered by last contact, most recent first, then by agent id; there are as many as the limit
  allows; and every offer left out comes after all rows in that order.
\<close>

theorem discover_best_offers:
  assumes "dir_discover E now d cap v limit = Inr rows" "0 \<le> limit"
  shows "sorted (map row_key rows) \<and>
    length rows = min (nat limit) (length (offers E now d cap v)) \<and>
    (\<forall>r \<in> set rows. rw_entry r \<in> set (offers E now d cap v) \<and>
       provides E cap v (rw_entry r) (rw_capability r)) \<and>
    (\<forall>e \<in> set (offers E now d cap v). e \<in> rw_entry ` set rows \<or>
       (\<forall>r \<in> set rows. row_key r \<le> (- en_last_seen e, en_agent_id e)))"
proof -
  obtain all where all: "map rw_entry all = offers E now d cap v"
    "\<forall>r \<in> set all. provides E cap v (rw_entry r) (rw_capability r)"
    "rows = slice_to limit (sort_key row_key all)"
    by (rule discover_sorted [OF assms(1)])
  let ?n = "nat limit" and ?sorted = "sort_key row_key all"
  have rows: "rows = take ?n ?sorted" using all(3) assms(2) by (simp add: slice_to_nonneg)
  have mem: "set rows \<subseteq> set all" using set_take_subset [of ?n ?sorted] by (simp add: rows)
  have entries: "rw_entry ` set all = set (offers E now d cap v)" using all(1) by (metis set_map)
  have "e \<in> rw_entry ` set rows \<or> (\<forall>r \<in> set rows. row_key r \<le> (- en_last_seen e, en_agent_id e))"
    if e: "e \<in> set (offers E now d cap v)" for e
  proof -
    from e entries obtain r where r: "r \<in> set all" "e = rw_entry r" by blast
    then have "r \<in> set (take ?n ?sorted @ drop ?n ?sorted)" by simp
    then consider "r \<in> set rows" | "r \<in> set (drop ?n ?sorted)" unfolding rows set_append by blast
    then show ?thesis
    proof cases
      case 2
      then have "\<forall>r' \<in> set rows. row_key r' \<le> row_key r"
        using sorted_take_least [OF sorted_sort_key, of _ ?n row_key all] unfolding rows by blast
      then show ?thesis by (simp add: r(2) row_key_entry)
    qed (use r in blast)
  qed
  moreover have "length all = length (offers E now d cap v)" using arg_cong [OF all(1), of length] by simp
  moreover have "sorted (map row_key rows)" unfolding rows take_map [symmetric] by (simp add: sorted_wrt_take)
  moreover have "length rows = min (nat limit) (length all)" by (simp add: rows)
  moreover have "\<forall>r \<in> set rows. rw_entry r \<in> set (offers E now d cap v)" using mem entries by blast
  ultimately show ?thesis using all(2) mem by auto
qed

definition demo_entry :: "string \<Rightarrow> int \<Rightarrow> entry" where
  "demo_entry a t =
     \<lparr>en_agent_id = a, en_public_key = ''k'', en_agent_card_url = [], en_endpoint = [],
      en_capabilities = [JStr ''echo''], en_availability = ''AVAILABLE'',
      en_lease_expires_at = t + seconds 1800, en_last_seen = t\<rparr>"

lemma discover_best_offers_witness:
  "\<exists>rows. dir_discover demo_prims 5 [(''a'', demo_entry ''a'' 1), (''b'', demo_entry ''b'' 2)] ''echo'' JNull 1 = Inr rows \<and>
     sorted (map row_key rows) \<and> length rows = 1"
proof -
  let ?d = "[(''a'', demo_entry ''a'' 1), (''b'', demo_entry ''b'' 2)]"
  obtain rows where rows: "dir_discover demo_prims 5 ?d ''echo'' JNull 1 = Inr rows"
    by (simp add: dir_discover_def demo_entry_def live_def seconds_def version_matches_value_def)
  have "provides demo_prims ''echo'' JNull (demo_entry a t)
      \<lparr>c_id = JStr ''echo'', c_version = ''1.0.0'', c_input_schema = [], c_output_schema = [], c_side_effects = ''NONE''\<rparr>"
    for a t by (simp add: provides_def demo_entry_def version_matches_value_def)
  then have "\<exists>c. provides demo_prims ''echo'' JNull (demo_entry a t) c" for a t by blast
  moreover have "live 5 (demo_entry a t)" if "0 \<le> t" for a t
    using that by (simp add: live_def demo_entry_def seconds_def)
  ultimately have "length (offers demo_prims 5 ?d ''echo'' JNull) = 2" by (simp add: offers_def)
  with rows discover_best_offers [OF rows] show ?thesis by auto
qed

text \<open>The offline state of a name is kept by every request but its own join.\<close>

definition offline :: "entry option \<Rightarrow> bool" where
  "offline x \<longleftrightarrow> (\<forall>e. x = Some e \<longrightarrow> en_availability e = ''OFFLINE'')"

lemma offline_step:
  assumes "dir_ok d" "offline (dir_get d a)"
    and "\<And>b. message_data (pl_message q) = Inr b \<Longrightarrow> s \<noteq> Join \<or> text_field E b ''agent_id'' \<noteq> a"
  shows "offline (dir_get (seed_step E d (s, now, ts, q)) a)"
proof -
  have put: "offline (dir_get d' a)"
    if "signed_change E q e d d'" "en_agent_id e = a \<longrightarrow> en_availability e = ''OFFLINE''" for e d'
    using that assms(2) by (auto simp: signed_change_def dir_get_put offline_def split: if_splits)
  show ?thesis
  proof (cases s)
    case Join
    obtain d' r where j: "seed_join E now q d = (d', r)" by fastforce
    have "offline (dir_get d' a)"
    proof (rule seed_join_cases [OF j])
      fix body e lease md
      assume "signed_change E q e d d'" "message_data (pl_message q) = Inr body"
      with assms(3) Join show ?thesis by (intro put) (auto simp: signed_change_def)
    qed (use assms(2) in simp)
    with j Join show ?thesis by (simp add: seed_step_def seed_handle_def)
  next
    case Renew
    obtain d' r where j: "seed_renew E now q d = (d', r)" by fastforce
    have "offline (dir_get d' a)"
    proof (rule seed_renew_cases [OF assms(1) j])
      fix e md
      assume "dir_get d (en_agent_id e) = Some e"
        "signed_change E q (e\<lparr>en_last_seen := now, en_lease_expires_at := now + seconds 1800\<rparr>) d d'"
      with assms(2) show ?thesis by (intro put) (auto simp: offline_def)
    qed (use assms(2) in simp)
    with j Renew show ?thesis by (simp add: seed_step_def seed_handle_def)
  next
    case Leave
    obtain d' r where j: "seed_leave E now q d = (d', r)" by fastforce
    have "offline (dir_get d' a)"
    proof (rule seed_leave_cases [OF assms(1) j])
      fix e md
      assume "signed_change E q (e\<lparr>en_availability := ''OFFLINE'', en_lease_expires_at := now\<rparr>) d d'"
      then show ?thesis by (rule put) simp
    qed (use assms(2) in simp)
    with j Leave show ?thesis by (simp add: seed_step_def seed_handle_def)
  qed (simp_all add: seed_step_def seed_handle_def seed_discover_same seed_report_def assms(2))
qed

lemma leave_offline:
  assumes "dir_ok d" "message_data (pl_message p) = Inr body"
    and "seed_leave E t p d = (d', Inr (hr_completed md))"
  shows "dir_ok d'" "offline (dir_get d' (text_field E body ''agent_id''))"
proof -
  obtain e where e: "signed_change E p (e\<lparr>en_availability := ''OFFLINE'', en_lease_expires_at := t\<rparr>) d d'"
    by (rule seed_leave_cases [OF assms(1,3)]) auto
  then show "dir_ok d'" by (rule signed_change_ok [OF assms(1)])
  from e assms(2) show "offline (dir_get d' (text_field E body ''agent_id''))"
    by (auto simp: signed_change_def dir_get_put offline_def)
qed

lemma discover_not_offline:
  assumes "dir_ok d" "offline (dir_get d a)" "dir_discover E now d cap v limit = Inr rows"
  shows "a \<notin> en_agent_id ` rw_entry ` set rows"
proof
  assume "a \<in> en_agent_id ` rw_entry ` set rows"
  then obtain r where r: "r \<in> set rows" "en_agent_id (rw_entry r) = a" by blast
  obtain all where all: "map rw_entry all = offers E now d cap v" "rows = slice_to limit (sort_key row_key all)"
    by (rule discover_sorted [OF assms(3)])
  from r(1) have "r \<in> set all" unfolding all(2) slice_to_def using in_set_takeD by fastforce
  then have "rw_entry r \<in> set (offers E now d cap v)" unfolding all(1) [symmetric] by simp
  then have "live now (rw_entry r)" "rw_entry r \<in> snd ` set d" by (auto simp: offers_def)
  then obtain k where "(k, rw_entry r) \<in> set d" by auto
  then have k: "map_of d k = Some (rw_entry r)" using assms(1) by (simp add: dir_ok_def)
  with assms(1) r(2) have "k = a" by (auto simp: dir_ok_def)
  with k assms(2) \<open>live now (rw_entry r)\<close> show False by (simp add: offline_def dir_get_def live_def)
qed

text \<open>
  C30: an agent that has left stays hidden: after an accepted leave no discovery returns the agent,
  through any sequence of requests among which there is no join for it; renewing the lease does
  not bring it back.
\<close>

theorem left_agent_stays_hidden:
  assumes "dir_ok d" "message_data (pl_message p) = Inr body"
    and "seed_leave E t p d = (d', Inr (hr_completed md))"
    and "\<And>s now ts q b. (s, now, ts, q) \<in> set rs \<Longrightarrow> message_data (pl_message q) = Inr b \<Longrightarrow>
           s \<noteq> Join \<or> text_field E b ''agent_id'' \<noteq> text_field E body ''agent_id''"
    and "dir_discover E t' (seed_run E d' rs) cap v limit = Inr rows"
  shows "text_field E body ''agent_id'' \<notin> en_agent_id ` rw_entry ` set rows"
proof (rule discover_not_offline [OF _ _ assms(5)])
  note start = leave_offline [OF assms(1-3)]
  show "dir_ok (seed_run E d' rs)"
    unfolding seed_run_def by (rule seed.run_ok [OF start(1)])
  show "offline (dir_get (seed_run E d' rs) (text_field E body ''agent_id''))"
    unfolding seed_run_def
  proof (rule seed.run_keeps [where Q = offline, OF start])
    fix d r
    assume "dir_ok d" "offline (dir_get d (text_field E body ''agent_id''))" "r \<in> set rs"
    with assms(4) show "offline (dir_get (seed_step E d r) (text_field E body ''agent_id''))"
      by (cases r) (auto intro!: offline_step)
  qed
qed

text \<open>A directory that knows the concrete identity, and its body sent as a renewal or a leave.\<close>

definition demo_dir :: directory where
  "demo_dir = [(''agent'', (demo_entry ''agent'' 0)\<lparr>en_public_key := public_key demo_identity\<rparr>)]"

lemma demo_dir_ok [simp]: "dir_ok demo_dir"
  by (simp add: demo_dir_def dir_ok_def demo_entry_def)

lemma demo_body:
  obtains body where "message_data (pl_message demo_payload) = Inr body"
    "text_field demo_prims body ''agent_id'' = ''agent''"
    "signed_entry demo_prims demo_dir body =
       Inr (Some ((demo_entry ''agent'' 0)\<lparr>en_public_key := public_key demo_identity\<rparr>))"
proof -
  obtain s where s: "s \<noteq> []" "pl_message demo_payload = data_message (demo_announce @ [(''signature'', JStr s)])"
    "verify_object demo_prims (public_key demo_identity) (demo_announce @ [(''signature'', JStr s)]) s = Inr True"
    by (rule demo_signature)
  have f: "text_field demo_prims (demo_announce @ [(''signature'', JStr s)]) ''agent_id'' = ''agent''"
    "text_field demo_prims (demo_announce @ [(''signature'', JStr s)]) ''signature'' = s"
    using s(1) by (simp_all add: text_field_def demo_announce_def py_or_def)
  show ?thesis
    by (rule that [of "demo_announce @ [(''signature'', JStr s)]"])
      (use s f in \<open>simp_all add: signed_entry_def demo_dir_def dir_get_def\<close>)
qed

lemma left_agent_stays_hidden_witness:
  "\<exists>d' md rows. seed_leave demo_prims 7 demo_payload demo_dir = (d', Inr (hr_completed md)) \<and>
     dir_discover demo_prims 9 (seed_run demo_prims d' []) ''echo'' JNull 10 = Inr rows \<and>
     ''agent'' \<notin> en_agent_id ` rw_entry ` set rows"
proof -
  obtain body where b: "message_data (pl_message demo_payload) = Inr body"
    "text_field demo_prims body ''agent_id'' = ''agent''"
    "signed_entry demo_prims demo_dir body =
       Inr (Some ((demo_entry ''agent'' 0)\<lparr>en_public_key := public_key demo_identity\<rparr>))"
    by (rule demo_body)
  obtain d' md where l: "seed_leave demo_prims 7 demo_payload demo_dir = (d', Inr (hr_completed md))"
    and d': "d' = [(''agent'', (demo_entry ''agent'' 0)\<lparr>en_public_key := public_key demo_identity,
       en_availability := ''OFFLINE'', en_lease_expires_at := 7\<rparr>)]"
    using b by (simp add: seed_leave_eq demo_dir_def)
  have "dir_discover demo_prims 9 (seed_run demo_prims d' []) ''echo'' JNull 10 = Inr []"
    by (simp add: seed_run_def d' dir_discover_def live_def slice_to_def)
  with l left_agent_stays_hidden [OF demo_dir_ok b(1) l, of "[]" 9 "''echo''" JNull 10 "[]"] b(2)
  show ?thesis by auto
qed

lemma join_entry_later:
  "join_entry E now body = Inr (e, lease) \<Longrightarrow>
   join_entry E t body = Inr (e\<lparr>en_lease_expires_at := t + seconds lease, en_last_seen := t\<rparr>, lease)"
  by (auto simp: join_entry_def Let_def)

text \<open>An accepted announcement, and what accepts it.\<close>

definition announce_ok :: "prims \<Rightarrow> payload \<Rightarrow> dict \<Rightarrow> bool" where
  "announce_ok E p body \<longleftrightarrow> message_data (pl_message p) = Inr body \<and>
     text_field E body ''agent_id'' \<noteq> [] \<and> text_field E body ''public_key'' \<noteq> [] \<and>
     text_field E body ''signature'' \<noteq> [] \<and>
     verify_object E (text_field E body ''public_key'') body (text_field E body ''signature'') = Inr True"

lemma seed_join_accepted:
  assumes "seed_join E now p d = (d', Inr (hr_completed md))"
  obtains body e lease where "announce_ok E p body" "join_entry E now body = Inr (e, lease)"
    "d' = dir_put d e"
  using assms unfolding seed_join_def announce_ok_def
  by (auto simp: orE_bindR Let_def split: sum.splits if_splits)

lemma seed_join_accepts:
  assumes "announce_ok E p body" "join_entry E now body = Inr (e, lease)"
    and "\<And>known. dir_get d (en_agent_id e) = Some known \<Longrightarrow> en_public_key known = en_public_key e"
  shows "\<exists>md. seed_join E now p d = (dir_put d e, Inr (hr_completed md))"
  using assms join_entry_fields [OF assms(2)]
  by (auto simp: announce_ok_def seed_join_def Let_def split: option.splits)

text \<open>
  Announcements can be replayed: a join that the Seed has accepted once is accepted again, in the
  same bytes, at any later time and after any further requests, also after the agent has left, and
  then registers the agent with a new lease counted from the time of the replay.
\<close>

theorem join_can_be_replayed:
  assumes "dir_ok d" "seed_join E t p d = (d', Inr (hr_completed md))"
  shows "\<exists>d2 md2 e lease. seed_join E t2 p (seed_run E d' rs) = (d2, Inr (hr_completed md2)) \<and>
    dir_get d2 (en_agent_id e) = Some e \<and> dir_get d' (en_agent_id e) \<noteq> None \<and>
    en_last_seen e = t2 \<and> en_lease_expires_at e = t2 + seconds lease \<and> 30 \<le> lease \<and> lease \<le> 7200"
proof -
  obtain body e lease where j: "announce_ok E p body" "join_entry E t body = Inr (e, lease)" "d' = dir_put d e"
    by (rule seed_join_accepted [OF assms(2)])
  have ok: "dir_ok d'"
    by (rule seed_join_cases [OF assms(2)]) (use signed_change_ok [OF assms(1)] in auto)
  have known: "dir_get d' (en_agent_id e) = Some e" unfolding j(3) by (simp add: dir_get_put)
  obtain e' where e': "dir_get (seed_run E d' rs) (en_agent_id e) = Some e'" "en_public_key e' = en_public_key e"
    using seed.run_pinned [OF ok known] unfolding seed_run_def by blast
  let ?e2 = "e\<lparr>en_lease_expires_at := t2 + seconds lease, en_last_seen := t2\<rparr>"
  obtain md2 where "seed_join E t2 p (seed_run E d' rs) = (dir_put (seed_run E d' rs) ?e2, Inr (hr_completed md2))"
    using seed_join_accepts [OF j(1) join_entry_later [OF j(2)], of "seed_run E d' rs" t2] e' by auto
  with known join_entry_fields(3,4) [OF j(2)] show ?thesis
    by (intro exI [of _ "dir_put (seed_run E d' rs) ?e2"] exI [of _ md2] exI [of _ ?e2] exI [of _ lease])
      (simp add: dir_get_put)
qed

lemma join_can_be_replayed_witness:
  "\<exists>d d2 md2. seed_join demo_prims 1000 demo_payload (seed_run demo_prims d [(Leave, 5, ''ts'', demo_payload)]) =
     (d2, Inr (hr_completed md2))"
proof -
  obtain d md where "seed_join demo_prims 0 demo_payload [] = (d, Inr (hr_completed md))"
    using demo_join by blast
  from join_can_be_replayed [OF dir_ok_Nil this] show ?thesis by metis
qed

text \<open>
  The handlers do not look at the type of the signed body: the body of an accepted renewal is
  accepted as a leave, at any time, and takes the agent offline.
\<close>

theorem renewal_accepted_as_leave:
  assumes "dir_ok d" "seed_renew E t p d = (d', Inr (hr_completed md))"
  shows "\<exists>d2 md2 e. seed_leave E t2 p d' = (d2, Inr (hr_completed md2)) \<and>
    dir_get d' (en_agent_id e) \<noteq> None \<and> dir_get d2 (en_agent_id e) = Some e \<and> en_availability e = ''OFFLINE''"
proof -
  from assms(2) obtain body e where b: "message_data (pl_message p) = Inr body"
    and e: "signed_entry E d body = Inr (Some e)"
    and d': "d' = AList.update (text_field E body ''agent_id'')
        (e\<lparr>en_last_seen := t, en_lease_expires_at := t + seconds 1800\<rparr>) d"
    by (auto simp: seed_renew_eq split: sum.splits option.splits)
  let ?a = "text_field E body ''agent_id''"
  let ?e1 = "e\<lparr>en_last_seen := t, en_lease_expires_at := t + seconds 1800\<rparr>"
  have id: "en_agent_id e = ?a"
    using signed_entry_Some(1) [OF e] assms(1) by (simp add: dir_ok_def dir_get_def)
  have g: "dir_get d' ?a = Some ?e1" by (simp add: d' dir_get_def update_conv)
  have "signed_entry E d' body = Inr (Some ?e1)"
    using signed_entry_Some(2) [OF e] by (simp add: signed_entry_def g)
  then have "seed_leave E t2 p d' =
      (AList.update ?a (?e1\<lparr>en_availability := ''OFFLINE'', en_lease_expires_at := t2\<rparr>) d',
       Inr (hr_completed [(''agent_id'', JStr ?a)]))"
    by (simp add: seed_leave_eq b)
  moreover have "dir_get (AList.update ?a x d') ?a = Some x" for x
    by (simp add: dir_get_def update_conv)
  ultimately show ?thesis using g id
    by (intro exI [of _ "AList.update ?a (?e1\<lparr>en_availability := ''OFFLINE'', en_lease_expires_at := t2\<rparr>) d'"]
        exI [of _ "[(''agent_id'', JStr ?a)]"]
        exI [of _ "?e1\<lparr>en_availability := ''OFFLINE'', en_lease_expires_at := t2\<rparr>"]) simp
qed

lemma renewal_accepted_as_leave_witness:
  "\<exists>d' d2 md2. seed_renew demo_prims 3 demo_payload demo_dir = (d', Inr (hr_completed [(''lease_expires_at'', time_json (3 + seconds 1800))])) \<and>
     seed_leave demo_prims 7 demo_payload d' = (d2, Inr (hr_completed md2))"
proof -
  obtain body where b: "message_data (pl_message demo_payload) = Inr body"
    "signed_entry demo_prims demo_dir body =
       Inr (Some ((demo_entry ''agent'' 0)\<lparr>en_public_key := public_key demo_identity\<rparr>))"
    by (rule demo_body)
  obtain d' where r: "seed_renew demo_prims 3 demo_payload demo_dir =
      (d', Inr (hr_completed [(''lease_expires_at'', time_json (3 + seconds 1800))]))"
    using b by (simp add: seed_renew_eq)
  with renewal_accepted_as_leave [OF demo_dir_ok r] show ?thesis by metis
qed

end
