(* ===== verification/Server.thy ===== *)
theory Server
  imports Artifact Handler Idempotency
begin

text \<open>
  The A2A server (\<open>a2a_server.py\<close>): handling of a message up to the call of its skill handler and
  after it, the built-in handler of proposals, publication of artifacts and their download, and
  cancellation.

  A task dictionary is shared: \<open>self.tasks\<close>, the idempotency store and the reply refer to the same
  object, which a cancellation changes in place. So tasks live in a store of dictionaries by
  address, and the tables hold addresses.

  The skill handlers are user code. A message is therefore handled in two steps, \<open>hm_begin\<close> up to
  the call of the handler and \<open>hm_finish\<close> from its result; between them the event loop runs
  other steps, when the handler awaits.
\<close>

section \<open>State\<close>

text \<open>A handler is one of the user's skills, by its name, or the server's own \<open>_handle_propose\<close>.\<close>

datatype handler = User string | Propose

record blob =
  bl_data :: bytes
  bl_sha256 :: json
  bl_allowed :: "json list"
  bl_party_keys :: dict

record server =
  sv_identity :: identity
  sv_handlers :: "(string \<times> handler) list"
  sv_heap :: "nat \<Rightarrow> dict"
  sv_next :: nat
  sv_tasks :: "string \<Rightarrow> nat option"
  sv_idem :: "nat istore"
  sv_blobs :: "json \<Rightarrow> blob option"

definition sv_init :: "identity \<Rightarrow> string list \<Rightarrow> server" where
  "sv_init i skills =
     \<lparr>sv_identity = i,
      sv_handlers = (let hs = map (\<lambda>k. (k, User k)) skills in
        if ''task.propose'' \<in> set skills then hs else hs @ [(''task.propose'', Propose)]),
      sv_heap = (\<lambda>_. []), sv_next = 0, sv_tasks = Map.empty,
      sv_idem = is_init 86400 None, sv_blobs = Map.empty\<rparr>"

text \<open>\<open>self.tasks[task_id] = task\<close> for a new dictionary.\<close>

definition add_task :: "string \<Rightarrow> dict \<Rightarrow> server \<Rightarrow> server \<times> nat" where
  "add_task task_id task sv =
     (sv\<lparr>sv_heap := (sv_heap sv)(sv_next sv := task),
         sv_next := sv_next sv + 1,
         sv_tasks := (sv_tasks sv)(task_id \<mapsto> sv_next sv)\<rparr>, sv_next sv)"

section \<open>Up to the handler\<close>

text \<open>\<open>part.get("data", {}).get("capability")\<close> of the first data part where it is truthy.\<close>

fun part_capability :: "prims \<Rightarrow> json list \<Rightarrow> string res" where
  "part_capability E [] = Inr []"
| "part_capability E (part # parts) =
     bindR (obj_get part ''kind'') (\<lambda>kind.
       if kind \<noteq> JStr ''data'' then part_capability E parts
       else
         let data = (case part of JObj d \<Rightarrow> if dhas d ''data'' then dget d ''data'' else JObj [] | _ \<Rightarrow> JNull) in
         bindR (obj_get data ''capability'') (\<lambda>c.
           if truthy c then Inr (py_str E c) else part_capability E parts))"

definition text_capability :: "prims \<Rightarrow> dict \<Rightarrow> string res" where
  "text_capability E message =
     bindR (py_iter (py_or (dget message ''parts'') (JArr []))) (part_capability E)"

text \<open>
  What \<open>handle_message\<close> reads first: metadata, capability and task id. \<open>hex\<close> is the random part of a
  new task id.
\<close>

definition read_message :: "prims \<Rightarrow> string \<Rightarrow> dict \<Rightarrow> (dict \<times> string \<times> string) res" where
  "read_message E hex message =
     bindR (py_dict (py_or (dget message ''metadata'') (JObj []))) (\<lambda>metadata.
     bindR (if truthy (dget metadata ''capability'') then Inr (py_str E (dget metadata ''capability''))
            else text_capability E message) (\<lambda>capability.
       Inr (metadata, capability,
            py_str E (py_or (dget metadata ''task_id'') (JStr (new_id ''task'' hex))))))"

definition idem_key_of :: "prims \<Rightarrow> dict \<Rightarrow> string" where
  "idem_key_of E metadata = py_str E (py_or (dget metadata ''idempotency_key'') (JStr []))"

definition message_id_of :: "prims \<Rightarrow> dict \<Rightarrow> dict \<Rightarrow> string" where
  "message_id_of E message metadata =
     py_str E (py_or (py_or (dget message ''messageId'') (dget metadata ''message_id'')) (JStr []))"

definition sender_of :: "prims \<Rightarrow> dict \<Rightarrow> string" where
  "sender_of E metadata =
     py_str E (py_or (py_or (dget metadata ''requester_agent_id'') (dget metadata ''sender_agent_id'')) (JStr []))"

text \<open>A failed task without a result.\<close>

definition refused_task :: "string \<Rightarrow> envelope \<Rightarrow> dict \<Rightarrow> dict" where
  "refused_task task_id env extra =
     [(''id'', JStr task_id),
      (''status'', JObj [(''state'', JStr ''failed'')]),
      (''metadata'', JObj ([(''error'', JStr (ev_code env)),
         (''error_envelope'', envelope_to_dict env)] @ extra))]"

text \<open>
  The contract in the metadata: None when the handler may run, else the refusal. Both signatures must
  be there; the executor's is checked, against this server's own key.
\<close>

definition check_contract :: "prims \<Rightarrow> identity \<Rightarrow> string \<Rightarrow> dict \<Rightarrow> envelope option res" where
  "check_contract E i capability metadata =
     (let contract_raw = py_or (dget metadata ''contract'') (JObj []) in
      if truthy contract_raw \<and> capability \<noteq> ''task.propose'' then
        bindR (obj_get contract_raw ''requester_signature'') (\<lambda>req_sig.
        bindR (obj_get contract_raw ''executor_signature'') (\<lambda>exe_sig.
        if \<not> truthy req_sig \<or> \<not> truthy exe_sig then
          Inr (Some (error_envelope ''TASK_REJECTED'' ''unsigned contract''))
        else case contract_raw of
          JObj c \<Rightarrow>
            bindR (verify_value E (public_key i) c exe_sig) (\<lambda>ok.
              if \<not> ok then Inr (Some (error_envelope ''INVALID_SIGNATURE'' ''executor_signature mismatch''))
              else Inr None)
        | _ \<Rightarrow> Inl AttributeError))
      else Inr None)"

text \<open>A call in flight: what \<open>hm_finish\<close> needs besides the result.\<close>

record call =
  ca_handler :: handler
  ca_payload :: payload
  ca_idem_key :: string
  ca_message_id :: string
  ca_sender :: string

datatype begun = Replied nat | Call call

text \<open>The two lookups in the store; \<open>t1\<close> and \<open>t2\<close> are the times at which they happen.\<close>

definition lookup_replies ::
    "int \<Rightarrow> int \<Rightarrow> string \<Rightarrow> string \<Rightarrow> string \<Rightarrow> nat istore \<Rightarrow> nat istore \<times> nat option" where
  "lookup_replies t1 t2 message_id sender idem_key s =
     (let (s, cached) = (if message_id \<noteq> [] \<and> sender \<noteq> [] then is_get_message s t1 t1 sender message_id
                         else (s, None)) in
      case cached of
        Some r \<Rightarrow> (s, Some r)
      | None \<Rightarrow> if idem_key \<noteq> [] then is_get s t2 t2 idem_key else (s, None))"

definition hm_begin ::
    "prims \<Rightarrow> string \<Rightarrow> int \<Rightarrow> int \<Rightarrow> dict \<Rightarrow> server \<Rightarrow> server \<times> begun res" where
  "hm_begin E hex t1 t2 message sv =
     (case read_message E hex message of
        Inl e \<Rightarrow> (sv, Inl e)
      | Inr (metadata, capability, task_id) \<Rightarrow>
          (case map_of (sv_handlers sv) capability of
             None \<Rightarrow>
               (let env = error_envelope ''UNSUPPORTED_CAPABILITY'' (''no handler for '' @ capability);
                    (sv, r) = add_task task_id
                      (refused_task task_id env [(''capability'', JStr capability)]) sv
                in (sv, Inr (Replied r)))
           | Some handler \<Rightarrow>
               (let idem_key = idem_key_of E metadata;
                    message_id = message_id_of E message metadata;
                    sender = sender_of E metadata;
                    (store, cached) = lookup_replies t1 t2 message_id sender idem_key (sv_idem sv);
                    sv = sv\<lparr>sv_idem := store\<rparr>
                in case cached of
                     Some r \<Rightarrow> (sv, Inr (Replied r))
                   | None \<Rightarrow>
                       (case check_contract E (sv_identity sv) capability metadata of
                          Inl e \<Rightarrow> (sv, Inl e)
                        | Inr (Some env) \<Rightarrow>
                            (let (sv, r) = add_task task_id (refused_task task_id env []) sv
                             in (sv, Inr (Replied r)))
                        | Inr None \<Rightarrow>
                            (sv, Inr (Call
                               \<lparr>ca_handler = handler,
                                ca_payload = \<lparr>pl_message = message, pl_metadata = metadata,
                                              pl_capability = capability, pl_task_id = task_id\<rparr>,
                                ca_idem_key = idem_key, ca_message_id = message_id,
                                ca_sender = sender\<rparr>))))))"

section \<open>Artifacts\<close>

definition a2a_artifact :: "manifest \<Rightarrow> json" where
  "a2a_artifact m = JObj
     [(''artifactId'', am_artifact_id m), (''name'', am_type m),
      (''parts'', JArr [JObj [(''kind'', JStr ''data''), (''data'', JObj (manifest_to_dict m))]])]"

text \<open>
  The bytes of a manifest: inline, or the file at its local path. \<open>fs\<close> is the file system: None for a
  path that does not exist, else the content or the exception of reading it.
\<close>

definition manifest_bytes :: "prims \<Rightarrow> (string \<Rightarrow> bytes res option) \<Rightarrow> manifest \<Rightarrow> bytes option res" where
  "manifest_bytes E fs m =
     bindR (if truthy (am_inline m) then obj_get (am_inline m) ''data'' else Inr JNull) (\<lambda>data.
       if data \<noteq> JNull then
         bindR (obj_get (am_inline m) ''encoding'') (\<lambda>enc.
         bindR (decode_body E (py_or enc (JStr ''utf-8'')) data) (\<lambda>raw. Inr (Some raw)))
       else if truthy (am_local_path m) then
         (case am_local_path m of
            JStr p \<Rightarrow> (case fs p of None \<Rightarrow> Inr None | Some r \<Rightarrow> bindR r (\<lambda>raw. Inr (Some raw)))
          | _ \<Rightarrow> Inl TypeError)
       else Inr None)"

text \<open>\<open>{...}\<close> and \<open>.add\<close>: an element must be hashable. The set is kept as a list.\<close>

definition set_add :: "json list \<Rightarrow> json \<Rightarrow> json list res" where
  "set_add xs x = (if unhashable x then Inl TypeError else Inr (List.insert x xs))"

definition allowed_parties :: "prims \<Rightarrow> string \<Rightarrow> json \<Rightarrow> json list res" where
  "allowed_parties E self contract =
     bindR (obj_get contract ''requester'') (\<lambda>requester.
     bindR (obj_get contract ''executor'') (\<lambda>executor.
     bindR (set_add [] requester) (\<lambda>s.
     bindR (set_add s executor) (\<lambda>s.
     let s = List.insert (JStr self) s in
     bindR (obj_get contract ''verification'') (\<lambda>v.
     let verification = py_or v (JObj []) in
     bindR (obj_get verification ''verifier_agent_id'') (\<lambda>verifier.
     bindR (if truthy verifier then set_add s verifier else Inr s) (\<lambda>s.
     bindR (obj_get verification ''verifiers'') (\<lambda>vs.
     bindR (py_iter (py_or vs (JArr []))) (\<lambda>items.
       Inr (filter truthy (s @ map (\<lambda>x. JStr (py_str E x)) (filter truthy items))))))))))))"

text \<open>The party keys of the contract's metadata and of its three key fields.\<close>

definition party_key :: "prims \<Rightarrow> json \<Rightarrow> json \<Rightarrow> dict \<Rightarrow> dict" where
  "party_key E agent_id key keys =
     (if truthy agent_id \<and> truthy key then dset keys (py_str E agent_id) (JStr (py_str E key)) else keys)"

definition contract_party_keys :: "prims \<Rightarrow> json \<Rightarrow> dict res" where
  "contract_party_keys E contract =
     bindR (obj_get contract ''metadata'') (\<lambda>md.
     bindR (obj_get (py_or md (JObj [])) ''party_keys'') (\<lambda>pk.
     bindR (py_dict (py_or pk (JObj []))) (\<lambda>keys.
     bindR (obj_get contract ''requester'') (\<lambda>requester.
     bindR (obj_get contract ''requester_public_key'') (\<lambda>requester_key.
     bindR (obj_get contract ''executor'') (\<lambda>executor.
     bindR (obj_get contract ''executor_public_key'') (\<lambda>executor_key.
     bindR (obj_get contract ''verification'') (\<lambda>v.
     let verification = py_or v (JObj []) in
     bindR (obj_get verification ''verifier_agent_id'') (\<lambda>verifier.
     bindR (obj_get verification ''verifier_public_key'') (\<lambda>verifier_key.
       Inr (party_key E verifier verifier_key
             (party_key E executor executor_key
               (party_key E requester requester_key keys)))))))))))))"

definition publish_artifact ::
    "prims \<Rightarrow> (string \<Rightarrow> bytes res option) \<Rightarrow> manifest \<Rightarrow> json \<Rightarrow> server \<Rightarrow> server res" where
  "publish_artifact E fs m contract sv =
     bindR (manifest_bytes E fs m) (\<lambda>found.
       case found of
         None \<Rightarrow> Inr sv
       | Some raw \<Rightarrow>
           bindR (allowed_parties E (i_agent_id (sv_identity sv)) contract) (\<lambda>allowed.
           bindR (contract_party_keys E contract) (\<lambda>keys.
             if unhashable (am_artifact_id m) then Inl TypeError
             else Inr (sv\<lparr>sv_blobs := (sv_blobs sv)(am_artifact_id m \<mapsto>
                 \<lparr>bl_data = raw, bl_sha256 = am_sha256 m, bl_allowed = allowed,
                  bl_party_keys = keys\<rparr>)\<rparr>))))"

text \<open>The loop over the handler's artifacts; artifacts published before an exception stay published.\<close>

fun publish_all ::
    "prims \<Rightarrow> (string \<Rightarrow> bytes res option) \<Rightarrow> json \<Rightarrow> artifact_item list \<Rightarrow> server \<Rightarrow> server \<times> json list res" where
  "publish_all E fs contract [] sv = (sv, Inr [])"
| "publish_all E fs contract (Raw j # items) sv =
     (case publish_all E fs contract items sv of
        (sv, Inl e) \<Rightarrow> (sv, Inl e)
      | (sv, Inr js) \<Rightarrow> (sv, Inr (j # js)))"
| "publish_all E fs contract (Manifest m # items) sv =
     (case publish_artifact E fs m contract sv of
        Inl e \<Rightarrow> (sv, Inl e)
      | Inr sv \<Rightarrow>
          (case publish_all E fs contract items sv of
             (sv, Inl e) \<Rightarrow> (sv, Inl e)
           | (sv, Inr js) \<Rightarrow> (sv, Inr (a2a_artifact m # js))))"

text \<open>
  \<open>GET /artifacts/{artifact_id}\<close>: the status, and the error or the bytes with their hash header.
\<close>

definition artifacts_get ::
    "prims \<Rightarrow> int \<Rightarrow> server \<Rightarrow> string \<Rightarrow> (string \<Rightarrow> string option) \<Rightarrow> (int \<times> (envelope + bytes \<times> json)) res" where
  "artifacts_get E now sv aid headers =
     (case sv_blobs sv (JStr aid) of
        None \<Rightarrow> Inr (404, Inl (error_envelope ''ARTIFACT_NOT_FOUND'' []))
      | Some blob \<Rightarrow>
          bindR (authorize_artifact_get E now aid headers (bl_allowed blob) (bl_party_keys blob)) (\<lambda>(err, status).
            case err of
              Some env \<Rightarrow> Inr (status, Inl env)
            | None \<Rightarrow> Inr (200, Inr (bl_data blob, bl_sha256 blob))))"

section \<open>From the handler's result\<close>

text \<open>What a handler returns: an exception, a \<open>HandlerResult\<close>, or something else (None).\<close>

type_synonym outcome = "handler_result option res"

definition opt_json :: "string option \<Rightarrow> json" where
  "opt_json x = (case x of None \<Rightarrow> JNull | Some s \<Rightarrow> JStr s)"

text \<open>\<open>result.contract.to_dict() if result.contract else ...\<close>\<close>

definition result_contract :: "handler_result \<Rightarrow> json \<Rightarrow> json" where
  "result_contract r other =
     (case hr_contract r of Some c \<Rightarrow> JObj (contract_to_dict c) | None \<Rightarrow> other)"

definition result_envelope :: "handler_result \<Rightarrow> envelope option" where
  "result_envelope r =
     (if hr_status r \<noteq> ''completed'' \<and> truthy (opt_json (hr_error_code r)) then
        let code = the (hr_error_code r);
            message = (case hr_message r of Some (c # cs) \<Rightarrow> c # cs | _ \<Rightarrow> code)
        in Some (error_envelope code message)
      else None)"

definition result_task :: "call \<Rightarrow> handler_result \<Rightarrow> json list \<Rightarrow> string \<Rightarrow> dict" where
  "result_task ca r artifacts updated =
     [(''id'', JStr (pl_task_id (ca_payload ca))),
      (''status'', JObj [(''state'', JStr (if hr_status r = ''completed'' then ''completed'' else ''failed''))]),
      (''artifacts'', JArr artifacts),
      (''metadata'', JObj (dupdate (hr_metadata r)
         [(''error'', opt_json (hr_error_code r)),
          (''message'', opt_json (hr_message r)),
          (''error_envelope'', case result_envelope r of Some env \<Rightarrow> envelope_to_dict env | None \<Rightarrow> JNull),
          (''contract'', result_contract r
             (py_or (dget (hr_metadata r) ''contract'') (dget (pl_metadata (ca_payload ca)) ''contract'')))])),
      (''updated_at'', JStr updated)]"

definition hm_finish ::
    "prims \<Rightarrow> (string \<Rightarrow> bytes res option) \<Rightarrow> int \<Rightarrow> int \<Rightarrow> string \<Rightarrow> call \<Rightarrow> outcome \<Rightarrow> server \<Rightarrow> server \<times> nat res" where
  "hm_finish E fs t1 t2 updated ca result sv =
     (case result of
        Inl e \<Rightarrow> (sv, Inl e)
      | Inr None \<Rightarrow> (sv, Inl TypeError)
      | Inr (Some r) \<Rightarrow>
          (let contract_raw = py_or (result_contract r (dget (pl_metadata (ca_payload ca)) ''contract'')) (JObj []) in
           case publish_all E fs contract_raw (hr_artifacts r) sv of
             (sv, Inl e) \<Rightarrow> (sv, Inl e)
           | (sv, Inr artifacts) \<Rightarrow>
               (let (sv, a) = add_task (pl_task_id (ca_payload ca)) (result_task ca r artifacts updated) sv;
                    store = sv_idem sv;
                    store = (if ca_idem_key ca \<noteq> [] then is_put store t1 (ca_idem_key ca) a else store);
                    store = (if ca_message_id ca \<noteq> [] \<and> ca_sender ca \<noteq> []
                             then is_put_message store t2 (ca_sender ca) (ca_message_id ca) a else store)
                in (sv\<lparr>sv_idem := store\<rparr>, Inr a))))"

section \<open>Proposals\<close>

text \<open>Fresh values of one call: two ids and the formatted time.\<close>

record propose_env =
  pe_proposal_hex :: string
  pe_contract_hex :: string
  pe_now :: string

text \<open>The proposal as the request gives it, and the capability it asks for.\<close>

definition proposal_request :: "payload \<Rightarrow> (dict \<times> json) res" where
  "proposal_request p =
     bindR (message_data (pl_message p)) (\<lambda>body.
     let proposal_raw = (case dget (pl_metadata p) ''proposal'' of
            JObj d \<Rightarrow> dupdate body d
          | _ \<Rightarrow> body);
         capability = dget proposal_raw ''capability'';
         cap_id = (case capability of JObj d \<Rightarrow> dget d ''id'' | _ \<Rightarrow> capability);
         cap_id = py_or cap_id (dget proposal_raw ''capability_id'')
     in Inr (proposal_raw, cap_id))"

definition read_proposal ::
    "prims \<Rightarrow> propose_env \<Rightarrow> identity \<Rightarrow> dict \<Rightarrow> dict \<Rightarrow> json \<Rightarrow> proposal res" where
  "read_proposal E env i metadata proposal_raw cap_id =
     (if dhas proposal_raw ''proposal_id'' then proposal_from_dict (pe_proposal_hex env) proposal_raw
      else
        bindR (py_iter (py_or (dget proposal_raw ''constraints'') (JArr []))) (\<lambda>cs.
        bindR (py_iter (py_or (dget proposal_raw ''deliverables'') (JArr []))) (\<lambda>ds.
          proposal_create E (pe_proposal_hex env)
            (JStr (py_str E (py_or (py_or (dget proposal_raw ''requester'') (dget metadata ''requester_agent_id''))
                               (JStr []))))
            (JStr (i_agent_id i))
            (JStr (py_str E cap_id))
            (JStr (py_str E (py_or (dget proposal_raw ''objective'') (JStr []))))
            (JStr ''1.0.0'') (JArr cs) (JArr ds) (dget proposal_raw ''verification'')
            (JStr (py_str E (py_or (dget proposal_raw ''side_effects'') (JStr ''NONE'')))) JNull)))"

text \<open>The contract the executor signs for a proposal.\<close>

definition propose_contract ::
    "prims \<Rightarrow> propose_env \<Rightarrow> identity \<Rightarrow> dict \<Rightarrow> dict \<Rightarrow> proposal \<Rightarrow> contract res" where
  "propose_contract E env i metadata proposal_raw p =
     bindR (obj_item (tp_capability p) ''id'') (\<lambda>cap.
     bindR (py_dict (py_or (py_or (dget proposal_raw ''metadata'') (dget metadata ''task_metadata'')) (JObj []))) (\<lambda>md.
     bindR (contract_create E (pe_contract_hex env) (pe_now env) (tp_requester p) (JStr (i_agent_id i)) cap
              (tp_objective p) (tp_constraints p) (tp_deliverables p) (tp_verification p) (JObj md)) (\<lambda>c.
     bindR (object_hash E (proposal_to_dict p)) (\<lambda>ph.
     bindR (bindR (policy_value (tp_verification p)) (policy_hash E)) (\<lambda>vh.
     let c = c\<lparr>tc_proposal_id := tp_proposal_id p,
               tc_proposal_revision := tp_revision p,
               tc_proposal_hash := JStr ph,
               tc_side_effects := tp_side_effects p,
               tc_status := JStr ''SIGNED'',
               tc_executor_key_id := JStr (i_key_id i),
               tc_requester_key_id := JStr (py_str E (py_or (py_or (dget metadata ''requester_key_id'')
                                        (dget proposal_raw ''requester_key_id'')) (JStr []))),
               tc_verification_policy_hash := JStr vh\<rparr> in
     bindR (sign_object E i (contract_to_dict c)) (\<lambda>es.
     let c = c\<lparr>tc_executor_signature := JStr es\<rparr> in
     bindR (object_hash E (contract_to_dict c)) (\<lambda>ch.
       Inr (c\<lparr>tc_contract_hash := JStr ch\<rparr>))))))))"

text \<open>\<open>work_handlers\<close> are the names of the handlers other than \<open>task.propose\<close>.\<close>

definition handle_propose :: "prims \<Rightarrow> propose_env \<Rightarrow> server \<Rightarrow> payload \<Rightarrow> handler_result res" where
  "handle_propose E env sv p =
     (let work_handlers = filter (\<lambda>k. k \<noteq> ''task.propose'') (map fst (sv_handlers sv)) in
      bindR (proposal_request p) (\<lambda>(proposal_raw, cap_id).
      if truthy cap_id \<and> unhashable cap_id then Inl TypeError
      else if truthy cap_id \<and> cap_id \<notin> JStr ` set work_handlers then
        Inr (hr_failed ''UNSUPPORTED_CAPABILITY'' None [(''decision'', JStr ''REJECT'')])
      else if \<not> truthy cap_id then Inr (hr_completed [(''decision'', JStr ''ACCEPT'')])
      else
        bindR (read_proposal E env (sv_identity sv) (pl_metadata p) proposal_raw cap_id) (\<lambda>proposal.
        if dget (pl_metadata p) ''action'' = JStr ''REJECT'' then
          Inr (hr_failed ''TASK_REJECTED'' None [(''decision'', JStr ''REJECT'')])
        else
          bindR (propose_contract E env (sv_identity sv) (pl_metadata p) proposal_raw proposal) (\<lambda>c.
            Inr (hr_completed
              [(''decision'', JStr ''ACCEPT''),
               (''contract'', JObj (contract_to_dict c)),
               (''proposal'', JObj (proposal_to_dict proposal))])))))"

section \<open>Cancellation and whole messages\<close>

text \<open>\<open>stored["status"] = {"state": "canceled"}\<close> on the shared dictionary.\<close>

definition cancel_task :: "string \<Rightarrow> server \<Rightarrow> server" where
  "cancel_task task_id sv =
     (case sv_tasks sv task_id of
        None \<Rightarrow> sv
      | Some a \<Rightarrow> sv\<lparr>sv_heap := (sv_heap sv)(a :=
          dset (sv_heap sv a) ''status'' (JObj [(''state'', JStr ''canceled'')]))\<rparr>)"

text \<open>
  One message from beginning to end, with nothing in between: \<open>skill\<close> is the user's code, a function
  of the skill's name and the payload on some world. The reply is the task dictionary.
\<close>

record msg_env =
  me_task_hex :: string
  me_t1 :: int
  me_t2 :: int
  me_t3 :: int
  me_t4 :: int
  me_updated :: string
  me_propose :: propose_env

type_synonym 'w skills = "string \<Rightarrow> payload \<Rightarrow> 'w \<Rightarrow> 'w \<times> outcome"

definition run_handler :: "prims \<Rightarrow> 'w skills \<Rightarrow> propose_env \<Rightarrow> call \<Rightarrow> server \<Rightarrow> 'w \<Rightarrow> 'w \<times> outcome" where
  "run_handler E skill env ca sv w =
     (case ca_handler ca of
        User name \<Rightarrow> skill name (ca_payload ca) w
      | Propose \<Rightarrow> (w, bindR (handle_propose E env sv (ca_payload ca)) (\<lambda>r. Inr (Some r))))"

definition handle_message ::
    "prims \<Rightarrow> (string \<Rightarrow> bytes res option) \<Rightarrow> 'w skills \<Rightarrow> msg_env \<Rightarrow> dict \<Rightarrow> server \<Rightarrow> 'w \<Rightarrow> server \<times> 'w \<times> nat res" where
  "handle_message E fs skill env message sv w =
     (case hm_begin E (me_task_hex env) (me_t1 env) (me_t2 env) message sv of
        (sv, Inl e) \<Rightarrow> (sv, w, Inl e)
      | (sv, Inr (Replied a)) \<Rightarrow> (sv, w, Inr a)
      | (sv, Inr (Call ca)) \<Rightarrow>
          (case run_handler E skill (me_propose env) ca sv w of
             (w, result) \<Rightarrow>
               (case hm_finish E fs (me_t3 env) (me_t4 env) (me_updated env) ca result sv of
                  (sv, r) \<Rightarrow> (sv, w, r))))"

section \<open>Facts about the two steps\<close>

lemma add_task_simps [simp]:
  "sv_identity (fst (add_task i d sv)) = sv_identity sv" "sv_handlers (fst (add_task i d sv)) = sv_handlers sv"
  "sv_idem (fst (add_task i d sv)) = sv_idem sv" "sv_blobs (fst (add_task i d sv)) = sv_blobs sv"
  "sv_heap (fst (add_task i d sv)) = (sv_heap sv)(sv_next sv := d)"
  "sv_next (fst (add_task i d sv)) = sv_next sv + 1"
  "sv_tasks (fst (add_task i d sv)) = (sv_tasks sv)(i \<mapsto> sv_next sv)"
  "snd (add_task i d sv) = sv_next sv"
  by (simp_all add: add_task_def)

text \<open>When the handler is called, and what the call holds.\<close>

lemma hm_begin_Call:
  assumes "hm_begin E hex t1 t2 message sv = (sv', Inr (Call ca))"
  obtains metadata capability task_id store where
    "read_message E hex message = Inr (metadata, capability, task_id)"
    "map_of (sv_handlers sv) capability = Some (ca_handler ca)"
    "lookup_replies t1 t2 (message_id_of E message metadata) (sender_of E metadata) (idem_key_of E metadata)
       (sv_idem sv) = (store, None)"
    "check_contract E (sv_identity sv) capability metadata = Inr None"
    "sv' = sv\<lparr>sv_idem := store\<rparr>"
    "ca_payload ca = \<lparr>pl_message = message, pl_metadata = metadata, pl_capability = capability,
       pl_task_id = task_id\<rparr>"
    "ca_idem_key ca = idem_key_of E metadata" "ca_message_id ca = message_id_of E message metadata"
    "ca_sender ca = sender_of E metadata"
  using assms
  by (auto simp: hm_begin_def Let_def split: sum.splits option.splits prod.splits)

lemma hm_begin_Replied:
  assumes "read_message E hex message = Inr (metadata, capability, task_id)"
    and "map_of (sv_handlers sv) capability = Some h"
    and "lookup_replies t1 t2 (message_id_of E message metadata) (sender_of E metadata) (idem_key_of E metadata)
       (sv_idem sv) = (store, Some a)"
  shows "hm_begin E hex t1 t2 message sv = (sv\<lparr>sv_idem := store\<rparr>, Inr (Replied a))"
  using assms by (simp add: hm_begin_def Let_def)

lemma check_contract_None:
  assumes "check_contract E i capability metadata = Inr None"
    and "truthy (dget metadata ''contract'')" "capability \<noteq> ''task.propose''"
  obtains c s where "dget metadata ''contract'' = JObj c" "dget c ''executor_signature'' = JStr s"
    "truthy (dget c ''requester_signature'')" "verify_object E (public_key i) c s = Inr True"
  using assms
  by (auto simp: check_contract_def Let_def verify_value_True split: if_splits json.splits)

lemma publish_all_keeps:
  "publish_all E fs c items sv = (sv', r) \<Longrightarrow>
   sv_idem sv' = sv_idem sv \<and> sv_identity sv' = sv_identity sv \<and> sv_handlers sv' = sv_handlers sv \<and>
   sv_tasks sv' = sv_tasks sv \<and> sv_heap sv' = sv_heap sv \<and> sv_next sv' = sv_next sv"
proof (induction items arbitrary: sv sv' r)
  case (Cons x items)
  then show ?case
    by (cases x) (force simp: publish_artifact_def split: sum.splits prod.splits option.splits if_splits)+
qed simp

section \<open>Replies from the store\<close>

lemma is_get_look: "in_memory s \<Longrightarrow> is_get s t t' k = (is_touch s t k, is_look s t k)"
  by (simp add: is_get_memory is_touch_memory is_look_memory)

lemma in_memory_touch [simp]: "in_memory s \<Longrightarrow> in_memory (is_touch s t k)"
  by (rule imem.inv_touch)

lemma is_look_touch [simp]:
  "in_memory s \<Longrightarrow> u \<le> t \<Longrightarrow> is_look (is_touch s u j) t k = is_look s t k"
  by (rule imem.look_touch)

lemma is_look_touch_None [simp]:
  "in_memory s \<Longrightarrow> is_look s u k = None \<Longrightarrow> is_look (is_touch s u j) t k = None"
  by (auto simp: is_touch_memory is_look_memory split: if_splits)

lemma lookup_replies_memory_eq:
  assumes "in_memory s"
  shows "lookup_replies t1 t2 m x k s =
    (if m \<noteq> [] \<and> x \<noteq> [] then
       (let s' = is_touch s t1 (msg_key x m) in
        case is_look s t1 (msg_key x m) of
          Some a \<Rightarrow> (s', Some a)
        | None \<Rightarrow> if k \<noteq> [] then (is_touch s' t2 k, is_look s' t2 k) else (s', None))
     else if k \<noteq> [] then (is_touch s t2 k, is_look s t2 k) else (s, None))"
  using assms by (simp add: lookup_replies_def is_get_message_def is_get_look Let_def split: option.split)

text \<open>A stored reply to a message is found first.\<close>

lemma lookup_replies_hit:
  assumes "in_memory s" "message_id \<noteq> []" "sender \<noteq> []" "is_look s t1 (msg_key sender message_id) = Some a"
  shows "\<exists>s'. lookup_replies t1 t2 message_id sender idem_key s = (s', Some a)"
  using assms by (simp add: lookup_replies_memory_eq)

lemma lookup_replies_memory:
  "in_memory s \<Longrightarrow> lookup_replies t1 t2 m x k s = (s', r) \<Longrightarrow> in_memory s' \<and> is_ttl s' = is_ttl s"
  by (auto simp: lookup_replies_memory_eq imem.ttl_touch Let_def split: if_splits option.splits)

lemma lookup_replies_look:
  assumes "in_memory s" "lookup_replies t1 t2 m x k s = (s', r)" "t1 \<le> t" "t2 \<le> t"
  shows "is_look s' t k' = is_look s t k'"
  using assms by (auto simp: lookup_replies_memory_eq Let_def split: if_splits option.splits)

text \<open>A lookup that finds nothing finds nothing when it is repeated, whatever the clock says.\<close>

lemma lookup_replies_miss:
  assumes "in_memory s" "lookup_replies t1 t2 m x k s = (s', None)"
  shows "\<exists>s''. lookup_replies t3 t4 m x k s' = (s'', None)"
  using assms by (auto simp: lookup_replies_memory_eq Let_def split: if_splits option.splits)

section \<open>Steps of the event loop\<close>

text \<open>
  The server with its calls in flight. A message begins, a call in flight finishes with some result, a
  task is cancelled.
\<close>

datatype sv_event =
    Begin string int int dict
  | Finish nat outcome int int string
  | Cancel string

fun sv_step ::
    "prims \<Rightarrow> (string \<Rightarrow> bytes res option) \<Rightarrow> sv_event \<Rightarrow> server \<times> call list \<Rightarrow> server \<times> call list" where
  "sv_step E fs (Begin hex t1 t2 message) (sv, calls) =
     (case hm_begin E hex t1 t2 message sv of
        (sv, Inr (Call ca)) \<Rightarrow> (sv, calls @ [ca])
      | (sv, _) \<Rightarrow> (sv, calls))"
| "sv_step E fs (Finish n result t1 t2 updated) (sv, calls) =
     (if n < length calls
      then (fst (hm_finish E fs t1 t2 updated (calls ! n) result sv), take n calls @ drop (Suc n) calls)
      else (sv, calls))"
| "sv_step E fs (Cancel task_id) (sv, calls) = (cancel_task task_id sv, calls)"

definition sv_run ::
    "prims \<Rightarrow> (string \<Rightarrow> bytes res option) \<Rightarrow> sv_event list \<Rightarrow> server \<times> call list \<Rightarrow> server \<times> call list" where
  "sv_run E fs es st = foldl (\<lambda>st e. sv_step E fs e st) st es"

text \<open>The clock readings of a step, and the store keys a call writes.\<close>

fun event_by :: "int \<Rightarrow> sv_event \<Rightarrow> bool" where
  "event_by t (Begin _ t1 t2 _) = (t1 \<le> t \<and> t2 \<le> t)"
| "event_by t (Finish _ _ t1 t2 _) = (t1 \<le> t \<and> t2 \<le> t)"
| "event_by t (Cancel _) = True"

definition writes_key :: "call \<Rightarrow> string \<Rightarrow> bool" where
  "writes_key ca k \<longleftrightarrow>
     (ca_idem_key ca \<noteq> [] \<and> k = ca_idem_key ca) \<or>
     (ca_message_id ca \<noteq> [] \<and> ca_sender ca \<noteq> [] \<and> k = msg_key (ca_sender ca) (ca_message_id ca))"

lemma hm_finish_idem:
  assumes "hm_finish E fs t1 t2 u ca result sv = (sv', r)"
  shows "sv_idem sv' = sv_idem sv \<or>
    (\<exists>a. r = Inr a \<and> sv_idem sv' =
       (let store = sv_idem sv;
            store = (if ca_idem_key ca \<noteq> [] then is_put store t1 (ca_idem_key ca) a else store)
        in if ca_message_id ca \<noteq> [] \<and> ca_sender ca \<noteq> []
           then is_put_message store t2 (ca_sender ca) (ca_message_id ca) a else store))"
  using assms
  by (auto simp: hm_finish_def add_task_def Let_def dest!: publish_all_keeps
      split: sum.splits option.splits prod.splits if_splits)

text \<open>A value of the store is found until its time, whatever the other events do.\<close>

lemma is_look_put: "in_memory s \<Longrightarrow> is_look (is_put s t k v) t' k' =
    (if k' = k then if t' < t + is_ttl s then Some v else None else is_look s t' k')"
  by (rule imem.look_put)

lemma hm_begin_idem:
  assumes "in_memory (sv_idem sv)" "hm_begin E hex t1 t2 message sv = (sv', r)" "t1 \<le> t" "t2 \<le> t"
  shows "in_memory (sv_idem sv') \<and> is_ttl (sv_idem sv') = is_ttl (sv_idem sv) \<and>
    is_look (sv_idem sv') t k = is_look (sv_idem sv) t k"
proof -
  have "in_memory s' \<and> is_ttl s' = is_ttl (sv_idem sv) \<and> is_look s' t k = is_look (sv_idem sv) t k"
    if "lookup_replies t1 t2 m x j (sv_idem sv) = (s', a)" for m x j s' a
    using lookup_replies_memory [OF assms(1) that] lookup_replies_look [OF assms(1) that assms(3,4)] by simp
  with assms(1,2) show ?thesis
    by (force simp: hm_begin_def add_task_def Let_def split: sum.splits option.splits prod.splits)
qed

lemma hm_finish_look:
  assumes "in_memory (sv_idem sv)" "hm_finish E fs t1 t2 u ca result sv = (sv', r)" "\<not> writes_key ca k"
  shows "in_memory (sv_idem sv') \<and> is_ttl (sv_idem sv') = is_ttl (sv_idem sv) \<and>
    is_look (sv_idem sv') t k = is_look (sv_idem sv) t k"
  using hm_finish_idem [OF assms(2)] assms(1,3)
  by (auto simp: Let_def is_look_put is_put_message_def writes_key_def split: if_splits)

lemma cancel_task_simps [simp]:
  "sv_idem (cancel_task i sv) = sv_idem sv" "sv_identity (cancel_task i sv) = sv_identity sv"
  "sv_handlers (cancel_task i sv) = sv_handlers sv" "sv_tasks (cancel_task i sv) = sv_tasks sv"
  "sv_next (cancel_task i sv) = sv_next sv" "sv_blobs (cancel_task i sv) = sv_blobs sv"
  by (simp_all add: cancel_task_def split: option.splits)

text \<open>The events that finish a call do not write the key.\<close>

fun spares_key :: "string \<Rightarrow> sv_event \<Rightarrow> call list \<Rightarrow> bool" where
  "spares_key k (Finish n _ _ _ _) calls = (n < length calls \<longrightarrow> \<not> writes_key (calls ! n) k)"
| "spares_key k _ _ = True"

fun run_spares_key ::
    "prims \<Rightarrow> (string \<Rightarrow> bytes res option) \<Rightarrow> string \<Rightarrow> sv_event list \<Rightarrow> server \<times> call list \<Rightarrow> bool" where
  "run_spares_key E fs k [] st = True"
| "run_spares_key E fs k (e # es) st =
     (spares_key k e (snd st) \<and> run_spares_key E fs k es (sv_step E fs e st))"

lemma sv_step_look:
  assumes "in_memory (sv_idem sv)" "event_by t e" "spares_key k e calls"
    and "sv_step E fs e (sv, calls) = (sv', calls')"
  shows "in_memory (sv_idem sv') \<and> is_look (sv_idem sv') t k = is_look (sv_idem sv) t k"
proof (cases e)
  case (Begin hex t1 t2 message)
  obtain sv1 r where b: "hm_begin E hex t1 t2 message sv = (sv1, r)" by fastforce
  with assms(4) Begin have "sv' = sv1" by (auto split: sum.splits begun.splits)
  with hm_begin_idem [OF assms(1) b, of t k] assms(2) Begin show ?thesis by simp
next
  case (Finish n result t1 t2 u)
  show ?thesis
  proof (cases "n < length calls")
    case True
    obtain sv1 r where f: "hm_finish E fs t1 t2 u (calls ! n) result sv = (sv1, r)" by fastforce
    with assms(4) Finish True have "sv' = sv1" by simp
    with hm_finish_look [OF assms(1) f] assms(3) Finish True show ?thesis by simp
  qed (use assms Finish in simp)
qed (use assms in auto)

lemma sv_run_look:
  assumes "in_memory (sv_idem (fst st))" "\<And>e. e \<in> set es \<Longrightarrow> event_by t e" "run_spares_key E fs k es st"
  shows "in_memory (sv_idem (fst (sv_run E fs es st))) \<and>
    is_look (sv_idem (fst (sv_run E fs es st))) t k = is_look (sv_idem (fst st)) t k"
  using assms
proof (induction es arbitrary: st)
  case (Cons e es)
  obtain sv calls sv' calls' where st: "st = (sv, calls)" "sv_step E fs e st = (sv', calls')"
    by (metis surj_pair)
  from sv_step_look [of sv t e k calls E fs sv' calls'] Cons.prems st
  have "in_memory (sv_idem sv') \<and> is_look (sv_idem sv') t k = is_look (sv_idem sv) t k" by simp
  with Cons.IH [of "(sv', calls')"] Cons.prems st show ?case by (simp add: sv_run_def)
qed (simp add: sv_run_def)

lemma finish_stores_reply:
  assumes "in_memory (sv_idem sv)" "hm_finish E fs t1 t2 u ca result sv = (sv', Inr a)"
    and "ca_message_id ca \<noteq> []" "ca_sender ca \<noteq> []" "t < t2 + is_ttl (sv_idem sv)"
  shows "in_memory (sv_idem sv') \<and> is_look (sv_idem sv') t (msg_key (ca_sender ca) (ca_message_id ca)) = Some a"
  using assms
  by (auto simp: hm_finish_def add_task_def Let_def is_look_put is_put_message_def dest!: publish_all_keeps
      split: sum.splits option.splits prod.splits if_splits)

section \<open>Task dictionaries\<close>

text \<open>
  The invariant of the tables: the addresses they hold are in use, and the dictionary of a task carries
  the id under which it is found.
\<close>

definition sv_ok :: "server \<Rightarrow> bool" where
  "sv_ok sv \<longleftrightarrow> in_memory (sv_idem sv) \<and>
     (\<forall>i a. sv_tasks sv i = Some a \<longrightarrow> a < sv_next sv \<and> dget (sv_heap sv a) ''id'' = JStr i) \<and>
     (\<forall>k a. is_values (sv_idem sv) k = Some a \<longrightarrow> a < sv_next sv)"

text \<open>The dictionary at an address keeps its content, but for a status that becomes \<open>canceled\<close>.\<close>

definition canceled :: "dict \<Rightarrow> dict" where
  "canceled d = dset d ''status'' (JObj [(''state'', JStr ''canceled'')])"

definition only_canceled :: "server \<Rightarrow> server \<Rightarrow> bool" where
  "only_canceled sv sv' \<longleftrightarrow> sv_next sv \<le> sv_next sv' \<and>
     (\<forall>a < sv_next sv. sv_heap sv' a = sv_heap sv a \<or> sv_heap sv' a = canceled (sv_heap sv a))"

lemma canceled_canceled [simp]: "canceled (canceled d) = canceled d"
  by (simp add: canceled_def dset_def update_triv update_conv)

lemma only_canceled_refl: "only_canceled sv sv"
  by (simp add: only_canceled_def)

lemma only_canceled_trans:
  assumes "only_canceled sv sv1" "only_canceled sv1 sv2"
  shows "only_canceled sv sv2"
  unfolding only_canceled_def
proof (intro conjI allI impI)
  show "sv_next sv \<le> sv_next sv2" using assms by (simp add: only_canceled_def)
  fix a assume "a < sv_next sv"
  with assms have "sv_heap sv1 a = sv_heap sv a \<or> sv_heap sv1 a = canceled (sv_heap sv a)"
    "sv_heap sv2 a = sv_heap sv1 a \<or> sv_heap sv2 a = canceled (sv_heap sv1 a)"
    by (auto simp: only_canceled_def)
  then show "sv_heap sv2 a = sv_heap sv a \<or> sv_heap sv2 a = canceled (sv_heap sv a)" by auto
qed

text \<open>Steps that touch the store only, and steps that add a task.\<close>

lemma sv_ok_store:
  assumes "sv_ok sv" "in_memory s" "\<And>k a. is_values s k = Some a \<Longrightarrow> a < sv_next sv"
  shows "sv_ok (sv\<lparr>sv_idem := s\<rparr>)"
  using assms by (simp add: sv_ok_def)

lemma sv_ok_add_task:
  assumes "sv_ok sv" "dget d ''id'' = JStr i"
  shows "sv_ok (fst (add_task i d sv))"
  using assms by (auto simp: sv_ok_def less_Suc_eq)

lemma only_canceled_add: "only_canceled sv (fst (add_task i d sv))"
  by (simp add: only_canceled_def)

lemma lookup_replies_values:
  assumes "in_memory s" "lookup_replies t1 t2 m x k s = (s', r)"
  shows "in_memory s'" "is_values s' j = Some a \<Longrightarrow> is_values s j = Some a" "r = Some b \<Longrightarrow> \<exists>j. is_values s j = Some b"
  using assms
  by (auto simp: lookup_replies_memory_eq is_touch_memory is_look_memory Let_def split: if_splits option.splits)

lemma refused_task_id [simp]: "dget (refused_task i env ex) ''id'' = JStr i"
  by (simp add: refused_task_def)

lemma result_task_id [simp]: "dget (result_task ca r js u) ''id'' = JStr (pl_task_id (ca_payload ca))"
  by (simp add: result_task_def)

lemma hm_begin_ok:
  assumes "sv_ok sv" "hm_begin E hex t1 t2 message sv = (sv', r)"
  shows "sv_ok sv' \<and> only_canceled sv sv'"
proof -
  have store: "sv_ok (sv\<lparr>sv_idem := s\<rparr>) \<and> only_canceled sv (sv\<lparr>sv_idem := s\<rparr>)"
    if "lookup_replies t1 t2 m x k (sv_idem sv) = (s, c)" for m x k s c
  proof -
    have mem: "in_memory (sv_idem sv)" using assms(1) by (simp add: sv_ok_def)
    have "a < sv_next sv" if "is_values s k = Some a" for k a
      using lookup_replies_values(2) [OF mem \<open>lookup_replies t1 t2 m x _ (sv_idem sv) = (s, c)\<close> that] assms(1)
      by (simp add: sv_ok_def)
    with sv_ok_store [OF assms(1) lookup_replies_values(1) [OF mem that]] show ?thesis
      by (simp add: only_canceled_def)
  qed
  have add: "sv_ok (fst (add_task i d sv1)) \<and> only_canceled sv (fst (add_task i d sv1))"
    if "sv_ok sv1 \<and> only_canceled sv sv1" "dget d ''id'' = JStr i" for i d sv1
    using that sv_ok_add_task only_canceled_trans [OF _ only_canceled_add] by blast
  show ?thesis
  proof (cases "read_message E hex message")
    case (Inl e)
    with assms show ?thesis by (simp add: hm_begin_def only_canceled_refl)
  next
    case (Inr x)
    obtain metadata capability task_id where x: "x = (metadata, capability, task_id)" by (cases x) auto
    obtain s c where l: "lookup_replies t1 t2 (message_id_of E message metadata) (sender_of E metadata)
        (idem_key_of E metadata) (sv_idem sv) = (s, c)" by fastforce
    from store [OF l] add [of sv] add [of "sv\<lparr>sv_idem := s\<rparr>"] assms only_canceled_refl show ?thesis
      unfolding hm_begin_def Inr x Let_def l
      by (auto simp: l case_prod_unfold split: option.splits sum.splits prod.splits)
  qed
qed

lemma hm_finish_ok:
  assumes "sv_ok sv" "hm_finish E fs t1 t2 u ca result sv = (sv', r)"
  shows "sv_ok sv' \<and> only_canceled sv sv'"
proof (cases "\<exists>x c sv1 js. result = Inr (Some x) \<and>
    publish_all E fs (py_or (result_contract x (dget (pl_metadata (ca_payload ca)) ''contract'')) (JObj []))
      (hr_artifacts x) sv = (sv1, js)")
  case True
  then obtain x sv1 js where x: "result = Inr (Some x)"
    and p: "publish_all E fs (py_or (result_contract x (dget (pl_metadata (ca_payload ca)) ''contract'')) (JObj []))
      (hr_artifacts x) sv = (sv1, js)" by blast
  note keeps = publish_all_keeps [OF p]
  then have ok1: "sv_ok sv1" "only_canceled sv sv1"
    using assms(1) by (simp_all add: sv_ok_def only_canceled_def)
  show ?thesis
  proof (cases js)
    case (Inl e)
    with assms(2) ok1 x p show ?thesis by (simp add: hm_finish_def Let_def)
  next
    case (Inr arts)
    let ?sv2 = "fst (add_task (pl_task_id (ca_payload ca)) (result_task ca x arts u) sv1)"
    have ok2: "sv_ok ?sv2" "only_canceled sv ?sv2"
      using sv_ok_add_task [OF ok1(1), OF result_task_id] only_canceled_trans [OF ok1(2) only_canceled_add] by auto
    define s1 where "s1 = (if ca_idem_key ca \<noteq> [] then is_put (sv_idem sv1) t1 (ca_idem_key ca) (sv_next sv1)
      else sv_idem sv1)"
    define s where "s = (if ca_message_id ca \<noteq> [] \<and> ca_sender ca \<noteq> []
      then is_put_message s1 t2 (ca_sender ca) (ca_message_id ca) (sv_next sv1) else s1)"
    have "sv' = ?sv2\<lparr>sv_idem := s\<rparr>"
      using assms(2) x p Inr by (auto simp: hm_finish_def Let_def case_prod_unfold s_def s1_def)
    moreover have "in_memory s" using ok1(1) by (simp add: s_def s1_def is_put_message_def sv_ok_def)
    moreover have "a = sv_next sv1 \<or> is_values (sv_idem sv1) k = Some a" if "is_values s k = Some a" for k a
      using that by (auto simp: s_def s1_def is_put_message_def split: if_splits)
    ultimately have s: "sv' = ?sv2\<lparr>sv_idem := s\<rparr>" "in_memory s"
      "\<And>k a. is_values s k = Some a \<Longrightarrow> a = sv_next sv1 \<or> is_values (sv_idem sv1) k = Some a"
      by blast+
    have "sv_ok sv'"
      unfolding s(1) by (rule sv_ok_store [OF ok2(1) s(2)]) (use s(3) ok1(1) in \<open>force simp: sv_ok_def\<close>)
    moreover have "only_canceled sv sv'" using ok2(2) by (simp add: s(1) only_canceled_def)
    ultimately show ?thesis by blast
  qed
next
  case False
  with assms show ?thesis
    by (auto simp: hm_finish_def only_canceled_refl Let_def split: sum.splits option.splits prod.splits)
qed

lemma cancel_task_ok:
  assumes "sv_ok sv"
  shows "sv_ok (cancel_task i sv) \<and> only_canceled sv (cancel_task i sv)"
  using assms
  by (auto simp: cancel_task_def sv_ok_def only_canceled_def canceled_def split: option.splits)

lemma sv_step_ok:
  assumes "sv_ok sv" "sv_step E fs e (sv, calls) = (sv', calls')"
  shows "sv_ok sv' \<and> only_canceled sv sv'"
proof (cases e)
  case (Begin hex t1 t2 message)
  obtain sv1 r where b: "hm_begin E hex t1 t2 message sv = (sv1, r)" by fastforce
  with assms(2) Begin have "sv' = sv1" by (auto split: sum.splits begun.splits)
  with hm_begin_ok [OF assms(1) b] show ?thesis by simp
next
  case (Finish n result t1 t2 u)
  show ?thesis
  proof (cases "n < length calls")
    case True
    obtain sv1 r where f: "hm_finish E fs t1 t2 u (calls ! n) result sv = (sv1, r)" by fastforce
    with assms(2) Finish True have "sv' = sv1" by simp
    with hm_finish_ok [OF assms(1) f] show ?thesis by simp
  qed (use assms Finish in \<open>simp add: only_canceled_refl\<close>)
qed (use assms cancel_task_ok in auto)

lemma sv_run_ok:
  "sv_ok (fst st) \<Longrightarrow> sv_ok (fst (sv_run E fs es st)) \<and> only_canceled (fst st) (fst (sv_run E fs es st))"
proof (induction es arbitrary: st)
  case (Cons e es)
  obtain sv calls sv' calls' where st: "st = (sv, calls)" "sv_step E fs e st = (sv', calls')"
    by (metis surj_pair)
  with Cons.prems sv_step_ok [of sv E fs e calls sv' calls'] have s: "sv_ok sv'" "only_canceled sv sv'" by simp_all
  from Cons.IH [of "(sv', calls')"] s only_canceled_trans [OF s(2)] st show ?case by (auto simp: sv_run_def)
qed (simp add: sv_run_def only_canceled_refl)

section \<open>Who may download\<close>

text \<open>The parties of a contract: requester, executor, the server itself and the named verifiers.\<close>

definition is_party :: "prims \<Rightarrow> string \<Rightarrow> dict \<Rightarrow> string \<Rightarrow> bool" where
  "is_party E self c a \<longleftrightarrow>
     dget c ''requester'' = JStr a \<or> dget c ''executor'' = JStr a \<or> a = self \<or>
     (\<exists>V. py_or (dget c ''verification'') (JObj []) = JObj V \<and>
        (dget V ''verifier_agent_id'' = JStr a \<or>
         (\<exists>items. py_iter (py_or (dget V ''verifiers'') (JArr [])) = Inr items \<and>
            (\<exists>x \<in> set items. truthy x \<and> py_str E x = a))))"

lemma set_add_Inr: "set_add xs x = Inr ys \<Longrightarrow> set ys = insert x (set xs)"
  by (auto simp: set_add_def split: if_splits)

lemma allowed_parties_sound:
  assumes "allowed_parties E self (JObj c) = Inr al" "JStr a \<in> set al"
  shows "is_party E self c a"
proof -
  let ?ver = "py_or (dget c ''verification'') (JObj [])"
  from assms(1) obtain s1 s2 V s3 items where
    s: "set_add [] (dget c ''requester'') = Inr s1" "set_add s1 (dget c ''executor'') = Inr s2"
    and V: "?ver = JObj V"
    and s3: "(if truthy (dget V ''verifier_agent_id'') then set_add (List.insert (JStr self) s2) (dget V ''verifier_agent_id'')
         else Inr (List.insert (JStr self) s2)) = Inr s3"
    and items: "py_iter (py_or (dget V ''verifiers'') (JArr [])) = Inr items"
    and al: "al = filter truthy (s3 @ map (\<lambda>x. JStr (py_str E x)) (filter truthy items))"
    unfolding allowed_parties_def Let_def obj_get_def
    by (auto split: json.splits)
  have "set s2 = {dget c ''requester'', dget c ''executor''}"
    using set_add_Inr [OF s(1)] set_add_Inr [OF s(2)] by auto
  moreover have "set s3 \<subseteq> insert (JStr self) (insert (dget V ''verifier_agent_id'') (set s2))"
    using s3 by (auto dest: set_add_Inr split: if_splits)
  ultimately have "JStr a \<in> {dget c ''requester'', dget c ''executor'', JStr self, dget V ''verifier_agent_id''} \<or>
      (\<exists>x \<in> set items. truthy x \<and> py_str E x = a)"
    using assms(2) al by auto
  then show ?thesis using V items unfolding is_party_def by auto
qed

lemma allowed_parties_self:
  assumes "allowed_parties E self c = Inr al" "self \<noteq> []"
  shows "JStr self \<in> set al"
  using assms unfolding allowed_parties_def Let_def
  by (auto dest!: set_add_Inr split: if_splits)

lemma authorize_ok_status:
  "authorize_artifact_get E now aid h allowed keys = Inr (None, st) \<Longrightarrow> st = 200"
  by (auto simp: authorize_artifact_get_def Let_def split: if_splits option.splits json.splits)

lemma published_get:
  assumes "manifest_bytes E fs m = Inr (Some raw)" "am_artifact_id m = JStr aid"
    and "publish_artifact E fs m (JObj c) sv = Inr sv'" "i_agent_id (sv_identity sv) \<noteq> []"
    and "artifacts_get E now sv' aid h = Inr (200, r)"
  shows "r = Inr (raw, am_sha256 m)"
    and "is_party E (i_agent_id (sv_identity sv)) c (header h ''X-Agent-Id'' ''x-agent-id'')"
proof -
  from assms(1-3) obtain al keys where al: "allowed_parties E (i_agent_id (sv_identity sv)) (JObj c) = Inr al"
    and b: "sv_blobs sv' (JStr aid) = Some \<lparr>bl_data = raw, bl_sha256 = am_sha256 m, bl_allowed = al, bl_party_keys = keys\<rparr>"
    by (auto simp: publish_artifact_def split: if_splits)
  from assms(5) b have "bindR (authorize_artifact_get E now aid h al keys) (\<lambda>(err, status).
      case err of Some env \<Rightarrow> Inr (status, Inl env) | None \<Rightarrow> Inr (200, Inr (raw, am_sha256 m))) = Inr (200, r)"
    by (simp add: artifacts_get_def cong: option.case_cong)
  then obtain x where x: "authorize_artifact_get E now aid h al keys = Inr x"
    "(case fst x of Some env \<Rightarrow> Inr (snd x, Inl env) | None \<Rightarrow> Inr (200, Inr (raw, am_sha256 m))) =
      (Inr (200, r) :: (int \<times> (envelope + bytes \<times> json)) res)"
    by (auto simp: case_prod_unfold)
  have "fst x = None"
    using x by (auto simp: authorize_artifact_get_def Let_def split: option.splits if_splits json.splits)
  with x authorize_ok_status [of E now aid h al keys "snd x"]
  have acc: "authorize_artifact_get E now aid h al keys = Inr (None, 200)" and "r = Inr (raw, am_sha256 m)"
    by (cases x, auto)+
  then show "r = Inr (raw, am_sha256 m)" by simp
  have "al \<noteq> []" using allowed_parties_self [OF al assms(4)] by auto
  with acc have "JStr (header h ''X-Agent-Id'' ''x-agent-id'') \<in> set al"
    by (auto simp: authorize_ok_iff Let_def)
  then show "is_party E (i_agent_id (sv_identity sv)) c (header h ''X-Agent-Id'' ''x-agent-id'')"
    by (rule allowed_parties_sound [OF al])
qed

section \<open>Accepted proposals\<close>

lemma propose_contract_signed:
  assumes "ed25519_ok E" "identity_ok E i" "propose_contract E env i md raw p = Inr c"
  shows "\<exists>es ch ph. tc_executor_signature c = JStr es \<and> es \<noteq> [] \<and>
    verify_object E (public_key i) (contract_to_dict c) es = Inr True \<and>
    tc_contract_hash c = JStr ch \<and> object_hash E (contract_to_dict c) = Inr ch \<and>
    tc_proposal_hash c = JStr ph \<and> object_hash E (proposal_to_dict p) = Inr ph \<and>
    tc_executor c = JStr (i_agent_id i) \<and> tc_status c = JStr ''SIGNED'' \<and>
    tc_requester c = tp_requester p \<and> tc_objective c = tp_objective p \<and>
    obj_item (tp_capability p) ''id'' = Inr (tc_capability c) \<and> tc_requester_signature c = JNull"
proof -
  from assms(3) obtain cap mdd c0 ph vh rk es ch where
    cap: "obj_item (tp_capability p) ''id'' = Inr cap"
    and c0: "contract_create E (pe_contract_hex env) (pe_now env) (tp_requester p) (JStr (i_agent_id i)) cap
              (tp_objective p) (tp_constraints p) (tp_deliverables p) (tp_verification p) (JObj mdd) = Inr c0"
    and ph: "object_hash E (proposal_to_dict p) = Inr ph"
    and d: "\<exists>d. d = c0\<lparr>tc_proposal_id := tp_proposal_id p, tc_proposal_revision := tp_revision p,
         tc_proposal_hash := JStr ph, tc_side_effects := tp_side_effects p, tc_status := JStr ''SIGNED'',
         tc_executor_key_id := JStr (i_key_id i), tc_requester_key_id := rk,
         tc_verification_policy_hash := JStr vh\<rparr> \<and>
       sign_object E i (contract_to_dict d) = Inr es \<and>
       object_hash E (contract_to_dict (d\<lparr>tc_executor_signature := JStr es\<rparr>)) = Inr ch \<and>
       c = d\<lparr>tc_executor_signature := JStr es, tc_contract_hash := JStr ch\<rparr>"
    unfolding propose_contract_def Let_def by (auto elim!: bindR_InrE)
  then obtain d where d: "d = c0\<lparr>tc_proposal_id := tp_proposal_id p, tc_proposal_revision := tp_revision p,
         tc_proposal_hash := JStr ph, tc_side_effects := tp_side_effects p, tc_status := JStr ''SIGNED'',
         tc_executor_key_id := JStr (i_key_id i), tc_requester_key_id := rk,
         tc_verification_policy_hash := JStr vh\<rparr>"
    and es: "sign_object E i (contract_to_dict d) = Inr es"
    and ch: "object_hash E (contract_to_dict (d\<lparr>tc_executor_signature := JStr es\<rparr>)) = Inr ch"
    and c: "c = d\<lparr>tc_executor_signature := JStr es, tc_contract_hash := JStr ch\<rparr>" by blast
  have un: "unsigned_payload (contract_to_dict c) = unsigned_payload (contract_to_dict d)"
    unfolding c by (simp only: contract_unsigned_update)
  have "verify_object E (public_key i) (contract_to_dict c) es = Inr True"
    using sign_object_verifies [OF assms(1,2) es] verify_object_unsigned [OF un] by simp
  moreover have "object_hash E (contract_to_dict c) = Inr ch"
    using ch unfolding c by (simp add: object_hash_def contract_unsigned_update)
  ultimately show ?thesis
    using contract_create_fields [OF c0] cap ph sign_object_neq_Nil [OF assms(2) es] by (simp add: c d)
qed

text \<open>Signing needs no valid policy: a fit proposal always gets its contract.\<close>

lemma propose_contract_total:
  assumes "proposal_fit E p" "identity_ok E i"
    and "py_or (py_or (dget raw ''metadata'') (dget md ''task_metadata'')) (JObj []) = JObj m"
    and "finite_json (JObj m)"
  shows "\<exists>c. propose_contract E env i md raw p = Inr c \<and> tc_verification c = py_or (tp_verification p) (JObj [(''required'', JBool False)])"
proof -
  obtain d cap V vh c0 where p: "tp_capability p = JObj d" "ditem d ''id'' = Inr cap"
      "tp_verification p = JObj V" "policy_hash E V = Inr vh"
    and fields: "finite_json (tp_proposal_id p)" "finite_json (tp_revision p)"
      "finite_json (tp_side_effects p)" "finite_json (JObj (proposal_to_dict p))"
    and c0: "contract_create E (pe_contract_hex env) (pe_now env) (tp_requester p) (JStr (i_agent_id i)) cap
       (tp_objective p) (tp_constraints p) (tp_deliverables p) (JObj V) (JObj m) = Inr c0"
      "finite_json (JObj (contract_to_dict c0))"
    using fit_contract [OF assms(1) _ assms(4), of "JStr (i_agent_id i)" "pe_contract_hex env" "pe_now env"] by auto
  obtain ph where ph: "object_hash E (proposal_to_dict p) = Inr ph"
    using object_hash_total [OF fields(4)] by blast
  define draft where "draft = c0\<lparr>tc_proposal_id := tp_proposal_id p, tc_proposal_revision := tp_revision p,
     tc_proposal_hash := JStr ph, tc_side_effects := tp_side_effects p, tc_status := JStr ''SIGNED'',
     tc_executor_key_id := JStr (i_key_id i),
     tc_requester_key_id := JStr (py_str E (py_or (py_or (dget md ''requester_key_id'')
                                        (dget raw ''requester_key_id'')) (JStr []))),
     tc_verification_policy_hash := JStr vh\<rparr>"
  have fd: "finite_json (JObj (contract_to_dict draft))"
    using c0(2) fields by (simp add: draft_def contract_to_dict_def)
  obtain es where es: "sign_object E i (contract_to_dict draft) = Inr es"
    using sign_object_total' [OF assms(2) fd] by blast
  obtain ch where ch: "object_hash E (contract_to_dict (draft\<lparr>tc_executor_signature := JStr es\<rparr>)) = Inr ch"
    using object_hash_total [OF finite_contract_update(2) [OF fd]] by blast
  have "propose_contract E env i md raw p = Inr (draft\<lparr>tc_executor_signature := JStr es, tc_contract_hash := JStr ch\<rparr>)"
    using p c0(1) ph es ch assms(3)
    by (simp add: propose_contract_def policy_value_def draft_def Let_def)
  then show ?thesis
    using contract_create_fields [OF c0(1)] p(3) by (simp add: draft_def)
qed

text \<open>A request that sends a whole proposal, for a capability of the server.\<close>

definition proposal_payload :: "proposal \<Rightarrow> payload" where
  "proposal_payload q =
     \<lparr>pl_message = data_message (proposal_to_dict q), pl_metadata = [], pl_capability = ''task.propose'',
      pl_task_id = ''t''\<rparr>"

lemma handle_fit_proposal:
  assumes "proposal_fit E q" "identity_ok E (sv_identity sv)"
    and "tp_capability q = JObj d" "dget d ''id'' = JStr name" "name \<noteq> []"
    and "name \<in> fst ` set (sv_handlers sv)" "name \<noteq> ''task.propose''"
  shows "\<exists>c. handle_propose E env sv (proposal_payload q) =
      Inr (hr_completed [(''decision'', JStr ''ACCEPT''), (''contract'', JObj (contract_to_dict c)),
       (''proposal'', JObj (proposal_to_dict q))]) \<and>
    propose_contract E env (sv_identity sv) [] (proposal_to_dict q) q = Inr c \<and>
    tc_verification c = py_or (tp_verification q) (JObj [(''required'', JBool False)])"
proof -
  have f: "dget (proposal_to_dict q) ''capability'' = tp_capability q"
    "dget (proposal_to_dict q) ''metadata'' = JNull" "dhas (proposal_to_dict q) ''proposal_id''"
    by (simp_all add: proposal_to_dict_def)
  have req: "proposal_request (proposal_payload q) = Inr (proposal_to_dict q, JStr name)"
    using assms(3-5) by (simp add: proposal_request_def proposal_payload_def f)
  obtain c where c: "propose_contract E env (sv_identity sv) [] (proposal_to_dict q) q = Inr c"
    "tc_verification c = py_or (tp_verification q) (JObj [(''required'', JBool False)])"
    using propose_contract_total [OF assms(1,2), of "proposal_to_dict q" "[]" "[]"] by (auto simp: f)
  have "name \<in> set (filter (\<lambda>k. k \<noteq> ''task.propose'') (map fst (sv_handlers sv)))"
    using assms(6,7) by auto
  moreover have "proposal_from_dict hex (proposal_to_dict q) = Inr q" for hex
    using proposal_from_to assms(3) by simp
  ultimately have "handle_propose E env sv (proposal_payload q) =
      Inr (hr_completed [(''decision'', JStr ''ACCEPT''), (''contract'', JObj (contract_to_dict c)),
       (''proposal'', JObj (proposal_to_dict q))])"
    using c(1) assms(5) f(3) by (simp add: handle_propose_def req read_proposal_def unhashable_def Let_def) (simp add: proposal_payload_def)
  with c show ?thesis by blast
qed

lemma handle_propose_accepts:
  assumes "handle_propose E env sv p = Inr r" "dget (hr_metadata r) ''contract'' \<noteq> JNull"
  obtains raw cap_id pr c where "proposal_request p = Inr (raw, JStr cap_id)"
    "cap_id \<in> fst ` set (sv_handlers sv)" "cap_id \<noteq> ''task.propose''"
    "propose_contract E env (sv_identity sv) (pl_metadata p) raw pr = Inr c"
    "r = hr_completed [(''decision'', JStr ''ACCEPT''), (''contract'', JObj (contract_to_dict c)),
       (''proposal'', JObj (proposal_to_dict pr))]"
proof -
  from assms(1) obtain raw cap where req: "proposal_request p = Inr (raw, cap)"
    by (auto simp: handle_propose_def)
  with assms have known: "truthy cap" "cap \<in> JStr ` set (filter (\<lambda>k. k \<noteq> ''task.propose'') (map fst (sv_handlers sv)))"
    by (auto simp: handle_propose_def Let_def hr_failed_def hr_completed_def split: if_splits)
  then obtain name where name: "cap = JStr name" "name \<in> fst ` set (sv_handlers sv)" "name \<noteq> ''task.propose''"
    by auto
  from assms req known have "bindR (read_proposal E env (sv_identity sv) (pl_metadata p) raw cap) (\<lambda>proposal.
        if dget (pl_metadata p) ''action'' = JStr ''REJECT'' then
          Inr (hr_failed ''TASK_REJECTED'' None [(''decision'', JStr ''REJECT'')])
        else
          bindR (propose_contract E env (sv_identity sv) (pl_metadata p) raw proposal) (\<lambda>c.
            Inr (hr_completed [(''decision'', JStr ''ACCEPT''), (''contract'', JObj (contract_to_dict c)),
               (''proposal'', JObj (proposal_to_dict proposal))]))) = Inr r"
    by (simp add: handle_propose_def Let_def split: if_splits)
  with assms(2) obtain pr c where
    "propose_contract E env (sv_identity sv) (pl_metadata p) raw pr = Inr c"
    "r = hr_completed [(''decision'', JStr ''ACCEPT''), (''contract'', JObj (contract_to_dict c)),
       (''proposal'', JObj (proposal_to_dict pr))]"
    by (auto simp: hr_failed_def split: if_splits)
  with req name show ?thesis using that by blast
qed

section \<open>A concrete server\<close>

definition demo_server :: server where
  "demo_server = sv_init demo_identity [''report'']"

lemma demo_server_simps [simp]:
  "sv_identity demo_server = demo_identity" "sv_next demo_server = 0" "sv_idem demo_server = is_init 86400 None"
  "sv_handlers demo_server = [(''report'', User ''report''), (''task.propose'', Propose)]"
  "sv_tasks demo_server i = None"
  by (simp_all add: demo_server_def sv_init_def)

lemma demo_server_ok [simp]: "sv_ok demo_server"
  by (simp add: sv_ok_def)

definition demo_message :: dict where
  "demo_message =
     [(''messageId'', JStr ''m1''),
      (''metadata'', JObj [(''capability'', JStr ''report''), (''task_id'', JStr ''t1''),
                           (''requester_agent_id'', JStr ''boss'')])]"

definition demo_call :: call where
  "demo_call =
     \<lparr>ca_handler = User ''report'',
      ca_payload = \<lparr>pl_message = demo_message,
        pl_metadata = [(''capability'', JStr ''report''), (''task_id'', JStr ''t1''),
                       (''requester_agent_id'', JStr ''boss'')],
        pl_capability = ''report'', pl_task_id = ''t1''\<rparr>,
      ca_idem_key = [], ca_message_id = ''m1'', ca_sender = ''boss''\<rparr>"

lemma demo_read: "read_message demo_prims hex demo_message =
    Inr ([(''capability'', JStr ''report''), (''task_id'', JStr ''t1''), (''requester_agent_id'', JStr ''boss'')],
         ''report'', ''t1'')"
  by (simp add: read_message_def demo_message_def py_or_def)

lemma demo_keys:
  "message_id_of demo_prims demo_message [(''capability'', JStr ''report''), (''task_id'', JStr ''t1''),
     (''requester_agent_id'', JStr ''boss'')] = ''m1''"
  "sender_of demo_prims [(''capability'', JStr ''report''), (''task_id'', JStr ''t1''),
     (''requester_agent_id'', JStr ''boss'')] = ''boss''"
  "idem_key_of demo_prims [(''capability'', JStr ''report''), (''task_id'', JStr ''t1''),
     (''requester_agent_id'', JStr ''boss'')] = []"
  by (simp_all add: message_id_of_def sender_of_def idem_key_of_def demo_message_def py_or_def)

lemma demo_begin:
  obtains sv where "hm_begin demo_prims ''h'' t1 t2 demo_message demo_server = (sv, Inr (Call demo_call))"
    "sv_ok sv" "sv_idem sv = is_touch (is_init 86400 None) t1 (msg_key ''boss'' ''m1'')"
proof -
  have l: "lookup_replies t1 t2 ''m1'' ''boss'' [] (is_init 86400 None :: nat istore) =
     (is_touch (is_init 86400 None) t1 (msg_key ''boss'' ''m1''), None)"
    by (simp add: lookup_replies_memory_eq is_look_memory)
  have "hm_begin demo_prims ''h'' t1 t2 demo_message demo_server =
     (demo_server\<lparr>sv_idem := is_touch (is_init 86400 None) t1 (msg_key ''boss'' ''m1'')\<rparr>, Inr (Call demo_call))"
    by (simp add: hm_begin_def demo_read demo_keys l check_contract_def demo_call_def py_or_def Let_def)
  with hm_begin_ok [OF demo_server_ok this] that show ?thesis by simp
qed

section \<open>Properties\<close>



text \<open>
  The requester's signature is not checked: with this server's own signature on it, a contract
  passes with any non-empty text in the place of the requester's signature.
\<close>

theorem requester_signature_not_verified:
  assumes "ed25519_ok E" "identity_ok E i" "sign_object E i c = Inr s" "forged \<noteq> []"
  shows "check_contract E i capability [(''contract'', JObj (dset (dset c ''executor_signature'' (JStr s))
           ''requester_signature'' (JStr forged)))] = Inr None"
proof -
  let ?c = "dset (dset c ''executor_signature'' (JStr s)) ''requester_signature'' (JStr forged)"
  have "unsigned_payload ?c = unsigned_payload c"
    by (simp add: unsigned_dset omit_fields_defs)
  then have "verify_object E (public_key i) ?c s = Inr True"
    using sign_object_verifies [OF assms(1-3)] by (simp only: verify_object_def)
  moreover have "s \<noteq> []" by (rule sign_object_neq_Nil [OF assms(2,3)])
  moreover have "truthy (JObj ?c)"
  proof -
    have "dhas ?c ''requester_signature''" by simp
    then have "?c \<noteq> []" by (metis dhas_Nil)
    then show ?thesis by simp
  qed
  ultimately show ?thesis using assms(4)
    by (simp add: check_contract_def verify_value_def Let_def)
qed

lemma requester_signature_not_verified_witness:
  "\<exists>s. check_contract demo_prims demo_identity ''report'' [(''contract'', JObj (dset (dset demo_obj
      ''executor_signature'' (JStr s)) ''requester_signature'' (JStr ''forged'')))] = Inr None"
proof -
  obtain s where "sign_object demo_prims demo_identity demo_obj = Inr s"
    using sign_object_total' [OF demo_identity_ok demo_objs_ok(4)] by blast
  from requester_signature_not_verified [OF demo_ed25519_ok demo_identity_ok this] show ?thesis by blast
qed



text \<open>
  The check is not atomic with the store: while the call for a message is in flight, a second copy of
  the message calls the handler again, at any later time.
\<close>

theorem concurrent_duplicates_both_run:
  assumes "in_memory (sv_idem sv)" "hm_begin E hex t1 t2 message sv = (sv1, Inr (Call ca))"
  shows "\<exists>sv2. hm_begin E hex t3 t4 message sv1 = (sv2, Inr (Call ca))"
proof -
  obtain metadata capability task_id store where c:
    "read_message E hex message = Inr (metadata, capability, task_id)"
    "map_of (sv_handlers sv) capability = Some (ca_handler ca)"
    "lookup_replies t1 t2 (message_id_of E message metadata) (sender_of E metadata) (idem_key_of E metadata)
       (sv_idem sv) = (store, None)"
    "check_contract E (sv_identity sv) capability metadata = Inr None"
    "sv1 = sv\<lparr>sv_idem := store\<rparr>"
    "ca_payload ca = \<lparr>pl_message = message, pl_metadata = metadata, pl_capability = capability,
       pl_task_id = task_id\<rparr>"
    "ca_idem_key ca = idem_key_of E metadata" "ca_message_id ca = message_id_of E message metadata"
    "ca_sender ca = sender_of E metadata"
    using assms(2) by (rule hm_begin_Call)
  obtain store2 where "lookup_replies t3 t4 (message_id_of E message metadata) (sender_of E metadata)
      (idem_key_of E metadata) store = (store2, None)"
    using lookup_replies_miss [OF assms(1) c(3)] by blast
  with c have "hm_begin E hex t3 t4 message sv1 = (sv1\<lparr>sv_idem := store2\<rparr>, Inr (Call ca))"
    by (cases ca) (simp add: hm_begin_def Let_def)
  then show ?thesis by blast
qed

lemma concurrent_duplicates_both_run_witness:
  "\<exists>sv1 sv2. hm_begin demo_prims ''h'' 0 0 demo_message demo_server = (sv1, Inr (Call demo_call)) \<and>
     hm_begin demo_prims ''h'' 3 3 demo_message sv1 = (sv2, Inr (Call demo_call))"
proof -
  obtain sv1 where b: "hm_begin demo_prims ''h'' 0 0 demo_message demo_server = (sv1, Inr (Call demo_call))"
    using demo_begin by blast
  from concurrent_duplicates_both_run [OF _ b, of 3 3] b show ?thesis by auto
qed

text \<open>
  C35: task objects are stable: through any run of the event loop the tables stay consistent, and a task
  object once created keeps its content, its id included; at most its status becomes \<open>canceled\<close>.
\<close>

theorem task_objects_stable:
  assumes "sv_ok sv" "sv_run E fs es (sv, calls) = (sv', calls')"
  shows "sv_ok sv' \<and> only_canceled sv sv'"
  using sv_run_ok [of "(sv, calls)" E fs es] assms by simp

lemma task_objects_stable_witness:
  "sv_ok (fst (sv_run demo_prims (\<lambda>_. None) [Begin ''h'' 0 0 demo_message,
      Finish 0 (Inr (Some (hr_completed []))) 1 1 ''now'', Cancel ''t1''] (demo_server, [])))"
proof -
  obtain sv' calls' where r: "sv_run demo_prims (\<lambda>_. None) [Begin ''h'' 0 0 demo_message,
      Finish 0 (Inr (Some (hr_completed []))) 1 1 ''now'', Cancel ''t1''] (demo_server, []) = (sv', calls')"
    by fastforce
  from task_objects_stable [OF demo_server_ok r] r show ?thesis by simp
qed


definition demo_manifest :: manifest where
  "demo_manifest = manifest_of_fields
     [(''artifact_id'', JStr ''a''), (''type'', JStr ''report''),
      (''inline'', JObj [(''encoding'', JStr ''utf-8''), (''data'', JStr ''x'')])]"



lemma demo_offer:
  obtains c where "handle_propose demo_prims env demo_server (proposal_payload demo_proposal) =
      Inr (hr_completed [(''decision'', JStr ''ACCEPT''), (''contract'', JObj (contract_to_dict c)),
       (''proposal'', JObj (proposal_to_dict demo_proposal))])"
    "propose_contract demo_prims env demo_identity [] (proposal_to_dict demo_proposal) demo_proposal = Inr c"
proof -
  have "proposal_fit demo_prims demo_proposal" using demo_proposal_signable by (simp add: signable_def)
  then show ?thesis
    using handle_fit_proposal [of demo_prims demo_proposal demo_server
        "[(''id'', JStr ''report''), (''version'', JStr ''1.0.0'')]" "''report''" env] that
    by (auto simp: demo_proposal_def proposal_of_fields_def)
qed


text \<open>
  A proposal that brings its own id is accepted without validation of its verification policy: the
  server signs a contract whose policy is refused by the validation that proposals made locally pass,
  for example because it names the server itself as verifier.
\<close>

theorem foreign_proposal_policy_not_validated:
  assumes "proposal_fit E q" "identity_ok E (sv_identity sv)"
    and "tp_capability q = JObj d" "dget d ''id'' = JStr name" "name \<noteq> []"
    and "name \<in> fst ` set (sv_handlers sv)" "name \<noteq> ''task.propose''"
    and "tp_verification q = JObj V" "V \<noteq> []"
    and "validate_verification E V (JStr (i_agent_id (sv_identity sv))) = Inl e"
  shows "\<exists>r c. handle_propose E env sv (proposal_payload q) = Inr r \<and>
    dget (hr_metadata r) ''decision'' = JStr ''ACCEPT'' \<and> dget (hr_metadata r) ''contract'' = JObj c \<and>
    dget c ''verification'' = JObj V"
proof -
  obtain c where c: "handle_propose E env sv (proposal_payload q) =
      Inr (hr_completed [(''decision'', JStr ''ACCEPT''), (''contract'', JObj (contract_to_dict c)),
       (''proposal'', JObj (proposal_to_dict q))])"
    "tc_verification c = py_or (tp_verification q) (JObj [(''required'', JBool False)])"
    using handle_fit_proposal [OF assms(1-7)] by blast
  have "dget (contract_to_dict c) ''verification'' = JObj V"
    using c(2) assms(8,9) by (simp add: contract_to_dict_def)
  with c(1) show ?thesis by simp
qed

definition demo_self_policy :: dict where
  "demo_self_policy =
     [(''required'', JBool True), (''policy'', JStr ''MULTI_VERIFIER''),
      (''verifiers'', JArr [JStr ''agent'', JStr ''v2'']), (''required_passes'', JInt 1)]"

lemma foreign_proposal_policy_not_validated_witness:
  "\<exists>r c. handle_propose demo_prims \<lparr>pe_proposal_hex = ''p'', pe_contract_hex = ''c'', pe_now = ''now''\<rparr> demo_server
      (proposal_payload (demo_proposal\<lparr>tp_verification := JObj demo_self_policy\<rparr>)) = Inr r \<and>
    dget (hr_metadata r) ''contract'' = JObj c \<and> dget c ''verification'' = JObj demo_self_policy"
proof -
  let ?q = "demo_proposal\<lparr>tp_verification := JObj demo_self_policy\<rparr>"
  have p: "\<exists>p. canonical_policy demo_self_policy = Inr p \<and> finite_json (JObj p)"
    by (simp add: demo_self_policy_def canonical_policy_def py_or_def)
  then obtain b where "bindR (canonical_policy demo_self_policy) (\<lambda>p. canonical_json demo_prims (JObj p)) = Inr b"
    using canonical_json_emit by fastforce
  then have "\<exists>h. policy_hash demo_prims demo_self_policy = Inr h"
    by (auto simp: policy_hash_def)
  then have fit: "proposal_fit demo_prims ?q"
    by (auto simp: proposal_fit_def demo_proposal_def proposal_of_fields_def proposal_to_dict_def demo_self_policy_def)
  have cap: "tp_capability ?q = JObj [(''id'', JStr ''report''), (''version'', JStr ''1.0.0'')]"
    by (simp add: demo_proposal_def proposal_of_fields_def)
  have "validate_verification demo_prims demo_self_policy (JStr ''agent'') =
      Inl (VerifierSelectionError ''executor cannot verify itself'')"
    by (simp add: demo_self_policy_def policy_eval)
  then have inv: "validate_verification demo_prims demo_self_policy (JStr (i_agent_id (sv_identity demo_server))) =
      Inl (VerifierSelectionError ''executor cannot verify itself'')" by simp
  show ?thesis
    using foreign_proposal_policy_not_validated [OF fit _ cap _ _ _ _ _ _ inv]
    by (simp add: demo_self_policy_def) blast
qed

end
