(* ===== verification/Url.thy ===== *)
theory Url
  imports Prelude
begin

text \<open>
  The part of \<open>urllib.parse.urlsplit\<close> the SDK uses: scheme, network location and path. The network
  location is ASCII (the Unicode normalisation check does nothing then) and a bracketed host is taken
  as an IP address.
\<close>

text \<open>\<open>lower()\<close> on ASCII letters.\<close>

definition lower_char :: "char \<Rightarrow> char" where
  "lower_char c =
     (let n = of_char c :: nat in if 65 \<le> n \<and> n \<le> 90 then char_of (n + 32) else c)"

definition py_lower :: "string \<Rightarrow> string" where
  "py_lower s = map lower_char s"


definition control_or_space :: "char list" where
  "control_or_space = map char_of [0 ..< 33 :: nat]"

definition is_alpha :: "char \<Rightarrow> bool" where
  "is_alpha c = (let n = of_char (lower_char c) :: nat in 97 \<le> n \<and> n \<le> 122)"

definition scheme_char :: "char \<Rightarrow> bool" where
  "scheme_char c = (is_alpha c \<or> is_digit c \<or> c \<in> set ''+-.'')"

text \<open>\<open>s[:i]\<close> and \<open>s[i + 1:]\<close> at the first occurrence of \<open>c\<close>.\<close>

definition before :: "char \<Rightarrow> string \<Rightarrow> string" where
  "before c s = takeWhile (\<lambda>x. x \<noteq> c) s"

definition after :: "char \<Rightarrow> string \<Rightarrow> string" where
  "after c s = tl (dropWhile (\<lambda>x. x \<noteq> c) s)"

record url =
  u_scheme :: string
  u_netloc :: string
  u_path :: string

definition urlsplit :: "string \<Rightarrow> url res" where
  "urlsplit s =
     (let s = filter (\<lambda>c. c \<notin> set (map char_of [9, 10, 13 :: nat])) (lstrip_chars control_or_space s);
          pre = before CHR '':'' s;
          (scheme, s) = (if CHR '':'' \<in> set s \<and> pre \<noteq> [] \<and> is_alpha (hd pre) \<and> list_all scheme_char pre
                         then (py_lower pre, after CHR '':'' s) else ([], s));
          (netloc, s) = (if startswith s ''//''
                         then (takeWhile (\<lambda>c. c \<notin> set ''/?#'') (drop 2 s), dropWhile (\<lambda>c. c \<notin> set ''/?#'') (drop 2 s))
                         else ([], s))
      in if (CHR ''['' \<in> set netloc) \<noteq> (CHR '']'' \<in> set netloc) then Inl (ValueError ''Invalid IPv6 URL'')
         else Inr \<lparr>u_scheme = scheme, u_netloc = netloc, u_path = before CHR ''?'' (before CHR ''#'' s)\<rparr>)"

section \<open>Absolute URLs\<close>

text \<open>A host and port: no delimiter, bracket, white space or control character.\<close>

definition plain_char :: "char \<Rightarrow> bool" where
  "plain_char c \<longleftrightarrow> c \<notin> set control_or_space \<and> c \<notin> set ''/?#[]:''"

definition host_char :: "char \<Rightarrow> bool" where
  "host_char c \<longleftrightarrow> plain_char c \<or> c = CHR '':''"

lemma control_iff: "c \<in> set control_or_space \<longleftrightarrow> (of_char c :: nat) < 33"
proof
  assume "(of_char c :: nat) < 33"
  then have "char_of (of_char c :: nat) \<in> set control_or_space"
    unfolding control_or_space_def set_map by (intro imageI) simp
  then show "c \<in> set control_or_space" by simp
qed (auto simp: control_or_space_def of_char_of)

lemma host_char_no_delim: "host_char c \<Longrightarrow> c \<notin> set ''/?#''"
  by (auto simp: host_char_def plain_char_def)

lemma host_char_not_control: "host_char c \<Longrightarrow> c \<notin> set control_or_space"
  by (auto simp: host_char_def plain_char_def control_iff)

lemma takeWhile_all_append: "list_all P xs \<Longrightarrow> (ys = [] \<or> \<not> P (hd ys)) \<Longrightarrow> takeWhile P (xs @ ys) = xs"
  by (induction xs) (cases ys; auto)+

lemma dropWhile_all_append: "list_all P xs \<Longrightarrow> (ys = [] \<or> \<not> P (hd ys)) \<Longrightarrow> dropWhile P (xs @ ys) = ys"
  by (induction xs) (cases ys; auto)+

lemma before_id: "c \<notin> set s \<Longrightarrow> before c s = s"
  unfolding before_def by (rule takeWhile_eq_all_conv [THEN iffD2]) auto

text \<open>\<open>http://host/path\<close> and \<open>https://host/path\<close> split as expected.\<close>

lemma urlsplit_absolute:
  assumes "scheme \<in> {''http'', ''https''}" "list_all host_char host" "path = [] \<or> hd path = CHR ''/''"
    and "set path \<inter> set ''?#'' = {}" "set path \<inter> set control_or_space = {}"
  shows "urlsplit (scheme @ ''://'' @ host @ path) = Inr \<lparr>u_scheme = scheme, u_netloc = host, u_path = path\<rparr>"
proof -
  let ?s = "scheme @ ''://'' @ host @ path"
  have ctl: "c \<notin> set control_or_space" if "c \<in> set ?s" for c
  proof -
    from that assms(1) consider "c \<in> set host" | "c \<in> set path" | "c \<in> set ''https://''" by auto
    then show ?thesis
    proof cases
      case 1
      with assms(2) show ?thesis by (auto simp: list_all_iff host_char_not_control)
    next
      case 2
      with assms(5) show ?thesis by blast
    next
      case 3
      then show ?thesis by (auto simp: control_iff)
    qed
  qed
  have tabs: "set (map char_of [9, 10, 13 :: nat]) \<subseteq> set control_or_space"
    by (auto simp: control_iff of_char_of)
  have ne: "?s \<noteq> []" by simp
  have strip: "lstrip_chars control_or_space ?s = ?s"
    by (rule lstrip_chars_id [OF ne ctl]) (rule hd_in_set [OF ne])
  have filt: "filter (\<lambda>c. c \<notin> set (map char_of [9, 10, 13 :: nat])) ?s = ?s"
    by (rule filter_True) (use ctl tabs in blast)
  have pre: "before CHR '':'' ?s = scheme" "after CHR '':'' ?s = ''//'' @ host @ path"
    using assms(1) by (auto simp: before_def after_def)
  have sch: "is_alpha (hd scheme) \<and> list_all scheme_char scheme \<and> py_lower scheme = scheme \<and> scheme \<noteq> []"
    using assms(1) by (elim insertE emptyE; hypsubst; code_simp)
  have col: "CHR '':'' \<in> set ?s" by simp
  have pathd: "path = [] \<or> \<not> hd path \<notin> set ''/?#''" using assms(3) by auto
  have hostd: "list_all (\<lambda>c. c \<notin> set ''/?#'') host"
    using assms(2) host_char_no_delim by (auto simp: list_all_iff)
  note net = takeWhile_all_append [OF hostd pathd] dropWhile_all_append [OF hostd pathd]
  have slash: "startswith (''//'' @ host @ path) ''//''" by (rule startswith_append)
  have two: "drop 2 (''//'' @ host @ path) = host @ path" by simp
  have br: "CHR ''['' \<notin> set host" "CHR '']'' \<notin> set host"
    using assms(2) by (auto simp: list_all_iff host_char_def plain_char_def)
  have p: "before CHR ''?'' (before CHR ''#'' path) = path"
    using assms(4) by (simp add: before_id)
  show ?thesis
    unfolding urlsplit_def Let_def strip filt pre using sch col slash two net br p by simp
qed

end
