(* ===== verification/Wire.thy ===== *)
theory Wire
  imports Identity Url
begin

text \<open>
  The conversions between the SDK's message dictionaries and the A2A protocol
  (\<open>a2a_official.py\<close>, the functions before \<open>SkillAgentExecutor\<close>).

  The generated message classes are plain data: a message or task is a record of the fields the
  source reads and sets. \<open>google.protobuf\<close> itself is the argument of type \<open>pbuf\<close>: its
  structured values (\<open>Struct\<close>, \<open>Value\<close>) are an unknown type, \<open>pb_parse\<close> is
  \<open>ParseDict\<close> into one of them, \<open>pb_dict\<close> is \<open>MessageToDict\<close>, and \<open>pb_new_task\<close> is the helper
  \<open>new_task\<close> of the A2A package. A \<open>bytes\<close> object of a raw part is held as the string of its
  bytes; it is only passed on.
\<close>

section \<open>Numbers on the wire\<close>

text \<open>\<open>value.is_integer()\<close> with \<open>int(value)\<close>: the integer a float in normal form equals.\<close>

fun float_integer :: "pyfloat \<Rightarrow> int option" where
  "float_integer (PFin m e) = (if 0 \<le> e then Some (m * 2 ^ nat e) else None)"
| "float_integer PNegZero = Some 0"
| "float_integer _ = None"

definition restore_float :: "pyfloat \<Rightarrow> json" where
  "restore_float f =
     (case float_integer f of
        Some n \<Rightarrow> if \<bar>n\<bar> < 2 ^ 53 then JInt n else JFloat f
      | None \<Rightarrow> JFloat f)"

fun restore_json_numbers :: "json \<Rightarrow> json" where
  "restore_json_numbers (JFloat f) = restore_float f"
| "restore_json_numbers (JObj d) = JObj (map (\<lambda>(k, v). (k, restore_json_numbers v)) d)"
| "restore_json_numbers (JArr vs) = JArr (map restore_json_numbers vs)"
| "restore_json_numbers v = v"

text \<open>On JSON values the fallback \<open>str(value)\<close> is never taken.\<close>

fun jsonable :: "json \<Rightarrow> json" where
  "jsonable (JObj d) = JObj (map (\<lambda>(k, v). (k, jsonable v)) d)"
| "jsonable (JArr vs) = JArr (map jsonable vs)"
| "jsonable v = v"

section \<open>Messages and tasks of the protocol\<close>

datatype task_state =
    TASK_STATE_COMPLETED
  | TASK_STATE_FAILED
  | TASK_STATE_CANCELED
  | TASK_STATE_SUBMITTED
  | TASK_STATE_WORKING
  | TASK_STATE_REJECTED

definition STATE_TO_PROTO :: "(string \<times> task_state) list" where
  "STATE_TO_PROTO =
     [(''completed'', TASK_STATE_COMPLETED),
      (''failed'', TASK_STATE_FAILED),
      (''canceled'', TASK_STATE_CANCELED),
      (''cancelled'', TASK_STATE_CANCELED),
      (''submitted'', TASK_STATE_SUBMITTED),
      (''working'', TASK_STATE_WORKING),
      (''rejected'', TASK_STATE_REJECTED)]"

definition PROTO_STATE_TO_WIRE :: "(string \<times> string) list" where
  "PROTO_STATE_TO_WIRE =
     [(''TASK_STATE_COMPLETED'', ''completed''),
      (''TASK_STATE_FAILED'', ''failed''),
      (''TASK_STATE_CANCELED'', ''canceled''),
      (''TASK_STATE_SUBMITTED'', ''submitted''),
      (''TASK_STATE_WORKING'', ''working''),
      (''TASK_STATE_REJECTED'', ''rejected''),
      (''TASK_STATE_INPUT_REQUIRED'', ''input-required''),
      (''TASK_STATE_AUTH_REQUIRED'', ''auth-required'')]"

datatype role = ROLE_UNSPECIFIED | ROLE_USER | ROLE_AGENT

datatype 'v part =
    PText string
  | PData 'v
  | PUrl string string
  | PRaw string string
  | PEmpty

record 'v message =
  pm_message_id :: string
  pm_role :: role
  pm_parts :: "'v part list"
  pm_metadata :: "'v option"
  pm_task_id :: string
  pm_context_id :: string

record 'v artifact =
  pa_artifact_id :: string
  pa_name :: string
  pa_parts :: "'v part list"

record 'v task =
  pt_id :: string
  pt_context_id :: string
  pt_state :: task_state
  pt_artifacts :: "'v artifact list"
  pt_metadata :: "'v option"

record 'v pbuf =
  pb_parse :: "json \<Rightarrow> 'v res"
  pb_dict :: "'v \<Rightarrow> json res"
  pb_new_task :: "string \<Rightarrow> string \<Rightarrow> task_state \<Rightarrow> 'v artifact list \<Rightarrow> 'v task"

section \<open>Requests\<close>

definition file_part :: "string \<Rightarrow> string \<Rightarrow> string \<Rightarrow> json" where
  "file_part key content mime =
     JObj [(''kind'', JStr ''file''), (''file'', JObj [(key, JStr content), (''mimeType'', JStr mime)])]"

text \<open>A part without content adds nothing.\<close>

fun part_to_dicts :: "'v pbuf \<Rightarrow> 'v part \<Rightarrow> json list res" where
  "part_to_dicts P (PText s) = Inr [JObj [(''kind'', JStr ''text''), (''text'', JStr s)]]"
| "part_to_dicts P (PData x) =
     bindR (pb_dict P x) (\<lambda>data.
     let data = (case data of JObj d \<Rightarrow> data | _ \<Rightarrow> JObj [(''value'', data)])
     in Inr [JObj [(''kind'', JStr ''data''), (''data'', restore_json_numbers data)]])"
| "part_to_dicts P (PUrl url mime) = Inr [file_part ''uri'' url mime]"
| "part_to_dicts P (PRaw raw mime) = Inr [file_part ''bytes'' raw mime]"
| "part_to_dicts P PEmpty = Inr []"

definition protobuf_message_to_dict :: "'v pbuf \<Rightarrow> 'v message \<Rightarrow> dict res" where
  "protobuf_message_to_dict P msg =
     bindR (mapR (part_to_dicts P) (pm_parts msg)) (\<lambda>parts.
     bindR (case pm_metadata msg of
              None \<Rightarrow> Inr (JObj [])
            | Some x \<Rightarrow> bindR (pb_dict P x) (\<lambda>m. Inr (restore_json_numbers m))) (\<lambda>metadata.
       Inr [(''messageId'', JStr (pm_message_id msg)),
            (''role'', JStr (if pm_role msg = ROLE_USER then ''user'' else ''agent'')),
            (''parts'', JArr (concat parts)),
            (''metadata'', metadata),
            (''taskId'', JStr (pm_task_id msg)),
            (''contextId'', JStr (pm_context_id msg))]))"

text \<open>
  The client's side. A part is sent as text, data, url or raw content, or dropped.
\<close>

definition send_part :: "json \<Rightarrow> json list res" where
  "send_part part =
     bindR (obj_get part ''kind'') (\<lambda>kind.
     let d = (case part of JObj d \<Rightarrow> d | _ \<Rightarrow> []) in
     if kind = JStr ''text'' \<or> dhas d ''text'' \<and> kind \<noteq> JStr ''data'' then
       Inr [JObj [(''text'', py_or (dget d ''text'') (JStr []))]]
     else if kind = JStr ''data'' \<or> dhas d ''data'' then
       Inr [JObj [(''data'', py_or (dget d ''data'') (JObj []))]]
     else if kind = JStr ''file'' then
       let file_obj = py_or (dget d ''file'') (JObj []) in
       bindR (obj_get file_obj ''uri'') (\<lambda>uri.
       bindR (obj_get file_obj ''bytes'') (\<lambda>raw.
       bindR (obj_get file_obj ''mimeType'') (\<lambda>mime.
         if truthy uri then Inr [JObj [(''url'', uri), (''mediaType'', py_or mime (JStr []))]]
         else if truthy raw then Inr [JObj [(''raw'', raw), (''mediaType'', py_or mime (JStr []))]]
         else Inr [])))
     else Inr [])"

text \<open>\<open>uuid\<close> is \<open>str(uuid4())\<close> in this run.\<close>

definition skill_message_to_send_params :: "prims \<Rightarrow> string \<Rightarrow> dict \<Rightarrow> dict res" where
  "skill_message_to_send_params E uuid message =
     bindR (py_iter (py_or (dget message ''parts'') (JArr []))) (\<lambda>raw_parts.
     bindR (mapR send_part raw_parts) (\<lambda>parts.
     let parts = concat parts;
         role = py_str E (py_or (dget message ''role'') (JStr ''user''));
         proto_role = (if py_lower role \<in> {''user'', ''role_user''} then ''ROLE_USER'' else ''ROLE_AGENT'');
         task_id = py_or (dget message ''taskId'') (dget message ''task_id'');
         context_id = py_or (dget message ''contextId'') (dget message ''context_id'');
         msg = [(''messageId'', JStr (py_str E (py_or (py_or (dget message ''messageId'')
                                                (dget message ''message_id'')) (JStr uuid)))),
                (''role'', JStr proto_role),
                (''parts'', JArr (if parts = [] then [JObj [(''text'', JStr [])]] else parts))];
         msg = (if truthy (dget message ''metadata'')
                then dset msg ''metadata'' (jsonable (dget message ''metadata'')) else msg);
         msg = (if truthy task_id then dset msg ''taskId'' (JStr (py_str E task_id)) else msg);
         msg = (if truthy context_id then dset msg ''contextId'' (JStr (py_str E context_id)) else msg)
     in Inr [(''message'', JObj msg)]))"

text \<open>The request body with a message id filled in; the body is changed in place.\<close>

definition ensure_message_id :: "string \<Rightarrow> json \<Rightarrow> json res" where
  "ensure_message_id uuid body =
     bindR (obj_get body ''params'') (\<lambda>params.
       case (body, params) of
         (JObj b, JObj p) \<Rightarrow>
           (case dget p ''message'' of
              JObj m \<Rightarrow>
                if \<not> truthy (dget m ''messageId'') \<and> \<not> truthy (dget m ''message_id'') then
                  Inr (JObj (dset b ''params'' (JObj (dset p ''message''
                    (JObj (dset m ''messageId'' (JStr uuid)))))))
                else Inr body
            | _ \<Rightarrow> Inr body)
       | _ \<Rightarrow> Inr body)"

section \<open>Replies\<close>

definition proto_part :: "prims \<Rightarrow> 'v pbuf \<Rightarrow> json \<Rightarrow> 'v part res" where
  "proto_part E P part =
     bindR (obj_get part ''kind'') (\<lambda>kind.
     let d = (case part of JObj d \<Rightarrow> d | _ \<Rightarrow> []) in
     if kind = JStr ''text'' \<or> dhas d ''text'' \<and> \<not> dhas d ''data'' then
       Inr (PText (py_str E (py_or (dget d ''text'') (JStr []))))
     else bindR (pb_parse P (jsonable (py_or (dget d ''data'') (JObj [])))) (\<lambda>x. Inr (PData x)))"

text \<open>An artifact that is not a dictionary is skipped.\<close>

definition proto_artifact :: "prims \<Rightarrow> 'v pbuf \<Rightarrow> json \<Rightarrow> 'v artifact list res" where
  "proto_artifact E P item =
     (case item of
        JObj d \<Rightarrow>
          bindR (py_iter (py_or (dget d ''parts'') (JArr []))) (\<lambda>raw.
          bindR (mapR (proto_part E P) raw) (\<lambda>parts.
            Inr [\<lparr>pa_artifact_id = py_str E (py_or (py_or (dget d ''artifactId'') (dget d ''artifact_id'')) (JStr [])),
                  pa_name = py_str E (py_or (dget d ''name'') (JStr [])),
                  pa_parts = parts\<rparr>]))
      | _ \<Rightarrow> Inr [])"

definition dict_to_protobuf_task :: "prims \<Rightarrow> 'v pbuf \<Rightarrow> dict \<Rightarrow> string \<Rightarrow> string \<Rightarrow> 'v task res" where
  "dict_to_protobuf_task E P result task_id context_id =
     bindR (obj_get (py_or (dget result ''status'') (JObj [])) ''state'') (\<lambda>st.
     let state_name = py_str E (py_or st (JStr ''completed''));
         state = (case map_of STATE_TO_PROTO state_name of Some s \<Rightarrow> s | None \<Rightarrow> TASK_STATE_COMPLETED) in
     bindR (py_iter (py_or (dget result ''artifacts'') (JArr []))) (\<lambda>items.
     bindR (mapR (proto_artifact E P) items) (\<lambda>artifacts.
     let task = pb_new_task P task_id context_id state (concat artifacts) in
     case dget result ''metadata'' of
       JObj (kv # meta) \<Rightarrow>
         bindR (pb_parse P (jsonable (JObj (kv # meta)))) (\<lambda>x. Inr (task\<lparr>pt_metadata := Some x\<rparr>))
     | _ \<Rightarrow> Inr task)))"

text \<open>The client's reading of a task.\<close>

definition wire_state :: "string \<Rightarrow> string" where
  "wire_state state =
     (case map_of PROTO_STATE_TO_WIRE state of
        Some s \<Rightarrow> s
      | None \<Rightarrow> if startswith state ''TASK_STATE_'' then py_lower (replace_char CHR ''_'' CHR ''-'' state)
                else state)"

definition normalize_part :: "json \<Rightarrow> json res" where
  "normalize_part part =
     bindR (py_dict part) (\<lambda>p.
     let p = (if dhas p ''kind'' then p
              else if dhas p ''text'' then dset p ''kind'' (JStr ''text'')
              else if dhas p ''data'' then dset p ''kind'' (JStr ''data'') else p);
         p = (if dhas p ''data'' then dset p ''data'' (restore_json_numbers (dget p ''data'')) else p)
     in Inr (JObj p))"

definition normalize_artifact :: "json \<Rightarrow> json res" where
  "normalize_artifact item =
     bindR (py_dict item) (\<lambda>art.
     bindR (py_iter (py_or (dget art ''parts'') (JArr []))) (\<lambda>raw.
     bindR (mapR normalize_part raw) (\<lambda>parts.
       Inr (JObj (dset art ''parts'' (JArr parts))))))"

definition normalize_task_result :: "prims \<Rightarrow> json \<Rightarrow> dict res" where
  "normalize_task_result E result =
     (if \<not> truthy result then Inr []
      else bindR (obj_get result ''task'') (\<lambda>inner.
        let task = (case inner of JObj t \<Rightarrow> t | _ \<Rightarrow> (case result of JObj r \<Rightarrow> r | _ \<Rightarrow> [])) in
        bindR (py_dict (py_or (dget task ''status'') (JObj []))) (\<lambda>status.
        let state = py_str E (py_or (dget status ''state'') (JStr []));
            status = dset status ''state'' (JStr (wire_state state)) in
        bindR (py_iter (py_or (dget task ''artifacts'') (JArr []))) (\<lambda>items.
        bindR (mapR normalize_artifact items) (\<lambda>artifacts.
        let out = dset task ''status'' (JObj status);
            out = dset out ''artifacts'' (JArr artifacts)
        in Inr (case dget out ''metadata'' of
             JObj m \<Rightarrow> dset out ''metadata'' (restore_json_numbers (JObj m))
           | _ \<Rightarrow> out))))))"

section \<open>The card\<close>

definition card_skill :: "json \<Rightarrow> json res" where
  "card_skill raw =
     bindR (py_dict raw) (\<lambda>item.
     let item = dsetdefault item ''id'' (py_or (dget item ''name'') (JStr ''skill''));
         item = dsetdefault item ''name'' (py_or (dget item ''id'') (JStr ''skill'')) in
     bindR (ditem item ''id'') (\<lambda>i.
     let item = dsetdefault item ''description'' (py_or (dget item ''name'') i);
         item = dsetdefault item ''tags'' (JArr [])
     in Inr (JObj item)))"

text \<open>
  The argument of \<open>parse_agent_card\<close>. Encoding the card as JSON and decoding it again returns the
  values of this model.
\<close>

definition official_agent_card :: "dict \<Rightarrow> dict res" where
  "official_agent_card agent_card =
     (let payload = dsetdefault agent_card ''description'' (py_or (dget agent_card ''name'') (JStr ''agent''));
          payload = dsetdefault payload ''version'' (py_or (dget payload ''version'') (JStr ''0.2.0''));
          payload = dsetdefault payload ''defaultInputModes'' (JArr [JStr ''text'']);
          payload = dsetdefault payload ''defaultOutputModes'' (JArr [JStr ''text'']);
          payload = dsetdefault payload ''capabilities'' (JObj [(''streaming'', JBool False)]) in
      bindR (py_iter (py_or (dget payload ''skills'') (JArr []))) (\<lambda>raw.
      bindR (mapR card_skill raw) (\<lambda>skills.
        Inr (dset payload ''skills'' (JArr skills)))))"

section \<open>Functions that act on the scalars\<close>

fun scalar :: "json \<Rightarrow> bool" where
  "scalar (JArr vs) = False"
| "scalar (JObj d) = False"
| "scalar v = True"

text \<open>
  A conversion that keeps lists and dictionaries and changes the scalars inside: it commutes with
  the sorting of keys, so that it may act on a value whose keys came in any order.
\<close>

locale scalarwise =
  fixes f :: "json \<Rightarrow> json"
  assumes f_arr: "f (JArr vs) = JArr (map f vs)"
    and f_obj: "f (JObj d) = JObj (map (\<lambda>(k, v). (k, f v)) d)"
    and f_scalar: "scalar v \<Longrightarrow> scalar (f v)"
    and f_null: "f JNull = JNull"
begin

lemma canon_scalar: "scalar v \<Longrightarrow> canon v = v"
  by (cases v) auto

lemma canon_f: "canon (f v) = f (canon v)"
proof (induction v rule: json_induct)
  case (arr vs)
  then show ?case by (simp add: f_arr)
next
  case (obj d)
  let ?m = "\<lambda>g. map (\<lambda>p. (fst p, g (snd p)))"
  have eq: "?m canon (?m f d) = ?m f (?m canon d)"
    using obj.IH by (auto simp: comp_def)
  have "sort_key fst (?m f (?m canon d)) = ?m f (sort_key fst (?m canon d))"
    by (rule sort_key_map_snd)
  with eq have "sort_key fst (?m canon (?m f d)) = ?m f (sort_key fst (?m canon d))"
    by (simp only:)
  then show ?case by (simp only: f_obj canon.simps split_def)
qed (simp_all add: canon_scalar f_scalar)

lemma canon_f_cong: "canon v = canon w \<Longrightarrow> canon (f v) = canon (f w)"
  by (simp add: canon_f)

lemma keys_f: "map fst (map (\<lambda>(k, v). (k, f v)) d) = map fst d"
  by (induction d) auto

lemma dget_f: "dget (map (\<lambda>(k, v). (k, f v)) d) k = f (dget d k)"
  by (induction d) (auto simp: f_null)

end

interpretation restore: scalarwise restore_json_numbers
proof
  show "scalar v \<Longrightarrow> scalar (restore_json_numbers v)" for v
    by (cases v) (auto simp: restore_float_def split: option.split)
qed simp_all

interpretation jsonable: scalarwise jsonable
proof
  show "scalar v \<Longrightarrow> scalar (jsonable v)" for v by (cases v) auto
qed simp_all

lemma jsonable_id [simp]: "jsonable v = v"
proof (induction v rule: json_induct)
  case (arr vs)
  then show ?case by (simp add: map_idI)
next
  case (obj d)
  then show ?case by (auto intro: map_idI)
qed auto

section \<open>What a structured value does to numbers\<close>

text \<open>
  A \<open>Struct\<close> stores every number as a double. \<open>dbl\<close> is the interpreter's conversion of an integer.
\<close>

fun struct_numbers :: "(int \<Rightarrow> pyfloat) \<Rightarrow> json \<Rightarrow> json" where
  "struct_numbers dbl (JInt n) = JFloat (dbl n)"
| "struct_numbers dbl (JArr vs) = JArr (map (struct_numbers dbl) vs)"
| "struct_numbers dbl (JObj d) = JObj (map (\<lambda>(k, v). (k, struct_numbers dbl v)) d)"
| "struct_numbers dbl v = v"

interpretation struct_numbers: scalarwise "struct_numbers dbl" for dbl
proof
  show "scalar v \<Longrightarrow> scalar (struct_numbers dbl v)" for v by (cases v) auto
qed simp_all

text \<open>
  What the code relies on: small integers are exact as doubles, and a value that could be stored comes
  back with its numbers as doubles and its keys in some order.
\<close>

definition struct_ok :: "(int \<Rightarrow> pyfloat) \<Rightarrow> 'v pbuf \<Rightarrow> bool" where
  "struct_ok dbl P \<longleftrightarrow>
     (\<forall>n. \<bar>n\<bar> < 2 ^ 53 \<longrightarrow> dbl n = mk_float n 0) \<and>
     (\<forall>v x. wf_json v \<and> finite_json v \<and> pb_parse P v = Inr x \<longrightarrow>
        (\<exists>w. pb_dict P x = Inr w \<and> wf_json w \<and> canon w = canon (struct_numbers dbl v)))"

text \<open>A float that is written as an integer after the way over the wire.\<close>

definition small_integral :: "pyfloat \<Rightarrow> bool" where
  "small_integral f \<longleftrightarrow> (case float_integer f of Some n \<Rightarrow> \<bar>n\<bar> < 2 ^ 53 | None \<Rightarrow> False)"

text \<open>The numbers that come back as they were sent.\<close>

fun wire_exact :: "json \<Rightarrow> bool" where
  "wire_exact (JInt n) = (\<bar>n\<bar> < 2 ^ 53)"
| "wire_exact (JFloat f) = (\<not> small_integral f)"
| "wire_exact (JArr vs) = list_all wire_exact vs"
| "wire_exact (JObj d) = list_all (\<lambda>(k, v). wire_exact v) d"
| "wire_exact v = True"

lemma float_integer_mk_float: "0 \<le> e \<Longrightarrow> float_integer (mk_float m e) = Some (m * 2 ^ nat e)"
proof (induction m e rule: mk_float.induct)
  case (1 m e)
  show ?case
  proof (cases "m = 0 \<or> odd m")
    case True
    with 1(2) show ?thesis by (auto simp: mk_float.simps [of m e])
  next
    case False
    then have "m div 2 * 2 ^ nat (e + 1) = m * 2 ^ nat e"
      using 1(2) by (simp add: nat_add_distrib)
    with False 1 show ?thesis by (simp add: mk_float.simps [of m e])
  qed
qed

lemma restore_mk_float: "\<bar>n\<bar> < 2 ^ 53 \<Longrightarrow> restore_float (mk_float n 0) = JInt n"
  by (simp add: restore_float_def float_integer_mk_float)

lemma restore_float_keep: "\<not> small_integral f \<Longrightarrow> restore_float f = JFloat f"
  by (auto simp: restore_float_def small_integral_def split: option.splits)

lemma restore_struct_numbers:
  assumes "\<forall>n. \<bar>n\<bar> < 2 ^ 53 \<longrightarrow> dbl n = mk_float n 0"
  shows "wire_exact v \<Longrightarrow> restore_json_numbers (struct_numbers dbl v) = v"
proof (induction v rule: json_induct)
  case (int i)
  with assms show ?case by (simp add: restore_mk_float)
next
  case (arr vs)
  then show ?case by (auto simp: list_all_iff intro!: map_idI)
next
  case (obj d)
  then show ?case by (force simp: list_all_iff intro!: map_idI)
qed (simp_all add: restore_float_keep)

lemma wf_restore: "wf_json v \<Longrightarrow> wf_json (restore_json_numbers v)"
proof (induction v rule: json_induct)
  case (float f)
  then show ?case by (simp add: restore_float_def split: option.split)
next
  case (arr vs)
  then show ?case by (simp add: list_all_iff)
next
  case (obj d)
  from obj.prems restore.keys_f [of d]
  have "distinct (map fst (map (\<lambda>(k, v). (k, restore_json_numbers v)) d))" by (simp only: wf_json.simps)
  with obj show ?case by (auto simp: list_all_iff simp del: map_map)
qed simp_all

lemma struct_arrives:
  assumes "struct_ok dbl P" "wf_json v" "finite_json v" "pb_parse P v = Inr x" "pb_dict P x = Inr w"
  shows "wf_json w" "canon w = canon (struct_numbers dbl v)"
proof -
  from assms(1-4) obtain w' where "pb_dict P x = Inr w'" "wf_json w'" "canon w' = canon (struct_numbers dbl v)"
    unfolding struct_ok_def by blast
  with assms(5) show "wf_json w" "canon w = canon (struct_numbers dbl v)" by simp_all
qed

lemma restored_arrives:
  assumes "struct_ok dbl P" "wf_json v" "finite_json v" "wire_exact v" "pb_parse P v = Inr x"
  shows "\<exists>w. pb_dict P x = Inr w \<and> wf_json w \<and> canon (restore_json_numbers w) = canon v"
proof -
  from assms obtain w where w: "pb_dict P x = Inr w" "wf_json w" "canon w = canon (struct_numbers dbl v)"
    unfolding struct_ok_def by blast
  have "canon (restore_json_numbers w) = canon (restore_json_numbers (struct_numbers dbl v))"
    by (rule restore.canon_f_cong) (rule w(3))
  also have "restore_json_numbers (struct_numbers dbl v) = v"
    using assms(1,4) by (intro restore_struct_numbers) (simp_all add: struct_ok_def)
  finally show ?thesis using w by blast
qed

section \<open>A request over the wire\<close>

text \<open>
  The JSON mapping of the protocol: which message a dictionary with the keys \<open>messageId\<close>,
  \<open>role\<close>, \<open>parts\<close> and \<open>metadata\<close> stands for.
\<close>

definition part_parsed :: "'v pbuf \<Rightarrow> json \<Rightarrow> 'v part \<Rightarrow> bool" where
  "part_parsed P j q \<longleftrightarrow>
     (\<exists>s. j = JObj [(''text'', JStr s)] \<and> q = PText s) \<or>
     (\<exists>v x. j = JObj [(''data'', v)] \<and> pb_parse P v = Inr x \<and> q = PData x)"

definition message_parsed :: "'v pbuf \<Rightarrow> json \<Rightarrow> 'v message \<Rightarrow> bool" where
  "message_parsed P j pm \<longleftrightarrow>
     (\<exists>m ps x. j = JObj m \<and>
        dget m ''messageId'' = JStr (pm_message_id pm) \<and>
        (dget m ''role'' = JStr ''ROLE_USER'' \<longleftrightarrow> pm_role pm = ROLE_USER) \<and>
        dget m ''parts'' = JArr ps \<and> list_all2 (part_parsed P) ps (pm_parts pm) \<and>
        pb_parse P (dget m ''metadata'') = Inr x \<and> pm_metadata pm = Some x)"

text \<open>The messages the SDK itself builds: text and data parts, and some metadata.\<close>

definition text_part :: "string \<Rightarrow> json" where
  "text_part s = JObj [(''kind'', JStr ''text''), (''text'', JStr s)]"

definition data_part :: "dict \<Rightarrow> json" where
  "data_part d = JObj [(''kind'', JStr ''data''), (''data'', JObj d)]"

definition plain_part :: "json \<Rightarrow> bool" where
  "plain_part p \<longleftrightarrow> (\<exists>s. p = text_part s) \<or> (\<exists>d. p = data_part d)"

definition plain_message :: "string \<Rightarrow> json list \<Rightarrow> dict \<Rightarrow> dict \<Rightarrow> bool" where
  "plain_message mid ps md message \<longleftrightarrow>
     mid \<noteq> [] \<and> ps \<noteq> [] \<and> md \<noteq> [] \<and> list_all plain_part ps \<and>
     message = [(''messageId'', JStr mid), (''role'', JStr ''user''), (''parts'', JArr ps),
                (''metadata'', JObj md)]"

text \<open>Values a structured value can carry exactly.\<close>

definition carried :: "json \<Rightarrow> bool" where
  "carried v \<longleftrightarrow> wf_json v \<and> finite_json v \<and> wire_exact v"

fun sent_part :: "json \<Rightarrow> json" where
  "sent_part (JObj (kv # d)) = JObj d"
| "sent_part v = v"

lemma send_plain_part: "plain_part p \<Longrightarrow> send_part p = Inr [sent_part p]"
  by (auto simp: plain_part_def text_part_def data_part_def send_part_def Let_def py_or_def)

lemma carried_data_part: "carried (data_part d) \<longleftrightarrow> carried (JObj d)"
  by (simp add: carried_def data_part_def)

lemma data_part_canon: "canon (JObj d) = canon (JObj d') \<Longrightarrow> canon (data_part d) = canon (data_part d')"
  by (simp add: data_part_def)

lemma canon_obj_shape: "canon v = canon (JObj d) \<Longrightarrow> \<exists>d'. v = JObj d'"
  by (cases v) auto

lemma restore_obj_shape: "restore_json_numbers w = JObj d \<Longrightarrow> \<exists>w'. w = JObj w'"
  by (cases w) (auto simp: restore_float_def split: option.splits if_splits)

lemma part_over_wire:
  assumes "struct_ok dbl P" "plain_part p" "carried p" "part_parsed P (sent_part p) q"
  shows "\<exists>p'. part_to_dicts P q = Inr [p'] \<and> canon p' = canon p"
proof -
  from assms(2) consider s where "p = text_part s" | d where "p = data_part d"
    by (auto simp: plain_part_def)
  then show ?thesis
  proof cases
    case 1
    with assms(4) have "q = PText s" by (auto simp: part_parsed_def text_part_def)
    with 1 show ?thesis by (simp add: text_part_def)
  next
    case 2
    with assms(4) obtain x where x: "pb_parse P (JObj d) = Inr x" "q = PData x"
      by (auto simp: part_parsed_def data_part_def)
    from assms(3) 2 have "carried (JObj d)" by (simp only: carried_data_part)
    then have "wf_json (JObj d)" "finite_json (JObj d)" "wire_exact (JObj d)"
      by (simp_all only: carried_def)
    from restored_arrives [OF assms(1) this x(1)] obtain w
      where w: "pb_dict P x = Inr w" "canon (restore_json_numbers w) = canon (JObj d)" by blast
    from canon_obj_shape [OF w(2)] obtain r where r: "restore_json_numbers w = JObj r" ..
    with restore_obj_shape obtain w' where "w = JObj w'" by blast
    with w r x(2) have "part_to_dicts P q = Inr [data_part r]" by (simp add: data_part_def)
    moreover have "canon (data_part r) = canon p"
      unfolding 2 by (rule data_part_canon) (use w(2) r in simp)
    ultimately show ?thesis by blast
  qed
qed

lemma parts_over_wire:
  assumes "struct_ok dbl P" "list_all plain_part ps" "list_all carried ps"
    and "list_all2 (part_parsed P) (map sent_part ps) qs"
  shows "\<exists>ps'. mapR (part_to_dicts P) qs = Inr ps' \<and> map canon (concat ps') = map canon ps"
  using assms(2-4)
proof (induction ps arbitrary: qs)
  case (Cons p ps)
  from Cons.prems(3) obtain q rest where qs: "qs = q # rest" "part_parsed P (sent_part p) q"
    "list_all2 (part_parsed P) (map sent_part ps) rest" by (auto simp: list_all2_Cons1)
  from Cons.prems qs obtain ps' where "mapR (part_to_dicts P) rest = Inr ps'"
    "map canon (concat ps') = map canon ps" using Cons.IH by auto
  moreover from Cons.prems qs(2) obtain p' where "part_to_dicts P q = Inr [p']" "canon p' = canon p"
    using part_over_wire [OF assms(1)] by auto
  ultimately show ?case using qs(1) by auto
qed auto

lemma send_plain_message:
  assumes "plain_message mid ps md message"
  shows "skill_message_to_send_params E uuid message =
    Inr [(''message'', JObj [(''messageId'', JStr mid), (''role'', JStr ''ROLE_USER''),
       (''parts'', JArr (map sent_part ps)), (''metadata'', JObj md)])]"
proof -
  have send: "mapR send_part ps = Inr (map (\<lambda>p. [sent_part p]) ps)"
    using assms by (intro mapR_total) (auto simp: plain_message_def list_all_iff send_plain_part)
  have "concat (map (\<lambda>p. [sent_part p]) ps) = map sent_part ps" by (induction ps) auto
  moreover have "py_lower ''user'' = ''user''" by code_simp
  ultimately show ?thesis
    using assms send
    by (simp add: plain_message_def skill_message_to_send_params_def Let_def py_or_def dset_def)
qed

text \<open>A dictionary arrives as one with the same canonical form, hence the same signatures and hash.\<close>

lemma restored_object:
  assumes "struct_ok dbl P" "carried (JObj d)" "pb_parse P (JObj d) = Inr x"
  shows "\<exists>w d'. pb_dict P x = Inr w \<and> restore_json_numbers w = JObj d' \<and> wf_json (JObj d') \<and>
    canon (JObj d') = canon (JObj d)"
proof -
  from assms(2) have "wf_json (JObj d)" "finite_json (JObj d)" "wire_exact (JObj d)"
    by (simp_all only: carried_def)
  from restored_arrives [OF assms(1) this assms(3)] obtain w
    where w: "pb_dict P x = Inr w" "wf_json w" "canon (restore_json_numbers w) = canon (JObj d)" by blast
  from canon_obj_shape [OF w(3)] obtain d' where "restore_json_numbers w = JObj d'" ..
  with w wf_restore [OF w(2)] show ?thesis by metis
qed

lemma same_canon_same_verdict:
  assumes "canon (JObj d') = canon (JObj d)" "wf_json (JObj d')" "wf_json (JObj d)" "finite_json (JObj d)"
  shows "verify_object E pk d' s = verify_object E pk d s \<and> object_hash E d' = object_hash E d"
proof -
  from assms have "canon (JObj (unsigned_payload d')) = canon (JObj (unsigned_payload d))"
    by (intro canon_unsigned_cong) simp_all
  moreover note finite_unsigned [OF assms(4)]
  ultimately have "canonical_json E (JObj (unsigned_payload d')) = canonical_json E (JObj (unsigned_payload d))"
    by (metis canonical_json_cong)
  then show ?thesis by (simp add: verify_object_def object_hash_def)
qed

section \<open>A reply over the wire\<close>

fun enum_name :: "task_state \<Rightarrow> string" where
  "enum_name TASK_STATE_COMPLETED = ''TASK_STATE_COMPLETED''"
| "enum_name TASK_STATE_FAILED = ''TASK_STATE_FAILED''"
| "enum_name TASK_STATE_CANCELED = ''TASK_STATE_CANCELED''"
| "enum_name TASK_STATE_SUBMITTED = ''TASK_STATE_SUBMITTED''"
| "enum_name TASK_STATE_WORKING = ''TASK_STATE_WORKING''"
| "enum_name TASK_STATE_REJECTED = ''TASK_STATE_REJECTED''"

text \<open>
  What the code relies on: the new task has the given fields, and the JSON form of a task shows them,
  where an empty list may be left out.
\<close>

definition new_task_ok :: "'v pbuf \<Rightarrow> bool" where
  "new_task_ok P \<longleftrightarrow> (\<forall>t c st as. pb_new_task P t c st as =
     \<lparr>pt_id = t, pt_context_id = c, pt_state = st, pt_artifacts = as, pt_metadata = None\<rparr>)"

definition part_json :: "'v pbuf \<Rightarrow> 'v part \<Rightarrow> json \<Rightarrow> bool" where
  "part_json P q j \<longleftrightarrow>
     (\<exists>s. q = PText s \<and> j = JObj [(''text'', JStr s)]) \<or>
     (\<exists>x v. q = PData x \<and> pb_dict P x = Inr v \<and> j = JObj [(''data'', v)])"

definition artifact_json :: "'v pbuf \<Rightarrow> 'v artifact \<Rightarrow> json \<Rightarrow> bool" where
  "artifact_json P a j \<longleftrightarrow>
     (\<exists>d ps. j = JObj d \<and> dget d ''artifactId'' = JStr (pa_artifact_id a) \<and>
        py_or (dget d ''parts'') (JArr []) = JArr ps \<and> list_all2 (part_json P) (pa_parts a) ps)"

definition task_json :: "'v pbuf \<Rightarrow> 'v task \<Rightarrow> json \<Rightarrow> bool" where
  "task_json P t j \<longleftrightarrow>
     (\<exists>d as. j = JObj d \<and> d \<noteq> [] \<and> \<not> dhas d ''task'' \<and> dget d ''id'' = JStr (pt_id t) \<and>
        dget d ''status'' = JObj [(''state'', JStr (enum_name (pt_state t)))] \<and>
        py_or (dget d ''artifacts'') (JArr []) = JArr as \<and> list_all2 (artifact_json P) (pt_artifacts t) as \<and>
        (\<forall>x. pt_metadata t = Some x \<longrightarrow> pb_dict P x = Inr (dget d ''metadata'')))"

text \<open>An artifact as the server builds them, its parts carried exactly.\<close>

definition plain_artifact :: "json \<Rightarrow> string \<Rightarrow> json list \<Rightarrow> bool" where
  "plain_artifact a i ps \<longleftrightarrow>
     (\<exists>n. a = JObj [(''artifactId'', JStr i), (''name'', JStr n), (''parts'', JArr ps)]) \<and>
     list_all plain_part ps \<and> list_all carried ps"

definition same_artifact :: "json \<Rightarrow> json \<Rightarrow> bool" where
  "same_artifact a b \<longleftrightarrow>
     (\<exists>i ps d. plain_artifact a i ps \<and> b = JObj d \<and> dget d ''artifactId'' = JStr i \<and>
        canon (dget d ''parts'') = canon (JArr ps))"

lemma normalize_part_shape:
  "normalize_part (JObj [(''text'', v)]) = Inr (JObj [(''text'', v), (''kind'', JStr ''text'')])"
  "normalize_part (JObj [(''data'', v)]) =
     Inr (JObj [(''data'', restore_json_numbers v), (''kind'', JStr ''data'')])"
  by (simp_all add: normalize_part_def dset_def)

lemma canon_swap: "k \<noteq> k' \<Longrightarrow> canon (JObj [(k, v), (k', v')]) = canon (JObj [(k', v'), (k, v)])"
  by (subst canon_obj_iff) auto

lemma reply_part:
  assumes "struct_ok dbl P" "plain_part p" "carried p" "proto_part E P p = Inr q" "part_json P q j"
  shows "\<exists>p'. normalize_part j = Inr p' \<and> canon p' = canon p"
proof -
  from assms(2) consider s where "p = text_part s" | d where "p = data_part d"
    by (auto simp: plain_part_def)
  then show ?thesis
  proof cases
    case 1
    with assms(4,5) have "j = JObj [(''text'', JStr s)]"
      by (auto simp: proto_part_def text_part_def part_json_def py_or_def)
    with 1 show ?thesis
      by (simp add: normalize_part_shape text_part_def canon_swap [of "''text''"] del: canon.simps)
  next
    case 2
    with assms(4) obtain x where x: "pb_parse P (JObj d) = Inr x" "q = PData x"
      by (auto simp: proto_part_def data_part_def)
    from assms(3) 2 have "carried (JObj d)" by (simp only: carried_data_part)
    from restored_object [OF assms(1) this x(1)] obtain w d' where w: "pb_dict P x = Inr w"
      "restore_json_numbers w = JObj d'" "canon (JObj d') = canon (JObj d)" by blast
    with x(2) assms(5) have "j = JObj [(''data'', w)]" by (auto simp: part_json_def)
    then have j: "normalize_part j = Inr (JObj [(''data'', JObj d'), (''kind'', JStr ''data'')])"
      using w(2) by (simp add: normalize_part_shape)
    have "canon (JObj [(''data'', JObj d'), (''kind'', JStr ''data'')]) = canon (data_part d')"
      unfolding data_part_def by (rule canon_swap) simp
    also have "\<dots> = canon p" unfolding 2 by (rule data_part_canon) (rule w(3))
    finally show ?thesis using j by blast
  qed
qed

lemma reply_parts:
  assumes "struct_ok dbl P" "list_all plain_part ps" "list_all carried ps"
    and "mapR (proto_part E P) ps = Inr qs" "list_all2 (part_json P) qs js"
  shows "\<exists>ps'. mapR normalize_part js = Inr ps' \<and> map canon ps' = map canon ps"
  using assms(2-5)
proof (induction ps arbitrary: qs js)
  case (Cons p ps)
  from Cons.prems(3) obtain q qs' where q: "proto_part E P p = Inr q" "mapR (proto_part E P) ps = Inr qs'"
    "qs = q # qs'" by auto
  with Cons.prems(4) obtain j js' where j: "js = j # js'" "part_json P q j" "list_all2 (part_json P) qs' js'"
    by (auto simp: list_all2_Cons1)
  from reply_part [OF assms(1) _ _ q(1) j(2)] Cons.prems obtain p'
    where "normalize_part j = Inr p'" "canon p' = canon p" by auto
  moreover from Cons.IH [OF _ _ q(2) j(3)] Cons.prems obtain ps'
    where "mapR normalize_part js' = Inr ps'" "map canon ps' = map canon ps" by auto
  ultimately show ?case using j(1) by auto
qed simp

lemma reply_artifact:
  assumes "struct_ok dbl P" "plain_artifact a i ps" "proto_artifact E P a = Inr pas" "list_all2 (artifact_json P) pas js"
  shows "\<exists>j b. js = [j] \<and> normalize_artifact j = Inr b \<and> same_artifact a b"
proof -
  from assms(2) obtain n where a: "a = JObj [(''artifactId'', JStr i), (''name'', JStr n), (''parts'', JArr ps)]"
    by (auto simp: plain_artifact_def)
  have strs: "py_or (py_or (JStr i) JNull) (JStr []) = JStr i" "py_or (JStr n) (JStr []) = JStr n"
    by (simp_all add: py_or_def)
  from assms(3) obtain qs where qs: "mapR (proto_part E P) ps = Inr qs"
    and pas: "pas = [\<lparr>pa_artifact_id = i, pa_name = n, pa_parts = qs\<rparr>]"
    by (auto simp: proto_artifact_def a strs)
  with assms(4) obtain d js' where j: "js = [JObj d]" "dget d ''artifactId'' = JStr i"
    "py_or (dget d ''parts'') (JArr []) = JArr js'" "list_all2 (part_json P) qs js'"
    by (auto simp: list_all2_Cons1 artifact_json_def)
  from reply_parts [OF assms(1) _ _ qs j(4)] assms(2) obtain ps'
    where ps': "mapR normalize_part js' = Inr ps'" "map canon ps' = map canon ps"
    by (auto simp: plain_artifact_def)
  have "normalize_artifact (JObj d) = Inr (JObj (dset d ''parts'' (JArr ps')))"
    using j(3) ps'(1) by (simp add: normalize_artifact_def)
  moreover have "same_artifact a (JObj (dset d ''parts'' (JArr ps')))"
    unfolding same_artifact_def using assms(2) j(2) ps'(2) by (auto intro!: exI [of _ i] exI [of _ ps])
  ultimately show ?thesis using j(1) by blast
qed

lemma reply_artifacts:
  assumes "struct_ok dbl P" "list_all (\<lambda>a. \<exists>i ps. plain_artifact a i ps) as"
    and "mapR (proto_artifact E P) as = Inr pas" "list_all2 (artifact_json P) (concat pas) js"
  shows "\<exists>bs. mapR normalize_artifact js = Inr bs \<and> list_all2 same_artifact as bs"
  using assms(2-4)
proof (induction as arbitrary: pas js)
  case (Cons a as)
  from Cons.prems(2) obtain pa pas' where pa: "proto_artifact E P a = Inr pa" "mapR (proto_artifact E P) as = Inr pas'"
    "pas = pa # pas'" by auto
  with Cons.prems(3) obtain js1 js2 where js: "js = js1 @ js2" "list_all2 (artifact_json P) pa js1"
    "list_all2 (artifact_json P) (concat pas') js2"
    by (auto simp: list_all2_append1)
  from Cons.prems(1) obtain i ps where "plain_artifact a i ps" by auto
  from reply_artifact [OF assms(1) this pa(1) js(2)] obtain j b
    where j: "js1 = [j]" "normalize_artifact j = Inr b" "same_artifact a b" by blast
  from Cons.IH [OF _ pa(2) js(3)] Cons.prems obtain bs
    where bs: "mapR normalize_artifact js2 = Inr bs" "list_all2 same_artifact as bs" by auto
  have "mapR normalize_artifact js = Inr (b # bs)" using js(1) j bs by simp
  with j(3) bs(2) show ?case by blast
qed simp

section \<open>A concrete protobuf\<close>

text \<open>Structured values are the JSON values whose numbers fit a double.\<close>

definition demo_dbl :: "int \<Rightarrow> pyfloat" where
  "demo_dbl n = mk_float n 0"

definition demo_pbuf :: "json pbuf" where
  "demo_pbuf =
     \<lparr>pb_parse = (\<lambda>v. if wf_json (struct_numbers demo_dbl v) then Inr v else Inl OverflowError),
      pb_dict = (\<lambda>x. Inr (struct_numbers demo_dbl x)),
      pb_new_task = (\<lambda>t c st as. \<lparr>pt_id = t, pt_context_id = c, pt_state = st, pt_artifacts = as,
                                   pt_metadata = None\<rparr>)\<rparr>"

lemma demo_pbuf_ok [simp]: "struct_ok demo_dbl demo_pbuf"
  by (auto simp: struct_ok_def demo_pbuf_def demo_dbl_def split: if_splits)

definition demo_sent :: dict where
  "demo_sent = [(''n'', JInt 5), (''t'', JStr ''x'')]"

definition demo_sent_pm :: "json message" where
  "demo_sent_pm =
     \<lparr>pm_message_id = ''m1'', pm_role = ROLE_USER, pm_parts = [PText ''hi'', PData (JObj demo_sent)],
      pm_metadata = Some (JObj demo_sent), pm_task_id = [], pm_context_id = []\<rparr>"

lemma mk_float_odd: "odd m \<Longrightarrow> mk_float m e = PFin m e"
  by (auto simp: mk_float.simps [of m e])

lemma demo_parse: "pb_parse demo_pbuf (JObj demo_sent) = Inr (JObj demo_sent)"
  by (simp add: demo_pbuf_def demo_sent_def demo_dbl_def mk_float_odd wf_float_def)

lemma demo_carried: "carried (JObj demo_sent)"
  by (simp add: carried_def demo_sent_def)

definition demo_parts :: "json list" where
  "demo_parts = [text_part ''hi'', data_part demo_sent]"

lemma demo_request:
  defines "msg \<equiv> [(''messageId'', JStr ''m1''), (''role'', JStr ''user''), (''parts'', JArr demo_parts),
     (''metadata'', JObj demo_sent)]"
    and "params \<equiv> [(''message'', JObj [(''messageId'', JStr ''m1''), (''role'', JStr ''ROLE_USER''),
       (''parts'', JArr (map sent_part demo_parts)), (''metadata'', JObj demo_sent)])]"
  shows "plain_message ''m1'' demo_parts demo_sent msg" "list_all carried demo_parts"
    "skill_message_to_send_params demo_prims [] msg = Inr params"
    "message_parsed demo_pbuf (dget params ''message'') demo_sent_pm"
proof -
  show m: "plain_message ''m1'' demo_parts demo_sent msg"
    by (auto simp: plain_message_def plain_part_def demo_parts_def msg_def) (simp add: demo_sent_def)
  show "list_all carried demo_parts"
    using demo_carried carried_data_part [of demo_sent] by (simp add: carried_def text_part_def demo_parts_def)
  show "skill_message_to_send_params demo_prims [] msg = Inr params"
    unfolding params_def by (rule send_plain_message [OF m])
  show "message_parsed demo_pbuf (dget params ''message'') demo_sent_pm"
    using demo_parse
    by (auto simp: message_parsed_def part_parsed_def text_part_def data_part_def demo_sent_pm_def
        demo_parts_def params_def)
qed

section \<open>Properties\<close>

lemma message_received:
  assumes "struct_ok dbl P" "plain_message mid ps md message"
    and "list_all carried ps" "carried (JObj md)"
    and "skill_message_to_send_params E uuid message = Inr params"
    and "message_parsed P (dget params ''message'') pm"
  shows "\<exists>ps' d'. protobuf_message_to_dict P pm = Inr [(''messageId'', JStr mid), (''role'', JStr ''user''),
     (''parts'', JArr ps'), (''metadata'', JObj d'), (''taskId'', JStr (pm_task_id pm)),
     (''contextId'', JStr (pm_context_id pm))] \<and>
    map canon ps' = map canon ps \<and> wf_json (JObj d') \<and> canon (JObj d') = canon (JObj md)"
proof -
  from assms(5) send_plain_message [OF assms(2)]
  have "dget params ''message'' = JObj [(''messageId'', JStr mid), (''role'', JStr ''ROLE_USER''),
       (''parts'', JArr (map sent_part ps)), (''metadata'', JObj md)]" by auto
  with assms(6) obtain x where pm: "pm_message_id pm = mid" "pm_role pm = ROLE_USER"
    "list_all2 (part_parsed P) (map sent_part ps) (pm_parts pm)"
    "pb_parse P (JObj md) = Inr x" "pm_metadata pm = Some x"
    by (auto simp: message_parsed_def)
  from parts_over_wire [OF assms(1) _ assms(3) pm(3)] assms(2) obtain ps'
    where ps': "mapR (part_to_dicts P) (pm_parts pm) = Inr ps'" "map canon (concat ps') = map canon ps"
    by (auto simp: plain_message_def)
  from restored_object [OF assms(1,4) pm(4)] obtain w d'
    where w: "pb_dict P x = Inr w" "restore_json_numbers w = JObj d'" "wf_json (JObj d')" "canon (JObj d') = canon (JObj md)"
    by blast
  have "protobuf_message_to_dict P pm = Inr [(''messageId'', JStr mid), (''role'', JStr ''user''),
     (''parts'', JArr (concat ps')), (''metadata'', JObj d'), (''taskId'', JStr (pm_task_id pm)),
     (''contextId'', JStr (pm_context_id pm))]"
    using pm ps'(1) w(1,2) by (simp add: protobuf_message_to_dict_def)
  with ps'(2) w(3,4) show ?thesis by blast
qed

text \<open>
  C11: a message the SDK sends arrives as it was, up to the order of keys: id, role, parts and metadata,
  when its numbers are integers below $2^{53}$ or fractional doubles.
\<close>

theorem request_survives_wire:
  assumes "struct_ok dbl P" "plain_message mid ps md message"
    and "list_all carried ps" "carried (JObj md)"
    and "skill_message_to_send_params E uuid message = Inr params"
    and "message_parsed P (dget params ''message'') pm"
  shows "\<exists>received. protobuf_message_to_dict P pm = Inr received \<and>
    canon (dget received ''messageId'') = JStr mid \<and> dget received ''role'' = JStr ''user'' \<and>
    canon (dget received ''parts'') = canon (JArr ps) \<and>
    canon (dget received ''metadata'') = canon (JObj md)"
proof -
  from message_received [OF assms] obtain ps' d' where r: "protobuf_message_to_dict P pm =
      Inr [(''messageId'', JStr mid), (''role'', JStr ''user''),
     (''parts'', JArr ps'), (''metadata'', JObj d'), (''taskId'', JStr (pm_task_id pm)),
     (''contextId'', JStr (pm_context_id pm))]" "map canon ps' = map canon ps" "canon (JObj d') = canon (JObj md)"
    by blast
  then show ?thesis by (simp del: canon.simps) (simp add: canon.simps(1))
qed

lemma request_survives_wire_witness:
  "\<exists>received. protobuf_message_to_dict demo_pbuf demo_sent_pm = Inr received \<and>
    canon (dget received ''metadata'') = canon (JObj demo_sent)"
  using request_survives_wire [OF demo_pbuf_ok demo_request(1,2) demo_carried demo_request(3,4)] by blast



text \<open>
  The other numbers lose the signature. An integral double (a price of \<open>1.0\<close>) is restored as an
  integer, whose canonical form is another one: the signature made by the sender is accepted by the
  receiver only if SHA-256 collides.
\<close>

theorem integral_float_loses_signature:
  assumes "struct_ok dbl P" "float_repr_ok E" "ed25519_binds E" "length sk = 32"
    and "wf_json (JObj d)" "hash_and_sign E sk d = Inr (h, s)" "finite_json (JObj d)"
    and "pb_parse P (JObj d) = Inr x" "pb_dict P x = Inr w" "restore_json_numbers w = JObj d'"
    and "dget d k = JFloat f" "small_integral f" "k \<notin> set HASH_OMIT_FIELDS"
    and "verify_object E (encode_public_key (ed_public E sk)) d' s = Inr True"
  shows "sha256_collision E d d'"
proof -
  note w = struct_arrives [OF assms(1,5,7,8,9)]
  have wf': "wf_json (JObj d')" using wf_restore [OF w(1)] assms(10) by simp
  have "canon (JObj d') = canon (restore_json_numbers (struct_numbers dbl (JObj d)))"
    using restore.canon_f_cong [OF w(2)] assms(10) by simp
  also have "restore_json_numbers (struct_numbers dbl (JObj d)) =
     JObj (map (\<lambda>(k, v). (k, restore_json_numbers v)) (map (\<lambda>(k, v). (k, struct_numbers dbl v)) d))"
    by simp
  finally have "canon (dget d' k) = canon (restore_json_numbers (struct_numbers dbl (dget d k)))"
    using wf' assms(5)
    by (subst canon_dget) (auto simp: restore.keys_f struct_numbers.keys_f restore.dget_f
        struct_numbers.dget_f simp del: map_map canon.simps)
  moreover from assms(12) obtain n where "restore_float f = JInt n"
    by (auto simp: small_integral_def restore_float_def split: option.splits)
  ultimately have "canon (dget d' k) \<noteq> canon (dget d k)" using assms(11) by simp
  with accepted_signature_binds [OF assms(2-5) wf' assms(6,14)] assms(13) show ?thesis by blast
qed

lemma integral_float_loses_signature_witness:
  "\<exists>h s. hash_and_sign demo_prims demo_key [(''price'', JFloat (PFin 1 0))] = Inr (h, s) \<and>
     verify_object demo_prims (encode_public_key (ed_public demo_prims demo_key)) [(''price'', JInt 1)] s \<noteq> Inr True"
proof -
  let ?d = "[(''price'', JFloat (PFin 1 0))]"
  have d: "wf_json (JObj ?d)" "finite_json (JObj ?d)" "pb_parse demo_pbuf (JObj ?d) = Inr (JObj ?d)"
    "pb_dict demo_pbuf (JObj ?d) = Inr (JObj ?d)" "small_integral (PFin 1 0)"
    "restore_json_numbers (JObj ?d) = JObj [(''price'', JInt 1)]" "''price'' \<notin> set HASH_OMIT_FIELDS"
    "dget ?d ''price'' = JFloat (PFin 1 0)"
    by (simp_all add: wf_float_def finite_float_def demo_pbuf_def small_integral_def restore_float_def omit_fields_defs)
  obtain h s where hs: "hash_and_sign demo_prims demo_key ?d = Inr (h, s)"
    using canonical_json_emit [OF finite_unsigned [OF d(2)], of demo_prims] by (auto simp: hash_and_sign_def)
  have no: "\<not> sha256_collision demo_prims ?d [(''price'', JInt 1)]"
    by (auto simp: sha256_collision_def)
  have "verify_object demo_prims (encode_public_key (ed_public demo_prims demo_key)) [(''price'', JInt 1)] s \<noteq> Inr True"
    using integral_float_loses_signature [OF demo_pbuf_ok demo_float_repr_ok demo_ed25519_binds length_demo_key(1)
      d(1) hs d(2,3,4,6,8,5,7)] no by blast
  with hs show ?thesis by blast
qed


definition demo_reply :: dict where
  "demo_reply =
     [(''id'', JStr ''t1''), (''status'', JObj [(''state'', JStr ''completed'')]),
      (''artifacts'', JArr [JObj [(''artifactId'', JStr ''a''), (''name'', JStr ''code''),
         (''parts'', JArr [data_part demo_sent])]]),
      (''metadata'', JObj demo_sent)]"

definition demo_reply_pt :: "json task" where
  "demo_reply_pt =
     \<lparr>pt_id = ''t1'', pt_context_id = ''c1'', pt_state = TASK_STATE_COMPLETED,
      pt_artifacts = [\<lparr>pa_artifact_id = ''a'', pa_name = ''code'', pa_parts = [PData (JObj demo_sent)]\<rparr>],
      pt_metadata = Some (JObj demo_sent)\<rparr>"

definition demo_reply_json :: json where
  "demo_reply_json =
     (let w = struct_numbers demo_dbl (JObj demo_sent) in
      JObj [(''id'', JStr ''t1''), (''contextId'', JStr ''c1''),
        (''status'', JObj [(''state'', JStr ''TASK_STATE_COMPLETED'')]),
        (''artifacts'', JArr [JObj [(''artifactId'', JStr ''a''), (''name'', JStr ''code''),
           (''parts'', JArr [JObj [(''data'', w)]])]]),
        (''metadata'', w)])"

lemma demo_new_task: "pb_new_task demo_pbuf t c st as =
    \<lparr>pt_id = t, pt_context_id = c, pt_state = st, pt_artifacts = as, pt_metadata = None\<rparr>"
  by (simp add: demo_pbuf_def)


end
