(* ===== verification/Card.thy ===== *)
theory Card
  imports Models Identity Url
begin

text \<open>
  Agent Cards (\<open>a2a_card.py\<close>): the card an agent signs, the check of a card, and the announcement made
  from one. A card comes off the wire as a dictionary of JSON values.
\<close>

section \<open>URLs\<close>

definition origin_of :: "string \<Rightarrow> string res" where
  "origin_of url =
     bindR (urlsplit url) (\<lambda>parts.
       if u_scheme parts = [] then Inr (rstrip_chars ''/'' url)
       else Inr (u_scheme parts @ ''://'' @ u_netloc parts))"

text \<open>The loop over the interfaces; \<open>skip\<close> is whether \<open>HTTP+JSON\<close> is passed over.\<close>

fun first_url :: "prims \<Rightarrow> bool \<Rightarrow> json list \<Rightarrow> string option res" where
  "first_url E skip [] = Inr None"
| "first_url E skip (iface # ifaces) =
     bindR (obj_get (py_or iface (JObj [])) ''protocolBinding'') (\<lambda>binding.
       if skip \<and> binding = JStr ''HTTP+JSON'' then first_url E skip ifaces
       else bindR (obj_get (py_or iface (JObj [])) ''url'') (\<lambda>url.
         if truthy url then Inr (Some (py_str E url)) else first_url E skip ifaces))"

definition resolve_a2a_url :: "prims \<Rightarrow> json \<Rightarrow> string option res" where
  "resolve_a2a_url E crd =
     (if \<not> truthy crd then Inr None
      else
        bindR (obj_get crd ''supportedInterfaces'') (\<lambda>raw.
        bindR (py_iter (py_or raw (JArr []))) (\<lambda>ifaces.
        bindR (first_url E True ifaces) (\<lambda>found.
          if found \<noteq> None then Inr found
          else bindR (first_url E False ifaces) (\<lambda>found.
            if found \<noteq> None then Inr found
            else bindR (obj_get crd ''url'') (\<lambda>url.
              Inr (if truthy url then Some (py_str E url) else None)))))))"

text \<open>\<open>x in {...}\<close> needs a hashable value.\<close>

definition looks_like_agent_card :: "json \<Rightarrow> bool res" where
  "looks_like_agent_card body =
     (case body of
        JObj d \<Rightarrow>
          if unhashable (dget d ''type'') then Inl TypeError
          else if dget d ''type'' \<in> {JStr ''network.announce'', JStr ''network.join'', JStr ''network.renew''} then Inr False
          else if \<not> truthy (dget d ''agent_id'') \<or> \<not> truthy (dget d ''public_key'') then Inr False
          else Inr (truthy (py_or (dget d ''supportedInterfaces'') (dget d ''skills'')))
      | _ \<Rightarrow> Inr False)"

section \<open>Announcing a card\<close>

definition skill_capability :: "prims \<Rightarrow> json \<Rightarrow> json list" where
  "skill_capability E skill =
     (case skill of
        JObj d \<Rightarrow>
          let skill_id = py_or (dget d ''id'') (dget d ''name'') in
          if \<not> truthy skill_id then []
          else [JObj [(''id'', JStr (py_str E skill_id)),
                      (''version'', JStr (py_str E (py_or (dget d ''version'') (JStr ''1.0.0''))))]]
      | _ \<Rightarrow> [])"

definition direct_interface :: "prims \<Rightarrow> json \<Rightarrow> json list" where
  "direct_interface E iface =
     (case iface of
        JObj d \<Rightarrow>
          if \<not> truthy (dget d ''url'') then []
          else [JObj [(''type'', JStr ''DIRECT''), (''protocol'', JStr ''a2a''),
                      (''version'', JStr (py_str E (py_or (dget d ''protocolVersion'') (JStr ''1.0'')))),
                      (''transport'', JStr ''http''),
                      (''binding'', JStr (py_str E (py_or (dget d ''protocolBinding'') (JStr ''JSONRPC'')))),
                      (''endpoint'', JStr (py_str E (dget d ''url'')))]]
      | _ \<Rightarrow> [])"

definition announce_from_card :: "prims \<Rightarrow> string \<Rightarrow> dict \<Rightarrow> dict res" where
  "announce_from_card E card_url crd =
     bindR (py_iter (py_or (dget crd ''skills'') (JArr []))) (\<lambda>skills.
     let caps = concat (map (skill_capability E) skills) in
     bindR (resolve_a2a_url E (JObj crd)) (\<lambda>resolved.
     let endpoint = (case resolved of
            Some (c # cs) \<Rightarrow> c # cs
          | _ \<Rightarrow> py_str E (py_or (dget crd ''url'') (JStr []))) in
     bindR (py_iter (py_or (dget crd ''supportedInterfaces'') (JArr []))) (\<lambda>ifaces.
     let interfaces = concat (map (direct_interface E) ifaces);
         interfaces = (if interfaces = [] \<and> endpoint \<noteq> [] then
              [JObj [(''type'', JStr ''DIRECT''), (''protocol'', JStr ''a2a''), (''version'', JStr ''1.0''),
                     (''transport'', JStr ''http''), (''endpoint'', JStr endpoint)]]
            else interfaces) in
     bindR (ditem crd ''agent_id'') (\<lambda>agent_id.
     bindR (ditem crd ''public_key'') (\<lambda>pk.
       Inr [(''type'', JStr ''network.announce''),
            (''agent_id'', agent_id),
            (''public_key'', pk),
            (''key_id'', py_or (dget crd ''key_id'') (JStr ''key-1'')),
            (''agent_card_url'', py_or (JStr card_url) (py_or (dget crd ''agent_card_url'') (JStr []))),
            (''endpoint'', JStr endpoint),
            (''capabilities'', JArr caps),
            (''interfaces'', JArr interfaces),
            (''availability'', py_or (dget crd ''availability'')
               (JObj [(''accept_new_tasks'', JBool True), (''status'', JStr ''AVAILABLE'')])),
            (''requested_lease_seconds'', dget crd ''requested_lease_seconds''),
            (''enrollment'', dget crd ''enrollment'')])))))"

section \<open>Signing and checking a card\<close>

definition card_skill_entry :: "prims \<Rightarrow> dict \<Rightarrow> json" where
  "card_skill_entry E skill = JObj
     ([(''id'', JStr (py_str E (py_or (py_or (dget skill ''id'') (dget skill ''name'')) (JStr ''skill'')))),
       (''name'', JStr (py_str E (py_or (py_or (dget skill ''name'') (dget skill ''id'')) (JStr ''skill'')))),
       (''description'', JStr (py_str E (py_or (py_or (py_or (dget skill ''description'') (dget skill ''name''))
                                    (dget skill ''id'')) (JStr []))))] @
      filter (\<lambda>(k, v). k \<notin> {''id'', ''name'', ''description''}) skill)"

definition card_body :: "prims \<Rightarrow> identity \<Rightarrow> string \<Rightarrow> string \<Rightarrow> string \<Rightarrow> string \<Rightarrow> dict list \<Rightarrow> dict" where
  "card_body E i origin name description url skills =
     [(''name'', JStr name),
      (''description'', JStr description),
      (''version'', JStr ''0.2.0''),
      (''supportedInterfaces'', JArr
         [JObj [(''url'', JStr url), (''protocolBinding'', JStr ''JSONRPC''), (''protocolVersion'', JStr ''1.0'')],
          JObj [(''url'', JStr origin), (''protocolBinding'', JStr ''HTTP+JSON''), (''protocolVersion'', JStr ''1.0'')]]),
      (''defaultInputModes'', JArr [JStr ''text'']),
      (''defaultOutputModes'', JArr [JStr ''text'']),
      (''capabilities'', JObj [(''streaming'', JBool False)]),
      (''skills'', JArr (map (card_skill_entry E) skills)),
      (''agent_id'', JStr (i_agent_id i)),
      (''public_key'', JStr (public_key i)),
      (''key_id'', JStr (i_key_id i)),
      (''url'', JStr url)]"

text \<open>\<open>if network_id: card["network_id"] = network_id\<close> and \<open>if extra: card.update(extra)\<close>.\<close>

definition with_network :: "string option \<Rightarrow> dict \<Rightarrow> dict" where
  "with_network network_id crd =
     (case network_id of Some (c # cs) \<Rightarrow> dset crd ''network_id'' (JStr (c # cs)) | _ \<Rightarrow> crd)"

definition with_extra :: "dict option \<Rightarrow> dict \<Rightarrow> dict" where
  "with_extra extra crd = (case extra of Some d \<Rightarrow> dupdate crd d | None \<Rightarrow> crd)"

definition signed_agent_card ::
    "prims \<Rightarrow> string \<Rightarrow> identity \<Rightarrow> string \<Rightarrow> string \<Rightarrow> string \<Rightarrow> dict list \<Rightarrow> dict option \<Rightarrow> string option \<Rightarrow> dict res" where
  "signed_agent_card E now i name description url skills extra network_id =
     bindR (origin_of url) (\<lambda>origin.
     let crd = card_body E i origin name description url skills;
         crd = with_network network_id crd;
         crd = with_extra extra crd in
     bindR (canonical_json E (JObj (unsigned_payload crd))) (\<lambda>b.
     bindR (enrollment_message E now i (sha256_hex E b) [] []) (\<lambda>enrollment.
     let crd = dset crd ''enrollment'' (JObj enrollment) in
     bindR (sign_object E i crd) (\<lambda>s.
       Inr (dset crd ''signature'' (JStr s))))))"

text \<open>A value given by the caller that a field of the card contradicts.\<close>

definition contradicts :: "dict \<Rightarrow> string \<Rightarrow> string option \<Rightarrow> bool" where
  "contradicts crd k expected =
     (case expected of
        Some (c # cs) \<Rightarrow> truthy (dget crd k) \<and> dget crd k \<noteq> JStr (c # cs)
      | _ \<Rightarrow> False)"

definition verify_signed_agent_card ::
    "prims \<Rightarrow> dict \<Rightarrow> string \<Rightarrow> string option \<Rightarrow> string option \<Rightarrow> string option \<Rightarrow> string option \<Rightarrow> unit res" where
  "verify_signed_agent_card E crd pk network_id seed_agent_id key_id endpoint =
     bindR (verify_object E pk crd (py_str E (py_or (dget crd ''signature'') (JStr [])))) (\<lambda>ok.
     if \<not> ok then Inl (NetworkError ''INVALID_SIGNATURE'' ''agent card'')
     else if truthy (dget crd ''public_key'') \<and> dget crd ''public_key'' \<noteq> JStr pk then
       Inl (NetworkError ''IDENTITY_INVALID'' ''card public_key mismatch'')
     else if contradicts crd ''network_id'' network_id then
       Inl (NetworkError ''IDENTITY_INVALID'' ''card network_id mismatch'')
     else if contradicts crd ''agent_id'' seed_agent_id then
       Inl (NetworkError ''IDENTITY_INVALID'' ''card agent_id mismatch'')
     else if contradicts crd ''key_id'' key_id then
       Inl (NetworkError ''IDENTITY_INVALID'' ''card key_id mismatch'')
     else
       bindR (resolve_a2a_url E (JObj crd)) (\<lambda>resolved.
       let card_endpoint = (case resolved of Some (c # cs) \<Rightarrow> JStr (c # cs) | _ \<Rightarrow> dget crd ''url'') in
       case endpoint of
         Some (c # cs) \<Rightarrow>
           if truthy card_endpoint \<and> rstrip_chars ''/'' (py_str E card_endpoint) \<noteq> rstrip_chars ''/'' (c # cs)
           then Inl (NetworkError ''IDENTITY_INVALID'' ''card endpoint mismatch'')
           else Inr ()
       | _ \<Rightarrow> Inr ()))"

section \<open>Facts\<close>

lemma dupdate_simps:
  "dupdate d [] = d" "dupdate d ((k, v) # d') = dupdate (dset d k v) d'"
  by (simp_all add: dupdate_def)

lemma dget_dupdate: "\<not> dhas d' k \<Longrightarrow> dget (dupdate d d') k = dget d k"
  by (induction d' arbitrary: d) (simp add: dupdate_simps, auto simp: dupdate_simps split_paired_all)

lemma dhas_dupdate: "dhas (dupdate d d') k \<longleftrightarrow> dhas d k \<or> dhas d' k"
  by (induction d' arbitrary: d) (simp add: dupdate_simps, auto simp: dupdate_simps split_paired_all)

lemma dpop_dset: "\<not> dhas d k \<Longrightarrow> dpop (dset d k v) k = d"
proof -
  assume new: "\<not> dhas d k"
  then have "filter (\<lambda>(k', v). k' \<noteq> k) d = d" by (intro filter_True) (force simp: dhas_keys)
  with new show ?thesis by (simp add: dset_new dpop_def)
qed

lemma unsigned_dpop_enrollment:
  "\<not> dhas d ''enrollment'' \<Longrightarrow>
   unsigned_payload (dpop (dset (dset d ''enrollment'' e) ''signature'' v) ''enrollment'') = unsigned_payload d"
proof -
  assume new: "\<not> dhas d ''enrollment''"
  have om: "unsigned_payload (dpop x k) = dpop (unsigned_payload x) k" for x k
    unfolding unsigned_payload_def dpop_def filter_filter by (rule filter_cong) auto
  have "unsigned_payload (dset d ''enrollment'' e) = dset (unsigned_payload d) ''enrollment'' e"
    by (simp add: unsigned_dset omit_fields_defs)
  moreover from new have "\<not> dhas (unsigned_payload d) ''enrollment''"
    by (auto simp: dhas_keys unsigned_payload_def)
  ultimately show ?thesis
    unfolding om by (simp add: unsigned_dset dpop_dset) (simp add: omit_fields_defs dpop_dset)
qed

text \<open>The fields that the check reads, and the enrollment.\<close>

definition CHECKED_FIELDS :: "string list" where
  "CHECKED_FIELDS =
     [''public_key'', ''network_id'', ''agent_id'', ''key_id'', ''supportedInterfaces'', ''url'', ''enrollment'']"

text \<open>The card before its enrollment and its signature.\<close>

definition draft_card ::
    "prims \<Rightarrow> identity \<Rightarrow> string \<Rightarrow> string \<Rightarrow> string \<Rightarrow> string \<Rightarrow> dict list \<Rightarrow> dict option \<Rightarrow> string option \<Rightarrow> dict" where
  "draft_card E i origin name description url skills extra network_id =
     with_extra extra (with_network network_id (card_body E i origin name description url skills))"

lemma with_network_fields:
  "k \<noteq> ''network_id'' \<Longrightarrow> dget (with_network nid d) k = dget d k"
  "k \<noteq> ''network_id'' \<Longrightarrow> dhas (with_network nid d) k = dhas d k"
  by (auto simp: with_network_def split: option.split list.split)

lemma with_extra_fields:
  "(\<And>d. extra = Some d \<Longrightarrow> \<not> dhas d k) \<Longrightarrow> dget (with_extra extra a) k = dget a k"
  "(\<And>d. extra = Some d \<Longrightarrow> \<not> dhas d k) \<Longrightarrow> dhas (with_extra extra a) k = dhas a k"
  by (auto simp: with_extra_def dget_dupdate dhas_dupdate split: option.split)

lemma signed_agent_card_draft:
  assumes "signed_agent_card E now i name description url skills extra nid = Inr crd"
  obtains origin e b where "origin_of url = Inr origin"
    "canonical_json E (JObj (unsigned_payload (draft_card E i origin name description url skills extra nid))) = Inr b"
    "enrollment_message E now i (sha256_hex E b) [] [] = Inr e"
    "sign_into E i ''signature''
       (dset (draft_card E i origin name description url skills extra nid) ''enrollment'' (JObj e)) = Inr crd"
  using assms
  unfolding signed_agent_card_def Let_def draft_card_def [symmetric]
  by (elim bindR_InrE) (simp add: sign_into_def)

lemma draft_card_field:
  assumes "\<And>d k. extra = Some d \<Longrightarrow> k \<in> set CHECKED_FIELDS \<Longrightarrow> \<not> dhas d k"
    and "k \<in> set CHECKED_FIELDS" "k \<noteq> ''network_id''"
  shows "dget (draft_card E i origin name description url skills extra nid) k =
      dget (card_body E i origin name description url skills) k"
    "dhas (draft_card E i origin name description url skills extra nid) k =
      dhas (card_body E i origin name description url skills) k"
  using assms by (simp_all add: draft_card_def with_extra_fields with_network_fields)

lemma draft_card_network:
  assumes "\<And>d k. extra = Some d \<Longrightarrow> k \<in> set CHECKED_FIELDS \<Longrightarrow> \<not> dhas d k"
  shows "\<not> contradicts (draft_card E i origin name description url skills extra nid) ''network_id'' nid"
proof -
  have "dget (draft_card E i origin name description url skills extra nid) ''network_id'' =
     dget (with_network nid (card_body E i origin name description url skills)) ''network_id''"
    unfolding draft_card_def by (rule with_extra_fields(1)) (simp add: assms CHECKED_FIELDS_def)
  then show ?thesis
    by (auto simp: contradicts_def with_network_def card_body_def split: option.split list.split)
qed

lemma card_body_fields:
  "dget (card_body E i origin name description url skills) ''agent_id'' = JStr (i_agent_id i)"
  "dget (card_body E i origin name description url skills) ''public_key'' = JStr (public_key i)"
  "dget (card_body E i origin name description url skills) ''key_id'' = JStr (i_key_id i)"
  "dget (card_body E i origin name description url skills) ''url'' = JStr url"
  "\<not> dhas (card_body E i origin name description url skills) ''enrollment''"
  "dget (card_body E i origin name description url skills) ''supportedInterfaces'' =
     JArr [JObj [(''url'', JStr url), (''protocolBinding'', JStr ''JSONRPC''), (''protocolVersion'', JStr ''1.0'')],
           JObj [(''url'', JStr origin), (''protocolBinding'', JStr ''HTTP+JSON''), (''protocolVersion'', JStr ''1.0'')]]"
  by (simp_all add: card_body_def)

text \<open>What the check establishes.\<close>

lemma first_url_hit:
  "url \<noteq> [] \<Longrightarrow> b \<noteq> ''HTTP+JSON'' \<Longrightarrow>
   first_url E True (JObj [(''url'', JStr url), (''protocolBinding'', JStr b), x] # ifaces) = Inr (Some url)"
  by (simp add: py_or_def)

lemma resolve_first:
  assumes "dget crd ''supportedInterfaces'' =
     JArr (JObj [(''url'', JStr url), (''protocolBinding'', JStr ''JSONRPC''), x] # ifaces)" "url \<noteq> []"
  shows "resolve_a2a_url E (JObj crd) = Inr (Some url)"
proof -
  from assms(1) have "crd \<noteq> []" by auto
  moreover have "first_url E True (JObj [(''url'', JStr url), (''protocolBinding'', JStr ''JSONRPC''), x] # ifaces) = Inr (Some url)"
    by (rule first_url_hit) (use assms(2) in simp_all)
  ultimately show ?thesis using assms(1) by (simp add: resolve_a2a_url_def del: first_url.simps)
qed

lemma verify_card_ok:
  assumes "dget crd ''signature'' = JStr s" "s \<noteq> []" "verify_object E pk crd s = Inr True"
    and "dget crd ''public_key'' = JStr pk" "\<not> contradicts crd ''network_id'' nid"
    and "dget crd ''agent_id'' = JStr aid" "dget crd ''key_id'' = JStr kid"
    and "resolve_a2a_url E (JObj crd) = Inr (Some url)"
  shows "verify_signed_agent_card E crd pk nid (Some aid) (Some kid) (Some url) = Inr ()"
proof -
  have "py_str E (py_or (JStr s) (JStr [])) = s" by (simp add: py_or_def)
  with assms show ?thesis
    by (auto simp: verify_signed_agent_card_def contradicts_def split: option.split list.split)
qed

text \<open>The enrollment commits to the card it is put into.\<close>

lemma enrollment_card_hash:
  assumes "enrollment_message E now i ch ph keys = Inr e" "ch \<noteq> []"
  shows "dget e ''agent_card_hash'' = JStr ch"
  using assms by (auto simp: enrollment_message_def sign_into_def split: if_splits)

lemma enrollment_signed:
  assumes "ed25519_ok E" "identity_ok E i" "enrollment_message E now i ch ph keys = Inr e"
  shows "\<exists>s. dget e ''signature'' = JStr s \<and> verify_object E (public_key i) e s = Inr True"
proof -
  from assms(3) obtain body where "sign_into E i ''signature'' body = Inr e"
    unfolding enrollment_message_def by blast
  from sign_into_verifies [OF assms(1,2) _ this] show ?thesis by (auto simp: omit_fields_defs)
qed

lemma finite_dset: "finite_json (JObj d) \<Longrightarrow> finite_json v \<Longrightarrow> finite_json (JObj (dset d k v))"
  using set_dset_sub [of d k v] by (auto simp: list_all_iff)

lemma enrollment_finite: "enrollment_message E now i ch ph [] = Inr e \<Longrightarrow> finite_json (JObj e)"
  by (auto simp: enrollment_message_def sign_into_def finite_dset split: if_splits option.splits
      simp del: finite_json.simps intro!: finite_dset) (simp_all split: if_splits option.splits)

lemma sha256_hex_ne: "sha256_hex E b \<noteq> []"
  by (simp add: sha256_hex_def)

lemma signed_card_check:
  assumes "ed25519_ok E" "identity_ok E i" "url \<noteq> []"
    and extra: "\<And>d k. extra = Some d \<Longrightarrow> k \<in> set CHECKED_FIELDS \<Longrightarrow> \<not> dhas d k"
    and "signed_agent_card E now i name description url skills extra nid = Inr crd"
  shows "verify_signed_agent_card E crd (public_key i) nid (Some (i_agent_id i)) (Some (i_key_id i)) (Some url) = Inr ()"
proof -
  from assms(5) obtain origin e b where sign: "sign_into E i ''signature''
       (dset (draft_card E i origin name description url skills extra nid) ''enrollment'' (JObj e)) = Inr crd"
    by (rule signed_agent_card_draft)
  let ?d = "draft_card E i origin name description url skills extra nid"
  have om: "''signature'' \<in> set HASH_OMIT_FIELDS" by (simp add: omit_fields_defs)
  from sign_into_verifies [OF assms(1,2) om sign] obtain s
    where s: "dget crd ''signature'' = JStr s" "crd = dset (dset ?d ''enrollment'' (JObj e)) ''signature'' (JStr s)"
      "verify_object E (public_key i) crd s = Inr True" by blast
  from sign have "s \<noteq> []"
    using sign_object_neq_Nil [OF assms(2)] s(1) by (auto simp: sign_into_def)
  have f: "dget ?d k = dget (card_body E i origin name description url skills) k"
    if "k \<in> set CHECKED_FIELDS" "k \<noteq> ''network_id''" for k
    by (rule draft_card_field(1)) (use extra that in blast)+
  have crd: "dget crd k = dget ?d k" if "k \<noteq> ''enrollment''" "k \<noteq> ''signature''" for k
    using that by (simp add: s(2))
  have ids: "dget crd ''public_key'' = JStr (public_key i)" "dget crd ''agent_id'' = JStr (i_agent_id i)"
    "dget crd ''key_id'' = JStr (i_key_id i)"
    by (simp_all add: crd f CHECKED_FIELDS_def card_body_fields)
  have nid: "\<not> contradicts crd ''network_id'' nid"
  proof -
    have "\<not> contradicts ?d ''network_id'' nid" by (rule draft_card_network) (use extra in blast)
    then show ?thesis using crd [of "''network_id''"] by (auto simp: contradicts_def split: option.splits list.splits)
  qed
  have "dget crd ''supportedInterfaces'' = dget (card_body E i origin name description url skills) ''supportedInterfaces''"
    by (simp add: crd f CHECKED_FIELDS_def)
  then have "resolve_a2a_url E (JObj crd) = Inr (Some url)"
    unfolding card_body_fields by (rule resolve_first) (rule assms(3))
  then show ?thesis by (rule verify_card_ok [OF s(1) \<open>s \<noteq> []\<close> s(3) ids(1) nid ids(2,3)])
qed

lemma signed_card_enrolls:
  assumes "ed25519_ok E" "identity_ok E i"
    and extra: "\<And>d k. extra = Some d \<Longrightarrow> k \<in> set CHECKED_FIELDS \<Longrightarrow> \<not> dhas d k"
    and "signed_agent_card E now i name description url skills extra nid = Inr crd"
  shows "\<exists>e h s. dget crd ''enrollment'' = JObj e \<and> dget e ''agent_card_hash'' = JStr h \<and>
      object_hash E (dpop crd ''enrollment'') = Inr h \<and>
      dget e ''signature'' = JStr s \<and> verify_object E (public_key i) e s = Inr True"
proof -
  from assms(4) obtain origin e b
    where b: "canonical_json E (JObj (unsigned_payload (draft_card E i origin name description url skills extra nid))) = Inr b"
    and e: "enrollment_message E now i (sha256_hex E b) [] [] = Inr e"
    and sign: "sign_into E i ''signature''
       (dset (draft_card E i origin name description url skills extra nid) ''enrollment'' (JObj e)) = Inr crd"
    by (rule signed_agent_card_draft)
  let ?d = "draft_card E i origin name description url skills extra nid"
  from sign obtain s where crd: "crd = dset (dset ?d ''enrollment'' (JObj e)) ''signature'' (JStr s)"
    by (auto simp: sign_into_def)
  have "dhas ?d ''enrollment'' = dhas (card_body E i origin name description url skills) ''enrollment''"
    by (rule draft_card_field(2)) (use extra in \<open>auto simp: CHECKED_FIELDS_def\<close>)
  then have "\<not> dhas ?d ''enrollment''" by (simp add: card_body_fields)
  then have "unsigned_payload (dpop crd ''enrollment'') = unsigned_payload ?d"
    unfolding crd by (simp add: unsigned_dpop_enrollment)
  with b have "object_hash E (dpop crd ''enrollment'') = Inr (sha256_hex E b)"
    by (simp add: object_hash_def)
  moreover have "dget crd ''enrollment'' = JObj e" by (simp add: crd)
  ultimately show ?thesis
    using enrollment_card_hash [OF e sha256_hex_ne] enrollment_signed [OF assms(1,2) e] by blast
qed

section \<open>A concrete card\<close>

definition demo_skill :: dict where
  "demo_skill = [(''id'', JStr ''echo''), (''version'', JStr ''2.0'')]"

lemma signed_card_total:
  assumes "identity_ok E i" "origin_of url = Inr origin" "list_all (\<lambda>sk. finite_json (JObj sk)) skills"
  shows "\<exists>crd. signed_agent_card E now i name description url skills None nid = Inr crd"
proof -
  let ?d = "draft_card E i origin name description url skills None nid"
  have "finite_json (card_skill_entry E sk)" if "finite_json (JObj sk)" for sk
    using that by (auto simp: card_skill_entry_def list_all_iff)
  with assms(3) have "finite_json (JObj (card_body E i origin name description url skills))"
    by (simp add: card_body_def list_all_iff)
  then have "finite_json (JObj (dset (card_body E i origin name description url skills) ''network_id'' (JStr s)))" for s
    by (rule finite_dset) simp
  with \<open>finite_json (JObj (card_body _ _ _ _ _ _ _))\<close> have fin: "finite_json (JObj ?d)"
    by (simp add: draft_card_def with_extra_def with_network_def split: option.split list.split
        del: finite_json.simps)
  then obtain b where b: "canonical_json E (JObj (unsigned_payload ?d)) = Inr b"
    using canonical_json_emit [OF finite_unsigned] by blast
  obtain e where e: "enrollment_message E now i (sha256_hex E b) [] [] = Inr e"
    using enrollment_total [OF assms(1) sha256_hex_ne] by blast
  have "finite_json (JObj (dset ?d ''enrollment'' (JObj e)))"
    by (rule finite_dset [OF fin enrollment_finite [OF e]])
  then obtain s where "sign_object E i (dset ?d ''enrollment'' (JObj e)) = Inr s"
    using sign_object_total [OF assms(1) finite_unsigned] by blast
  then show ?thesis
    unfolding signed_agent_card_def assms(2) bindR_simps Let_def draft_card_def [symmetric] b e by simp
qed

definition demo_url :: string where
  "demo_url = ''http://h/a2a''"

lemma demo_origin: "origin_of demo_url = Inr ''http://h''"
  unfolding demo_url_def by code_simp

lemma demo_card:
  obtains crd where "signed_agent_card demo_prims now demo_identity ''n'' ''d'' demo_url [demo_skill] None None = Inr crd"
proof -
  have "list_all (\<lambda>sk. finite_json (JObj sk)) [demo_skill]" by (simp add: demo_skill_def)
  from signed_card_total [OF demo_identity_ok demo_origin this] that show thesis by blast
qed

section \<open>Properties\<close>

text \<open>
  C17: the card an agent signs passes the check against its own key, ids and address, and carries an
  enrollment, signed by the same key, of exactly this card.
\<close>

theorem signed_card_verifies:
  assumes "ed25519_ok E" "identity_ok E i" "url \<noteq> []"
    and "\<And>d k. extra = Some d \<Longrightarrow> k \<in> set CHECKED_FIELDS \<Longrightarrow> \<not> dhas d k"
    and "signed_agent_card E now i name description url skills extra nid = Inr crd"
  shows "verify_signed_agent_card E crd (public_key i) nid (Some (i_agent_id i)) (Some (i_key_id i)) (Some url) = Inr () \<and>
    (\<exists>e h s. dget crd ''enrollment'' = JObj e \<and> dget e ''agent_card_hash'' = JStr h \<and>
      object_hash E (dpop crd ''enrollment'') = Inr h \<and>
      dget e ''signature'' = JStr s \<and> verify_object E (public_key i) e s = Inr True)"
  using signed_card_check [OF assms] signed_card_enrolls [OF assms(1,2,4,5)] by blast

lemma signed_card_verifies_witness:
  "\<exists>crd. signed_agent_card demo_prims ''t'' demo_identity ''n'' ''d'' demo_url [demo_skill] None None = Inr crd \<and>
    verify_signed_agent_card demo_prims crd (public_key demo_identity) None (Some (i_agent_id demo_identity))
      (Some (i_key_id demo_identity)) (Some demo_url) = Inr ()"
proof -
  obtain crd where c: "signed_agent_card demo_prims ''t'' demo_identity ''n'' ''d'' demo_url [demo_skill] None None = Inr crd"
    by (rule demo_card)
  have "demo_url \<noteq> []" by (simp add: demo_url_def)
  from signed_card_verifies [OF demo_ed25519_ok demo_identity_ok this _ c] c show ?thesis by blast
qed

text \<open>
  C18: tamper evidence of cards: a card that passes the check under the key that signed another card,
  with that card's signature, agrees with it on every signed field, or SHA-256 collides; and what
  the card says of its key, network, agent and key id is what the caller expects.
\<close>

theorem accepted_card_is_signed_card:
  assumes "float_repr_ok E" "ed25519_binds E" "length sk = 32"
    and "wf_json (JObj crd)" "wf_json (JObj crd')" "hash_and_sign E sk crd = Inr (h, s)"
    and "dget crd' ''signature'' = JStr s" "s \<noteq> []"
    and "verify_signed_agent_card E crd' (encode_public_key (ed_public E sk)) nid aid kid url = Inr ()"
  shows "((\<forall>k. k \<notin> set HASH_OMIT_FIELDS \<longrightarrow> canon (dget crd' k) = canon (dget crd k)) \<or> sha256_collision E crd crd') \<and>
    dget crd' ''public_key'' \<in> {JStr (encode_public_key (ed_public E sk))} \<union> {v. \<not> truthy v} \<and>
    \<not> contradicts crd' ''network_id'' nid \<and> \<not> contradicts crd' ''agent_id'' aid \<and> \<not> contradicts crd' ''key_id'' kid"
proof -
  have "py_str E (py_or (JStr s) (JStr [])) = s" by (simp add: py_or_def)
  with assms(7,9) have v: "verify_object E (encode_public_key (ed_public E sk)) crd' s = Inr True"
    and rest: "dget crd' ''public_key'' \<in> {JStr (encode_public_key (ed_public E sk))} \<union> {v. \<not> truthy v}"
      "\<not> contradicts crd' ''network_id'' nid" "\<not> contradicts crd' ''agent_id'' aid"
      "\<not> contradicts crd' ''key_id'' kid"
    by (auto simp: verify_signed_agent_card_def split: if_splits)
  from accepted_signature_binds [OF assms(1-6) v] rest show ?thesis by blast
qed

lemma accepted_card_is_signed_card_witness:
  "\<exists>h s. hash_and_sign demo_prims demo_key demo_obj = Inr (h, s) \<and>
     verify_signed_agent_card demo_prims (dset demo_obj ''signature'' (JStr s))
       (encode_public_key (ed_public demo_prims demo_key)) None None None None = Inr () \<and>
     canon (dget (dset demo_obj ''signature'' (JStr s)) ''b'') = canon (dget demo_obj ''b'')"
proof -
  obtain h s where s: "hash_and_sign demo_prims demo_key demo_obj = Inr (h, s)"
    using demo_signed by blast
  let ?crd = "dset demo_obj ''signature'' (JStr s)"
  have om: "''signature'' \<in> set HASH_OMIT_FIELDS" "''b'' \<notin> set HASH_OMIT_FIELDS"
    by (simp_all add: omit_fields_defs)
  have sig: "dget ?crd ''signature'' = JStr s" "wf_json (JObj ?crd)"
    using wf_json_dset [OF demo_objs_ok(1)] by simp_all
  from s have ne: "s \<noteq> []"
    by (auto simp: hash_and_sign_def sign_digest_def encode_signature_def)
  have v: "verify_object demo_prims (encode_public_key (ed_public demo_prims demo_key)) ?crd s = Inr True"
    using s om(1) verify_own_signature [OF demo_ed25519_ok length_demo_key(1)]
    by (auto simp: hash_and_sign_def verify_object_def unsigned_dset)
  have absent: "dget ?crd k = JNull" if "k \<in> set CHECKED_FIELDS" for k
    using that by (auto simp: CHECKED_FIELDS_def demo_obj_def)
  from absent have "dget ?crd ''supportedInterfaces'' = JNull" "dget ?crd ''url'' = JNull"
    by (simp_all only: CHECKED_FIELDS_def list.set insert_iff simp_thms)
  note absent2 = this
  have "?crd \<noteq> []" by (simp add: demo_obj_def dset_def)
  then have "resolve_a2a_url demo_prims (JObj ?crd) = Inr None"
    using absent2 by (simp add: resolve_a2a_url_def del: dget_dset)
  moreover have "py_str demo_prims (py_or (JStr s) (JStr [])) = s" by (simp add: py_or_def)
  ultimately have "verify_signed_agent_card demo_prims ?crd (encode_public_key (ed_public demo_prims demo_key))
     None None None None = Inr ()"
    using v sig(1) absent by (simp add: verify_signed_agent_card_def contradicts_def CHECKED_FIELDS_def del: dget_dset)
  from accepted_card_is_signed_card [OF demo_float_repr_ok demo_ed25519_binds length_demo_key(1) demo_objs_ok(1)
      sig(2) s sig(1) ne this] s this om(2)
  show ?thesis by (auto simp: sha256_collision_def)
qed

lemma skill_capability_entry:
  assumes "dget sk ''id'' = JStr t" "t \<noteq> []"
  shows "skill_capability E (card_skill_entry E sk) =
    [JObj [(''id'', JStr t), (''version'', JStr (py_str E (py_or (dget sk ''version'') (JStr ''1.0.0''))))]]"
proof -
  have "dget (filter (\<lambda>(k, v). k \<notin> {''id'', ''name'', ''description''}) sk) ''version'' = dget sk ''version''"
    using map_of_filter_keys [of "\<lambda>k. k \<notin> {''id'', ''name'', ''description''}" sk "''version''"]
    by (simp add: dget_def)
  with assms show ?thesis
    by (simp add: skill_capability_def card_skill_entry_def Let_def)
qed

lemma skill_capabilities:
  assumes "list_all (\<lambda>sk. \<exists>t. t \<noteq> [] \<and> dget sk ''id'' = JStr t) skills"
  shows "concat (map (skill_capability E) (map (card_skill_entry E) skills)) =
    map (\<lambda>sk. JObj [(''id'', dget sk ''id''),
      (''version'', JStr (py_str E (py_or (dget sk ''version'') (JStr ''1.0.0''))))]) skills"
  using assms by (induction skills) (auto simp: skill_capability_entry)

text \<open>
  The announcement made from a signed card speaks for the agent: its id, key and key id, the address
  of the card as endpoint, one capability per skill, and the card's enrollment.
\<close>

theorem announce_speaks_for_card:
  assumes "url \<noteq> []" "\<And>d k. extra = Some d \<Longrightarrow> k \<in> set CHECKED_FIELDS \<union> {''skills''} \<Longrightarrow> \<not> dhas d k"
    and "list_all (\<lambda>sk. \<exists>t. t \<noteq> [] \<and> dget sk ''id'' = JStr t) skills"
    and "signed_agent_card E now i name description url skills extra nid = Inr crd"
  shows "\<exists>body. announce_from_card E card_url crd = Inr body \<and>
    dget body ''agent_id'' = JStr (i_agent_id i) \<and> dget body ''public_key'' = JStr (public_key i) \<and>
    dget body ''key_id'' = py_or (JStr (i_key_id i)) (JStr ''key-1'') \<and>
    dget body ''endpoint'' = JStr url \<and> dget body ''enrollment'' = dget crd ''enrollment'' \<and>
    dget body ''capabilities'' = JArr (map (\<lambda>sk. JObj [(''id'', dget sk ''id''),
      (''version'', JStr (py_str E (py_or (dget sk ''version'') (JStr ''1.0.0''))))]) skills)"
proof -
  from assms(4) obtain origin e where "sign_into E i ''signature''
       (dset (draft_card E i origin name description url skills extra nid) ''enrollment'' (JObj e)) = Inr crd"
    by (rule signed_agent_card_draft)
  then obtain s where crd: "crd = dset (dset (draft_card E i origin name description url skills extra nid)
      ''enrollment'' (JObj e)) ''signature'' (JStr s)" by (auto simp: sign_into_def)
  let ?b = "card_body E i origin name description url skills"
  have "dget (draft_card E i origin name description url skills extra nid) k = dget ?b k"
    and has: "dhas (draft_card E i origin name description url skills extra nid) k = dhas ?b k"
    if "k \<in> set CHECKED_FIELDS \<union> {''skills''}" "k \<noteq> ''network_id''" for k
    using assms(2) [OF _ that(1)] that(2)
    by (simp_all add: draft_card_def with_extra_fields with_network_fields)
  then have f: "dget crd k = dget ?b k"
    if "k \<in> set CHECKED_FIELDS \<union> {''skills''}" "k \<noteq> ''network_id''" "k \<noteq> ''enrollment''" for k
    using that by (auto simp: crd CHECKED_FIELDS_def)
  have ifs: "dget crd ''supportedInterfaces'' = dget ?b ''supportedInterfaces''"
    and sk: "dget crd ''skills'' = JArr (map (card_skill_entry E) skills)"
    and ids: "dget crd ''key_id'' = JStr (i_key_id i)" "dget crd ''agent_id'' = JStr (i_agent_id i)"
      "dget crd ''public_key'' = JStr (public_key i)"
    using f by (simp_all add: CHECKED_FIELDS_def card_body_def)
  have res: "resolve_a2a_url E (JObj crd) = Inr (Some url)"
    by (rule resolve_first [OF ifs [unfolded card_body_fields] assms(1)])
  have "dhas crd ''agent_id''" "dhas crd ''public_key''"
    using has by (simp_all add: crd CHECKED_FIELDS_def card_body_def)
  then have items: "ditem crd ''agent_id'' = Inr (JStr (i_agent_id i))" "ditem crd ''public_key'' = Inr (JStr (public_key i))"
    using ids by (simp_all add: ditem_dhas)
  obtain c cs where url: "url = c # cs" using assms(1) by (cases url) auto
  show ?thesis
    unfolding announce_from_card_def res sk ifs card_body_fields items Let_def
    by (simp add: ids url skill_capabilities [OF assms(3), unfolded map_map])
qed

lemma announce_speaks_for_card_witness:
  "\<exists>crd body. signed_agent_card demo_prims ''t'' demo_identity ''n'' ''d'' demo_url [demo_skill] None None = Inr crd \<and>
    announce_from_card demo_prims [] crd = Inr body \<and> dget body ''endpoint'' = JStr demo_url"
proof -
  obtain crd where c: "signed_agent_card demo_prims ''t'' demo_identity ''n'' ''d'' demo_url [demo_skill] None None = Inr crd"
    by (rule demo_card)
  have "demo_url \<noteq> []" "list_all (\<lambda>sk. \<exists>t. t \<noteq> [] \<and> dget sk ''id'' = JStr t) [demo_skill]"
    by (simp_all add: demo_url_def demo_skill_def)
  from announce_speaks_for_card [OF this(1) _ this(2) c, of "[]"] c show ?thesis by blast
qed

end
