(* ===== verification/Official.thy ===== *)
theory Official
  imports Server Wire
begin

text \<open>
  The executor the A2A SDK calls (\<open>a2a_official.py\<close>, \<open>class SkillAgentExecutor\<close>): it converts a request,
  lets the server handle it, and converts the reply; it cancels a task. Of the SDK's request context the
  code reads the message and the two ids.
\<close>

section \<open>Execution\<close>

record 'v request_context =
  rc_message :: "'v message option"
  rc_task_id :: string
  rc_context_id :: string

definition empty_skill_message :: dict where
  "empty_skill_message = [(''parts'', JArr []), (''metadata'', JObj []), (''role'', JStr ''user'')]"

text \<open>The message given to the server: the task id of the context is put into its metadata.\<close>

definition skill_message :: "'v pbuf \<Rightarrow> 'v request_context \<Rightarrow> dict res" where
  "skill_message P ctx =
     bindR (case rc_message ctx of Some m \<Rightarrow> protobuf_message_to_dict P m | None \<Rightarrow> Inr empty_skill_message) (\<lambda>msg.
     bindR (py_dict (py_or (dget msg ''metadata'') (JObj []))) (\<lambda>metadata.
     let metadata = (if rc_task_id ctx \<noteq> [] then dset metadata ''task_id'' (JStr (rc_task_id ctx)) else metadata)
     in Inr (dset msg ''metadata'' (JObj metadata))))"

text \<open>\<open>uuid\<close> is \<open>uuid4()\<close> in this run.\<close>

definition reply_task :: "prims \<Rightarrow> 'v pbuf \<Rightarrow> string \<Rightarrow> 'v request_context \<Rightarrow> dict \<Rightarrow> 'v task res" where
  "reply_task E P uuid ctx result =
     dict_to_protobuf_task E P result
       (py_str E (py_or (py_or (JStr (rc_task_id ctx)) (dget result ''id'')) (JStr uuid)))
       (rc_context_id ctx)"

definition execute ::
    "prims \<Rightarrow> 'v pbuf \<Rightarrow> (string \<Rightarrow> bytes res option) \<Rightarrow> 'w skills \<Rightarrow> msg_env \<Rightarrow> string \<Rightarrow>
     'v request_context \<Rightarrow> server \<Rightarrow> 'w \<Rightarrow> server \<times> 'w \<times> 'v task res" where
  "execute E P fs skill env uuid ctx sv w =
     (case skill_message P ctx of
        Inl e \<Rightarrow> (sv, w, Inl e)
      | Inr message \<Rightarrow>
          (case handle_message E fs skill env message sv w of
             (sv, w, Inl e) \<Rightarrow> (sv, w, Inl e)
           | (sv, w, Inr a) \<Rightarrow> (sv, w, reply_task E P uuid ctx (sv_heap sv a))))"

record status_event =
  se_task_id :: string
  se_context_id :: string
  se_state :: task_state
  se_final :: bool

definition cancel :: "'v request_context \<Rightarrow> server \<Rightarrow> server \<times> status_event" where
  "cancel ctx sv =
     (cancel_task (rc_task_id ctx) sv,
      \<lparr>se_task_id = rc_task_id ctx, se_context_id = rc_context_id ctx, se_state = TASK_STATE_CANCELED,
       se_final = True\<rparr>)"

section \<open>The contract check sees what was signed\<close>

lemma truthy_canon: "truthy (canon v) = truthy v"
proof (cases v)
  case (JObj d)
  have "(sort_key fst (map (\<lambda>(k, v). (k, canon v)) d) = []) = (d = [])"
    by (metis length_0_conv length_map length_sort)
  with JObj show ?thesis by simp
qed simp_all

lemma canon_truthy: "canon v = canon w \<Longrightarrow> truthy v = truthy w"
  by (metis truthy_canon)

lemma finite_dget: "finite_json (JObj d) \<Longrightarrow> finite_json (dget d k)"
  by (cases "map_of d k") (auto simp: dget_def list_all_iff dest!: map_of_SomeD)

lemma verify_value_canon:
  assumes "canon (JObj c) = canon (JObj c')" "wf_json (JObj c)" "wf_json (JObj c')" "finite_json (JObj c)"
    and "canon s = canon s'"
  shows "verify_value E pk c s = verify_value E pk c' s'"
proof (cases "\<exists>t. s = JStr t")
  case True
  then obtain t where t: "s = JStr t" "s' = JStr t" using assms(5) by auto
  have "verify_object E pk c t = verify_object E pk c' t"
    by (rule verify_object_canon) (use assms(1-4) finite_unsigned in simp_all)
  with t show ?thesis by (simp add: verify_value_def)
next
  case False
  then have ns: "\<forall>t. s' \<noteq> JStr t" using assms(5) by (metis canon_str_iff(1))
  from assms(1-3) have "canon (JObj (unsigned_payload c)) = canon (JObj (unsigned_payload c'))"
    by (intro canon_unsigned_cong) simp_all
  then have "canonical_json E (JObj (unsigned_payload c)) = canonical_json E (JObj (unsigned_payload c'))"
    by (rule canonical_json_cong [OF finite_unsigned [OF assms(4)]])
  with False ns show ?thesis by (simp add: verify_value_def split: json.split)
qed

text \<open>The check gives the same verdict on metadata that differs in the order of keys only.\<close>

lemma check_contract_canon:
  assumes "canon (dget md ''contract'') = canon (dget md' ''contract'')"
    and "wf_json (dget md ''contract'')" "wf_json (dget md' ''contract'')" "finite_json (dget md ''contract'')"
  shows "check_contract E i cap md = check_contract E i cap md'"
proof (cases "truthy (dget md ''contract'') \<and> cap \<noteq> ''task.propose''")
  case True
  with assms(1) have t: "truthy (dget md' ''contract'')" using canon_truthy by blast
  show ?thesis
  proof (cases "dget md ''contract''")
    case (JObj c)
    with assms(1) obtain c' where c': "dget md' ''contract'' = JObj c'"
      by (metis canon_obj_shape)
    have c: "canon (JObj c) = canon (JObj c')" "wf_json (JObj c)" "wf_json (JObj c')" "finite_json (JObj c)"
      using assms JObj c' by simp_all
    then have "canon (dget c k) = canon (dget c' k)" for k by (intro canon_dget) simp_all
    then have "truthy (dget c k) = truthy (dget c' k)"
      and "verify_value E (public_key i) c (dget c k) = verify_value E (public_key i) c' (dget c' k)" for k
      using canon_truthy verify_value_canon [OF c] by blast+
    with True t JObj c' show ?thesis by (simp add: check_contract_def Let_def)
  qed (use True t assms(1) in \<open>cases "dget md' ''contract''"; simp add: check_contract_def Let_def obj_get_def\<close>)+
next
  case False
  with canon_truthy [OF assms(1)] show ?thesis by (auto simp: check_contract_def Let_def)
qed

lemma hm_finish_stores:
  assumes "hm_finish E fs t3 t4 upd ca (Inr (Some r)) sv = (sv', Inr a)"
  shows "\<exists>artifacts. sv_heap sv' a = result_task ca r artifacts upd \<and>
    sv_tasks sv' (pl_task_id (ca_payload ca)) = Some a"
  using assms by (auto simp: hm_finish_def add_task_def Let_def split: sum.splits prod.splits)

lemma task_id_of_dict:
  assumes "new_task_ok P" "dict_to_protobuf_task E P result tid cid = Inr t"
  shows "pt_id t = tid"
  using assms by (auto simp: dict_to_protobuf_task_def new_task_ok_def Let_def split: json.splits list.splits)

section \<open>Properties\<close>


definition demo_context :: "json request_context" where
  "demo_context = \<lparr>rc_message = Some demo_sent_pm, rc_task_id = ''t1'', rc_context_id = ''c1''\<rparr>"


text \<open>
  A cancellation that arrives while the handler runs is lost: the task is not in the table yet, and
  when the handler is done it is stored as completed.
\<close>

theorem cancel_in_flight_is_lost:
  assumes "hm_begin E hex t1 t2 message sv = (sv1, Inr (Call ca))"
    and "sv_tasks sv (pl_task_id (ca_payload ca)) = None" "rc_task_id ctx = pl_task_id (ca_payload ca)"
    and "hm_finish E fs t3 t4 upd ca (Inr (Some r)) (fst (cancel ctx sv1)) = (sv2, Inr a)"
    and "hr_status r = ''completed''"
  shows "fst (cancel ctx sv1) = sv1 \<and> sv_tasks sv2 (rc_task_id ctx) = Some a \<and>
    dget (sv_heap sv2 a) ''status'' = JObj [(''state'', JStr ''completed'')]"
proof -
  have "sv_tasks sv1 (rc_task_id ctx) = None"
    using assms(1) by (rule hm_begin_Call) (use assms(2,3) in simp)
  then have c: "fst (cancel ctx sv1) = sv1" by (simp add: cancel_def cancel_task_def)
  with assms(4) have f: "hm_finish E fs t3 t4 upd ca (Inr (Some r)) sv1 = (sv2, Inr a)" by simp
  from hm_finish_stores [OF f] assms(3,5) c show ?thesis by (auto simp: result_task_def)
qed

lemma cancel_in_flight_is_lost_witness:
  "\<exists>sv1 (sv2 :: server) a. hm_begin demo_prims ''h'' 0 0 demo_message demo_server = (sv1, Inr (Call demo_call)) \<and>
     fst (cancel demo_context sv1) = sv1 \<and> sv_tasks sv2 ''t1'' = Some a \<and>
     dget (sv_heap sv2 a) ''status'' = JObj [(''state'', JStr ''completed'')]"
proof -
  obtain sv1 where b: "hm_begin demo_prims ''h'' 0 0 demo_message demo_server = (sv1, Inr (Call demo_call))"
    using demo_begin by blast
  have t: "rc_task_id demo_context = pl_task_id (ca_payload demo_call)" "pl_task_id (ca_payload demo_call) = ''t1''"
    by (simp_all add: demo_context_def demo_call_def)
  obtain sv2 a where "hm_finish demo_prims (\<lambda>_. None) 1 1 ''now'' demo_call (Inr (Some (hr_completed [])))
      (fst (cancel demo_context sv1)) = (sv2, Inr a)"
    by (simp add: hm_finish_def hr_completed_def add_task_def Let_def)
  from cancel_in_flight_is_lost [OF b _ t(1) this] b t show ?thesis
    by auto
qed

text \<open>
  A reply from the store carries the new task id, but the server knows no task of that id: it cannot be
  cancelled, and is never marked as cancelled.
\<close>

theorem replayed_task_is_not_cancelable:
  assumes "skill_message P ctx = Inr msg"
    and "read_message E (me_task_hex env) msg = Inr (metadata, capability, task_id)"
    and "map_of (sv_handlers sv) capability = Some h"
    and "lookup_replies (me_t1 env) (me_t2 env) (message_id_of E msg metadata) (sender_of E metadata)
       (idem_key_of E metadata) (sv_idem sv) = (store, Some a)"
    and "sv_tasks sv (rc_task_id ctx) = None" "rc_task_id ctx \<noteq> []" "new_task_ok P"
    and "execute E P fs skill env uuid ctx sv w = (sv', w', Inr t)"
  shows "pt_id t = rc_task_id ctx \<and> fst (cancel ctx sv') = sv' \<and> sv_heap sv' = sv_heap sv"
proof -
  from hm_begin_Replied [OF assms(2-4)]
  have "handle_message E fs skill env msg sv w = (sv\<lparr>sv_idem := store\<rparr>, w, Inr a)"
    by (simp add: handle_message_def)
  with assms(1,8) have sv': "sv' = sv\<lparr>sv_idem := store\<rparr>"
    and t: "reply_task E P uuid ctx (sv_heap sv a) = Inr t"
    by (simp_all add: execute_def)
  have id: "py_str E (py_or (py_or (JStr (rc_task_id ctx)) x) y) = rc_task_id ctx" for x y
    using assms(6) by (simp add: py_or_def)
  from t have "pt_id t = rc_task_id ctx"
    unfolding reply_task_def id using assms(7) by (rule task_id_of_dict [rotated])
  with sv' assms(5) show ?thesis by (simp add: cancel_def cancel_task_def)
qed

text \<open>A server that has answered the message, and the message again under a new task id.\<close>

definition demo_answered :: server where
  "demo_answered = demo_server\<lparr>sv_idem := is_put_message (is_init 86400 None) 0 ''boss'' ''m1'' 0\<rparr>"

definition demo_repeated :: "json request_context" where
  "demo_repeated =
     \<lparr>rc_message = Some \<lparr>pm_message_id = ''m1'', pm_role = ROLE_USER, pm_parts = [],
        pm_metadata = Some (JObj [(''capability'', JStr ''report''), (''requester_agent_id'', JStr ''boss'')]),
        pm_task_id = [], pm_context_id = []\<rparr>,
      rc_task_id = ''t2'', rc_context_id = []\<rparr>"

definition demo_env :: msg_env where
  "demo_env = \<lparr>me_task_hex = [], me_t1 = 5, me_t2 = 5, me_t3 = 5, me_t4 = 5, me_updated = [],
     me_propose = \<lparr>pe_proposal_hex = [], pe_contract_hex = [], pe_now = []\<rparr>\<rparr>"

lemma replayed_task_is_not_cancelable_witness:
  "\<exists>sv' t. execute demo_prims demo_pbuf (\<lambda>_. None) (\<lambda>_ _ w. (w, Inl TypeError)) demo_env [] demo_repeated
     demo_answered () = (sv', (), Inr t) \<and> pt_id t = ''t2'' \<and> fst (cancel demo_repeated sv') = sv'"
proof -
  let ?md = "[(''capability'', JStr ''report''), (''requester_agent_id'', JStr ''boss''), (''task_id'', JStr ''t2'')]"
  let ?msg = "[(''messageId'', JStr ''m1''), (''role'', JStr ''user''), (''parts'', JArr []), (''metadata'', JObj ?md),
     (''taskId'', JStr []), (''contextId'', JStr [])]"
  have m: "skill_message demo_pbuf demo_repeated = Inr ?msg"
    by (simp add: skill_message_def demo_repeated_def protobuf_message_to_dict_def demo_pbuf_def dset_def py_or_def)
  have r: "read_message demo_prims (me_task_hex demo_env) ?msg = Inr (?md, ''report'', ''t2'')"
    by (simp add: read_message_def py_or_def)
  have k: "message_id_of demo_prims ?msg ?md = ''m1''" "sender_of demo_prims ?md = ''boss''" "idem_key_of demo_prims ?md = []"
    by (simp_all add: message_id_of_def sender_of_def idem_key_of_def py_or_def)
  let ?s = "is_put_message (is_init 86400 None) 0 ''boss'' ''m1'' 0"
  have im: "in_memory ?s" "is_look ?s 5 (msg_key ''boss'' ''m1'') = Some 0"
    by (simp_all add: is_put_message_def is_look_put)
  from lookup_replies_hit [OF im(1) _ _ im(2)] obtain st
    where l: "lookup_replies 5 5 ''m1'' ''boss'' [] ?s = (st, Some 0)" by auto
  have h: "map_of (sv_handlers demo_answered) ''report'' = Some (User ''report'')"
    by (simp add: demo_answered_def)
  have l': "lookup_replies (me_t1 demo_env) (me_t2 demo_env) (message_id_of demo_prims ?msg ?md)
      (sender_of demo_prims ?md) (idem_key_of demo_prims ?md) (sv_idem demo_answered) = (st, Some 0)"
    unfolding k using l by (simp add: demo_env_def demo_answered_def)
  have none: "sv_tasks demo_answered (rc_task_id demo_repeated) = None" "rc_task_id demo_repeated \<noteq> []"
    by (simp_all add: demo_answered_def demo_repeated_def)
  have new: "new_task_ok demo_pbuf" by (simp add: new_task_ok_def demo_new_task)
  have heap: "sv_heap demo_answered 0 = []" by (simp add: demo_answered_def demo_server_def sv_init_def)
  obtain t where "reply_task demo_prims demo_pbuf [] demo_repeated [] = Inr t"
    by (simp add: reply_task_def dict_to_protobuf_task_def py_or_def)
  with hm_begin_Replied [OF r h l'] heap m
  have e: "execute demo_prims demo_pbuf (\<lambda>_. None) (\<lambda>_ _ w. (w, Inl TypeError)) demo_env [] demo_repeated
     demo_answered () = (demo_answered\<lparr>sv_idem := st\<rparr>, (), Inr t)"
    by (simp add: execute_def handle_message_def)
  from replayed_task_is_not_cancelable [OF m r h l' none new e] e show ?thesis by (simp add: demo_repeated_def)
qed

end
