(* ===== verification/Outgoing.thy ===== *)
theory Outgoing
  imports Server
begin

text \<open>
  The helpers of \<open>a2a_server.py\<close> for the sender of a message and for a handler that returns files: task
  messages, manifests of files, and JSON artifacts.
\<close>

section \<open>Task messages\<close>

text \<open>The fresh values of one call.\<close>

record message_ids =
  mi_task_hex :: string
  mi_key :: string
  mi_message_id :: string

text \<open>\<open>contract.get("metadata", {})\<close>: the default is for an absent key only.\<close>

definition dget_default :: "dict \<Rightarrow> string \<Rightarrow> json \<Rightarrow> json" where
  "dget_default d k v = (if dhas d k then dget d k else v)"

text \<open>An empty dictionary stands for an absent contract or extra: both are skipped.\<close>

definition text_message :: "message_ids \<Rightarrow> json \<Rightarrow> json \<Rightarrow> dict \<Rightarrow> dict \<Rightarrow> dict res" where
  "text_message ids capability text contract extra =
     bindR (if contract = [] then Inr [(''capability'', capability)]
            else bindR (obj_get (dget_default contract ''metadata'' (JObj [])) ''task_id'') (\<lambda>task_id.
              Inr [(''capability'', capability), (''contract'', JObj contract),
                   (''task_id'', py_or task_id (JStr (new_id ''task'' (mi_task_hex ids))))])) (\<lambda>metadata.
     let metadata = dupdate metadata extra;
         metadata = (if dhas metadata ''idempotency_key'' then metadata
                     else dset metadata ''idempotency_key'' (JStr (mi_key ids)))
     in Inr [(''messageId'', JStr (mi_message_id ids)),
             (''role'', JStr ''user''),
             (''parts'', JArr [JObj [(''kind'', JStr ''text''), (''text'', text)]]),
             (''metadata'', JObj metadata)])"

section \<open>Manifests of files\<close>

text \<open>\<open>Path(path).stem\<close> for a path without a trailing slash.\<close>

definition last_piece :: "char \<Rightarrow> string \<Rightarrow> string" where
  "last_piece c s = rev (takeWhile (\<lambda>x. x \<noteq> c) (rev s))"

definition stem :: "string \<Rightarrow> string" where
  "stem path =
     (let name = last_piece CHR ''/'' path;
          suffix = last_piece CHR ''.'' name
      in if CHR ''.'' \<in> set name \<and> suffix \<noteq> [] \<and> length suffix + 1 < length name
         then take (length name - length suffix - 1) name else name)"

text \<open>\<open>resolve\<close> is \<open>str(p.resolve())\<close>; a file that is not there is an \<open>OSError\<close>.\<close>

definition read_file :: "(string \<Rightarrow> bytes res option) \<Rightarrow> string \<Rightarrow> bytes res" where
  "read_file fs path = (case fs path of None \<Rightarrow> Inl OSError | Some r \<Rightarrow> r)"

text \<open>\<open>artifact_id or p.stem\<close>, and the places where the bytes will be.\<close>

definition location_of :: "string \<Rightarrow> string \<Rightarrow> json" where
  "location_of public_base aid = JObj
     [(''transport'', JStr (if startswith public_base ''https'' then ''https'' else ''http'')),
      (''url'', JStr (rstrip_chars ''/'' public_base @ ''/artifacts/'' @ aid))]"

record file_artifact =
  fa_task_id :: json
  fa_type :: json
  fa_owner :: json
  fa_metadata :: dict
  fa_public_base :: string
  fa_revision :: json
  fa_artifact_id :: string

definition file_manifest ::
    "prims \<Rightarrow> (string \<Rightarrow> string) \<Rightarrow> string \<Rightarrow> bytes \<Rightarrow> string \<Rightarrow> file_artifact \<Rightarrow> manifest" where
  "file_manifest E resolve path raw digest a =
     (let aid = (if fa_artifact_id a \<noteq> [] then fa_artifact_id a else stem path);
          public_uri = (if fa_public_base a \<noteq> []
                        then rstrip_chars ''/'' (fa_public_base a) @ ''/artifacts/'' @ aid
                        else ''artifact:'' @ aid)
      in \<lparr>am_artifact_id = JStr aid,
          am_task_id = fa_task_id a,
          am_type = fa_type a,
          am_uri = JStr public_uri,
          am_sha256 = JStr digest,
          am_owner = fa_owner a,
          am_revision = fa_revision a,
          am_media_type = JStr ''application/octet-stream'',
          am_locations = JArr (if fa_public_base a \<noteq> [] then [location_of (fa_public_base a) aid] else []),
          am_inline = (if length raw \<le> INLINE_MAX_BYTES
                       then JObj [(''encoding'', JStr ''base64''), (''data'', JStr (b64encode raw))] else JNull),
          am_metadata = JObj (fa_metadata a),
          am_signature = JNull,
          am_local_path = JStr (resolve path)\<rparr>)"

text \<open>
  The file is read twice, once for its bytes and once for its hash: \<open>fs1\<close> and \<open>fs2\<close> are the file system at
  the two reads.
\<close>

definition artifact_from_file ::
    "prims \<Rightarrow> (string \<Rightarrow> string) \<Rightarrow> (string \<Rightarrow> bytes res option) \<Rightarrow> (string \<Rightarrow> bytes res option) \<Rightarrow>
     string \<Rightarrow> file_artifact \<Rightarrow> identity option \<Rightarrow> manifest res" where
  "artifact_from_file E resolve fs1 fs2 path a i =
     bindR (read_file fs1 path) (\<lambda>raw.
     bindR (read_file fs2 path) (\<lambda>content.
     let m = file_manifest E resolve path raw (file_sha256 E content) a in
     case i of
       None \<Rightarrow> Inr m
     | Some i \<Rightarrow> bindR (sign_object E i (manifest_to_dict m)) (\<lambda>s. Inr (m\<lparr>am_signature := JStr s\<rparr>))))"

section \<open>JSON artifacts\<close>

text \<open>\<open>json.dumps(v, indent=2, ensure_ascii=False)\<close>: \<open>n\<close> is the indentation of the value.\<close>

definition new_line :: "nat \<Rightarrow> string" where
  "new_line n = CHR 0x0A # replicate n CHR '' ''"

function pretty :: "prims \<Rightarrow> nat \<Rightarrow> json \<Rightarrow> string" where
  "pretty E n JNull = ''null''"
| "pretty E n (JBool b) = (if b then ''true'' else ''false'')"
| "pretty E n (JInt i) = show_int i"
| "pretty E n (JFloat f) =
     (case f of PNaN \<Rightarrow> ''NaN'' | PPosInf \<Rightarrow> ''Infinity'' | PNegInf \<Rightarrow> ''-Infinity'' | _ \<Rightarrow> float_repr E f)"
| "pretty E n (JStr s) = encode_str s"
| "pretty E n (JArr vs) =
     (if vs = [] then ''[]''
      else ''['' @ new_line (n + 2) @ join ('','' @ new_line (n + 2)) (map (pretty E (n + 2)) vs) @ new_line n @ '']'')"
| "pretty E n (JObj d) =
     (if d = [] then ''{}''
      else ''{'' @ new_line (n + 2) @
        join ('','' @ new_line (n + 2)) (map (\<lambda>(k, v). encode_str k @ '': '' @ pretty E (n + 2) v) d) @
        new_line n @ ''}'')"
  by pat_completeness auto
termination
  by (relation "measure (\<lambda>(E, n, v). size v)") (auto intro: json_size_arr json_size_obj)

text \<open>
  The file is written under a fresh name and then read. The written text is what is on disk at both
  reads.
\<close>

definition json_artifact ::
    "prims \<Rightarrow> (string \<Rightarrow> string) \<Rightarrow> (string \<Rightarrow> bytes res option) \<Rightarrow> string \<Rightarrow> string \<Rightarrow> json \<Rightarrow> json \<Rightarrow> dict \<Rightarrow> json \<Rightarrow>
     string \<Rightarrow> identity option \<Rightarrow> (string \<Rightarrow> bytes res option) \<times> manifest res" where
  "json_artifact E resolve fs hex directory task_id artifact_type payload owner public_base i =
     (let artifact_id = new_id ''artifact'' hex;
          path = directory @ ''/'' @ artifact_id @ ''.json'';
          fs = fs(path \<mapsto> Inr (utf8_encode (pretty E 0 (JObj payload))))
      in (fs, artifact_from_file E resolve fs fs path
           \<lparr>fa_task_id = task_id, fa_type = artifact_type, fa_owner = owner,
            fa_metadata = [(''payload_keys'', JArr (map (\<lambda>(k, v). JStr k) payload))],
            fa_public_base = public_base, fa_revision = JInt 1, fa_artifact_id = artifact_id\<rparr> i))"

definition card_with_url :: "dict \<Rightarrow> string \<Rightarrow> dict" where
  "card_with_url crd url = dset crd ''url'' (JStr url)"

section \<open>Facts\<close>

lemma ref_init_fields:
  assumes "dhas d ''artifact_id''" "dhas d ''task_id''" "dhas d ''producer_agent_id''" "dhas d ''sha256''" "dhas d ''inline''"
  shows "\<exists>r. artifact_ref_init d = Inr r \<and> ar_inline r = dget d ''inline'' \<and> ar_sha256 r = dget d ''sha256''"
proof -
  have "dc_value d (k, x) = dget d k" if "dhas d k" for k x
    using that by (auto simp: dc_value_def dget_def dhas_def split: option.split)
  with assms show ?thesis
    by (simp add: artifact_ref_init_def dc_init_def REF_FIELDS_def artifact_ref_of_fields_def)
qed

lemma manifest_as_ref:
  "\<exists>r. artifact_ref_from_dict (manifest_to_dict m) = Inr r \<and> ar_inline r = am_inline m \<and> ar_sha256 r = am_sha256 m"
proof -
  let ?p = "if \<not> dhas (manifest_to_dict m) ''producer_agent_id'' \<and> truthy (dget (manifest_to_dict m) ''owner'')
      then dset (manifest_to_dict m) ''producer_agent_id'' (dget (manifest_to_dict m) ''owner'')
      else manifest_to_dict m"
  let ?q = "dsetdefault ?p ''task_id'' (JStr [])"
  let ?r = "dsetdefault ?q ''producer_agent_id'' (py_or (dget ?q ''producer_agent_id'') (JStr []))"
  have h: "dhas (manifest_to_dict m) k" if "k \<in> {''artifact_id'', ''task_id'', ''sha256'', ''inline''}" for k
    using that by (auto simp: manifest_to_dict_def)
  have g: "dget (manifest_to_dict m) ''inline'' = am_inline m" "dget (manifest_to_dict m) ''sha256'' = am_sha256 m"
    by (simp_all add: manifest_to_dict_def)
  have "\<exists>r. artifact_ref_init ?r = Inr r \<and> ar_inline r = dget ?r ''inline'' \<and> ar_sha256 r = dget ?r ''sha256''"
    by (rule ref_init_fields) (simp_all add: dsetdefault_def h)
  then show ?thesis
    by (simp add: artifact_ref_from_dict_def Let_def dsetdefault_def g h split: if_splits)
qed

lemma unsigned_manifest:
  "unsigned_payload (manifest_to_dict (m\<lparr>am_signature := s\<rparr>)) = unsigned_payload (manifest_to_dict m)"
  by (simp add: manifest_to_dict_def unsigned_payload_def omit_fields_defs)

text \<open>What a manifest made from a file that does not change in between says.\<close>

lemma artifact_from_file_fields:
  assumes "fs path = Some (Inr raw)" "artifact_from_file E resolve fs fs path a i = Inr m"
  shows "am_sha256 m = JStr (sha256_hex E raw)" "am_local_path m = JStr (resolve path)"
    "am_artifact_id m = JStr (if fa_artifact_id a \<noteq> [] then fa_artifact_id a else stem path)"
    "am_inline m = (if length raw \<le> INLINE_MAX_BYTES
       then JObj [(''encoding'', JStr ''base64''), (''data'', JStr (b64encode raw))] else JNull)"
  using assms
  by (auto simp: artifact_from_file_def read_file_def file_manifest_def file_sha256_content Let_def split: option.splits)

lemma artifact_from_file_signed:
  assumes "artifact_from_file E resolve fs1 fs2 path a (Some i) = Inr m" "ed25519_ok E" "identity_ok E i"
  shows "\<exists>s. am_signature m = JStr s \<and> verify_object E (public_key i) (manifest_to_dict m) s = Inr True"
proof -
  from assms(1) obtain m0 s where s: "sign_object E i (manifest_to_dict m0) = Inr s" "m = m0\<lparr>am_signature := JStr s\<rparr>"
    by (auto simp: artifact_from_file_def Let_def)
  with sign_object_verifies [OF assms(2,3) s(1)] verify_object_unsigned [OF unsigned_manifest]
  show ?thesis by simp
qed

lemma manifest_bytes_of_file:
  assumes "fs path = Some (Inr raw)" "artifact_from_file E resolve fs fs path a i = Inr m"
    and "fs' (resolve path) = Some (Inr raw)" "resolve path \<noteq> []"
  shows "manifest_bytes E fs' m = Inr (Some raw)"
proof (cases "length raw \<le> INLINE_MAX_BYTES")
  case True
  with artifact_from_file_fields(4) [OF assms(1,2)] show ?thesis
    by (simp add: manifest_bytes_def decode_body_def py_or_def)
next
  case False
  with artifact_from_file_fields(2,4) [OF assms(1,2)] assms(3,4) show ?thesis
    by (simp add: manifest_bytes_def)
qed

section \<open>A concrete file\<close>

definition demo_fs :: "string \<Rightarrow> bytes res option" where
  "demo_fs = [''/a.txt'' \<mapsto> Inr [1, 2]]"

definition demo_file :: file_artifact where
  "demo_file =
     \<lparr>fa_task_id = JStr ''t'', fa_type = JStr ''text'', fa_owner = JStr ''agent'', fa_metadata = [],
      fa_public_base = [], fa_revision = JInt 1, fa_artifact_id = []\<rparr>"

lemma demo_file_manifest:
  obtains m where "artifact_from_file demo_prims (\<lambda>p. p) demo_fs demo_fs ''/a.txt'' demo_file (Some demo_identity) = Inr m"
    "am_artifact_id m = JStr ''a''"
proof -
  let ?m = "file_manifest demo_prims (\<lambda>p. p) ''/a.txt'' [1, 2] (file_sha256 demo_prims [1, 2]) demo_file"
  have "finite_json (JObj (manifest_to_dict ?m))"
    by (simp add: manifest_to_dict_def file_manifest_def demo_file_def Let_def)
  from sign_object_total [OF demo_identity_ok finite_unsigned [OF this]] obtain s
    where "sign_object demo_prims demo_identity (manifest_to_dict ?m) = Inr s" by blast
  then have m: "artifact_from_file demo_prims (\<lambda>p. p) demo_fs demo_fs ''/a.txt'' demo_file (Some demo_identity) =
      Inr (?m\<lparr>am_signature := JStr s\<rparr>)"
    by (simp add: artifact_from_file_def read_file_def demo_fs_def)
  have "stem ''/a.txt'' = ''a''" by code_simp
  then have "am_artifact_id (?m\<lparr>am_signature := JStr s\<rparr>) = JStr ''a''"
    by (simp add: file_manifest_def demo_file_def Let_def)
  with m show thesis by (rule that)
qed

section \<open>Properties\<close>

text \<open>
  The manifest of a file holds its hash; up to 64 KiB it holds the bytes themselves, and the receiver
  of the manifest gets them back; signed, it verifies under the signer's key.
\<close>

theorem file_manifest_holds_content:
  assumes "ed25519_ok E" "identity_ok E i" "fs path = Some (Inr raw)"
    and "artifact_from_file E resolve fs fs path a (Some i) = Inr m"
  shows "am_sha256 m = JStr (sha256_hex E raw) \<and>
    materialize_artifact E (Inr (manifest_to_dict m)) =
      (if length raw \<le> INLINE_MAX_BYTES then Inr raw else Inl (ValueError ''ARTIFACT_NOT_FOUND'')) \<and>
    (\<exists>s. am_signature m = JStr s \<and> verify_object E (public_key i) (manifest_to_dict m) s = Inr True)"
proof -
  note f = artifact_from_file_fields [OF assms(3,4)]
  obtain r where r: "artifact_ref_from_dict (manifest_to_dict m) = Inr r" "ar_inline r = am_inline m"
    "ar_sha256 r = am_sha256 m" using manifest_as_ref by blast
  have "materialize_artifact E (Inr (manifest_to_dict m)) =
      (if length raw \<le> INLINE_MAX_BYTES then Inr raw else Inl (ValueError ''ARTIFACT_NOT_FOUND''))"
    by (simp add: materialize_artifact_def as_ref_def r materialize_ref_def f decode_body_def py_or_def)
  with f(1) artifact_from_file_signed [OF assms(4,1,2)] show ?thesis by blast
qed

lemma file_manifest_holds_content_witness:
  "\<exists>m. artifact_from_file demo_prims (\<lambda>p. p) demo_fs demo_fs ''/a.txt'' demo_file (Some demo_identity) = Inr m \<and>
    materialize_artifact demo_prims (Inr (manifest_to_dict m)) = Inr [1, 2]"
proof -
  obtain m where m: "artifact_from_file demo_prims (\<lambda>p. p) demo_fs demo_fs ''/a.txt'' demo_file (Some demo_identity) = Inr m"
    by (rule demo_file_manifest)
  have fs: "demo_fs ''/a.txt'' = Some (Inr [1, 2])" by (simp add: demo_fs_def)
  have "length [1, 2 :: byte] \<le> INLINE_MAX_BYTES" by (simp add: INLINE_MAX_BYTES_def)
  with file_manifest_holds_content [OF demo_ed25519_ok demo_identity_ok fs m] m show ?thesis by auto
qed



end
