(* ===== verification/Client.thy ===== *)
theory Client
  imports Outgoing Official Proposal Card
begin

text \<open>
  The client side: the A2A client (\<open>a2a_client.py\<close>), the peer with which a task is negotiated, and the
  reading of a task's result (\<open>client.py\<close>). What is on the other side of the connection is a world of
  type \<open>'w\<close>; an action changes it and returns a result or an exception.
\<close>

section \<open>Actions\<close>

type_synonym ('w, 'a) act = "'w \<Rightarrow> 'w \<times> 'a res"

definition retA :: "'a res \<Rightarrow> ('w, 'a) act" where
  "retA r w = (w, r)"

definition bindA :: "('w, 'a) act \<Rightarrow> ('a \<Rightarrow> ('w, 'b) act) \<Rightarrow> ('w, 'b) act" where
  "bindA m f w = (case m w of (w, Inl e) \<Rightarrow> (w, Inl e) | (w, Inr x) \<Rightarrow> f x w)"

text \<open>\<open>try: m; except\<close>: the handler gets the exception.\<close>

definition catchA :: "('w, 'a) act \<Rightarrow> (err \<Rightarrow> ('w, 'a) act) \<Rightarrow> ('w, 'a) act" where
  "catchA m h w = (case m w of (w, Inl e) \<Rightarrow> h e w | (w, Inr x) \<Rightarrow> (w, Inr x))"

lemma act_simps [simp]:
  "bindA (retA (Inr x)) f = f x" "bindA (retA (Inl e)) f = retA (Inl e)" "retA r w = (w, r)"
  "catchA (retA (Inr x)) h = retA (Inr x)" "catchA (retA (Inl e)) h = h e"
  by (simp_all add: fun_eq_iff bindA_def catchA_def retA_def)

lemma bindA_Inr_iff: "bindA m f w = (w', Inr y) \<longleftrightarrow> (\<exists>w1 x. m w = (w1, Inr x) \<and> f x w1 = (w', Inr y))"
  by (auto simp: bindA_def split: prod.splits sum.splits)

lemma bindA_run: "m w = (w1, Inr x) \<Longrightarrow> bindA m f w = f x w1" "m w = (w1, Inl e) \<Longrightarrow> bindA m f w = (w1, Inl e)"
  by (simp_all add: bindA_def)

lemma catchA_run: "m w = (w1, Inr x) \<Longrightarrow> catchA m h w = (w1, Inr x)" "m w = (w1, Inl e) \<Longrightarrow> catchA m h w = h e w1"
  by (simp_all add: catchA_def)

section \<open>The A2A client\<close>

definition origin_part :: "string \<Rightarrow> string res" where
  "origin_part url =
     bindR (urlsplit url) (\<lambda>parts.
       Inr (if u_scheme parts = [] then ''http://test'' else u_scheme parts @ ''://'' @ u_netloc parts))"

definition path_part :: "string \<Rightarrow> string res" where
  "path_part url =
     bindR (urlsplit url) (\<lambda>parts. Inr (if u_path parts \<noteq> [] then u_path parts else ''/''))"

text \<open>
  A client: its endpoint, and whether it has a transport of its own. \<open>post\<close> is one HTTP POST of the
  package \<open>httpx\<close>, with \<open>raise_for_status\<close> and the decoding of the body: from the base URL, the target,
  the body and the headers to the decoded body of the response.
\<close>

record a2a_client =
  cl_endpoint :: string
  cl_transport :: bool

definition client_init :: "string \<Rightarrow> bool \<Rightarrow> a2a_client" where
  "client_init endpoint transport = \<lparr>cl_endpoint = rstrip_chars ''/'' endpoint, cl_transport = transport\<rparr>"

type_synonym 'w post = "string option \<Rightarrow> string \<Rightarrow> json \<Rightarrow> (string \<times> string) list \<Rightarrow> ('w, json) act"

definition rpc_result :: "prims \<Rightarrow> json \<Rightarrow> json res" where
  "rpc_result E body =
     bindR (obj_get body ''error'') (\<lambda>err.
       if truthy err then
         (case err of
            JObj d \<Rightarrow> Inl (NetworkError (py_str E (dget_default d ''code'' (JStr ''A2A_ERROR'')))
                                     (py_str E (dget_default d ''message'' (JStr []))))
          | _ \<Rightarrow> Inl AttributeError)
       else bindR (obj_get body ''result'') (\<lambda>r. Inr (py_or r (JObj []))))"

definition rpc :: "prims \<Rightarrow> 'w post \<Rightarrow> a2a_client \<Rightarrow> string \<Rightarrow> dict \<Rightarrow> string \<Rightarrow> ('w, json) act" where
  "rpc E post cl name params version =
     (let payload = JObj [(''jsonrpc'', JStr ''2.0''), (''id'', JStr ''1''), (''method'', JStr name), (''params'', JObj params)];
          headers = (if version \<noteq> [] then [(''A2A-Version'', version)] else [])
      in bindA (retA (if cl_transport cl
                      then bindR (origin_part (cl_endpoint cl)) (\<lambda>base.
                           bindR (path_part (cl_endpoint cl)) (\<lambda>target. Inr (Some base, target)))
                      else Inr (None, cl_endpoint cl))) (\<lambda>(base, target).
         bindA (post base target payload headers) (\<lambda>body. retA (rpc_result E body))))"

text \<open>\<open>except NetworkError\<close>: also its subclasses.\<close>

fun network_code :: "err \<Rightarrow> string option" where
  "network_code (NetworkError c m) = Some c"
| "network_code (IdentityInvalid m) = Some ''IDENTITY_INVALID''"
| "network_code (NoAvailableAgent c) = Some ''NO_AVAILABLE_AGENT''"
| "network_code _ = None"

definition message_send :: "prims \<Rightarrow> 'w post \<Rightarrow> a2a_client \<Rightarrow> string \<Rightarrow> dict \<Rightarrow> ('w, dict) act" where
  "message_send E post cl uuid message =
     bindA (retA (skill_message_to_send_params E uuid message)) (\<lambda>params.
     catchA (bindA (rpc E post cl ''SendMessage'' params ''1.0'') (\<lambda>r. retA (normalize_task_result E r)))
       (\<lambda>e. if (case network_code e of Some c \<Rightarrow> c \<in> {''-32601'', ''MethodNotFoundError''} | None \<Rightarrow> False)
            then bindA (rpc E post cl ''message/send'' [(''message'', JObj message)] ''0.3'')
                   (\<lambda>r. retA (normalize_task_result E r))
            else retA (Inl e)))"

text \<open>\<open>tasks_get\<close> and \<open>tasks_cancel\<close>: any \<open>NetworkError\<close> is tried again with the old name.\<close>

definition task_call :: "prims \<Rightarrow> 'w post \<Rightarrow> a2a_client \<Rightarrow> string \<Rightarrow> string \<Rightarrow> json \<Rightarrow> ('w, dict) act" where
  "task_call E post cl name old_name task_id =
     catchA (bindA (rpc E post cl name [(''id'', task_id)] ''1.0'') (\<lambda>r. retA (normalize_task_result E r)))
       (\<lambda>e. if network_code e \<noteq> None
            then bindA (rpc E post cl old_name [(''id'', task_id)] ''0.3'') (\<lambda>r. retA (normalize_task_result E r))
            else retA (Inl e))"

definition tasks_get :: "prims \<Rightarrow> 'w post \<Rightarrow> a2a_client \<Rightarrow> json \<Rightarrow> ('w, dict) act" where
  "tasks_get E post cl = task_call E post cl ''GetTask'' ''tasks/get''"

definition tasks_cancel :: "prims \<Rightarrow> 'w post \<Rightarrow> a2a_client \<Rightarrow> json \<Rightarrow> ('w, dict) act" where
  "tasks_cancel E post cl = task_call E post cl ''CancelTask'' ''tasks/cancel''"

section \<open>Negotiating a task\<close>

text \<open>
  The arguments of \<open>propose_task\<close>; \<open>None\<close> is Python's \<open>None\<close>. \<open>ta_schema\<close> is the input schema of the offer the
  peer was found with (\<open>agent.raw["capability"]["input_schema"]\<close>).
\<close>

record task_args =
  tk_capability :: json
  tk_objective :: json
  tk_constraints :: json
  tk_deliverables :: json
  tk_verification :: json
  tk_metadata :: json
  tk_input :: "dict option"
  tk_text :: json
  tk_version :: json
  tk_side_effects :: json
  tk_idempotency_key :: json

text \<open>The ids this call generates.\<close>

record task_fresh =
  tf_proposal_hex :: string
  tf_counter_hex :: string
  tf_ids :: message_ids

definition requested_verification :: "json \<Rightarrow> dict res" where
  "requested_verification v =
     bindR (py_dict (py_or v (JObj [(''required'', JBool False)]))) (\<lambda>d.
       Inr (if truthy (dget d ''required'') \<and> \<not> truthy (dget d ''policy'')
            then dset d ''policy'' (JStr ''REQUESTER_SELECTS'') else d))"

definition offer_schema :: "dict \<Rightarrow> json res" where
  "offer_schema raw = obj_get (py_or (dget raw ''capability'') (JObj [])) ''input_schema''"

definition check_input :: "json \<Rightarrow> task_args \<Rightarrow> unit res" where
  "check_input schema a =
     (if \<not> truthy schema then Inr ()
      else case tk_input a of
        Some d \<Rightarrow> schema_validate schema (JObj d)
      | None \<Rightarrow>
          bindR (py_iter (py_or (tk_constraints a) (JArr []))) (\<lambda>cs.
          bindR (py_iter (py_or (tk_deliverables a) (JArr []))) (\<lambda>ds.
            schema_validate schema (JObj
              [(''objective'', tk_objective a), (''constraints'', JArr cs), (''deliverables'', JArr ds)]))))"

definition task_metadata :: "task_args \<Rightarrow> dict res" where
  "task_metadata a =
     bindR (py_dict (py_or (tk_metadata a) (JObj []))) (\<lambda>md.
       case tk_input a of
         None \<Rightarrow> Inr md
       | Some d \<Rightarrow>
           if dget md ''capability_input'' \<noteq> JNull \<and> \<not> py_eq (dget md ''capability_input'') (JObj d)
           then Inl (ValueError ''metadata capability_input conflicts with capability_input argument'')
           else Inr (dset md ''capability_input'' (JObj d)))"

text \<open>\<open>p.signature = identity.sign_object(p.to_dict())\<close>\<close>

definition sign_proposal :: "prims \<Rightarrow> identity \<Rightarrow> proposal \<Rightarrow> proposal res" where
  "sign_proposal E i p =
     bindR (sign_object E i (proposal_to_dict p)) (\<lambda>s. Inr (p\<lparr>tp_signature := JStr s\<rparr>))"

definition propose_metadata :: "identity \<Rightarrow> proposal \<Rightarrow> dict \<Rightarrow> dict" where
  "propose_metadata i p task_md =
     [(''proposal'', JObj (proposal_to_dict p)),
      (''requester_agent_id'', JStr (i_agent_id i)),
      (''requester_key_id'', JStr (i_key_id i)),
      (''task_metadata'', JObj task_md)]"

definition propose_message :: "identity \<Rightarrow> proposal \<Rightarrow> dict \<Rightarrow> dict" where
  "propose_message i p task_md =
     [(''messageId'', tp_proposal_id p), (''role'', JStr ''user''),
      (''parts'', JArr [data_part (proposal_to_dict p)]),
      (''metadata'', JObj ((''capability'', JStr ''task.propose'') # propose_metadata i p task_md))]"

definition accept_message :: "identity \<Rightarrow> proposal \<Rightarrow> dict \<Rightarrow> dict" where
  "accept_message i p task_md =
     [(''role'', JStr ''user''),
      (''parts'', JArr [data_part (proposal_to_dict p)]),
      (''metadata'', JObj ((''capability'', JStr ''task.propose'') # (''action'', JStr ''ACCEPT'') #
         propose_metadata i p task_md))]"

text \<open>The offer, and the answer to a counter-proposal; \<open>send\<close> is \<open>self.a2a.message_send\<close>.\<close>

definition negotiate ::
    "prims \<Rightarrow> (dict \<Rightarrow> ('w, dict) act) \<Rightarrow> string \<Rightarrow> identity \<Rightarrow> proposal \<Rightarrow> dict \<Rightarrow> ('w, dict \<times> json) act" where
  "negotiate E send hex i p task_md =
     bindA (send (propose_message i p task_md)) (\<lambda>offered.
     let meta = py_or (dget offered ''metadata'') (JObj []) in
     bindA (retA (obj_get meta ''decision'')) (\<lambda>decision.
     bindA (retA (obj_get meta ''proposal'')) (\<lambda>raw.
       if decision = JStr ''COUNTER'' \<and> truthy raw then
         bindA (retA (bindR (py_dict raw) (proposal_from_dict hex))) (\<lambda>counter.
         bindA (retA (sign_proposal E i counter)) (\<lambda>counter.
         bindA (send (accept_message i counter task_md)) (\<lambda>offered.
           retA (Inr (offered, py_or (dget offered ''metadata'') (JObj []))))))
       else retA (Inr (offered, meta)))))"

text \<open>Whether the executor has declined.\<close>

definition declined :: "dict \<Rightarrow> json \<Rightarrow> bool res" where
  "declined offered meta =
     bindR (obj_get (py_or (dget offered ''status'') (JObj [])) ''state'') (\<lambda>state.
     bindR (obj_get meta ''decision'') (\<lambda>decision.
       Inr (state = JStr ''failed'' \<or> decision = JStr ''REJECT'')))"

text \<open>
  The requester signs the offered contract; the assignments come in the order of the code, the status and
  the hash after the signature.
\<close>

definition accept_contract :: "prims \<Rightarrow> identity \<Rightarrow> json \<Rightarrow> contract res" where
  "accept_contract E i contract_raw =
     bindR (if truthy contract_raw then obj_get contract_raw ''executor_signature'' else Inr JNull) (\<lambda>sig.
       if \<not> truthy sig then Inl (NetworkError ''TASK_REJECTED'' ''executor did not sign a contract'')
       else case contract_raw of
         JObj d \<Rightarrow>
           bindR (contract_from_dict d) (\<lambda>c.
           bindR (sign_object E i (contract_to_dict c)) (\<lambda>s.
           let c = c\<lparr>tc_requester_signature := JStr s, tc_status := JStr ''SIGNED''\<rparr> in
           bindR (object_hash E (contract_to_dict c)) (\<lambda>h.
             Inr (c\<lparr>tc_contract_hash := JStr h\<rparr>))))
       | _ \<Rightarrow> Inl TypeError)"

definition task_extra :: "identity \<Rightarrow> proposal \<Rightarrow> contract \<Rightarrow> json \<Rightarrow> dict res" where
  "task_extra i p c idempotency_key =
     bindR (obj_get (tc_metadata c) ''task_id'') (\<lambda>tid.
     let extra = [(''task_id'', py_or tid (tc_contract_id c)),
                  (''proposal'', JObj (proposal_to_dict p)),
                  (''requester_agent_id'', JStr (i_agent_id i))]
     in Inr (if truthy idempotency_key then dset extra ''idempotency_key'' idempotency_key else extra))"

text \<open>\<open>result.setdefault("metadata", {}); result["metadata"]["contract"] = ...\<close>\<close>

definition with_contract :: "contract \<Rightarrow> dict \<Rightarrow> dict res" where
  "with_contract c result =
     (let result = dsetdefault result ''metadata'' (JObj []) in
      case dget result ''metadata'' of
        JObj md \<Rightarrow> Inr (dset result ''metadata'' (JObj (dset md ''contract'' (JObj (contract_to_dict c)))))
      | _ \<Rightarrow> Inl TypeError)"

text \<open>\<open>submit\<close> is the network's \<open>submit_contract\<close> where it has one.\<close>

definition run_task ::
    "prims \<Rightarrow> (dict \<Rightarrow> ('w, dict) act) \<Rightarrow> (contract \<Rightarrow> ('w, unit) act) option \<Rightarrow> message_ids \<Rightarrow>
     identity \<Rightarrow> proposal \<Rightarrow> task_args \<Rightarrow> contract \<Rightarrow> ('w, dict) act" where
  "run_task E send submit ids i p a c =
     bindA (case submit of Some f \<Rightarrow> f c | None \<Rightarrow> retA (Inr ())) (\<lambda>_.
     bindA (retA (task_extra i p c (tk_idempotency_key a))) (\<lambda>extra.
     bindA (retA (text_message ids (tk_capability a) (py_or (tk_text a) (tk_objective a)) (contract_to_dict c) extra)) (\<lambda>message.
     bindA (send message) (\<lambda>result.
       retA (with_contract c result)))))"

text \<open>The signed proposal of a call.\<close>

definition make_proposal :: "prims \<Rightarrow> string \<Rightarrow> identity \<Rightarrow> json \<Rightarrow> task_args \<Rightarrow> dict \<Rightarrow> proposal res" where
  "make_proposal E hex i target a verification =
     bindR (proposal_create E hex (JStr (i_agent_id i)) target (tk_capability a) (tk_objective a) (tk_version a)
              (tk_constraints a) (tk_deliverables a) (JObj verification) (tk_side_effects a) (tk_idempotency_key a))
       (sign_proposal E i)"

definition propose_task ::
    "prims \<Rightarrow> (dict \<Rightarrow> ('w, dict) act) \<Rightarrow> (contract \<Rightarrow> ('w, unit) act) option \<Rightarrow> task_fresh \<Rightarrow>
     identity option \<Rightarrow> summary \<Rightarrow> task_args \<Rightarrow> ('w, dict) act" where
  "propose_task E send submit fr who agent a =
     (case who of
        None \<Rightarrow> retA (Inl (NetworkError ''IDENTITY_MISSING'' ''requester identity required''))
      | Some i \<Rightarrow>
          bindA (retA (requested_verification (tk_verification a))) (\<lambda>verification.
          bindA (retA (bindR (offer_schema (sm_raw agent)) (\<lambda>schema. check_input schema a))) (\<lambda>_.
          bindA (retA (task_metadata a)) (\<lambda>task_md.
          bindA (retA (make_proposal E (tf_proposal_hex fr) i (sm_agent_id agent) a verification)) (\<lambda>p.
          bindA (negotiate E send (tf_counter_hex fr) i p task_md) (\<lambda>(offered, meta).
          bindA (retA (declined offered meta)) (\<lambda>no.
            if no then retA (Inr offered)
            else
              bindA (retA (bindR (obj_get meta ''contract'') (accept_contract E i))) (\<lambda>c.
                run_task E send submit (tf_ids fr) i p a c))))))))"

text \<open>\<open>artifacts\<close> are already dictionaries (\<open>ArtifactManifest.to_dict\<close> is \<open>manifest_to_dict\<close>).\<close>

definition verification_args :: "json \<Rightarrow> json \<Rightarrow> dict \<Rightarrow> json list \<Rightarrow> task_args res" where
  "verification_args capability objective task artifacts =
     bindR (obj_get (py_or (dget task ''metadata'') (JObj [])) ''contract'') (\<lambda>c.
       Inr \<lparr>tk_capability = capability, tk_objective = objective, tk_constraints = JNull,
            tk_deliverables = JArr [JStr ''verification_receipt''],
            tk_verification = JObj [(''required'', JBool False)],
            tk_metadata = JObj [(''subject_task'', JObj task), (''subject_contract'', py_or c (JObj [])),
                                (''artifacts'', JArr artifacts)],
            tk_input = None, tk_text = objective, tk_version = JStr ''1.0.0'', tk_side_effects = JStr ''NONE'',
            tk_idempotency_key = JNull\<rparr>)"

definition request_verification ::
    "prims \<Rightarrow> (dict \<Rightarrow> ('w, dict) act) \<Rightarrow> (contract \<Rightarrow> ('w, unit) act) option \<Rightarrow> task_fresh \<Rightarrow>
     identity option \<Rightarrow> summary \<Rightarrow> json \<Rightarrow> json \<Rightarrow> dict \<Rightarrow> json list \<Rightarrow> ('w, dict) act" where
  "request_verification E send submit fr who agent capability objective task artifacts =
     bindA (retA (verification_args capability objective task artifacts)) (\<lambda>a.
       propose_task E send submit fr who agent a)"

section \<open>Reading results\<close>

definition subject_contract :: "dict \<Rightarrow> json res" where
  "subject_contract meta =
     (let work = py_or (dget meta ''contract'') (JObj []) in
      bindR (obj_get work ''metadata'') (\<lambda>md.
      let nested = py_or md (JObj []) in
      bindR (if truthy (dget meta ''subject_task'') then Inr (dget meta ''subject_task'') else obj_get nested ''subject_task'') (\<lambda>t.
      let subject_task = py_or t (JObj []) in
      if truthy (dget meta ''subject_contract'') then Inr (dget meta ''subject_contract'')
      else bindR (obj_get nested ''subject_contract'') (\<lambda>sc.
        if truthy sc then Inr sc
        else bindR (obj_get subject_task ''metadata'') (\<lambda>m.
             bindR (obj_get (py_or m (JObj [])) ''contract'') (\<lambda>c. Inr (py_or c work)))))))"

definition SIGNED_RECEIPT_FIELDS :: "string list" where
  "SIGNED_RECEIPT_FIELDS =
     [''verification_id'', ''verifier'', ''verifier_key_id'', ''contract_id'', ''contract_hash'',
      ''artifact_manifest_hash'', ''result'', ''signature'']"

definition signed_verification_receipt :: "prims \<Rightarrow> json \<Rightarrow> string option \<Rightarrow> dict option res" where
  "signed_verification_receipt E obj pk =
     (case obj of
        JObj d \<Rightarrow>
          if list_ex (\<lambda>k. \<not> truthy (dget d k)) SIGNED_RECEIPT_FIELDS then Inr None
          else
            (case pk of
               Some (c # cs) \<Rightarrow>
                 bindR (verify_object E (c # cs) d (py_str E (py_or (dget d ''signature'') (JStr [])))) (\<lambda>ok.
                   Inr (if ok then Some d else None))
             | _ \<Rightarrow> Inr (Some d))
      | _ \<Rightarrow> Inr None)"

text \<open>The data parts of the artifacts.\<close>

definition part_data :: "json \<Rightarrow> dict list res" where
  "part_data part =
     bindR (obj_get part ''kind'') (\<lambda>kind.
     bindR (obj_get part ''data'') (\<lambda>data.
       Inr (case data of JObj d \<Rightarrow> if kind = JStr ''data'' then [d] else [] | _ \<Rightarrow> [])))"

definition parse_artifacts :: "dict \<Rightarrow> dict list res" where
  "parse_artifacts task =
     bindR (py_iter (py_or (dget task ''artifacts'') (JArr []))) (\<lambda>arts.
     bindR (mapR (\<lambda>art.
        bindR (obj_get art ''parts'') (\<lambda>ps.
        bindR (py_iter (py_or ps (JArr []))) (\<lambda>parts.
        bindR (mapR part_data parts) (\<lambda>dss. Inr (concat dss))))) arts) (\<lambda>dss. Inr (concat dss)))"

text \<open>\<open>loads\<close> is \<open>json.loads\<close> on bytes; every exception of reading the artifact is caught.\<close>

definition receipt_payload :: "prims \<Rightarrow> (bytes \<Rightarrow> json res) \<Rightarrow> dict \<Rightarrow> json" where
  "receipt_payload E loads man =
     (case bindR (materialize_artifact E (Inr man)) loads of Inr v \<Rightarrow> v | Inl _ \<Rightarrow> JObj man)"

fun first_receipt :: "prims \<Rightarrow> (bytes \<Rightarrow> json res) \<Rightarrow> dict list \<Rightarrow> dict res" where
  "first_receipt E loads [] = Inr []"
| "first_receipt E loads (man # mans) =
     bindR (signed_verification_receipt E (receipt_payload E loads man) None) (\<lambda>r.
       case r of Some d \<Rightarrow> Inr d | None \<Rightarrow> first_receipt E loads mans)"

definition verification_receipt_from_task :: "prims \<Rightarrow> (bytes \<Rightarrow> json res) \<Rightarrow> dict \<Rightarrow> dict res" where
  "verification_receipt_from_task E loads task =
     bindR (parse_artifacts task) (first_receipt E loads)"

definition verify_peer_signature :: "prims \<Rightarrow> string \<Rightarrow> dict \<Rightarrow> string option \<Rightarrow> unit res" where
  "verify_peer_signature E pk obj signature =
     (case signature of
        Some (c # cs) \<Rightarrow>
          bindR (verify_object E pk obj (c # cs)) (\<lambda>ok.
            if ok then Inr () else Inl (IdentityInvalid ''signature does not match identity''))
      | _ \<Rightarrow> Inl (IdentityInvalid ''signature does not match identity''))"

section \<open>Facts\<close>

text \<open>The signed part depends on the status, not on the signatures and the hash.\<close>

lemma unsigned_accepted:
  "tc_status c = JStr ''SIGNED'' \<Longrightarrow>
   unsigned_payload (contract_to_dict (c\<lparr>tc_requester_signature := s, tc_status := JStr ''SIGNED'', tc_contract_hash := h\<rparr>)) =
   unsigned_payload (contract_to_dict c)"
  by (simp add: contract_to_dict_def unsigned_payload_def omit_fields_defs)

lemma accept_contract_Inr:
  assumes "accept_contract E i (JObj d) = Inr c"
  obtains c0 s h where "contract_from_dict d = Inr c0" "sign_object E i (contract_to_dict c0) = Inr s"
    "c = c0\<lparr>tc_requester_signature := JStr s, tc_status := JStr ''SIGNED'', tc_contract_hash := JStr h\<rparr>"
    "object_hash E (contract_to_dict c) = Inr h"
proof -
  from assms obtain c0 s h where "contract_from_dict d = Inr c0" "sign_object E i (contract_to_dict c0) = Inr s"
    and h: "object_hash E (contract_to_dict (c0\<lparr>tc_requester_signature := JStr s, tc_status := JStr ''SIGNED''\<rparr>)) = Inr h"
    and c: "c = c0\<lparr>tc_requester_signature := JStr s, tc_status := JStr ''SIGNED'', tc_contract_hash := JStr h\<rparr>"
    by (auto simp: accept_contract_def Let_def split: if_splits)
  moreover from h have "object_hash E (contract_to_dict c) = Inr h"
    unfolding c by (simp add: object_hash_def contract_unsigned_update)
  ultimately show thesis using that by blast
qed

lemma sign_object_defined:
  assumes "sign_object E x d = Inr s" "identity_ok E i"
  obtains s' where "sign_object E i d = Inr s'" "s' \<noteq> []"
proof -
  from assms(1) obtain b where "canonical_json E (JObj (unsigned_payload d)) = Inr b"
    by (auto simp: sign_object_def)
  from sign_object_ok [OF assms(2) this] sign_object_neq_Nil [OF assms(2)] that show thesis by blast
qed

lemma verified_canonical:
  assumes "verify_object E pk d s = Inr b"
  obtains bs where "canonical_json E (JObj (unsigned_payload d)) = Inr bs"
  using assms by (auto simp: verify_object_def)

text \<open>A contract the executor has signed, in the state \<open>SIGNED\<close>, is accepted by the requester.\<close>

lemma accept_signed_contract:
  assumes "ed25519_ok E" "identity_ok E i" "contract_from_dict d = Inr c0" "tc_status c0 = JStr ''SIGNED''"
    and "dget d ''executor_signature'' = JStr es" "es \<noteq> []" "verify_object E pk (contract_to_dict c0) es = Inr True"
  shows "\<exists>c s h. accept_contract E i (JObj d) = Inr c \<and> s \<noteq> [] \<and>
    c = c0\<lparr>tc_requester_signature := JStr s, tc_status := JStr ''SIGNED'', tc_contract_hash := JStr h\<rparr> \<and>
    verify_object E (public_key i) (contract_to_dict c) s = Inr True \<and>
    verify_object E pk (contract_to_dict c) es = Inr True \<and> object_hash E (contract_to_dict c) = Inr h"
proof -
  obtain bs where b: "canonical_json E (JObj (unsigned_payload (contract_to_dict c0))) = Inr bs"
    using assms(7) by (rule verified_canonical)
  obtain s where s: "sign_object E i (contract_to_dict c0) = Inr s" "s \<noteq> []"
    using sign_object_ok [OF assms(2) b] sign_object_neq_Nil [OF assms(2)] by blast
  let ?c = "\<lambda>h. c0\<lparr>tc_requester_signature := JStr s, tc_status := JStr ''SIGNED'', tc_contract_hash := h\<rparr>"
  have un: "unsigned_payload (contract_to_dict (?c h)) = unsigned_payload (contract_to_dict c0)" for h
    by (rule unsigned_accepted [OF assms(4)])
  have un': "unsigned_payload (contract_to_dict (c0\<lparr>tc_requester_signature := JStr s, tc_status := JStr ''SIGNED''\<rparr>)) =
     unsigned_payload (contract_to_dict c0)"
    using un [of "tc_contract_hash c0"] by (simp add: contract_to_dict_def unsigned_payload_def omit_fields_defs)
  obtain h where h: "object_hash E (contract_to_dict c0) = Inr h" using b by (simp add: object_hash_def)
  have d: "d \<noteq> []" using assms(5) by auto
  have "accept_contract E i (JObj d) = Inr (?c (JStr h))"
    using assms(3,5,6) s(1) h un' d by (simp add: accept_contract_def Let_def object_hash_def)
  moreover have "verify_object E (public_key i) (contract_to_dict (?c (JStr h))) s = Inr True"
    using sign_object_verifies [OF assms(1,2) s(1)] verify_object_unsigned [OF un] by metis
  moreover have "verify_object E pk (contract_to_dict (?c (JStr h))) es = Inr True"
    using assms(7) verify_object_unsigned [OF un] by metis
  moreover have "object_hash E (contract_to_dict (?c (JStr h))) = Inr h"
    using h object_hash_unsigned [OF un] by metis
  ultimately show ?thesis using s(2) by blast
qed

lemma accept_contract_eval:
  assumes "tc_executor_signature c0 = JStr x" "x \<noteq> []" "sign_object E i (contract_to_dict c0) = Inr s"
    and "object_hash E (contract_to_dict (c0\<lparr>tc_requester_signature := JStr s, tc_status := JStr ''SIGNED''\<rparr>)) = Inr h"
  shows "accept_contract E i (JObj (contract_to_dict c0)) =
    Inr (c0\<lparr>tc_requester_signature := JStr s, tc_status := JStr ''SIGNED'', tc_contract_hash := JStr h\<rparr>)"
proof -
  have "dget (contract_to_dict c0) ''executor_signature'' = JStr x" "contract_to_dict c0 \<noteq> []"
    using assms(1) by (simp_all add: contract_to_dict_def)
  with assms show ?thesis by (simp add: accept_contract_def contract.from_to Let_def)
qed

lemma check_contract_signed:
  assumes "dget metadata ''contract'' = JObj c" "truthy (dget c ''requester_signature'')"
    and "dget c ''executor_signature'' = JStr es" "es \<noteq> []" "verify_object E (public_key x) c es = Inr True"
  shows "check_contract E x cap metadata = Inr None"
proof -
  have "c \<noteq> []" using assms(3) by auto
  with assms show ?thesis by (simp add: check_contract_def verify_value_def Let_def)
qed

text \<open>The metadata of a contract is the task metadata of the request.\<close>

lemma contract_create_metadata:
  "contract_create E hex now r x cap obj cs ds V (JObj md) = Inr c \<Longrightarrow> tc_metadata c = JObj md"
  by (auto simp: contract_create_def contract_from_dict_eq CONTRACT_FIELDS_def contract_of_fields_def
      dc_value_def Let_def)

lemma propose_contract_metadata:
  assumes "propose_contract E env x pmd raw p = Inr c" "dget raw ''metadata'' = JNull"
    and "dget pmd ''task_metadata'' = JObj md"
  shows "tc_metadata c = JObj md"
proof -
  have "py_or (py_or JNull (JObj md)) (JObj []) = JObj md" by (simp add: py_or_def)
  with assms show ?thesis
    by (auto simp: propose_contract_def Let_def dest!: contract_create_metadata)
qed

lemma accept_contract_metadata:
  assumes "accept_contract E i (JObj (contract_to_dict c0)) = Inr c"
  shows "tc_metadata c = tc_metadata c0"
  using assms by (rule accept_contract_Inr) (simp add: contract.from_to)

section \<open>Properties\<close>



text \<open>
  The requester signs whatever contract comes back: any dictionary with the fields of a contract and
  some text as executor's signature gets the requester's valid signature, whatever was proposed and
  whoever the executor is.
\<close>

theorem requester_signs_any_contract:
  assumes "ed25519_ok E" "identity_ok E i" "finite_json (JObj (contract_to_dict c0))"
    and "tc_executor_signature c0 = JStr forged" "forged \<noteq> []" "tc_status c0 = JStr ''SIGNED''"
  shows "\<exists>c s. accept_contract E i (JObj (contract_to_dict c0)) = Inr c \<and>
    tc_requester_signature c = JStr s \<and> verify_object E (public_key i) (contract_to_dict c) s = Inr True \<and>
    tc_executor c = tc_executor c0 \<and> tc_objective c = tc_objective c0 \<and> tc_proposal_hash c = tc_proposal_hash c0"
proof -
  obtain s where s: "sign_object E i (contract_to_dict c0) = Inr s"
    using sign_object_total [OF assms(2) finite_unsigned [OF assms(3)]] by blast
  obtain h where h: "object_hash E (contract_to_dict c0) = Inr h" using object_hash_total [OF assms(3)] by blast
  let ?c = "\<lambda>h. c0\<lparr>tc_requester_signature := JStr s, tc_status := JStr ''SIGNED'', tc_contract_hash := h\<rparr>"
  have un: "unsigned_payload (contract_to_dict (?c h)) = unsigned_payload (contract_to_dict c0)" for h
    by (rule unsigned_accepted [OF assms(6)])
  have "object_hash E (contract_to_dict (c0\<lparr>tc_requester_signature := JStr s, tc_status := JStr ''SIGNED''\<rparr>)) = Inr h"
    using h object_hash_unsigned [OF un, of E "tc_contract_hash c0"] by simp
  then have "accept_contract E i (JObj (contract_to_dict c0)) = Inr (?c (JStr h))"
    by (rule accept_contract_eval [OF assms(4,5) s])
  moreover have "verify_object E (public_key i) (contract_to_dict (?c (JStr h))) s = Inr True"
    using sign_object_verifies [OF assms(1,2) s] verify_object_unsigned [OF un] by metis
  ultimately show ?thesis by auto
qed

definition demo_contract :: contract where
  "demo_contract = (contract_of_fields [])
     \<lparr>tc_executor_signature := JStr ''x'', tc_status := JStr ''SIGNED'', tc_objective := JStr ''pay''\<rparr>"

lemma demo_contract_finite: "finite_json (JObj (contract_to_dict demo_contract))"
    "wf_json (JObj (contract_to_dict (demo_contract\<lparr>tc_status := st\<rparr>))) = wf_json st"
    "finite_json (JObj (contract_to_dict (demo_contract\<lparr>tc_status := st\<rparr>))) = finite_json st"
  by (simp_all add: demo_contract_def contract_of_fields_def contract_to_dict_def)

lemma requester_signs_any_contract_witness:
  "\<exists>c s. accept_contract demo_prims demo_identity (JObj (contract_to_dict demo_contract)) = Inr c \<and>
    verify_object demo_prims (public_key demo_identity) (contract_to_dict c) s = Inr True \<and> tc_objective c = JStr ''pay''"
  using requester_signs_any_contract [OF demo_ed25519_ok demo_identity_ok demo_contract_finite(1), of "''x''"]
  by (fastforce simp: demo_contract_def)

text \<open>
  The requester signs before it sets the status: when the offered contract is in another state than
  \<open>SIGNED\<close>, neither the requester's own signature nor the executor's covers the contract that is sent
  back, unless SHA-256 collides.
\<close>

theorem status_set_after_signing:
  assumes "float_repr_ok E" "ed25519_binds E" "identity_ok E i"
    and "wf_json (JObj (contract_to_dict c0))" "tc_status c0 \<noteq> JStr ''SIGNED''"
    and "accept_contract E i (JObj (contract_to_dict c0)) = Inr c" "tc_requester_signature c = JStr s"
    and "verify_object E (public_key i) (contract_to_dict c) s = Inr True"
  shows "sha256_collision E (contract_to_dict c0) (contract_to_dict c)"
proof -
  obtain s' h where s: "sign_object E i (contract_to_dict c0) = Inr s'"
    "c = c0\<lparr>tc_requester_signature := JStr s', tc_status := JStr ''SIGNED'', tc_contract_hash := JStr h\<rparr>"
    using assms(6) by (rule accept_contract_Inr) (simp add: contract.from_to)
  with assms(7) have s': "s' = s" by simp
  from s(1) obtain b where b: "canonical_json E (JObj (unsigned_payload (contract_to_dict c0))) = Inr b"
    by (auto simp: sign_object_def)
  have hs: "hash_and_sign E (i_private_key i) (contract_to_dict c0) = Inr (sha256_hex E b, s)"
    using sign_object_ok [OF assms(3) b] s(1) s' b by (simp add: hash_and_sign_def)
  have pk: "public_key i = encode_public_key (ed_public E (i_private_key i))" "length (i_private_key i) = 32"
    using assms(3) by (simp_all add: public_key_def identity_ok_def)
  have wf: "wf_json (JObj (contract_to_dict c))"
    using assms(4) unfolding s(2) by (simp add: contract_to_dict_def)
  have "canon (dget (contract_to_dict c) ''status'') \<noteq> canon (dget (contract_to_dict c0) ''status'')"
    using assms(5) s(2) by (auto simp: contract_to_dict_def)
  moreover have "''status'' \<notin> set HASH_OMIT_FIELDS" by (simp add: omit_fields_defs)
  ultimately show ?thesis
    using accepted_signature_binds [OF assms(1,2) pk(2) assms(4) wf hs] assms(8) pk(1) by metis
qed

lemma status_set_after_signing_witness:
  "\<exists>c s. accept_contract demo_prims demo_identity (JObj (contract_to_dict (demo_contract\<lparr>tc_status := JStr ''ACTIVE''\<rparr>))) = Inr c \<and>
    tc_requester_signature c = JStr s \<and> verify_object demo_prims (public_key demo_identity) (contract_to_dict c) s \<noteq> Inr True"
proof -
  let ?draft = "demo_contract\<lparr>tc_status := JStr ''ACTIVE''\<rparr>"
  have fin: "finite_json (JObj (contract_to_dict ?draft))" "wf_json (JObj (contract_to_dict ?draft))"
    by (rule demo_contract_finite(3) [THEN iffD2], simp) (rule demo_contract_finite(2) [THEN iffD2], simp)
  obtain s where s: "sign_object demo_prims demo_identity (contract_to_dict ?draft) = Inr s"
    using sign_object_total [OF demo_identity_ok finite_unsigned [OF fin(1)]] by blast
  have "finite_json (JObj (contract_to_dict (?draft\<lparr>tc_requester_signature := JStr s, tc_status := JStr ''SIGNED''\<rparr>)))"
    by (simp add: demo_contract_def contract_of_fields_def contract_to_dict_def)
  then obtain h where h: "object_hash demo_prims (contract_to_dict (?draft\<lparr>tc_requester_signature := JStr s, tc_status := JStr ''SIGNED''\<rparr>)) = Inr h"
    using object_hash_total by blast
  let ?c = "?draft\<lparr>tc_requester_signature := JStr s, tc_status := JStr ''SIGNED'', tc_contract_hash := JStr h\<rparr>"
  have a: "accept_contract demo_prims demo_identity (JObj (contract_to_dict ?draft)) = Inr ?c"
    by (rule accept_contract_eval [OF _ _ s h, of "''x''"]) (simp_all add: demo_contract_def)
  have "verify_object demo_prims (public_key demo_identity) (contract_to_dict ?c) s \<noteq> Inr True"
    using status_set_after_signing [OF demo_float_repr_ok demo_ed25519_binds demo_identity_ok fin(2) _ a, of s]
    by (auto simp: sha256_collision_def)
  with a show ?thesis by auto
qed

text \<open>
  A receipt checked against a key is one that the key has signed, with all its fields present.
\<close>

theorem checked_receipt_is_signed:
  assumes "signed_verification_receipt E obj (Some pk) = Inr (Some d)" "pk \<noteq> []"
  shows "obj = JObj d \<and> (\<forall>k\<in>set SIGNED_RECEIPT_FIELDS. truthy (dget d k)) \<and>
    verify_object E pk d (py_str E (dget d ''signature'')) = Inr True"
proof -
  obtain c cs where "pk = c # cs" using assms(2) by (cases pk) auto
  with assms(1) show ?thesis
    by (auto simp: signed_verification_receipt_def list_ex_iff SIGNED_RECEIPT_FIELDS_def
        split: json.splits if_splits)
qed

definition demo_receipt :: dict where
  "demo_receipt = map (\<lambda>k. (k, JStr ''x'')) SIGNED_RECEIPT_FIELDS"

lemma checked_receipt_is_signed_witness:
  "\<exists>d. signed_verification_receipt demo_prims (JObj d) (Some (public_key demo_identity)) = Inr (Some d) \<and>
    verify_object demo_prims (public_key demo_identity) d (py_str demo_prims (dget d ''signature'')) = Inr True"
proof -
  have "finite_json (JObj demo_receipt)" by (simp add: demo_receipt_def SIGNED_RECEIPT_FIELDS_def)
  from sign_object_total [OF demo_identity_ok finite_unsigned [OF this]] obtain s
    where s: "sign_object demo_prims demo_identity demo_receipt = Inr s" by blast
  let ?d = "dset demo_receipt ''signature'' (JStr s)"
  have om: "''signature'' \<in> set HASH_OMIT_FIELDS" by (simp add: omit_fields_defs)
  have v: "verify_object demo_prims (public_key demo_identity) ?d s = Inr True"
    using sign_object_verifies [OF demo_ed25519_ok demo_identity_ok s] om
    by (simp add: verify_object_def unsigned_dset)
  have ne: "s \<noteq> []" using sign_object_neq_Nil [OF demo_identity_ok s] .
  have pk: "\<exists>c cs. public_key demo_identity = c # cs"
    by (simp add: public_key_def encode_public_key_def)
  have "\<forall>k\<in>set SIGNED_RECEIPT_FIELDS. truthy (dget ?d k)"
    using ne by (simp add: demo_receipt_def SIGNED_RECEIPT_FIELDS_def)
  then have r: "signed_verification_receipt demo_prims (JObj ?d) (Some (public_key demo_identity)) = Inr (Some ?d)"
    using v pk ne by (auto simp: signed_verification_receipt_def list_ex_iff)
  moreover from pk have "public_key demo_identity \<noteq> []" by auto
  ultimately show ?thesis using checked_receipt_is_signed [OF r] by blast
qed

text \<open>
  But the receipt that is read from a task is checked against no key: any dictionary with the eight
  fields in a data part is returned as the receipt, whoever made it.
\<close>

theorem receipt_from_task_unverified:
  assumes "\<forall>k\<in>set SIGNED_RECEIPT_FIELDS. truthy (dget d k)" "\<not> dhas d ''sha256''"
  shows "verification_receipt_from_task E loads [(''artifacts'', JArr [JObj [(''parts'', JArr [data_part d])]])] = Inr d"
proof -
  have "artifact_ref_from_dict d = Inl TypeError"
    using assms(2) by (simp add: artifact_ref_from_dict_def artifact_ref_init_def dc_init_def REF_FIELDS_def
        dsetdefault_def Let_def)
  then have "receipt_payload E loads d = JObj d"
    by (simp add: receipt_payload_def materialize_artifact_def as_ref_def)
  moreover have "signed_verification_receipt E (JObj d) None = Inr (Some d)"
    using assms(1) by (auto simp: signed_verification_receipt_def list_ex_iff)
  ultimately show ?thesis
    by (simp add: verification_receipt_from_task_def parse_artifacts_def part_data_def data_part_def py_or_def)
qed

lemma receipt_from_task_unverified_witness:
  "verification_receipt_from_task demo_prims (\<lambda>_. Inl TypeError)
     [(''artifacts'', JArr [JObj [(''parts'', JArr [data_part demo_receipt])]])] = Inr demo_receipt"
  by (rule receipt_from_task_unverified) (simp_all add: demo_receipt_def SIGNED_RECEIPT_FIELDS_def)


definition demo_args :: task_args where
  "demo_args =
     \<lparr>tk_capability = JStr ''report'', tk_objective = JStr ''o'', tk_constraints = JNull, tk_deliverables = JNull,
      tk_verification = JNull, tk_metadata = JNull, tk_input = Some [], tk_text = JNull, tk_version = JStr ''1.0.0'',
      tk_side_effects = JStr ''NONE'', tk_idempotency_key = JNull\<rparr>"

definition demo_agent :: summary where
  "demo_agent =
     \<lparr>sm_agent_id = JStr ''agent'', sm_name = JStr ''agent'', sm_agent_card_url = JStr [], sm_endpoint = JNull,
      sm_online = True, sm_public_key = JNull, sm_capabilities = [],
      sm_raw = [(''capability'', JObj [(''input_schema'', JObj [(''type'', JStr ''object''),
                                                               (''required'', JArr [JStr ''x''])])])]\<rparr>"


text \<open>
  A review binds to the work it reviews: when the contract of a verification task, made by the
  executor from the request and signed by the requester, comes with the task message, the reviewer's
  \<open>subject_contract\<close> is the contract of the reviewed task, not the review's own.
\<close>

theorem review_binds_to_work:
  assumes "verification_args cap obj task arts = Inr a" "task_metadata a = Inr md"
    and "obj_get (py_or (dget task ''metadata'') (JObj [])) ''contract'' = Inr work" "truthy work"
    and "propose_contract E env x pmd raw p = Inr c0" "dget raw ''metadata'' = JNull"
      "dget pmd ''task_metadata'' = JObj md"
    and "accept_contract E i (JObj (contract_to_dict c0)) = Inr c"
    and "dget meta ''contract'' = JObj (contract_to_dict c)" "dget meta ''subject_task'' = JNull"
      "dget meta ''subject_contract'' = JNull"
  shows "subject_contract meta = Inr work"
proof -
  have md: "md = [(''subject_task'', JObj task), (''subject_contract'', work), (''artifacts'', JArr arts)]"
    using assms(1-4) by (auto simp: verification_args_def task_metadata_def py_or_def)
  have "dget (contract_to_dict c) ''metadata'' = JObj md"
    using accept_contract_metadata [OF assms(8)] propose_contract_metadata [OF assms(5-7)]
    by (simp add: contract_to_dict_def)
  moreover have "contract_to_dict c \<noteq> []" by (simp add: contract_to_dict_def)
  ultimately show ?thesis using assms(4,9-11) md by (simp add: subject_contract_def py_or_def Let_def)
qed

lemma review_binds_to_work_witness:
  "\<exists>c0 c. propose_contract demo_prims \<lparr>pe_proposal_hex = ''p'', pe_contract_hex = ''c'', pe_now = ''now''\<rparr> demo_identity
       [(''task_metadata'', JObj [(''subject_task'', JObj [(''metadata'', JObj [(''contract'', JStr ''w'')])]),
          (''subject_contract'', JStr ''w''), (''artifacts'', JArr [])])]
       (proposal_to_dict demo_proposal) demo_proposal = Inr c0 \<and>
     accept_contract demo_prims demo_identity2 (JObj (contract_to_dict c0)) = Inr c \<and>
     subject_contract [(''contract'', JObj (contract_to_dict c))] = Inr (JStr ''w'')"
proof -
  let ?env = "\<lparr>pe_proposal_hex = ''p'', pe_contract_hex = ''c'', pe_now = ''now''\<rparr>"
  let ?task = "[(''metadata'', JObj [(''contract'', JStr ''w'')])]"
  let ?md = "[(''subject_task'', JObj ?task), (''subject_contract'', JStr ''w''), (''artifacts'', JArr [])]"
  obtain a where a: "verification_args JNull JNull ?task [] = Inr a"
    by (simp add: verification_args_def py_or_def)
  then have m: "task_metadata a = Inr ?md"
    by (auto simp: verification_args_def task_metadata_def py_or_def)
  have w: "obj_get (py_or (dget ?task ''metadata'') (JObj [])) ''contract'' = Inr (JStr ''w'')" "truthy (JStr ''w'')"
    by (simp_all add: py_or_def)
  have fit: "proposal_fit demo_prims demo_proposal" using demo_proposal_signable by (simp add: signable_def)
  have f: "dget (proposal_to_dict demo_proposal) ''metadata'' = JNull" by (simp add: proposal_to_dict_def)
  obtain c0 where c0: "propose_contract demo_prims ?env demo_identity [(''task_metadata'', JObj ?md)]
      (proposal_to_dict demo_proposal) demo_proposal = Inr c0"
    using propose_contract_total [OF fit demo_identity_ok, of "proposal_to_dict demo_proposal"
        "[(''task_metadata'', JObj ?md)]" ?md ?env] by (auto simp: f py_or_def)
  obtain es where es: "tc_executor_signature c0 = JStr es" "es \<noteq> []"
    "verify_object demo_prims (public_key demo_identity) (contract_to_dict c0) es = Inr True" "tc_status c0 = JStr ''SIGNED''"
    using propose_contract_signed [OF demo_ed25519_ok demo_identity_ok c0] by blast
  then have d: "dget (contract_to_dict c0) ''executor_signature'' = JStr es" by (simp add: contract_to_dict_def)
  obtain c where c: "accept_contract demo_prims demo_identity2 (JObj (contract_to_dict c0)) = Inr c"
    using accept_signed_contract [OF demo_ed25519_ok _ contract.from_to es(4) d es(2,3)] demo_identity2_ok by blast
  from review_binds_to_work [OF a m w c0 f _ c, of "[(''contract'', JObj (contract_to_dict c))]"] c0 c
  show ?thesis by simp
qed

end
