(* ===== verification/Network.thy ===== *)
theory Network
  imports Client Capability
begin

text \<open>
  The client of the Seeds (\<open>network.py\<close>): joining, renewing and leaving with failover over the configured
  Seeds, discovery, and the connection to a discovered agent. Sending a message to a Seed is the argument
  \<open>send\<close>; the clock, nonces and ids of a call are its arguments; \<open>txt\<close> is \<open>str\<close> of an exception.
\<close>

section \<open>Discovered agents\<close>

record discovered =
  da_agent_id :: string
  da_agent_card_url :: string
  da_endpoint :: json
  da_network_id :: json
  da_reachability :: json
  da_availability :: json
  da_public_key :: json
  da_raw :: dict

definition discovered_agent :: "prims \<Rightarrow> json \<Rightarrow> discovered res" where
  "discovered_agent E data =
     bindR (obj_item data ''agent_id'') (\<lambda>aid.
     bindR (obj_get data ''agent_card_url'') (\<lambda>url.
     bindR (py_dict data) (\<lambda>d.
       Inr \<lparr>da_agent_id = py_str E aid,
            da_agent_card_url = py_str E (py_or url (JStr [])),
            da_endpoint = dget d ''endpoint'',
            da_network_id = dget d ''network_id'',
            da_reachability = dget d ''reachability'',
            da_availability = dget d ''availability'',
            da_public_key = dget d ''public_key'',
            da_raw = d\<rparr>)))"

definition as_summary :: "discovered \<Rightarrow> summary" where
  "as_summary a =
     \<lparr>sm_agent_id = JStr (da_agent_id a), sm_name = JStr (da_agent_id a),
      sm_agent_card_url = JStr (da_agent_card_url a), sm_endpoint = da_endpoint a,
      sm_online = (da_reachability a = JStr ''REACHABLE''), sm_public_key = da_public_key a,
      sm_capabilities = [], sm_raw = da_raw a\<rparr>"

record discovery_result =
  dr_query_id :: string
  dr_capability :: string
  dr_agents :: "discovered list"
  dr_observed_at :: string

section \<open>State\<close>

text \<open>
  \<open>nw_joined\<close> is the set \<open>_joined\<close> in some order; the cached clients hold no state of their own and are not
  kept; \<open>nw_renewing\<close> is whether the renewal task runs.
\<close>

record network =
  nw_identity :: identity
  nw_seeds :: "string list"
  nw_agent_card_url :: string
  nw_endpoint :: string
  nw_capabilities :: "json list"
  nw_lease_seconds :: int
  nw_joined :: "string list"
  nw_renewing :: bool

definition network_init ::
    "prims \<Rightarrow> identity \<Rightarrow> string list \<Rightarrow> string \<Rightarrow> string \<Rightarrow> json list \<Rightarrow> int \<Rightarrow> network res" where
  "network_init E i seeds card_url endpoint capabilities lease_seconds =
     bindR (mapR (\<lambda>item. bindR (from_value E item) (\<lambda>c. Inr (capability_to_dict c))) capabilities) (\<lambda>caps.
       Inr \<lparr>nw_identity = i, nw_seeds = map (rstrip_chars ''/'') seeds, nw_agent_card_url = card_url,
            nw_endpoint = endpoint, nw_capabilities = caps, nw_lease_seconds = lease_seconds,
            nw_joined = [], nw_renewing = False\<rparr>)"

type_synonym 'w send = "string \<Rightarrow> dict \<Rightarrow> ('w, dict) act"

text \<open>The message that carries a body to a Seed.\<close>

definition seed_message :: "string \<Rightarrow> dict \<Rightarrow> dict" where
  "seed_message capability body =
     [(''role'', JStr ''user''), (''parts'', JArr [data_part body]),
      (''metadata'', JObj [(''capability'', JStr capability)])]"

section \<open>Failover\<close>

fun try_seeds :: "(err \<Rightarrow> string) \<Rightarrow> 'w send \<Rightarrow> dict \<Rightarrow> string list \<Rightarrow> err option \<Rightarrow> ('w, dict) act" where
  "try_seeds txt send message [] cause =
     retA (Inl (NetworkError ''NO_SEED'' (case cause of Some e \<Rightarrow> txt e | None \<Rightarrow> ''no reachable Seed'')))"
| "try_seeds txt send message (s # ss) cause =
     catchA (send s message) (\<lambda>e. try_seeds txt send message ss (Some e))"

definition seed_order :: "network \<Rightarrow> string list" where
  "seed_order n = nw_joined n @ filter (\<lambda>s. s \<notin> set (nw_joined n)) (nw_seeds n)"

definition message_any :: "(err \<Rightarrow> string) \<Rightarrow> 'w send \<Rightarrow> network \<Rightarrow> dict \<Rightarrow> ('w, dict) act" where
  "message_any txt send n message = try_seeds txt send message (seed_order n) None"

section \<open>Joining\<close>

text \<open>The fresh values of one announcement.\<close>

record announce_fresh =
  af_timestamp :: string
  af_nonce :: string
  af_policy_time :: string
  af_enrollment_time :: string

definition announce_fields :: "announce_fresh \<Rightarrow> network \<Rightarrow> string \<Rightarrow> bool \<Rightarrow> dict \<Rightarrow> dict" where
  "announce_fields fr n availability accept policy =
     [(''type'', JStr ''network.announce''),
      (''protocol_version'', JStr ''0.1''),
      (''agent_id'', JStr (i_agent_id (nw_identity n))),
      (''key_id'', JStr (i_key_id (nw_identity n))),
      (''revision'', JInt (i_revision (nw_identity n))),
      (''public_key'', JStr (public_key (nw_identity n))),
      (''agent_card_url'', JStr (nw_agent_card_url n)),
      (''endpoint'', JStr (nw_endpoint n)),
      (''interfaces'', JArr [JObj [(''type'', JStr ''DIRECT''), (''protocol'', JStr ''a2a''), (''version'', JStr ''1.0''),
         (''transport'', JStr ''http''), (''endpoint'', JStr (nw_endpoint n))]]),
      (''capabilities'', JArr (nw_capabilities n)),
      (''availability'', JObj [(''accept_new_tasks'', JBool accept), (''status'', JStr availability)]),
      (''requested_lease_seconds'', JInt (nw_lease_seconds n)),
      (''timestamp'', JStr (af_timestamp fr)),
      (''nonce'', JStr (af_nonce fr)),
      (''recovery_policy'', JObj policy)]"

definition announce_body :: "prims \<Rightarrow> announce_fresh \<Rightarrow> network \<Rightarrow> string \<Rightarrow> bool \<Rightarrow> dict res" where
  "announce_body E fr n availability accept =
     bindR (recovery_policy E (af_policy_time fr) (nw_identity n) None []) (\<lambda>policy.
     bindR (canonical_json E (JObj (unsigned_payload policy))) (\<lambda>b.
     bindR (enrollment_message E (af_enrollment_time fr) (nw_identity n) [] (sha256_hex E b) []) (\<lambda>enrollment.
       sign_into E (nw_identity n) ''signature''
         (dset (announce_fields fr n availability accept policy) ''enrollment'' (JObj enrollment)))))"

text \<open>The state of the task a Seed returned, and its metadata.\<close>

definition task_state_of :: "dict \<Rightarrow> json res" where
  "task_state_of task = obj_get (py_or (dget task ''status'') (JObj [])) ''state''"

definition task_metadata_of :: "dict \<Rightarrow> json" where
  "task_metadata_of task = py_or (dget task ''metadata'') (JObj [])"

text \<open>The answer to an announcement; a code that is not text is shown as text.\<close>

definition join_answer :: "prims \<Rightarrow> dict \<Rightarrow> json res" where
  "join_answer E task =
     bindR (task_state_of task) (\<lambda>state.
       if state \<noteq> JStr ''completed'' then
         bindR (obj_get (task_metadata_of task) ''error'') (\<lambda>code.
           let code = py_str E (py_or code (JStr ''REJECTED'')) in Inl (NetworkError code code))
       else Inr (task_metadata_of task))"

text \<open>\<open>fr k\<close> are the values of the \<open>k\<close>-th attempt. A Seed that answers is remembered and the renewal starts.\<close>

definition join_one :: "prims \<Rightarrow> 'w send \<Rightarrow> announce_fresh \<Rightarrow> string \<Rightarrow> (network \<times> 'w, json) act" where
  "join_one E send fr s nw =
     (let (n, w) = nw in
      case bindA (retA (announce_body E fr n ''AVAILABLE'' True))
             (\<lambda>body. bindA (send s (seed_message ''network.join'' body)) (\<lambda>task. retA (join_answer E task))) w of
        (w, Inl e) \<Rightarrow> ((n, w), Inl e)
      | (w, Inr md) \<Rightarrow> ((n\<lparr>nw_joined := List.insert s (nw_joined n), nw_renewing := True\<rparr>, w), Inr md))"

fun join_seeds ::
    "prims \<Rightarrow> (err \<Rightarrow> string) \<Rightarrow> 'w send \<Rightarrow> (nat \<Rightarrow> announce_fresh) \<Rightarrow> nat \<Rightarrow> string list \<Rightarrow> err option \<Rightarrow>
     (network \<times> 'w, json) act" where
  "join_seeds E txt send fr k [] cause =
     retA (Inl (NetworkError ''NO_SEED'' (case cause of Some e \<Rightarrow> txt e | None \<Rightarrow> ''join failed'')))"
| "join_seeds E txt send fr k (s # ss) cause =
     catchA (join_one E send (fr k) s) (\<lambda>e. join_seeds E txt send fr (Suc k) ss (Some e))"

definition join_network ::
    "prims \<Rightarrow> (err \<Rightarrow> string) \<Rightarrow> 'w send \<Rightarrow> (nat \<Rightarrow> announce_fresh) \<Rightarrow> (network \<times> 'w, json) act" where
  "join_network E txt send fr nw = join_seeds E txt send fr 0 (nw_seeds (fst nw)) None nw"

section \<open>Renewing, leaving, reporting\<close>

definition signed_body :: "prims \<Rightarrow> network \<Rightarrow> dict \<Rightarrow> dict res" where
  "signed_body E n body = sign_into E (nw_identity n) ''signature'' body"

definition renew_fields :: "network \<Rightarrow> string \<Rightarrow> dict" where
  "renew_fields n now =
     [(''type'', JStr ''network.renew''), (''agent_id'', JStr (i_agent_id (nw_identity n))), (''timestamp'', JStr now)]"

definition leave_fields :: "network \<Rightarrow> string \<Rightarrow> dict" where
  "leave_fields n now =
     [(''type'', JStr ''network.leave''), (''agent_id'', JStr (i_agent_id (nw_identity n))), (''timestamp'', JStr now)]"

text \<open>Signing a body and sending it to the first Seed that answers.\<close>

definition post_body ::
    "prims \<Rightarrow> (err \<Rightarrow> string) \<Rightarrow> 'w send \<Rightarrow> network \<Rightarrow> string \<Rightarrow> dict \<Rightarrow> ('w, dict) act" where
  "post_body E txt send n capability body =
     bindA (retA (signed_body E n body)) (\<lambda>b. message_any txt send n (seed_message capability b))"

definition renew_network ::
    "prims \<Rightarrow> (err \<Rightarrow> string) \<Rightarrow> 'w send \<Rightarrow> (nat \<Rightarrow> announce_fresh) \<Rightarrow> string \<Rightarrow> (network \<times> 'w, json) act" where
  "renew_network E txt send fr now nw =
     (let (n, w) = nw in
      if nw_joined n = [] then join_network E txt send fr nw
      else
        (case post_body E txt send n ''network.renew'' (renew_fields n now) w of
           (w, Inl e) \<Rightarrow> ((n, w), Inl e)
         | (w, Inr task) \<Rightarrow> ((n, w),
             bindR (task_state_of task) (\<lambda>state.
               if state \<noteq> JStr ''completed''
               then Inl (NetworkError ''RENEW_FAILED'' (py_str E (task_metadata_of task)))
               else Inr (task_metadata_of task)))))"

text \<open>Whatever the Seed answered, the client forgets its Seeds and stops renewing.\<close>

definition leave_network :: "prims \<Rightarrow> (err \<Rightarrow> string) \<Rightarrow> 'w send \<Rightarrow> string \<Rightarrow> (network \<times> 'w, json) act" where
  "leave_network E txt send now nw =
     (let (n, w) = nw in
      case post_body E txt send n ''network.leave'' (leave_fields n now) w of
        (w, Inl e) \<Rightarrow> ((n, w), Inl e)
      | (w, Inr task) \<Rightarrow> ((n\<lparr>nw_joined := [], nw_renewing := False\<rparr>, w), Inr (task_metadata_of task)))"

definition report_unreachable ::
    "prims \<Rightarrow> (err \<Rightarrow> string) \<Rightarrow> 'w send \<Rightarrow> string \<Rightarrow> network \<Rightarrow> json \<Rightarrow> json \<Rightarrow> 'w \<Rightarrow> 'w res" where
  "report_unreachable E txt send now n agent_id reason w =
     bindR (signed_body E n
        [(''type'', JStr ''network.report_unreachable''), (''agent_id'', agent_id),
         (''reporter_agent_id'', JStr (i_agent_id (nw_identity n))), (''reason'', reason), (''timestamp'', JStr now)])
       (\<lambda>b. Inr (fst (message_any txt send n (seed_message ''network.report_unreachable'' b) w)))"

text \<open>One turn of the renewal task: an exception is dropped.\<close>

definition renew_turn ::
    "prims \<Rightarrow> (err \<Rightarrow> string) \<Rightarrow> 'w send \<Rightarrow> (nat \<Rightarrow> announce_fresh) \<Rightarrow> string \<Rightarrow> network \<times> 'w \<Rightarrow> network \<times> 'w" where
  "renew_turn E txt send fr now nw = fst (renew_network E txt send fr now nw)"

text \<open>
  The seconds between two turns: \<open>max(30, int(lease_seconds * 0.6))\<close>. For a lease below $2^{50}$ the product of
  doubles has the integer part of the exact product: 0.6 is rounded by less than one part in $2^{54}$, which
  moves a product off a multiple of five by too little, and rounds a product at one back to it.
\<close>

definition renew_interval :: "int \<Rightarrow> int" where
  "renew_interval lease_seconds = max 30 (lease_seconds * 3 div 5)"

section \<open>Discovery and connection\<close>

definition discover_fields :: "network \<Rightarrow> string \<Rightarrow> string \<Rightarrow> json \<Rightarrow> json \<Rightarrow> string \<Rightarrow> dict" where
  "discover_fields n query_id capability max_results version now =
     [(''type'', JStr ''network.discover''),
      (''query_id'', JStr query_id),
      (''requester_agent_id'', JStr (i_agent_id (nw_identity n))),
      (''criteria'', JObj ([(''capability'', JStr capability), (''availability'', JStr ''AVAILABLE'')] @
         (if truthy version then [(''version'', version)] else []))),
      (''max_results'', max_results),
      (''timestamp'', JStr now)]"

definition discovery_of :: "prims \<Rightarrow> string \<Rightarrow> string \<Rightarrow> string \<Rightarrow> dict \<Rightarrow> discovery_result res" where
  "discovery_of E query_id capability now task =
     (let md = task_metadata_of task in
      bindR (obj_get md ''query_id'') (\<lambda>q.
      bindR (obj_get md ''agents'') (\<lambda>rows.
      bindR (py_iter (py_or rows (JArr []))) (\<lambda>rows.
      bindR (mapR (discovered_agent E) rows) (\<lambda>agents.
      bindR (obj_get md ''timestamp'') (\<lambda>ts.
        Inr \<lparr>dr_query_id = py_str E (py_or q (JStr query_id)), dr_capability = capability, dr_agents = agents,
             dr_observed_at = py_str E (py_or ts (JStr now))\<rparr>))))))"

text \<open>\<open>hex\<close> is \<open>uuid4().hex[:10]\<close> in this run.\<close>

definition discover_with_context ::
    "prims \<Rightarrow> (err \<Rightarrow> string) \<Rightarrow> 'w send \<Rightarrow> network \<Rightarrow> string \<Rightarrow> string \<Rightarrow> string \<Rightarrow> json \<Rightarrow> json \<Rightarrow>
     ('w, discovery_result) act" where
  "discover_with_context E txt send n hex now capability max_results version =
     (let query_id = ''q-'' @ hex in
      bindA (post_body E txt send n ''network.discover''
               (discover_fields n query_id capability max_results version now)) (\<lambda>task.
        retA (discovery_of E query_id capability now task)))"

definition discover ::
    "prims \<Rightarrow> (err \<Rightarrow> string) \<Rightarrow> 'w send \<Rightarrow> network \<Rightarrow> string \<Rightarrow> string \<Rightarrow> string \<Rightarrow> json \<Rightarrow> json \<Rightarrow>
     ('w, discovered list) act" where
  "discover E txt send n hex now capability max_results version =
     bindA (discover_with_context E txt send n hex now capability max_results version) (\<lambda>r. retA (Inr (dr_agents r)))"

definition require_agent ::
    "prims \<Rightarrow> (err \<Rightarrow> string) \<Rightarrow> 'w send \<Rightarrow> network \<Rightarrow> string \<Rightarrow> string \<Rightarrow> string \<Rightarrow> json \<Rightarrow> ('w, discovered) act" where
  "require_agent E txt send n hex now capability version =
     bindA (discover E txt send n hex now capability (JInt 10) version) (\<lambda>rows.
       retA (case rows of [] \<Rightarrow> Inl (NoAvailableAgent capability) | a # _ \<Rightarrow> Inr a))"

record peer =
  pr_agent :: summary
  pr_card :: json
  pr_endpoint :: string

text \<open>\<open>get_card\<close> is the HTTP GET of the card and the decoding of its body.\<close>

definition connect :: "prims \<Rightarrow> (json \<Rightarrow> ('w, json) act) \<Rightarrow> summary \<Rightarrow> ('w, peer) act" where
  "connect E get_card agent =
     bindA (if truthy (sm_agent_card_url agent) then get_card (sm_agent_card_url agent) else retA (Inr (JObj []))) (\<lambda>crd.
     bindA (retA (resolve_a2a_url E crd)) (\<lambda>resolved.
       let endpoint = (case resolved of Some (c # cs) \<Rightarrow> JStr (c # cs) | _ \<Rightarrow> sm_endpoint agent) in
       if \<not> truthy endpoint then
         retA (Inl (NetworkError ''NO_ENDPOINT'' (py_str E (sm_agent_id agent) @ '' has no A2A URL'')))
       else case endpoint of
         JStr url \<Rightarrow> retA (Inr \<lparr>pr_agent = agent, pr_card = crd, pr_endpoint = rstrip_chars ''/'' url\<rparr>)
       | _ \<Rightarrow> retA (Inl AttributeError)))"

section \<open>Failover\<close>

text \<open>The world after a message that every Seed of a list fails to answer.\<close>

fun all_fail :: "'w send \<Rightarrow> dict \<Rightarrow> string list \<Rightarrow> 'w \<Rightarrow> 'w option" where
  "all_fail send message [] w = Some w"
| "all_fail send message (s # ss) w =
     (case send s message w of (w', Inl e) \<Rightarrow> all_fail send message ss w' | (w', Inr task) \<Rightarrow> None)"

definition first_answer :: "'w send \<Rightarrow> dict \<Rightarrow> string list \<Rightarrow> 'w \<Rightarrow> string \<Rightarrow> 'w \<Rightarrow> dict \<Rightarrow> bool" where
  "first_answer send message ss w s w' task \<longleftrightarrow>
     (\<exists>pre post w1. ss = pre @ s # post \<and> all_fail send message pre w = Some w1 \<and> send s message w1 = (w', Inr task))"

lemma first_answer_Nil [simp]: "\<not> first_answer send message [] w s w' task"
  by (simp add: first_answer_def)

lemma first_answer_Cons:
  "first_answer send message (a # ss) w s w' task \<longleftrightarrow>
     s = a \<and> send a message w = (w', Inr task) \<or>
     (\<exists>w1 e. send a message w = (w1, Inl e) \<and> first_answer send message ss w1 s w' task)"
proof
  assume "first_answer send message (a # ss) w s w' task"
  then obtain pre post w1 where *: "a # ss = pre @ s # post" "all_fail send message pre w = Some w1"
    "send s message w1 = (w', Inr task)" unfolding first_answer_def by blast
  then show "s = a \<and> send a message w = (w', Inr task) \<or>
     (\<exists>w1 e. send a message w = (w1, Inl e) \<and> first_answer send message ss w1 s w' task)"
    by (cases pre) (auto simp: first_answer_def split: prod.splits sum.splits)
next
  assume "s = a \<and> send a message w = (w', Inr task) \<or>
     (\<exists>w1 e. send a message w = (w1, Inl e) \<and> first_answer send message ss w1 s w' task)"
  then show "first_answer send message (a # ss) w s w' task"
  proof
    assume "s = a \<and> send a message w = (w', Inr task)"
    then show ?thesis unfolding first_answer_def
      by (intro exI [of _ "[]"] exI [of _ ss] exI [of _ w]) simp
  next
    assume "\<exists>w1 e. send a message w = (w1, Inl e) \<and> first_answer send message ss w1 s w' task"
    then obtain w1 e pre post w2 where "send a message w = (w1, Inl e)" "ss = pre @ s # post"
      "all_fail send message pre w1 = Some w2" "send s message w2 = (w', Inr task)"
      unfolding first_answer_def by blast
    then show ?thesis unfolding first_answer_def
      by (intro exI [of _ "a # pre"] exI [of _ post] exI [of _ w2]) simp
  qed
qed

lemma try_seeds_answer:
  "try_seeds txt send message ss cause w = (w', Inr task) \<longleftrightarrow> (\<exists>s. first_answer send message ss w s w' task)"
proof (induction ss arbitrary: cause w)
  case (Cons a ss)
  obtain w1 r where "send a message w = (w1, r)" by fastforce
  with Cons.IH show ?case by (cases r) (auto simp: first_answer_Cons catchA_def)
qed simp

lemma try_seeds_error:
  "(\<exists>e. try_seeds txt send message ss cause w = (w', Inl e)) \<longleftrightarrow> all_fail send message ss w = Some w'"
proof (induction ss arbitrary: cause w)
  case (Cons a ss)
  obtain w1 r where "send a message w = (w1, r)" by fastforce
  with Cons.IH show ?case by (cases r) (auto simp: catchA_def)
qed auto

lemma try_seeds_code:
  "try_seeds txt send message ss cause w = (w', Inl e) \<Longrightarrow> \<exists>t. e = NetworkError ''NO_SEED'' t"
proof (induction ss arbitrary: cause w)
  case (Cons a ss)
  obtain w1 r where "send a message w = (w1, r)" by fastforce
  with Cons show ?case by (cases r) (auto simp: catchA_def)
qed auto

section \<open>Runs of the client\<close>

text \<open>
  What the client and the world do: the client joins, its renewal task takes a turn, it leaves, or the
  world changes by itself.
\<close>

inductive client_step ::
    "prims \<Rightarrow> (err \<Rightarrow> string) \<Rightarrow> 'w send \<Rightarrow> network \<times> 'w \<Rightarrow> network \<times> 'w \<Rightarrow> bool" where
  joins: "client_step E txt send nw (fst (join_network E txt send fr nw))"
| renews: "client_step E txt send nw (renew_turn E txt send fr now nw)"
| leaves: "client_step E txt send nw (fst (leave_network E txt send now nw))"
| moves: "client_step E txt send (n, w) (n, w')"

definition joined_ok :: "network \<Rightarrow> bool" where
  "joined_ok n \<longleftrightarrow> distinct (nw_joined n) \<and> set (nw_joined n) \<subseteq> set (nw_seeds n) \<and>
     (nw_renewing n \<longleftrightarrow> nw_joined n \<noteq> [])"

text \<open>What no operation changes.\<close>

definition same_client :: "network \<Rightarrow> network \<Rightarrow> bool" where
  "same_client n n' \<longleftrightarrow> n'\<lparr>nw_joined := nw_joined n, nw_renewing := nw_renewing n\<rparr> = n"

lemma same_client_fields:
  "same_client n n' \<Longrightarrow> nw_seeds n' = nw_seeds n" "same_client n n' \<Longrightarrow> nw_identity n' = nw_identity n"
  "same_client n n' \<Longrightarrow> nw_lease_seconds n' = nw_lease_seconds n"
  unfolding same_client_def by (metis network.select_convs network.surjective network.update_convs)+

lemma same_client_refl [simp]: "same_client n n"
  by (simp add: same_client_def)

lemma same_client_updates [simp]:
  "same_client n (n\<lparr>nw_joined := x, nw_renewing := y\<rparr>)" "same_client n (n\<lparr>nw_renewing := y\<rparr>)"
  by (cases n, simp add: same_client_def)+

lemma same_client_trans: "same_client n n' \<Longrightarrow> same_client n' n'' \<Longrightarrow> same_client n n''"
  by (cases n; cases n'; cases n'') (simp add: same_client_def)

text \<open>The Seed \<open>s\<close> accepted the announcement of a client: what it answered, and the client after that.\<close>

definition accepted_by ::
    "prims \<Rightarrow> 'w send \<Rightarrow> announce_fresh \<Rightarrow> string \<Rightarrow> network \<times> 'w \<Rightarrow> network \<times> 'w \<Rightarrow> json \<Rightarrow> bool" where
  "accepted_by E send fr s nw nw' md \<longleftrightarrow>
     (\<exists>body task. announce_body E fr (fst nw) ''AVAILABLE'' True = Inr body \<and>
        send s (seed_message ''network.join'' body) (snd nw) = (snd nw', Inr task) \<and>
        task_state_of task = Inr (JStr ''completed'') \<and> md = task_metadata_of task \<and>
        fst nw' = (fst nw)\<lparr>nw_joined := List.insert s (nw_joined (fst nw)), nw_renewing := True\<rparr>)"

lemma join_answer_Inr:
  "join_answer E task = Inr md \<longleftrightarrow> task_state_of task = Inr (JStr ''completed'') \<and> md = task_metadata_of task"
  unfolding join_answer_def Let_def by (cases "task_state_of task") auto

lemma join_one_Inr: "join_one E send fr s nw = (nw', Inr md) \<Longrightarrow> accepted_by E send fr s nw nw' md"
  unfolding join_one_def accepted_by_def
  by (cases nw) (auto simp: bindA_Inr_iff retA_def join_answer_Inr split: prod.splits sum.splits)

lemma join_one_Inl: "join_one E send fr s nw = (nw', Inl e) \<Longrightarrow> fst nw' = fst nw"
  unfolding join_one_def by (cases nw) (auto split: prod.splits sum.splits)

lemma join_seeds_Inr:
  "join_seeds E txt send fr k ss cause nw = (nw', Inr md) \<Longrightarrow>
   \<exists>s \<in> set ss. \<exists>k' nw1. fst nw1 = fst nw \<and> accepted_by E send (fr k') s nw1 nw' md"
proof (induction ss arbitrary: k cause nw)
  case (Cons s ss)
  obtain nw1 r where r: "join_one E send (fr k) s nw = (nw1, r)" by fastforce
  show ?case
  proof (cases r)
    case (Inl e)
    with Cons.prems r have "join_seeds E txt send fr (Suc k) ss (Some e) nw1 = (nw', Inr md)"
      by (simp add: catchA_def)
    from Cons.IH [OF this] join_one_Inl [of E send "fr k" s nw nw1 e] r Inl show ?thesis by fastforce
  next
    case (Inr x)
    with Cons.prems r have "join_one E send (fr k) s nw = (nw', Inr md)" by (simp add: catchA_def)
    from join_one_Inr [OF this] show ?thesis by (intro bexI [of _ s] exI [of _ k] exI [of _ nw]) simp_all
  qed
qed simp

lemma join_seeds_Inl:
  "join_seeds E txt send fr k ss cause nw = (nw', Inl e) \<Longrightarrow> fst nw' = fst nw"
proof (induction ss arbitrary: k cause nw)
  case (Cons s ss)
  obtain nw1 r where r: "join_one E send (fr k) s nw = (nw1, r)" by fastforce
  show ?case
  proof (cases r)
    case (Inl e')
    with Cons.prems r have "join_seeds E txt send fr (Suc k) ss (Some e') nw1 = (nw', Inl e)"
      by (simp add: catchA_def)
    from Cons.IH [OF this] join_one_Inl [of E send "fr k" s nw nw1 e'] r Inl show ?thesis by simp
  qed (use Cons.prems r in \<open>simp add: catchA_def\<close>)
qed simp

lemma accepted_ok:
  "accepted_by E send fr s nw nw' md \<Longrightarrow> s \<in> set (nw_seeds (fst nw)) \<Longrightarrow> joined_ok (fst nw) \<Longrightarrow>
   joined_ok (fst nw') \<and> same_client (fst nw) (fst nw')"
  by (auto simp: accepted_by_def joined_ok_def List.insert_def split: if_splits)

lemma join_keeps:
  assumes "joined_ok (fst nw)"
  shows "joined_ok (fst (fst (join_network E txt send fr nw))) \<and>
    same_client (fst nw) (fst (fst (join_network E txt send fr nw)))"
proof -
  obtain nw' r where r: "join_seeds E txt send fr 0 (nw_seeds (fst nw)) None nw = (nw', r)" by fastforce
  show ?thesis
  proof (cases r)
    case (Inl e)
    with r have "fst nw' = fst nw" using join_seeds_Inl by blast
    with assms show ?thesis by (simp add: join_network_def r)
  next
    case (Inr md)
    with join_seeds_Inr r obtain s k' nw1 where "s \<in> set (nw_seeds (fst nw))" "fst nw1 = fst nw"
      "accepted_by E send (fr k') s nw1 nw' md" by blast
    with accepted_ok [of E send "fr k'" s nw1 nw' md] assms show ?thesis by (simp add: join_network_def r)
  qed
qed

lemma renew_keeps:
  assumes "joined_ok (fst nw)"
  shows "joined_ok (fst (renew_turn E txt send fr now nw)) \<and> same_client (fst nw) (fst (renew_turn E txt send fr now nw))"
proof (cases "nw_joined (fst nw) = []")
  case True
  then show ?thesis using join_keeps [OF assms]
    by (cases nw) (simp add: renew_turn_def renew_network_def)
next
  case False
  then have "fst (renew_turn E txt send fr now nw) = fst nw"
    by (cases nw) (auto simp: renew_turn_def renew_network_def split: prod.splits sum.splits)
  with assms show ?thesis by simp
qed

lemma leave_keeps:
  assumes "joined_ok (fst nw)"
  shows "joined_ok (fst (fst (leave_network E txt send now nw))) \<and>
    same_client (fst nw) (fst (fst (leave_network E txt send now nw)))"
  using assms by (cases nw) (auto simp: leave_network_def joined_ok_def split: prod.splits sum.splits)

lemma step_keeps:
  "client_step E txt send nw nw' \<Longrightarrow> joined_ok (fst nw) \<Longrightarrow> joined_ok (fst nw') \<and> same_client (fst nw) (fst nw')"
  by (induction rule: client_step.induct) (simp_all add: join_keeps renew_keeps leave_keeps)

lemma client_run_keeps:
  "(client_step E txt send)\<^sup>*\<^sup>* nw nw' \<Longrightarrow> joined_ok (fst nw) \<Longrightarrow> joined_ok (fst nw') \<and> same_client (fst nw) (fst nw')"
proof (induction rule: rtranclp_induct)
  case (step b c)
  with step_keeps [OF step.hyps(2)] same_client_trans show ?case by blast
qed simp

lemma network_init_ok: "network_init E i seeds cu ep caps ls = Inr n \<Longrightarrow> joined_ok n \<and> nw_seeds n = map (rstrip_chars ''/'') seeds"
  by (auto simp: network_init_def joined_ok_def)

lemma seed_order_ok:
  "joined_ok n \<Longrightarrow> set (seed_order n) = set (nw_seeds n) \<and> (distinct (nw_seeds n) \<longrightarrow> distinct (seed_order n))"
  by (auto simp: joined_ok_def seed_order_def)

lemma join_seeds_code:
  "join_seeds E txt send fr k ss cause nw = (nw', Inl e) \<Longrightarrow> \<exists>t. e = NetworkError ''NO_SEED'' t"
proof (induction ss arbitrary: k cause nw)
  case (Cons s ss)
  obtain nw1 r where "join_one E send (fr k) s nw = (nw1, r)" by fastforce
  with Cons show ?case by (cases r) (auto simp: catchA_def)
qed auto

lemma message_any_first:
  "seed_order n = s # ss \<Longrightarrow> send s message w = (w', Inr task) \<Longrightarrow> message_any txt send n message w = (w', Inr task)"
  by (simp add: message_any_def catchA_def)

section \<open>A concrete client\<close>

text \<open>Its Seeds keep a log of who was contacted; the first is down, and \<open>answer\<close> is what the second says.\<close>

definition demo_answer :: "string \<Rightarrow> dict" where
  "demo_answer state =
     [(''status'', JObj [(''state'', JStr state)]), (''metadata'', JObj [(''agent_id'', JStr ''agent'')])]"

definition demo_send :: "string \<Rightarrow> string list send" where
  "demo_send answer s message w =
     (w @ [s], if s = ''http://a'' then Inl OSError else Inr (demo_answer answer))"

definition demo_network :: network where
  "demo_network = projr (network_init demo_prims demo_identity [''http://a/'', ''http://b'', ''http://c'']
     ''http://h/card'' ''http://h/a2a'' [JStr ''echo''] 1800)"

lemma demo_network_init:
  "network_init demo_prims demo_identity [''http://a/'', ''http://b'', ''http://c''] ''http://h/card'' ''http://h/a2a''
     [JStr ''echo''] 1800 = Inr demo_network"
  by (simp add: demo_network_def network_init_def)

lemma demo_network_fields [simp]:
  "nw_seeds demo_network = [''http://a'', ''http://b'', ''http://c'']" "nw_joined demo_network = []"
  "nw_identity demo_network = demo_identity" "nw_lease_seconds demo_network = 1800" "nw_endpoint demo_network = ''http://h/a2a''"
  "nw_agent_card_url demo_network = ''http://h/card''" "\<not> nw_renewing demo_network"
  by (simp_all add: demo_network_def network_init_def) code_simp

section \<open>Signed bodies\<close>

lemma signed_body_total:
  assumes "identity_ok E (nw_identity n)" "finite_json (JObj body)"
  shows "\<exists>b. signed_body E n body = Inr b"
  unfolding signed_body_def by (rule sign_into_total [OF assms])

text \<open>A body that a Seed accepts as signed by the client.\<close>

lemma sign_into_signed:
  assumes "ed25519_ok E" "identity_ok E i" "sign_into E i ''signature'' body = Inr m"
  obtains s where "s \<noteq> []" "m = dset body ''signature'' (JStr s)" "verify_object E (public_key i) m s = Inr True"
proof -
  from assms(3) obtain s where s: "sign_object E i body = Inr s" "m = dset body ''signature'' (JStr s)"
    by (auto simp: sign_into_def)
  have "''signature'' \<in> set HASH_OMIT_FIELDS" by (simp add: omit_fields_defs)
  from sign_into_verifies [OF assms(1,2) this assms(3)] s(2)
  have "verify_object E (public_key i) m s = Inr True" by auto
  with s that sign_object_neq_Nil [OF assms(2)] show ?thesis by blast
qed

lemma enrollment_default_total:
  assumes "identity_ok E i"
  shows "\<exists>em. enrollment_message E now i [] ph [] = Inr em"
proof -
  obtain p pk where p: "i_key_provider i = Some p" "kp_public_key p (i_recovery_key_id i) = Inr pk"
    "i_recovery_key_id i \<noteq> []"
    using assms unfolding identity_ok_def provider_for_def by blast
  have "finite_json (JObj [(''agent_id'', JStr (i_agent_id i)), (''key_id'', JStr (i_key_id i))])" by simp
  from canonical_json_emit [OF this] p show ?thesis
    unfolding enrollment_message_def by (simp add: sign_into_total [OF assms])
qed

definition announcement :: "announce_fresh \<Rightarrow> network \<Rightarrow> string \<Rightarrow> bool \<Rightarrow> dict \<Rightarrow> dict \<Rightarrow> dict" where
  "announcement fr n availability accept policy enrollment =
     dset (announce_fields fr n availability accept policy) ''enrollment'' (JObj enrollment)"

lemma announce_body_shape:
  assumes "announce_body E fr n av ac = Inr body"
  obtains policy enrollment where
    "sign_into E (nw_identity n) ''signature'' (announcement fr n av ac policy enrollment) = Inr body"
  using assms unfolding announce_body_def announcement_def by auto

lemma announcement_field:
  "k \<noteq> ''enrollment'' \<Longrightarrow> dget (announcement fr n av ac policy enrollment) k = dget (announce_fields fr n av ac policy) k"
  by (simp add: announcement_def dget_dset)

lemma recovery_policy_total:
  assumes "identity_ok E i"
  obtains policy where "recovery_policy E now i None [] = Inr policy" "finite_json (JObj policy)"
proof -
  let ?body = "[(''type'', JStr ''identity.recovery.policy''), (''agent_id'', JStr (i_agent_id i)),
     (''identity_epoch'', JInt (i_revision i)), (''threshold'', JInt 1),
     (''recovery_keys'', JArr (map JStr [i_recovery_key_id i])), (''timestamp'', JStr now),
     (''operational_key_id'', JStr (i_key_id i))]"
  have fin: "finite_json (JObj ?body)" by simp
  obtain policy where s: "sign_into E i ''signature'' ?body = Inr policy"
    using sign_into_total [OF assms fin] by blast
  then have "recovery_policy E now i None [] = Inr policy"
    using assms by (simp add: recovery_policy_def identity_ok_def)
  moreover from s obtain x where "policy = dset ?body ''signature'' (JStr x)" by (auto simp: sign_into_def)
  then have "finite_json (JObj policy)" by (simp only:) (rule finite_dset [OF fin], simp)
  ultimately show ?thesis by (rule that)
qed

lemma announce_body_total:
  assumes "identity_ok E (nw_identity n)" "list_all finite_json (nw_capabilities n)"
  shows "\<exists>body. announce_body E fr n av ac = Inr body"
proof -
  obtain policy where p: "recovery_policy E (af_policy_time fr) (nw_identity n) None [] = Inr policy"
    "finite_json (JObj policy)"
    by (rule recovery_policy_total [OF assms(1)])
  obtain b where b: "canonical_json E (JObj (unsigned_payload policy)) = Inr b"
    using canonical_json_emit [OF finite_unsigned [OF p(2)]] by blast
  obtain em where em: "enrollment_message E (af_enrollment_time fr) (nw_identity n) [] (sha256_hex E b) [] = Inr em"
    using enrollment_default_total [OF assms(1)] by blast
  have "finite_json (JObj (announce_fields fr n av ac policy))"
    using assms(2) p(2) by (simp add: announce_fields_def)
  from sign_into_total [OF assms(1) finite_dset [OF this enrollment_finite [OF em]]]
  show ?thesis unfolding announce_body_def p(1) bindR_simps b em by blast
qed

lemma demo_announce_body: "\<exists>body. announce_body demo_prims fr demo_network av ac = Inr body"
  by (rule announce_body_total) (simp_all add: demo_network_def network_init_def capability_to_dict_def)

section \<open>Properties\<close>

text \<open>
  C23: failover: a message to the Seeds returns an answer exactly when some Seed, in the order of the joined
  Seeds and then the others, answers and all before it failed; no Seed after it is contacted. It
  raises exactly when every Seed failed, with the code \<open>NO_SEED\<close>.
\<close>

theorem failover_first_answer:
  "(message_any txt send n message w = (w', Inr task) \<longleftrightarrow>
      (\<exists>s. first_answer send message (seed_order n) w s w' task)) \<and>
   ((\<exists>e. message_any txt send n message w = (w', Inl e)) \<longleftrightarrow>
      (\<exists>t. message_any txt send n message w = (w', Inl (NetworkError ''NO_SEED'' t)))) \<and>
   ((\<exists>e. message_any txt send n message w = (w', Inl e)) \<longleftrightarrow> all_fail send message (seed_order n) w = Some w')"
  unfolding message_any_def try_seeds_answer try_seeds_error
  using try_seeds_code try_seeds_error by fastforce

text \<open>
  C24: the client remembers Seeds truthfully: through any run of joins, renewal turns and leaves, whatever the
  Seeds do, the joined Seeds are configured ones without repetition, the renewal runs exactly while
  there is one, identity and Seeds stay; so a message is tried at each configured Seed, once.
\<close>

theorem client_invariant:
  assumes "network_init E i seeds card_url endpoint caps lease = Inr n0" "(client_step E txt send)\<^sup>*\<^sup>* (n0, w0) (n, w)"
  shows "joined_ok n \<and> nw_seeds n = map (rstrip_chars ''/'') seeds \<and> nw_identity n = nw_identity n0 \<and>
    set (seed_order n) = set (nw_seeds n) \<and> (distinct (nw_seeds n) \<longrightarrow> distinct (seed_order n))"
proof -
  have "joined_ok n" "same_client n0 n"
    using client_run_keeps [OF assms(2)] network_init_ok [OF assms(1)] by simp_all
  with network_init_ok [OF assms(1)] show ?thesis
    by (simp add: same_client_fields seed_order_ok)
qed

lemma demo_network_join:
  "join_network demo_prims txt (demo_send ''completed'') fr (demo_network, []) =
     ((demo_network\<lparr>nw_joined := [''http://b''], nw_renewing := True\<rparr>, [''http://a'', ''http://b'']),
      Inr (JObj [(''agent_id'', JStr ''agent'')]))"
proof -
  obtain b0 where b0: "announce_body demo_prims (fr 0) demo_network ''AVAILABLE'' True = Inr b0"
    using demo_announce_body by blast
  obtain b1 where b1: "announce_body demo_prims (fr (Suc 0)) demo_network ''AVAILABLE'' True = Inr b1"
    using demo_announce_body by blast
  have "join_seeds demo_prims txt (demo_send ''completed'') fr 0 [''http://a'', ''http://b'', ''http://c''] None (demo_network, []) =
      ((demo_network\<lparr>nw_joined := [''http://b''], nw_renewing := True\<rparr>, [''http://a'', ''http://b'']),
       Inr (JObj [(''agent_id'', JStr ''agent'')]))"
    by (simp add: catchA_def join_one_def b0 b1 bindA_def demo_send_def join_answer_def
        task_state_of_def task_metadata_of_def demo_answer_def py_or_def List.insert_def)
  then show ?thesis by (simp add: join_network_def)
qed

lemma client_invariant_witness:
  "\<exists>n w. (client_step demo_prims (\<lambda>e. []) (demo_send ''completed''))\<^sup>*\<^sup>* (demo_network, []) (n, w) \<and>
     nw_joined n = [''http://b''] \<and> seed_order n = [''http://b'', ''http://a'', ''http://c''] \<and> joined_ok n"
proof -
  let ?fr = "\<lambda>k. \<lparr>af_timestamp = ''t'', af_nonce = ''n'', af_policy_time = ''t'', af_enrollment_time = ''t''\<rparr>"
  let ?n = "demo_network\<lparr>nw_joined := [''http://b''], nw_renewing := True\<rparr>" and ?w = "[''http://a'', ''http://b'']"
  have "client_step demo_prims (\<lambda>e. []) (demo_send ''completed'') (demo_network, []) (?n, ?w)"
    using client_step.joins [of demo_prims "\<lambda>e. []" "demo_send ''completed''" "(demo_network, [])" ?fr]
    by (simp add: demo_network_join)
  then have r: "(client_step demo_prims (\<lambda>e. []) (demo_send ''completed''))\<^sup>*\<^sup>* (demo_network, []) (?n, ?w)" by simp
  have ok: "joined_ok ?n" using client_invariant [OF demo_network_init r] by (rule conjunct1)
  show ?thesis by (rule exI [of _ ?n], rule exI [of _ ?w]) (simp add: r ok seed_order_def)
qed

text \<open>
  C25: joining: the client joins at one of its Seeds that accepted an announcement with the state
  \<open>completed\<close>, remembers this Seed, starts the renewal and returns the Seed's answer; or no Seed did, it
  raises \<open>NO_SEED\<close>, and what it remembers is unchanged.
\<close>

theorem join_remembers_accepting_seed:
  assumes "join_network E txt send fr nw = (nw', r)"
  shows "case r of
      Inr md \<Rightarrow> \<exists>s \<in> set (nw_seeds (fst nw)). \<exists>k nw1. fst nw1 = fst nw \<and> accepted_by E send (fr k) s nw1 nw' md
    | Inl e \<Rightarrow> fst nw' = fst nw \<and> (\<exists>t. e = NetworkError ''NO_SEED'' t)"
proof (cases r)
  case (Inl e)
  with assms have "join_seeds E txt send fr 0 (nw_seeds (fst nw)) None nw = (nw', Inl e)" by (simp add: join_network_def)
  from join_seeds_Inl [OF this] join_seeds_code [OF this] Inl show ?thesis by simp
next
  case (Inr md)
  with assms have "join_seeds E txt send fr 0 (nw_seeds (fst nw)) None nw = (nw', Inr md)" by (simp add: join_network_def)
  from join_seeds_Inr [OF this] Inr show ?thesis by simp
qed

lemma join_remembers_accepting_seed_witness:
  "\<forall>fr. \<exists>s \<in> set (nw_seeds demo_network). \<exists>(k::nat) nw1. fst nw1 = demo_network \<and>
     accepted_by demo_prims (demo_send ''completed'') (fr k) s nw1
       (demo_network\<lparr>nw_joined := [''http://b''], nw_renewing := True\<rparr>, [''http://a'', ''http://b''])
       (JObj [(''agent_id'', JStr ''agent'')])"
proof
  fix fr
  from join_remembers_accepting_seed [OF demo_network_join [of "\<lambda>e. []" fr]]
  show "\<exists>s \<in> set (nw_seeds demo_network). \<exists>(k::nat) nw1. fst nw1 = demo_network \<and>
     accepted_by demo_prims (demo_send ''completed'') (fr k) s nw1
       (demo_network\<lparr>nw_joined := [''http://b''], nw_renewing := True\<rparr>, [''http://a'', ''http://b''])
       (JObj [(''agent_id'', JStr ''agent'')])" by (simp only: sum.case fst_conv)
qed

text \<open>
  Leaving tells one Seed: if the first joined Seed answers, whatever it answers (also when it refuses),
  the client contacts no other, forgets all its Seeds and stops renewing.
\<close>

theorem leave_tells_one_seed:
  assumes "nw_joined n = s # ss" "signed_body E n (leave_fields n now) = Inr b"
    and "send s (seed_message ''network.leave'' b) w = (w', Inr task)"
  shows "leave_network E txt send now (n, w) =
    ((n\<lparr>nw_joined := [], nw_renewing := False\<rparr>, w'), Inr (task_metadata_of task))"
proof -
  have "seed_order n = s # ss @ filter (\<lambda>s'. s' \<notin> set (s # ss)) (nw_seeds n)"
    by (simp add: seed_order_def assms(1))
  then have "message_any txt send n (seed_message ''network.leave'' b) w = (w', Inr task)"
    by (rule message_any_first) (fact assms(3))
  then have "post_body E txt send n ''network.leave'' (leave_fields n now) w = (w', Inr task)"
    by (simp add: post_body_def assms(2))
  then show ?thesis by (simp add: leave_network_def)
qed

lemma leave_tells_one_seed_witness:
  "\<forall>txt. leave_network demo_prims txt (demo_send ''failed'') ''now''
     (demo_network\<lparr>nw_joined := [''http://b'', ''http://c''], nw_renewing := True\<rparr>, []) =
   ((demo_network, [''http://b'']), Inr (JObj [(''agent_id'', JStr ''agent'')]))"
proof
  fix str :: "err \<Rightarrow> string"
  let ?n = "demo_network\<lparr>nw_joined := [''http://b'', ''http://c''], nw_renewing := True\<rparr>"
  have "\<exists>b. signed_body demo_prims ?n (leave_fields ?n ''now'') = Inr b"
    by (rule signed_body_total) (simp_all add: leave_fields_def)
  then obtain b where b: "signed_body demo_prims ?n (leave_fields ?n ''now'') = Inr b" by blast
  have s: "demo_send ''failed'' ''http://b'' (seed_message ''network.leave'' b) [] = ([''http://b''], Inr (demo_answer ''failed''))"
    by (simp add: demo_send_def)
  have m: "task_metadata_of (demo_answer ''failed'') = JObj [(''agent_id'', JStr ''agent'')]"
    by (simp add: task_metadata_of_def demo_answer_def py_or_def)
  have n: "?n\<lparr>nw_joined := [], nw_renewing := False\<rparr> = demo_network"
    by (simp add: demo_network_def network_init_def)
  have "nw_joined ?n = ''http://b'' # [''http://c'']" by simp
  from leave_tells_one_seed [where send = "demo_send ''failed''" and s = "''http://b''", OF this b s, of str]
  show "leave_network demo_prims str (demo_send ''failed'') ''now'' (?n, []) =
      ((demo_network, [''http://b'']), Inr (JObj [(''agent_id'', JStr ''agent'')]))" by (simp only: m n)
qed

text \<open>
  Connecting: the endpoint of a peer is the address that its card gives, whoever signed the card, and
  the address known from discovery if the card gives none; without both there is no peer.
\<close>

theorem connect_endpoint:
  assumes "truthy (sm_agent_card_url agent)" "get_card (sm_agent_card_url agent) w = (w', Inr crd)"
    and "resolve_a2a_url E crd = Inr found"
  shows "case found of
      Some (c # cs) \<Rightarrow> \<exists>p. connect E get_card agent w = (w', Inr p) \<and> pr_endpoint p = rstrip_chars ''/'' (c # cs)
    | _ \<Rightarrow> (case sm_endpoint agent of
             JStr (c # cs) \<Rightarrow> \<exists>p. connect E get_card agent w = (w', Inr p) \<and> pr_endpoint p = rstrip_chars ''/'' (c # cs)
           | _ \<Rightarrow> \<exists>e. connect E get_card agent w = (w', Inl e))"
  using assms by (auto simp: connect_def bindA_def Let_def split: option.split list.split json.split)

definition demo_summary :: summary where
  "demo_summary =
     \<lparr>sm_agent_id = JStr ''agent'', sm_name = JStr ''agent'', sm_agent_card_url = JStr ''http://h/card'',
      sm_endpoint = JStr ''http://h/a2a'', sm_online = True, sm_public_key = JStr (public_key demo_identity),
      sm_capabilities = [], sm_raw = []\<rparr>"

lemma connect_endpoint_witness:
  "\<exists>p. connect demo_prims (\<lambda>url w. (w, Inr (JObj [(''url'', JStr ''http://x/a2a'')]))) demo_summary () = ((), Inr p) \<and>
     pr_endpoint p = rstrip_chars ''/'' ''http://x/a2a''"
proof -
  have f: "resolve_a2a_url demo_prims (JObj [(''url'', JStr ''http://x/a2a'')]) = Inr (Some ''http://x/a2a'')"
    by (simp add: resolve_a2a_url_def py_or_def)
  have g: "(\<lambda>url w. (w, Inr (JObj [(''url'', JStr ''http://x/a2a'')]))) (sm_agent_card_url demo_summary) () =
     ((), Inr (JObj [(''url'', JStr ''http://x/a2a'')]) :: json res)" by simp
  have t: "truthy (sm_agent_card_url demo_summary)" by (simp add: demo_summary_def)
  from connect_endpoint [where get_card = "\<lambda>url w. (w, Inr (JObj [(''url'', JStr ''http://x/a2a'')]))", OF t g f]
  show ?thesis by simp
qed

end
