(* ===== verification/Presence.thy ===== *)
theory Presence
  imports Network Seed
begin

text \<open>
  The client of the Seeds together with the reference Seed: what the client signs, the Seed accepts, and how
  long an agent that announces and renews itself as the client does can be discovered.
\<close>

section \<open>Messages between them\<close>

lemma seed_message_data [simp]: "message_data (seed_message capability body) = Inr body"
  by (simp add: message_data_def seed_message_def data_part_def)

text \<open>The descriptors a client announces are kept by the Seed under their ids.\<close>

definition describes :: "string \<Rightarrow> json \<Rightarrow> bool" where
  "describes capability x \<longleftrightarrow> (\<exists>c. x = capability_to_dict c \<and> c_id c = JStr capability)"

lemma from_to_dict: "\<exists>c'. from_value E (capability_to_dict c) = Inr c' \<and> c_id c' = c_id c"
  by (simp add: capability_to_dict_def)

lemma announced_descriptors:
  assumes "network_init E i seeds cu ep caps lease = Inr n" "x \<in> set (nw_capabilities n)"
  shows "\<exists>c. x = capability_to_dict c"
proof -
  from assms(1) have "list_all2 (\<lambda>item y. bindR (from_value E item) (\<lambda>c. Inr (capability_to_dict c)) = Inr y)
      caps (nw_capabilities n)"
    by (auto simp: network_init_def mapR_Inr_iff)
  then have "\<forall>x \<in> set (nw_capabilities n). \<exists>c. x = capability_to_dict c"
    by (induction rule: list_all2_induct) (auto simp: bindR_Inr_iff)
  with assms(2) show ?thesis by blast
qed

lemma kept_descriptors:
  assumes "\<And>x. x \<in> set xs \<Longrightarrow> \<exists>c. x = capability_to_dict c"
  obtains ys where "mapR (\<lambda>item. bindR (from_value E item) (\<lambda>c. Inr (capability_to_dict c))) xs = Inr ys"
    "\<forall>y capability. y \<in> set xs \<longrightarrow> describes capability y \<longrightarrow> (\<exists>z \<in> set ys. describes capability z)"
proof -
  let ?f = "\<lambda>item. bindR (from_value E item) (\<lambda>c. Inr (capability_to_dict c))"
  let ?g = "\<lambda>item. projr (?f item)"
  have one: "\<exists>c'. ?f (capability_to_dict c) = Inr (capability_to_dict c') \<and> c_id c' = c_id c" for c
  proof -
    obtain c' where "from_value E (capability_to_dict c) = Inr c'" "c_id c' = c_id c" using from_to_dict by blast
    then show ?thesis by auto
  qed
  have "?f x = Inr (?g x)" if x: "x \<in> set xs" for x
  proof -
    obtain c where "x = capability_to_dict c" using assms [OF x] by blast
    with one [of c] show ?thesis by auto
  qed
  then have "mapR ?f xs = Inr (map ?g xs)" by (rule mapR_total)
  moreover have "\<exists>z \<in> set (map ?g xs). describes capability z" if y: "y \<in> set xs" "describes capability y" for y capability
  proof -
    from y(2) obtain c where "y = capability_to_dict c" "c_id c = JStr capability" by (auto simp: describes_def)
    with one [of c] have "describes capability (?g y)" by (auto simp: describes_def)
    with y(1) show ?thesis by auto
  qed
  ultimately show ?thesis using that by blast
qed

lemma describes_provides:
  "x \<in> set (en_capabilities e) \<Longrightarrow> describes capability x \<Longrightarrow> \<exists>c. provides E capability JNull e c"
proof -
  assume x: "x \<in> set (en_capabilities e)" "describes capability x"
  then obtain c where "x = capability_to_dict c" "c_id c = JStr capability" by (auto simp: describes_def)
  with x from_to_dict [of E c] show ?thesis
    by (auto simp: provides_def version_matches_value_def)
qed

section \<open>Announcing\<close>

text \<open>The lease the Seed grants, in seconds.\<close>

definition granted :: "int \<Rightarrow> int" where
  "granted lease_seconds = (if lease_seconds = 0 then 1800 else max 30 (min lease_seconds 7200))"

lemma announced_fields:
  assumes "announce_body E fr n av ac = Inr body" "ed25519_ok E" "identity_ok E (nw_identity n)"
  obtains policy s where "s \<noteq> []" "dget body ''signature'' = JStr s"
    "verify_object E (public_key (nw_identity n)) body s = Inr True"
    "\<forall>k. k \<notin> {''signature'', ''enrollment''} \<longrightarrow> dget body k = dget (announce_fields fr n av ac policy) k"
proof -
  obtain policy enrollment where
    b: "sign_into E (nw_identity n) ''signature'' (announcement fr n av ac policy enrollment) = Inr body"
    by (rule announce_body_shape [OF assms(1)])
  obtain s where s: "s \<noteq> []" "body = dset (announcement fr n av ac policy enrollment) ''signature'' (JStr s)"
    "verify_object E (public_key (nw_identity n)) body s = Inr True"
    by (rule sign_into_signed [OF assms(2,3) b])
  then have "dget body ''signature'' = JStr s" by simp
  moreover have "\<forall>k. k \<notin> {''signature'', ''enrollment''} \<longrightarrow> dget body k = dget (announce_fields fr n av ac policy) k"
    unfolding s(2) by (simp add: announcement_field)
  ultimately show ?thesis using that s(1,3) by blast
qed

text \<open>The entry of the client in the directory of a Seed.\<close>

definition entry_of :: "network \<Rightarrow> string \<Rightarrow> json list \<Rightarrow> int \<Rightarrow> int \<Rightarrow> entry" where
  "entry_of n av caps seen expires =
     \<lparr>en_agent_id = i_agent_id (nw_identity n), en_public_key = public_key (nw_identity n),
      en_agent_card_url = nw_agent_card_url n, en_endpoint = nw_endpoint n, en_capabilities = caps,
      en_availability = av, en_lease_expires_at = expires, en_last_seen = seen\<rparr>"

lemma announced_entry:
  assumes "announce_body E fr n av ac = Inr body" "ed25519_ok E" "identity_ok E (nw_identity n)"
    and "i_agent_id (nw_identity n) \<noteq> []" "av \<noteq> []"
    and caps: "\<And>x. x \<in> set (nw_capabilities n) \<Longrightarrow> \<exists>c. x = capability_to_dict c"
  obtains ys where
    "join_entry E now body = Inr (entry_of n av ys now (now + seconds (granted (nw_lease_seconds n))), granted (nw_lease_seconds n))"
    "\<forall>y capability. y \<in> set (nw_capabilities n) \<longrightarrow> describes capability y \<longrightarrow> (\<exists>z \<in> set ys. describes capability z)"
    "\<forall>p. message_data (pl_message p) = Inr body \<longrightarrow> announce_ok E p body"
proof -
  obtain policy s where s: "s \<noteq> []" "dget body ''signature'' = JStr s"
    "verify_object E (public_key (nw_identity n)) body s = Inr True"
    "\<forall>k. k \<notin> {''signature'', ''enrollment''} \<longrightarrow> dget body k = dget (announce_fields fr n av ac policy) k"
    by (rule announced_fields [OF assms(1-3)])
  obtain ys where ys:
    "mapR (\<lambda>item. bindR (from_value E item) (\<lambda>c. Inr (capability_to_dict c))) (nw_capabilities n) = Inr ys"
    "\<forall>y capability. y \<in> set (nw_capabilities n) \<longrightarrow> describes capability y \<longrightarrow> (\<exists>z \<in> set ys. describes capability z)"
    by (rule kept_descriptors [OF caps])
  have texts: "text_field E body ''agent_id'' = i_agent_id (nw_identity n)"
    "text_field E body ''public_key'' = public_key (nw_identity n)"
    "text_field E body ''agent_card_url'' = nw_agent_card_url n"
    "text_field E body ''endpoint'' = nw_endpoint n"
    using assms(4) by (auto simp: text_field_def s(4) announce_fields_def py_or_def)
  have sig: "text_field E body ''signature'' = s" using s(1,2) by (simp add: text_field_def)
  have rest: "dget body ''requested_lease_seconds'' = JInt (nw_lease_seconds n)"
    "dget body ''capabilities'' = JArr (nw_capabilities n)"
    "dget body ''availability'' = JObj [(''accept_new_tasks'', JBool ac), (''status'', JStr av)]"
    by (simp_all add: s(4) announce_fields_def)
  have "join_entry E now body =
      Inr (entry_of n av ys now (now + seconds (granted (nw_lease_seconds n))), granted (nw_lease_seconds n))"
    using assms(5) unfolding join_entry_def rest texts
    using ys(1) by (cases "nw_capabilities n = []") (simp_all add: entry_of_def granted_def Let_def py_or_def)
  moreover have "\<forall>p. message_data (pl_message p) = Inr body \<longrightarrow> announce_ok E p body"
    using assms(4) s(1,3) by (simp add: announce_ok_def texts sig)
  ultimately show ?thesis using that ys(2) by blast
qed

lemma announced_joins:
  assumes "announce_body E fr n av ac = Inr body" "ed25519_ok E" "identity_ok E (nw_identity n)"
    and "i_agent_id (nw_identity n) \<noteq> []" "av \<noteq> []"
    and "\<And>x. x \<in> set (nw_capabilities n) \<Longrightarrow> \<exists>c. x = capability_to_dict c"
    and "message_data (pl_message p) = Inr body"
    and "\<And>known. dir_get d (i_agent_id (nw_identity n)) = Some known \<Longrightarrow> en_public_key known = public_key (nw_identity n)"
  obtains ys md where
    "seed_join E now p d =
       (dir_put d (entry_of n av ys now (now + seconds (granted (nw_lease_seconds n)))), Inr (hr_completed md))"
    "\<forall>y capability. y \<in> set (nw_capabilities n) \<longrightarrow> describes capability y \<longrightarrow> (\<exists>z \<in> set ys. describes capability z)"
proof -
  obtain ys where ys:
    "join_entry E now body = Inr (entry_of n av ys now (now + seconds (granted (nw_lease_seconds n))), granted (nw_lease_seconds n))"
    "\<forall>y capability. y \<in> set (nw_capabilities n) \<longrightarrow> describes capability y \<longrightarrow> (\<exists>z \<in> set ys. describes capability z)"
    "\<forall>p. message_data (pl_message p) = Inr body \<longrightarrow> announce_ok E p body"
    by (rule announced_entry [OF assms(1-6)]) auto
  have "\<exists>md. seed_join E now p d =
       (dir_put d (entry_of n av ys now (now + seconds (granted (nw_lease_seconds n)))), Inr (hr_completed md))"
    by (rule seed_join_accepts [OF ys(3) [rule_format, OF assms(7)] ys(1)]) (simp add: entry_of_def assms(8))
  with that ys(2) show ?thesis by blast
qed

section \<open>Renewing\<close>

definition renew_payload :: "payload \<Rightarrow> prims \<Rightarrow> network \<Rightarrow> string \<Rightarrow> bool" where
  "renew_payload p E n now \<longleftrightarrow>
     (\<exists>b. signed_body E n (renew_fields n now) = Inr b \<and> pl_message p = seed_message ''network.renew'' b)"

lemma renewed_entry:
  assumes "ed25519_ok E" "identity_ok E (nw_identity n)" "i_agent_id (nw_identity n) \<noteq> []" "renew_payload p E n ts"
    and "dir_get d (i_agent_id (nw_identity n)) = Some e" "en_public_key e = public_key (nw_identity n)"
  shows "dir_get (seed_step E d (Renew, now, stamp, p)) (i_agent_id (nw_identity n)) =
    Some (e\<lparr>en_last_seen := now, en_lease_expires_at := now + seconds 1800\<rparr>)"
proof -
  obtain b where b: "sign_into E (nw_identity n) ''signature'' (renew_fields n ts) = Inr b"
    "pl_message p = seed_message ''network.renew'' b"
    using assms(4) by (auto simp: renew_payload_def signed_body_def)
  obtain s where s: "s \<noteq> []" "b = dset (renew_fields n ts) ''signature'' (JStr s)"
    "verify_object E (public_key (nw_identity n)) b s = Inr True"
    by (rule sign_into_signed [OF assms(1,2) b(1)])
  have t: "text_field E b ''agent_id'' = i_agent_id (nw_identity n)" "text_field E b ''signature'' = s"
    using s(1) assms(3) by (simp_all add: text_field_def s(2) renew_fields_def py_or_def)
  have "signed_entry E d b = Inr (Some e)" using s(3) by (simp add: signed_entry_def t assms(5,6))
  then show ?thesis
    by (simp add: seed_step_def seed_handle_def seed_renew_eq b(2) t dir_get_def update_conv)
qed

text \<open>The requests of renewals that arrive at some times.\<close>

definition renewals :: "(int \<Rightarrow> payload) \<Rightarrow> int list \<Rightarrow> request list" where
  "renewals p ts = map (\<lambda>t. (Renew, t, ''stamp'', p t)) ts"

text \<open>The entry after some renewals: seen at the last of them.\<close>

definition renewed_at :: "entry \<Rightarrow> int list \<Rightarrow> entry" where
  "renewed_at e ts =
     (if ts = [] then e
      else e\<lparr>en_last_seen := last ts, en_lease_expires_at := last ts + seconds 1800\<rparr>)"

lemma renewals_entry:
  assumes "ed25519_ok E" "identity_ok E (nw_identity n)" "i_agent_id (nw_identity n) \<noteq> []"
    and "\<And>t. \<exists>stamp. renew_payload (p t) E n stamp"
    and "dir_get d (i_agent_id (nw_identity n)) = Some e" "en_public_key e = public_key (nw_identity n)"
  shows "dir_get (seed_run E d (renewals p ts)) (i_agent_id (nw_identity n)) = Some (renewed_at e ts)"
proof (induction ts rule: rev_induct)
  case (snoc t ts)
  let ?d = "seed_run E d (renewals p ts)"
  obtain stamp where r: "renew_payload (p t) E n stamp" using assms(4) by blast
  have k: "en_public_key (renewed_at e ts) = public_key (nw_identity n)"
    using assms(6) by (simp add: renewed_at_def)
  have "seed_run E d (renewals p (ts @ [t])) = seed_step E ?d (Renew, t, ''stamp'', p t)"
    by (simp add: seed_run_def renewals_def)
  with renewed_entry [OF assms(1-3) r snoc.IH k, of t "''stamp''"] show ?case
    by (simp add: renewed_at_def)
qed (simp add: seed_run_def renewals_def renewed_at_def assms(5))

lemma seconds_simps: "seconds a \<le> seconds b \<longleftrightarrow> a \<le> b" "seconds a < seconds b \<longleftrightarrow> a < b"
  "seconds (a + b) = seconds a + seconds b"
  by (simp_all add: seconds_def algebra_simps)

lemma live_entry_of: "live t (entry_of n ''AVAILABLE'' ys now expires) \<longleftrightarrow> t < expires"
  by (auto simp: live_def entry_of_def)

lemma live_renewed:
  "live t (renewed_at (entry_of n ''AVAILABLE'' ys now expires) ts) \<longleftrightarrow>
   t < (if ts = [] then expires else last ts + seconds 1800)"
  by (auto simp: renewed_at_def live_def entry_of_def)

lemma offers_live:
  assumes "dir_get d a = Some e" "x \<in> set (en_capabilities e)" "describes capability x" "live t e"
  shows "e \<in> set (offers E t d capability JNull)"
proof -
  have "(a, e) \<in> set d" using assms(1) map_of_SomeD by (fastforce simp: dir_get_def)
  then have "e \<in> set (map snd d)" by force
  with describes_provides [OF assms(2,3)] assms(4) show ?thesis by (auto simp: offers_def)
qed

lemma renewed_capabilities [simp]: "en_capabilities (renewed_at e ts) = en_capabilities e"
  by (simp add: renewed_at_def)

lemma entry_of_fields [simp]:
  "en_capabilities (entry_of n av ys now ex) = ys" "en_agent_id (entry_of n av ys now ex) = i_agent_id (nw_identity n)"
  "en_public_key (entry_of n av ys now ex) = public_key (nw_identity n)" "en_endpoint (entry_of n av ys now ex) = nw_endpoint n"
  by (simp_all add: entry_of_def)

section \<open>The concrete client\<close>

lemma demo_descriptors: "describes ''echo'' (nw_capabilities demo_network ! 0) \<and> nw_capabilities demo_network \<noteq> []"
proof -
  have "nw_capabilities demo_network = [capability_to_dict
     \<lparr>c_id = JStr ''echo'', c_version = ''1.0.0'', c_input_schema = [], c_output_schema = [], c_side_effects = ''NONE''\<rparr>]"
    by (simp add: demo_network_def network_init_def)
  then show ?thesis by (auto simp: describes_def)
qed

lemma demo_capability: "x = nw_capabilities demo_network ! 0 \<Longrightarrow> x \<in> set (nw_capabilities demo_network)"
  using demo_descriptors by (simp add: in_set_conv_nth) (metis length_greater_0_conv)

definition demo_afresh :: announce_fresh where
  "demo_afresh = \<lparr>af_timestamp = ''t'', af_nonce = ''n'', af_policy_time = ''t'', af_enrollment_time = ''t''\<rparr>"

definition body_payload :: "string \<Rightarrow> dict \<Rightarrow> payload" where
  "body_payload capability b =
     \<lparr>pl_message = seed_message capability b, pl_metadata = [], pl_capability = capability, pl_task_id = ''t''\<rparr>"

lemma body_payload_message [simp]: "pl_message (body_payload capability b) = seed_message capability b"
  by (simp add: body_payload_def)

definition demo_renewal :: payload where
  "demo_renewal = body_payload ''network.renew'' (projr (signed_body demo_prims demo_network (renew_fields demo_network ''t'')))"

lemma demo_renewal_ok: "renew_payload demo_renewal demo_prims demo_network ''t''"
proof -
  have "finite_json (JObj (renew_fields demo_network ''t''))" by (simp add: renew_fields_def)
  then obtain b where "signed_body demo_prims demo_network (renew_fields demo_network ''t'') = Inr b"
    using signed_body_total [of demo_prims demo_network] by auto
  then show ?thesis by (simp add: renew_payload_def demo_renewal_def)
qed

section \<open>Properties\<close>

text \<open>
  What the client announces, the Seed accepts and offers: the announcement of an agent whose name is new
  to the Seed, or known under the same key, is accepted; the Seed then knows the agent's key and endpoint, grants the lease
  within its bounds, and until the lease ends the agent is among the offers for each capability it announced.
\<close>

theorem announced_agent_is_offered:
  assumes "network_init E i seeds cu ep caps lease = Inr n" "ed25519_ok E" "identity_ok E i" "i_agent_id i \<noteq> []"
    and "announce_body E fr n ''AVAILABLE'' True = Inr body" "message_data (pl_message p) = Inr body"
    and "\<forall>known. dir_get d (i_agent_id i) = Some known \<longrightarrow> en_public_key known = public_key i"
    and "x \<in> set (nw_capabilities n)" "describes capability x" "t < now + seconds (granted lease)"
  shows "\<exists>d' md e. seed_join E now p d = (d', Inr (hr_completed md)) \<and> dir_get d' (i_agent_id i) = Some e \<and>
    en_public_key e = public_key i \<and> en_endpoint e = ep \<and> e \<in> set (offers E t d' capability JNull)"
proof -
  have n: "nw_identity n = i" "nw_lease_seconds n = lease" "nw_endpoint n = ep"
    using assms(1) by (auto simp: network_init_def)
  obtain ys md where j: "seed_join E now p d =
       (dir_put d (entry_of n ''AVAILABLE'' ys now (now + seconds (granted (nw_lease_seconds n)))), Inr (hr_completed md))"
    "\<forall>y capability. y \<in> set (nw_capabilities n) \<longrightarrow> describes capability y \<longrightarrow> (\<exists>z \<in> set ys. describes capability z)"
    by (rule announced_joins [OF assms(5,2) _ _ _ announced_descriptors [OF assms(1)] assms(6), where now = now and d = d])
      (use assms(3,4,7) n in auto)
  let ?e = "entry_of n ''AVAILABLE'' ys now (now + seconds (granted (nw_lease_seconds n)))"
  obtain z where "z \<in> set ys" "describes capability z" using j(2) assms(8,9) by blast
  moreover have g: "dir_get (dir_put d ?e) (i_agent_id i) = Some ?e" by (simp add: dir_get_put n)
  ultimately have "?e \<in> set (offers E t (dir_put d ?e) capability JNull)"
    by (intro offers_live [OF g]) (simp_all add: live_entry_of n assms(10))
  with j(1) g show ?thesis by (auto simp: n)
qed

lemma announced_agent_is_offered_witness:
  "\<exists>body d' md e. announce_body demo_prims demo_afresh demo_network ''AVAILABLE'' True = Inr body \<and>
     seed_join demo_prims 0 (body_payload ''network.join'' body) [] = (d', Inr (hr_completed md)) \<and>
     e \<in> set (offers demo_prims 5 d' ''echo'' JNull) \<and> en_endpoint e = ''http://h/a2a''"
proof -
  obtain body where b: "announce_body demo_prims demo_afresh demo_network ''AVAILABLE'' True = Inr body"
    using demo_announce_body by blast
  have "(5::int) < 0 + seconds (granted 1800)" by (simp add: granted_def seconds_def)
  from announced_agent_is_offered [OF demo_network_init demo_ed25519_ok demo_identity_ok _ b _ _ demo_capability [OF refl]
      conjunct1 [OF demo_descriptors] this, of "body_payload ''network.join'' body" "[]"]
  show ?thesis by (auto simp: b dir_get_def)
qed

text \<open>
  C13: presence is continuous: an agent that asks for a lease of 1 to 3000 seconds, joins, and renews itself
  at the interval the client computes (each renewal at most that long after the contact before) is live at
  every time from each contact until the next is due.
\<close>

theorem presence_is_continuous:
  assumes "ed25519_ok E" "identity_ok E (nw_identity n)" "i_agent_id (nw_identity n) \<noteq> []"
    and "1 \<le> nw_lease_seconds n" "nw_lease_seconds n \<le> 3000"
    and "\<forall>t. \<exists>stamp. renew_payload (p t) E n stamp"
    and "dir_get d (i_agent_id (nw_identity n)) =
          Some (entry_of n ''AVAILABLE'' ys now (now + seconds (granted (nw_lease_seconds n))))"
    and "t < last (now # arrivals) + seconds (renew_interval (nw_lease_seconds n))"
  shows "\<exists>e. dir_get (seed_run E d (renewals p arrivals)) (i_agent_id (nw_identity n)) = Some e \<and> live t e"
proof -
  have le: "renew_interval (nw_lease_seconds n) \<le> granted (nw_lease_seconds n)"
    "renew_interval (nw_lease_seconds n) \<le> 1800"
    using assms(4,5) by (auto simp: renew_interval_def granted_def)
  then have "seconds (renew_interval (nw_lease_seconds n)) \<le> seconds (granted (nw_lease_seconds n))"
    "seconds (renew_interval (nw_lease_seconds n)) \<le> seconds 1800"
    by (simp_all only: seconds_simps)
  then have "t < (if arrivals = [] then now + seconds (granted (nw_lease_seconds n)) else last arrivals + seconds 1800)"
    using assms(8) by auto
  with renewals_entry [OF assms(1-3) assms(6) [rule_format] assms(7)] show ?thesis
    by (auto simp: live_renewed)
qed

text \<open>
  A long lease leaves gaps: the client renews at six tenths of the lease it asked for, and a renewal is
  good for 1800 seconds only. An agent that asks for more than 3001 seconds is not live between the
  end of those 1800 seconds and its next renewal, after every renewal it makes.
\<close>

theorem long_lease_leaves_gaps:
  assumes "ed25519_ok E" "identity_ok E (nw_identity n)" "i_agent_id (nw_identity n) \<noteq> []"
    and "3001 < nw_lease_seconds n" "\<forall>t. \<exists>stamp. renew_payload (p t) E n stamp"
    and "dir_get d (i_agent_id (nw_identity n)) =
          Some (entry_of n ''AVAILABLE'' ys now (now + seconds (granted (nw_lease_seconds n))))"
    and "arrivals \<noteq> []"
  shows "\<exists>t e. last arrivals < t \<and> t < last arrivals + seconds (renew_interval (nw_lease_seconds n)) \<and>
    dir_get (seed_run E d (renewals p arrivals)) (i_agent_id (nw_identity n)) = Some e \<and> \<not> live t e"
proof -
  have "1800 < renew_interval (nw_lease_seconds n)" using assms(4) by (simp add: renew_interval_def)
  then have "last arrivals + seconds 1800 < last arrivals + seconds (renew_interval (nw_lease_seconds n))"
    by (simp add: seconds_simps)
  moreover have "last arrivals < last arrivals + seconds 1800" by (simp add: seconds_def)
  ultimately show ?thesis
    using renewals_entry [OF assms(1-3) assms(5) [rule_format] assms(6), where ts = arrivals] assms(7)
    by (intro exI [of _ "last arrivals + seconds 1800"]) (auto simp: live_renewed)
qed

text \<open>The directory after the concrete client joined, asking for a given lease.\<close>

definition demo_client :: "int \<Rightarrow> network" where
  "demo_client lease = demo_network\<lparr>nw_lease_seconds := lease\<rparr>"

definition demo_entry_of :: "int \<Rightarrow> entry" where
  "demo_entry_of lease = entry_of (demo_client lease) ''AVAILABLE'' [] 0 (0 + seconds (granted lease))"

lemma demo_client_simps [simp]:
  "nw_identity (demo_client lease) = demo_identity" "nw_lease_seconds (demo_client lease) = lease"
  by (simp_all add: demo_client_def)

lemma demo_client_renews: "\<forall>t. \<exists>stamp. renew_payload ((\<lambda>_. demo_renewal) t) demo_prims (demo_client lease) stamp"
  using demo_renewal_ok by (auto simp: renew_payload_def signed_body_def renew_fields_def)

lemma presence_is_continuous_witness:
  "\<exists>e. dir_get (seed_run demo_prims [(''agent'', demo_entry_of 3000)] (renewals (\<lambda>_. demo_renewal) [seconds 1800, seconds 3600])) ''agent'' = Some e \<and>
     live (seconds 5399) e"
proof -
  have t: "seconds 5399 < last (0 # [seconds 1800, seconds 3600]) + seconds (renew_interval (nw_lease_seconds (demo_client 3000)))"
    by (simp add: seconds_def renew_interval_def)
  have d: "dir_get [(''agent'', demo_entry_of 3000)] (i_agent_id (nw_identity (demo_client 3000))) =
      Some (entry_of (demo_client 3000) ''AVAILABLE'' [] 0 (0 + seconds (granted (nw_lease_seconds (demo_client 3000)))))"
    by (simp add: dir_get_def demo_entry_of_def)
  have "identity_ok demo_prims (nw_identity (demo_client 3000))" "i_agent_id (nw_identity (demo_client 3000)) \<noteq> []"
    "1 \<le> nw_lease_seconds (demo_client 3000)" "nw_lease_seconds (demo_client 3000) \<le> 3000" by simp_all
  from presence_is_continuous [OF demo_ed25519_ok this demo_client_renews d t] show ?thesis by simp
qed

lemma long_lease_leaves_gaps_witness:
  "\<exists>t e. seconds 4320 < t \<and> t < seconds 8640 \<and>
     dir_get (seed_run demo_prims [(''agent'', demo_entry_of 7200)] (renewals (\<lambda>_. demo_renewal) [seconds 4320])) ''agent'' = Some e \<and>
     \<not> live t e"
proof -
  have d: "dir_get [(''agent'', demo_entry_of 7200)] (i_agent_id (nw_identity (demo_client 7200))) =
      Some (entry_of (demo_client 7200) ''AVAILABLE'' [] 0 (0 + seconds (granted (nw_lease_seconds (demo_client 7200)))))"
    by (simp add: dir_get_def demo_entry_of_def)
  have a: "identity_ok demo_prims (nw_identity (demo_client 7200))" "i_agent_id (nw_identity (demo_client 7200)) \<noteq> []"
    "3001 < nw_lease_seconds (demo_client 7200)" by simp_all
  have "renew_interval 7200 = 4320" by (simp add: renew_interval_def)
  moreover have "seconds 4320 + seconds 4320 = seconds 8640" by (simp add: seconds_def)
  ultimately show ?thesis
    using long_lease_leaves_gaps [OF demo_ed25519_ok a demo_client_renews d, of "[seconds 4320]"] by simp
qed

end
