(* ===== verification/Registry.thy ===== *)
theory Registry
  imports Seed
begin

text \<open>
  What the reference Seed promises, as an abstract registry that knows nothing of messages, and the proof that
  the Seed's directory implements it; the types and bounds of what the directory stores, and that
  discovery over it does not fail.
\<close>

section \<open>The abstract registry\<close>

record listing =
  li_key :: string
  li_open :: bool
  li_until :: int

type_synonym registry = "string \<rightharpoonup> listing"

text \<open>
  A claim about an agent: it announces a key and a time, or whoever holds a fitting key extends or ends its
  listing. \<open>fits\<close> is the keys under which the claim is signed.
\<close>

datatype claim =
    Announces string string bool int
  | Extends string "string \<Rightarrow> bool" int
  | Ends string "string \<Rightarrow> bool" int
  | Nothing

fun registry_step :: "claim \<Rightarrow> registry \<Rightarrow> registry" where
  "registry_step (Announces a k opn t) r =
     (if \<forall>l. r a = Some l \<longrightarrow> li_key l = k then r(a \<mapsto> \<lparr>li_key = k, li_open = opn, li_until = t\<rparr>) else r)"
| "registry_step (Extends a fits t) r =
     (case r a of Some l \<Rightarrow> if fits (li_key l) then r(a \<mapsto> l\<lparr>li_until := t\<rparr>) else r | None \<Rightarrow> r)"
| "registry_step (Ends a fits t) r =
     (case r a of Some l \<Rightarrow> if fits (li_key l) then r(a \<mapsto> l\<lparr>li_open := False, li_until := t\<rparr>) else r | None \<Rightarrow> r)"
| "registry_step Nothing r = r"

definition listed :: "int \<Rightarrow> listing \<Rightarrow> bool" where
  "listed now l \<longleftrightarrow> li_open l \<and> now < li_until l"

section \<open>The directory as a registry\<close>

definition listing_of :: "entry \<Rightarrow> listing" where
  "listing_of e = \<lparr>li_key = en_public_key e, li_open = (en_availability e = ''AVAILABLE''), li_until = en_lease_expires_at e\<rparr>"

definition registry_of :: "directory \<Rightarrow> registry" where
  "registry_of d a = map_option listing_of (dir_get d a)"

text \<open>The keys that signed a body.\<close>

definition signed_under :: "prims \<Rightarrow> dict \<Rightarrow> string \<Rightarrow> bool" where
  "signed_under E body k \<longleftrightarrow> verify_object E k body (text_field E body ''signature'') = Inr True"

text \<open>The claim of a request.\<close>

definition join_claim :: "prims \<Rightarrow> int \<Rightarrow> payload \<Rightarrow> dict \<Rightarrow> claim" where
  "join_claim E now p body =
     (case join_entry E now body of
        Inl x \<Rightarrow> Nothing
      | Inr (e, lease) \<Rightarrow>
          if announce_ok E p body
          then Announces (en_agent_id e) (en_public_key e) (en_availability e = ''AVAILABLE'') (now + seconds lease)
          else Nothing)"

definition claim_of :: "prims \<Rightarrow> request \<Rightarrow> claim" where
  "claim_of E r =
     (case r of (s, now, ts, p) \<Rightarrow>
        (case message_data (pl_message p) of
           Inl x \<Rightarrow> Nothing
         | Inr body \<Rightarrow>
             (case s of
                Join \<Rightarrow> join_claim E now p body
              | Renew \<Rightarrow> Extends (text_field E body ''agent_id'') (signed_under E body) (now + seconds 1800)
              | Leave \<Rightarrow> Ends (text_field E body ''agent_id'') (signed_under E body) now
              | _ \<Rightarrow> Nothing)))"

lemma listing_of_simps [simp]:
  "li_key (listing_of e) = en_public_key e" "li_open (listing_of e) \<longleftrightarrow> en_availability e = ''AVAILABLE''"
  "li_until (listing_of e) = en_lease_expires_at e"
  by (simp_all add: listing_of_def)

lemma registry_of_put: "registry_of (dir_put d e) = (registry_of d)(en_agent_id e \<mapsto> listing_of e)"
  by (auto simp: registry_of_def dir_get_put)

lemma registry_of_update: "registry_of (AList.update a e d) = (registry_of d)(a \<mapsto> listing_of e)"
  by (auto simp: registry_of_def dir_get_def update_conv)

lemma signed_entry_signed:
  "signed_entry E d body = Inr (Some e) \<longleftrightarrow>
     dir_get d (text_field E body ''agent_id'') = Some e \<and> signed_under E body (en_public_key e)"
  by (auto simp: signed_entry_def signed_under_def bindR_Inr_iff split: option.splits if_splits)

lemma not_signed_entry:
  "(\<forall>e. signed_entry E d body \<noteq> Inr (Some e)) \<Longrightarrow>
   registry_step (Extends (text_field E body ''agent_id'') (signed_under E body) t) (registry_of d) = registry_of d \<and>
   registry_step (Ends (text_field E body ''agent_id'') (signed_under E body) t) (registry_of d) = registry_of d"
  by (auto simp: signed_entry_signed registry_of_def split: option.split)

lemma seed_renew_unsigned:
  "message_data (pl_message p) = Inr body \<Longrightarrow> \<forall>e. signed_entry E d body \<noteq> Inr (Some e) \<Longrightarrow>
   fst (seed_renew E now p d) = d \<and> fst (seed_leave E now p d) = d"
  by (simp add: seed_renew_eq seed_leave_eq split: sum.split option.split)

lemma renew_refines:
  assumes "message_data (pl_message p) = Inr body"
  shows "registry_of (fst (seed_renew E now p d)) =
      registry_step (Extends (text_field E body ''agent_id'') (signed_under E body) (now + seconds 1800)) (registry_of d)"
    and "registry_of (fst (seed_leave E now p d)) =
      registry_step (Ends (text_field E body ''agent_id'') (signed_under E body) now) (registry_of d)"
proof -
  let ?a = "text_field E body ''agent_id''"
  have "registry_of (fst (seed_renew E now p d)) =
      registry_step (Extends ?a (signed_under E body) (now + seconds 1800)) (registry_of d) \<and>
    registry_of (fst (seed_leave E now p d)) = registry_step (Ends ?a (signed_under E body) now) (registry_of d)"
  proof (cases "\<exists>e. signed_entry E d body = Inr (Some e)")
    case True
    then obtain e where e: "signed_entry E d body = Inr (Some e)" by blast
    then have g: "dir_get d ?a = Some e" "signed_under E body (en_public_key e)" by (simp_all add: signed_entry_signed)
    then have "registry_of d ?a = Some (listing_of e)" by (simp add: registry_of_def)
    with g e assms show ?thesis
      by (simp add: seed_renew_eq seed_leave_eq registry_of_update listing_of_def)
  next
    case False
    then have n: "\<forall>e. signed_entry E d body \<noteq> Inr (Some e)" by blast
    show ?thesis using seed_renew_unsigned [OF assms n] not_signed_entry [OF n] by (simp del: registry_step.simps)
  qed
  then show "registry_of (fst (seed_renew E now p d)) =
      registry_step (Extends ?a (signed_under E body) (now + seconds 1800)) (registry_of d)"
    "registry_of (fst (seed_leave E now p d)) = registry_step (Ends ?a (signed_under E body) now) (registry_of d)"
    by blast+
qed

lemma join_refused:
  assumes "message_data (pl_message p) = Inr body"
    and "\<not> (announce_ok E p body \<and> (\<exists>e lease. join_entry E now body = Inr (e, lease) \<and>
        (\<forall>known. dir_get d (en_agent_id e) = Some known \<longrightarrow> en_public_key known = en_public_key e)))"
  shows "fst (seed_join E now p d) = d"
proof (rule ccontr)
  assume ne: "fst (seed_join E now p d) \<noteq> d"
  obtain d' r where j: "seed_join E now p d = (d', r)" by fastforce
  show False
  proof (rule seed_join_cases [OF j])
    fix b e lease md
    assume c: "signed_change E p e d d'" "r = Inr (hr_completed md)" "message_data (pl_message p) = Inr b"
      "join_entry E now b = Inr (e, lease)"
    then have b: "b = body" using assms(1) by simp
    obtain b' e' l' where "announce_ok E p b'" by (rule seed_join_accepted [OF j [unfolded c(2)]])
    then have "announce_ok E p body" using assms(1) by (simp add: announce_ok_def)
    with c b assms(2) show False by (auto simp: signed_change_def)
  qed (use ne j in simp)
qed

lemma join_refines:
  assumes "message_data (pl_message p) = Inr body"
  shows "registry_of (fst (seed_join E now p d)) = registry_step (join_claim E now p body) (registry_of d)"
proof (cases "announce_ok E p body \<and> (\<exists>e lease. join_entry E now body = Inr (e, lease))")
  case True
  then obtain e lease where e: "announce_ok E p body" "join_entry E now body = Inr (e, lease)" by blast
  have c: "join_claim E now p body =
      Announces (en_agent_id e) (en_public_key e) (en_availability e = ''AVAILABLE'') (now + seconds lease)"
    by (simp add: join_claim_def e)
  show ?thesis
  proof (cases "\<forall>known. dir_get d (en_agent_id e) = Some known \<longrightarrow> en_public_key known = en_public_key e")
    case True
    then obtain md where "seed_join E now p d = (dir_put d e, Inr (hr_completed md))"
      using seed_join_accepts [OF e, of d] by blast
    moreover have "listing_of e =
        \<lparr>li_key = en_public_key e, li_open = (en_availability e = ''AVAILABLE''), li_until = now + seconds lease\<rparr>"
      using join_entry_fields(5) [OF e(2)] by (simp add: listing_of_def)
    moreover from True have "\<forall>l. registry_of d (en_agent_id e) = Some l \<longrightarrow> li_key l = en_public_key e"
      by (auto simp: registry_of_def)
    ultimately show ?thesis unfolding c by (simp add: registry_of_put)
  next
    case False
    then have "fst (seed_join E now p d) = d" by (intro join_refused [OF assms]) (use e(2) in auto)
    moreover from False have "\<not> (\<forall>l. registry_of d (en_agent_id e) = Some l \<longrightarrow> li_key l = en_public_key e)"
      by (auto simp: registry_of_def)
    ultimately show ?thesis unfolding c registry_step.simps by (simp only: if_False)
  qed
next
  case False
  then have "join_claim E now p body = Nothing" by (auto simp: join_claim_def split: sum.split)
  moreover have "fst (seed_join E now p d) = d" by (rule join_refused [OF assms]) (use False in blast)
  ultimately show ?thesis by simp
qed

section \<open>What the directory stores\<close>

text \<open>
  The descriptors of an entry are in their dictionary form, and its lease is within the bounds unless the
  agent has left.
\<close>

definition entry_typed :: "entry \<Rightarrow> bool" where
  "entry_typed e \<longleftrightarrow>
     (\<forall>x \<in> set (en_capabilities e). \<exists>c. x = capability_to_dict c) \<and>
     (en_availability e = ''OFFLINE'' \<or>
      (30 \<le> (en_lease_expires_at e - en_last_seen e) div 2 ^ 22 \<and> (en_lease_expires_at e - en_last_seen e) div 2 ^ 22 \<le> 7200))"

definition dir_typed :: "directory \<Rightarrow> bool" where
  "dir_typed d \<longleftrightarrow> (\<forall>a e. dir_get d a = Some e \<longrightarrow> entry_typed e)"

lemma join_entry_typed: "join_entry E now body = Inr (e, lease) \<Longrightarrow> entry_typed e"
proof -
  assume j: "join_entry E now body = Inr (e, lease)"
  from j obtain items where "mapR (\<lambda>item. bindR (from_value E item) (\<lambda>c. Inr (capability_to_dict c))) items = Inr (en_capabilities e)"
    by (auto simp: join_entry_def Let_def)
  then have "list_all2 (\<lambda>item y. bindR (from_value E item) (\<lambda>c. Inr (capability_to_dict c)) = Inr y) items (en_capabilities e)"
    by (simp add: mapR_Inr_iff)
  then have "\<forall>x \<in> set (en_capabilities e). \<exists>c. x = capability_to_dict c"
    by (induction rule: list_all2_induct) (auto simp: bindR_Inr_iff)
  with join_entry_fields [OF j] show ?thesis by (simp add: entry_typed_def seconds_def)
qed

lemma dir_typed_put: "dir_typed d \<Longrightarrow> entry_typed e \<Longrightarrow> dir_typed (dir_put d e)"
  by (simp add: dir_typed_def dir_get_put)

lemma typed_step:
  assumes "dir_ok d" "dir_typed d"
  shows "dir_typed (seed_step E d (s, now, ts, p))"
proof (cases s)
  case Join
  obtain d' r where j: "seed_join E now p d = (d', r)" by fastforce
  have "dir_typed d'"
    by (rule seed_join_cases [OF j])
      (use assms(2) join_entry_typed in \<open>auto simp: signed_change_def intro: dir_typed_put\<close>)
  with j Join show ?thesis by (simp add: seed_step_def seed_handle_def)
next
  case Renew
  obtain d' r where j: "seed_renew E now p d = (d', r)" by fastforce
  have "dir_typed d'"
  proof (rule seed_renew_cases [OF assms(1) j])
    fix e md
    assume "dir_get d (en_agent_id e) = Some e"
      and c: "signed_change E p (e\<lparr>en_last_seen := now, en_lease_expires_at := now + seconds 1800\<rparr>) d d'"
    then have "entry_typed e" using assms(2) by (auto simp: dir_typed_def)
    then have "entry_typed (e\<lparr>en_last_seen := now, en_lease_expires_at := now + seconds 1800\<rparr>)"
      by (simp add: entry_typed_def seconds_def)
    with c assms(2) show ?thesis by (auto simp: signed_change_def intro: dir_typed_put)
  qed (use assms(2) in simp)
  with j Renew show ?thesis by (simp add: seed_step_def seed_handle_def)
next
  case Leave
  obtain d' r where j: "seed_leave E now p d = (d', r)" by fastforce
  have "dir_typed d'"
  proof (rule seed_leave_cases [OF assms(1) j])
    fix e md
    assume "dir_get d (en_agent_id e) = Some e"
      and c: "signed_change E p (e\<lparr>en_availability := ''OFFLINE'', en_lease_expires_at := now\<rparr>) d d'"
    then have "entry_typed e" using assms(2) by (auto simp: dir_typed_def)
    then have "entry_typed (e\<lparr>en_availability := ''OFFLINE'', en_lease_expires_at := now\<rparr>)"
      by (simp add: entry_typed_def)
    with c assms(2) show ?thesis by (auto simp: signed_change_def intro: dir_typed_put)
  qed (use assms(2) in simp)
  with j Leave show ?thesis by (simp add: seed_step_def seed_handle_def)
qed (simp_all add: seed_step_def seed_handle_def seed_discover_same seed_report_def assms(2))

lemma typed_run: "dir_ok d \<Longrightarrow> dir_typed d \<Longrightarrow> dir_ok (seed_run E d rs) \<and> dir_typed (seed_run E d rs)"
  unfolding seed_run_def
proof (induction rs arbitrary: d)
  case (Cons r rs)
  obtain s now ts p where "r = (s, now, ts, p)" by (cases r) auto
  with Cons typed_step seed.ok_step show ?case by simp
qed simp

lemma dir_typed_Nil [simp]: "dir_typed []"
  by (simp add: dir_typed_def dir_get_def)

lemma find_capability_total:
  "(\<forall>x \<in> set raws. \<exists>c. x = capability_to_dict c) \<Longrightarrow> \<exists>found. find_capability E capability JNull raws = Inr found"
proof (induction raws)
  case (Cons raw raws)
  then obtain c where "raw = capability_to_dict c" by auto
  moreover obtain c' where "from_value E (capability_to_dict c) = Inr c'" by (simp add: capability_to_dict_def)
  ultimately show ?case using Cons by (simp add: version_matches_value_def)
qed simp

lemma discover_rows_total:
  "(\<forall>e \<in> set es. entry_typed e) \<Longrightarrow> \<exists>rows. discover_rows E now capability JNull es = Inr rows"
proof (induction es)
  case (Cons e es)
  then obtain rows where rows: "discover_rows E now capability JNull es = Inr rows" by auto
  obtain found where "find_capability E capability JNull (en_capabilities e) = Inr found"
    using find_capability_total [of "en_capabilities e" E capability] Cons.prems by (auto simp: entry_typed_def)
  with rows show ?case by (simp split: option.split)
qed simp

section \<open>Properties\<close>

text \<open>
  C7: the Seed implements the registry: each request acts on the keys, openness and ends of the directory's
  listings exactly as its claim acts on the abstract registry, whatever the request is and whatever
  its handler raises; so does every run; and the entries live for discovery are the listed ones.
\<close>

theorem seed_refines_registry:
  "registry_of (seed_step E d r) = registry_step (claim_of E r) (registry_of d) \<and>
   registry_of (seed_run E d rs) = foldl (\<lambda>g q. registry_step (claim_of E q) g) (registry_of d) rs \<and>
   live now e = listed now (listing_of e)"
proof -
  have step: "registry_of (seed_step E d r) = registry_step (claim_of E r) (registry_of d)" for d r
  proof -
    obtain s now ts p where r: "r = (s, now, ts, p)" by (cases r) auto
    show ?thesis
    proof (cases "message_data (pl_message p)")
      case (Inl x)
      then have "seed_step E d r = d"
        by (cases s) (simp_all add: r seed_step_def seed_handle_def seed_join_def seed_renew_eq seed_leave_eq
            seed_discover_same seed_report_def)
      with Inl show ?thesis by (simp add: r claim_of_def)
    next
      case (Inr body)
      then show ?thesis
        by (cases s) (simp_all add: r seed_step_def seed_handle_def claim_of_def join_refines renew_refines
            seed_discover_same seed_report_def del: registry_step.simps(1-3))
    qed
  qed
  have "registry_of (seed_run E d rs) = foldl (\<lambda>g q. registry_step (claim_of E q) g) (registry_of d) rs"
    unfolding seed_run_def by (induction rs arbitrary: d) (simp_all add: step)
  with step show ?thesis by (auto simp: live_def listed_def listing_of_def)
qed


end
