(* ===== verification/Agent.thy ===== *)
theory Agent
  imports Presence Official
begin

text \<open>
  Whole processes: the web application of a server (\<open>A2AServer.starlette_app\<close>) with what its routes answer and
  its start-up task, the application of the reference Seed (\<open>create_app\<close> of \<open>app.py\<close>), and the example agent
  (\<open>third-party-agent/agent.py\<close>), which puts identity, card, server and client of the Seeds together.

  The environment variables are a function, the files a map from their paths; the web framework
  and the dispatcher of the A2A SDK are arguments.
\<close>

section \<open>The web application\<close>

record web_app =
  wa_server :: server
  wa_card :: dict

text \<open>The routes for the card and for the health check.\<close>

definition well_known :: "web_app \<Rightarrow> dict" where
  "well_known app = wa_card app"

definition health :: "web_app \<Rightarrow> dict" where
  "health app = [(''ok'', JBool True), (''agent_id'', JStr (i_agent_id (sv_identity (wa_server app))))]"

text \<open>\<open>POST /a2a\<close>: the message gets an id before the SDK's dispatcher sees it.\<close>

definition a2a_route :: "string \<Rightarrow> (json \<Rightarrow> ('w, 'a) act) \<Rightarrow> json \<Rightarrow> ('w, 'a) act" where
  "a2a_route uuid dispatch body = bindA (retA (ensure_message_id uuid body)) dispatch"

text \<open>
  The start-up task: some attempts, with the last exception if all failed. The waiting between them is
  left out.
\<close>

fun start_attempts :: "('w, 'a) act \<Rightarrow> nat \<Rightarrow> err option \<Rightarrow> 'w \<Rightarrow> 'w \<times> err option" where
  "start_attempts on_start 0 cause w = (w, cause)"
| "start_attempts on_start (Suc k) cause w =
     (case on_start w of
        (w, Inr _) \<Rightarrow> (w, None)
      | (w, Inl e) \<Rightarrow> start_attempts on_start k (Some e) w)"

definition run_start :: "('w, 'a) act \<Rightarrow> 'w \<Rightarrow> 'w \<times> err option" where
  "run_start on_start w = start_attempts on_start 5 None w"

section \<open>The reference Seed's process\<close>

type_synonym environ = "string \<Rightarrow> string option"

definition getenv :: "environ \<Rightarrow> string \<Rightarrow> string \<Rightarrow> string" where
  "getenv env k other = (case env k of Some v \<Rightarrow> v | None \<Rightarrow> other)"

text \<open>
  The identity file and the recovery file beside it: \<open>path.with_name(path.stem + ".recovery.json")\<close>, where the
  stem is the name without its last suffix. The files are their parsed contents by path.
\<close>

type_synonym files = "string \<rightharpoonup> dict"

definition file_stem :: "string \<Rightarrow> string" where
  "file_stem name =
     (let suffix = takeWhile (\<lambda>c. c \<noteq> CHR ''.'') (rev name); stem = rev (drop (length suffix + 1) (rev name))
      in if suffix \<noteq> [] \<and> stem \<noteq> [] then stem else name)"

definition recovery_path :: "string \<Rightarrow> string" where
  "recovery_path path =
     (let name = rev (takeWhile (\<lambda>c. c \<noteq> CHR ''/'') (rev path)); parent = rev (dropWhile (\<lambda>c. c \<noteq> CHR ''/'') (rev path))
      in parent @ file_stem name @ ''.recovery.json'')"

definition load_identity :: "prims \<Rightarrow> fresh \<Rightarrow> string \<Rightarrow> string \<Rightarrow> (files, identity) act" where
  "load_identity E fr path agent_id files =
     (case load_or_create E fr \<lparr>id_file = files path, rec_file = files (recovery_path path)\<rparr> agent_id of
        (fs, r) \<Rightarrow> (files(path := id_file fs, recovery_path path := rec_file fs), r))"

definition named_skill :: "string \<Rightarrow> string \<Rightarrow> dict" where
  "named_skill skill_id name = [(''id'', JStr skill_id), (''name'', JStr name)]"

definition seed_card_skills :: "dict list" where
  "seed_card_skills =
     [named_skill ''network.join'' ''Join'', named_skill ''network.renew'' ''Renew'',
      named_skill ''network.leave'' ''Leave'', named_skill ''network.discover'' ''Discover'']"

definition seed_app :: "prims \<Rightarrow> fresh \<Rightarrow> string \<Rightarrow> environ \<Rightarrow> (files, web_app) act" where
  "seed_app E fr now env =
     (let root = getenv env ''REFERENCE_SEED_STATE'' ''.reference-seed'' in
      bindA (load_identity E fr (root @ ''/identity.json'') (getenv env ''REFERENCE_SEED_AGENT_ID'' ''seed.reference.local'')) (\<lambda>i.
      bindA (retA (signed_agent_card E now i ''LivingRuntime Reference Seed''
          ''Minimal discovery Seed for interoperability and local development.''
          (getenv env ''REFERENCE_SEED_PUBLIC_URL'' ''http://127.0.0.1:8001/a2a'') seed_card_skills None
          (Some ''reference.local''))) (\<lambda>crd.
        retA (Inr \<lparr>wa_server = sv_init i (map fst seed_skills), wa_card = crd\<rparr>))))"

section \<open>The example agent\<close>

definition port :: "environ \<Rightarrow> int res" where
  "port env =
     (case parse_int (getenv env ''THIRD_PARTY_PORT'' ''8110'') of Some n \<Rightarrow> Inr n | None \<Rightarrow> Inl (ValueError []))"

definition bind_host :: "environ \<Rightarrow> string" where
  "bind_host env = getenv env ''THIRD_PARTY_BIND_HOST'' (getenv env ''THIRD_PARTY_HOST'' ''127.0.0.1'')"

definition agent_id :: "environ \<Rightarrow> string" where
  "agent_id env = getenv env ''THIRD_PARTY_AGENT_ID'' ''thirdparty.demo.001''"

definition network_url :: "environ \<Rightarrow> string" where
  "network_url env = rstrip_chars ''/'' (getenv env ''NETWORK_URL'' ''http://127.0.0.1:8001/a2a'')"

definition public_base_url :: "environ \<Rightarrow> string res" where
  "public_base_url env =
     (let configured = strip_ws (getenv env ''THIRD_PARTY_PUBLIC_URL'' []) in
      if configured \<noteq> [] then Inr (rstrip_chars ''/'' configured)
      else bindR (port env) (\<lambda>n. Inr (''http://127.0.0.1:'' @ show_int n)))"

definition advertised_urls :: "environ \<Rightarrow> (string \<times> string) res" where
  "advertised_urls env =
     bindR (public_base_url env) (\<lambda>base. Inr (base @ ''/.well-known/agent-card.json'', base @ ''/a2a''))"

text \<open>\<open>here\<close> is the directory of the file \<open>agent.py\<close>.\<close>

definition identity_path :: "string \<Rightarrow> environ \<Rightarrow> string" where
  "identity_path here env = getenv env ''THIRD_PARTY_IDENTITY'' (here @ ''/.state/identity.json'')"

definition SKILL :: json where
  "SKILL = JObj
     [(''id'', JStr ''demo.echo''), (''version'', JStr ''1.0.0''),
      (''input_schema'', JObj [(''type'', JStr ''object'')]),
      (''output_schema'', JObj [(''type'', JStr ''object'')]), (''side_effects'', JStr ''NONE'')]"

definition echo :: "payload \<Rightarrow> handler_result" where
  "echo p = hr_completed [(''echo'', py_or (dget (pl_metadata p) ''text'') (JStr ''ok''))]"

definition echo_skills :: "'w skills" where
  "echo_skills name p w = (w, if name = ''demo.echo'' then Inr (Some (echo p)) else Inl (KeyError name))"

definition agent_app ::
    "prims \<Rightarrow> fresh \<Rightarrow> string \<Rightarrow> string \<Rightarrow> environ \<Rightarrow> (files, web_app \<times> network) act" where
  "agent_app E fr now here env =
     bindA (load_identity E fr (identity_path here env) (agent_id env)) (\<lambda>i.
     bindA (retA (advertised_urls env)) (\<lambda>(card_url, endpoint).
     bindA (retA (signed_agent_card E now i ''Third-party demo''
         ''Independent Agent using the Agent Network SDK and official A2A transport.'' endpoint
         [[(''id'', JStr ''demo.echo''), (''name'', JStr ''echo''), (''description'', JStr ''Echo a payload'')]]
         None None)) (\<lambda>crd.
     bindA (retA (network_init E i [network_url env] card_url endpoint [SKILL] 1800)) (\<lambda>mesh.
       retA (Inr (\<lparr>wa_server = sv_init i [''demo.echo''], wa_card = crd\<rparr>, mesh))))))"

section \<open>Start-up\<close>

text \<open>The world after some attempts that all fail.\<close>

fun after_failures :: "('w, 'a) act \<Rightarrow> nat \<Rightarrow> 'w \<Rightarrow> 'w option" where
  "after_failures on_start 0 w = Some w"
| "after_failures on_start (Suc k) w =
     (case on_start w of (w, Inl e) \<Rightarrow> after_failures on_start k w | (w, Inr x) \<Rightarrow> None)"

lemma start_attempts_None:
  "start_attempts on_start k (Some e) w = (w', None) \<longleftrightarrow>
     (\<exists>n<k. \<exists>w1 x. after_failures on_start n w = Some w1 \<and> on_start w1 = (w', Inr x))"
proof (induction k arbitrary: w e)
  case (Suc k)
  obtain w1 r where o: "on_start w = (w1, r)" by fastforce
  show ?case
  proof (cases r)
    case (Inl e')
    have "(\<exists>n<Suc k. \<exists>w2 x. after_failures on_start n w = Some w2 \<and> on_start w2 = (w', Inr x)) \<longleftrightarrow>
        (\<exists>n<k. \<exists>w2 x. after_failures on_start n w1 = Some w2 \<and> on_start w2 = (w', Inr x))"
      unfolding Ex_less_Suc2 by (simp add: o Inl)
    with Suc.IH [of e' w1] o Inl show ?thesis by simp
  next
    case (Inr x)
    then show ?thesis unfolding Ex_less_Suc2 by (auto simp: o)
  qed
qed simp

lemma start_attempts_Some:
  "(\<exists>e'. start_attempts on_start k (Some e) w = (w', Some e')) \<longleftrightarrow> after_failures on_start k w = Some w'"
proof (induction k arbitrary: w e)
  case (Suc k)
  obtain w1 r where "on_start w = (w1, r)" by fastforce
  with Suc.IH show ?case by (cases r) auto
qed auto

lemma start_attempts_cause: "start_attempts on_start (Suc k) cause w = start_attempts on_start (Suc k) cause' w"
  by simp

lemma run_start_Some: "run_start on_start w = start_attempts on_start 5 (Some OSError) w"
  unfolding run_start_def numeral_eq_Suc pred_numeral_simps by (rule start_attempts_cause)

section \<open>Facts\<close>

lemma act_Inr:
  "bindA m f w = (w', Inr y) \<Longrightarrow> \<exists>w1 x. m w = (w1, Inr x) \<and> f x w1 = (w', Inr y)"
  by (simp add: bindA_Inr_iff)

text \<open>What the first start makes: a fresh identity, well-formed, stored at its path.\<close>

lemma file_stem_recovery: "file_stem (s @ ''.recovery.json'') = s @ ''.recovery''"
  by (simp add: file_stem_def)

text \<open>The stem of a recovery file's name ends in \<open>.recovery\<close>, so no file is its own recovery file.\<close>

lemma recovery_path_neq: "recovery_path path \<noteq> path"
proof
  let ?ns = "\<lambda>c. c \<noteq> CHR ''/''"
  let ?name = "rev (takeWhile ?ns (rev path))" and ?parent = "rev (dropWhile ?ns (rev path))"
  assume "recovery_path path = path"
  moreover have "path = ?parent @ ?name" by (metis rev_append rev_rev_ident takeWhile_dropWhile_id)
  ultimately have "?parent @ file_stem ?name @ ''.recovery.json'' = ?parent @ ?name" by (simp add: recovery_path_def Let_def)
  then have n: "?name = file_stem ?name @ ''.recovery.json''" by simp
  from arg_cong [OF n, of file_stem] have "file_stem ?name = file_stem ?name @ ''.recovery''"
    by (simp only: file_stem_recovery)
  then show False by simp
qed

lemma load_identity_restart:
  assumes "fresh_ok fr" "files path = None" "files (recovery_path path) = None"
    and "load_identity E fr path aid files = (files', Inr i)"
  shows "load_identity E fr' path aid files' = (files', Inr i)"
proof -
  obtain fs where fs: "load_or_create E fr \<lparr>id_file = None, rec_file = None\<rparr> aid = (fs, Inr i)"
    "files' = files(path := id_file fs, recovery_path path := rec_file fs)"
    using assms by (auto simp: load_identity_def split: prod.splits)
  from load_after_create [OF assms(1) fs(1)] have "load_or_create E fr' fs aid = (fs, Inr i)" .
  then show ?thesis using recovery_path_neq [of path] by (cases fs) (auto simp: load_identity_def fs(2))
qed

lemma first_identity:
  assumes "fresh_ok fr" "files path = None"
  shows "\<exists>files'. load_identity E fr path aid files = (files', Inr (generate E fr aid))"
proof -
  have ok: "identity_ok E (generate E fr aid)" by (rule generate_ok [OF assms(1)])
  have "\<exists>fs. load_or_create E fr \<lparr>id_file = None, rec_file = files (recovery_path path)\<rparr> aid = (fs, Inr (generate E fr aid))"
    using assms ok by (auto simp: load_or_create_def Let_def to_recovery_record_def identity_ok_def provider_for_def)
  then show ?thesis using assms(2) by (auto simp: load_identity_def)
qed

lemma agent_app_parts:
  assumes "agent_app E fr now here env files = (files', Inr (app, mesh))"
  obtains i base where
    "load_identity E fr (identity_path here env) (agent_id env) files = (files', Inr i)"
    "public_base_url env = Inr base" "sv_identity (wa_server app) = i"
    "signed_agent_card E now i ''Third-party demo''
       ''Independent Agent using the Agent Network SDK and official A2A transport.'' (base @ ''/a2a'')
       [[(''id'', JStr ''demo.echo''), (''name'', JStr ''echo''), (''description'', JStr ''Echo a payload'')]]
       None None = Inr (wa_card app)"
    "network_init E i [network_url env] (base @ ''/.well-known/agent-card.json'') (base @ ''/a2a'') [SKILL] 1800 = Inr mesh"
    "wa_server app = sv_init i [''demo.echo'']"
  using assms
  by (auto simp: agent_app_def bindA_Inr_iff retA_def advertised_urls_def bindR_Inr_iff sv_init_def)

text \<open>The card of an application, checked against the identity of its server.\<close>

definition card_of_server :: "prims \<Rightarrow> web_app \<Rightarrow> string option \<Rightarrow> string \<Rightarrow> bool" where
  "card_of_server E app network_id endpoint \<longleftrightarrow>
     (let i = sv_identity (wa_server app) in
      verify_signed_agent_card E (wa_card app) (public_key i) network_id (Some (i_agent_id i)) (Some (i_key_id i))
        (Some endpoint) = Inr ())"

lemma load_identity_id:
  assumes "load_identity E fr path aid files = (files', Inr i)"
  shows "i_agent_id i = aid"
  using assms
  by (auto simp: load_identity_def load_or_create_def Let_def split: prod.splits option.splits sum.splits if_splits)

text \<open>The ids of the skills that a card lists.\<close>

lemma card_skill_ids:
  assumes "signed_agent_card E now i name description url skills None nid = Inr crd"
  shows "dget crd ''skills'' = JArr (map (card_skill_entry E) skills)"
proof -
  from assms obtain origin e b where sign: "sign_into E i ''signature''
       (dset (draft_card E i origin name description url skills None nid) ''enrollment'' (JObj e)) = Inr crd"
    by (rule signed_agent_card_draft)
  have "dget (draft_card E i origin name description url skills None nid) ''skills'' =
      dget (card_body E i origin name description url skills) ''skills''"
    by (simp add: draft_card_def with_extra_def with_network_def split: option.split list.split)
  moreover have "dget (card_body E i origin name description url skills) ''skills'' = JArr (map (card_skill_entry E) skills)"
    by (simp add: card_body_def)
  ultimately show ?thesis using sign by (auto simp: sign_into_def)
qed

section \<open>The concrete processes\<close>

definition demo_files :: files where
  "demo_files = Map.empty"

definition demo_environ :: environ where
  "demo_environ = (\<lambda>k. None)"

lemma demo_load:
  "\<exists>files'. load_identity demo_prims demo_fresh path aid demo_files = (files', Inr (generate demo_prims demo_fresh aid))"
  by (rule first_identity) (simp_all add: demo_files_def)

lemma demo_urls:
  "advertised_urls demo_environ =
     Inr (''http://127.0.0.1:8110/.well-known/agent-card.json'', ''http://127.0.0.1:8110/a2a'')"
proof -
  have "digit 8 = CHR ''8''" "digit 1 = CHR ''1''" "digit 0 = CHR ''0''" by code_simp+
  then have n: "show_nat 8110 = ''8110''" by (simp add: show_nat.simps)
  then have s: "show_int 8110 = ''8110''" by (simp add: show_int_def)
  have "parse_int ''8110'' = Some 8110" using parse_int_show_nat [of 8110] by (simp only: n of_nat_numeral)
  then have "port demo_environ = Inr 8110" by (simp add: port_def getenv_def demo_environ_def)
  then have "public_base_url demo_environ = Inr ''http://127.0.0.1:8110''"
    by (simp add: public_base_url_def getenv_def demo_environ_def strip_ws_def rstrip_chars_def lstrip_chars_def s)
  then show ?thesis by (simp add: advertised_urls_def)
qed

lemma demo_agent_origin:
  "origin_of ''http://127.0.0.1:8110/a2a'' = Inr ''http://127.0.0.1:8110''"
  "origin_of ''http://127.0.0.1:8001/a2a'' = Inr ''http://127.0.0.1:8001''"
  by code_simp+

lemma demo_agent_app:
  obtains files' app mesh where
    "agent_app demo_prims demo_fresh ''now'' ''/agent'' demo_environ demo_files = (files', Inr (app, mesh))"
    "identity_ok demo_prims (sv_identity (wa_server app))"
proof -
  let ?i = "generate demo_prims demo_fresh (agent_id demo_environ)"
  have ok: "identity_ok demo_prims ?i" by (rule generate_ok) simp
  obtain files' where l: "load_identity demo_prims demo_fresh (identity_path ''/agent'' demo_environ) (agent_id demo_environ)
      demo_files = (files', Inr ?i)" using demo_load by blast
  have "\<exists>crd. signed_agent_card demo_prims ''now'' ?i ''Third-party demo''
       ''Independent Agent using the Agent Network SDK and official A2A transport.'' ''http://127.0.0.1:8110/a2a''
       [[(''id'', JStr ''demo.echo''), (''name'', JStr ''echo''), (''description'', JStr ''Echo a payload'')]]
       None None = Inr crd"
    by (rule signed_card_total [OF ok demo_agent_origin(1)]) simp
  then obtain crd where c: "signed_agent_card demo_prims ''now'' ?i ''Third-party demo''
       ''Independent Agent using the Agent Network SDK and official A2A transport.'' ''http://127.0.0.1:8110/a2a''
       [[(''id'', JStr ''demo.echo''), (''name'', JStr ''echo''), (''description'', JStr ''Echo a payload'')]]
       None None = Inr crd" by blast
  have "\<exists>mesh. network_init demo_prims ?i [network_url demo_environ] ''http://127.0.0.1:8110/.well-known/agent-card.json''
      ''http://127.0.0.1:8110/a2a'' [SKILL] 1800 = Inr mesh"
    by (simp add: network_init_def SKILL_def py_or_def)
  then obtain mesh where m: "network_init demo_prims ?i [network_url demo_environ]
      ''http://127.0.0.1:8110/.well-known/agent-card.json'' ''http://127.0.0.1:8110/a2a'' [SKILL] 1800 = Inr mesh" by blast
  have "agent_app demo_prims demo_fresh ''now'' ''/agent'' demo_environ demo_files =
      (files', Inr (\<lparr>wa_server = sv_init ?i [''demo.echo''], wa_card = crd\<rparr>, mesh))"
    by (simp add: agent_app_def bindA_def l demo_urls c m)
  with ok show ?thesis by (intro that) (auto simp: sv_init_def)
qed

lemma demo_seed_app:
  obtains files' app where "seed_app demo_prims demo_fresh ''now'' demo_environ demo_files = (files', Inr app)"
    "identity_ok demo_prims (sv_identity (wa_server app))"
proof -
  let ?i = "generate demo_prims demo_fresh ''seed.reference.local''"
  have ok: "identity_ok demo_prims ?i" by (rule generate_ok) simp
  obtain files' where l: "load_identity demo_prims demo_fresh ''.reference-seed/identity.json'' ''seed.reference.local''
      demo_files = (files', Inr ?i)" using demo_load by blast
  have "\<exists>crd. signed_agent_card demo_prims ''now'' ?i ''LivingRuntime Reference Seed''
      ''Minimal discovery Seed for interoperability and local development.'' ''http://127.0.0.1:8001/a2a'' seed_card_skills None
      (Some ''reference.local'') = Inr crd"
    by (rule signed_card_total [OF ok demo_agent_origin(2)]) (simp add: seed_card_skills_def named_skill_def)
  then obtain crd where "signed_agent_card demo_prims ''now'' ?i ''LivingRuntime Reference Seed''
      ''Minimal discovery Seed for interoperability and local development.'' ''http://127.0.0.1:8001/a2a'' seed_card_skills None
      (Some ''reference.local'') = Inr crd" by blast
  with l have a: "seed_app demo_prims demo_fresh ''now'' demo_environ demo_files =
      (files', Inr \<lparr>wa_server = sv_init ?i (map fst seed_skills), wa_card = crd\<rparr>)"
    by (simp add: seed_app_def bindA_def getenv_def demo_environ_def)
  with ok show ?thesis by (intro that) (auto simp: sv_init_def)
qed

section \<open>Properties\<close>

text \<open>
  C26: the start-up task ends: it runs the start-up action again only after a failure, stops after the first
  success, and gives up, with the exception, exactly when five attempts have failed.
\<close>

theorem start_up_ends:
  "(run_start on_start w = (w', None) \<longleftrightarrow>
      (\<exists>n<5. \<exists>w1 x. after_failures on_start n w = Some w1 \<and> on_start w1 = (w', Inr x))) \<and>
   ((\<exists>e. run_start on_start w = (w', Some e)) \<longleftrightarrow> after_failures on_start 5 w = Some w')"
  unfolding run_start_Some start_attempts_None start_attempts_Some by blast

text \<open>
  The example agent is consistent: when it starts, its identity has the configured name, the card it serves is
  signed by this identity for the endpoint which its client announces, under the same identity, and each capability the client
  announces has a handler at the server.
\<close>

theorem example_agent_consistent:
  assumes "agent_app E fr now here env files = (files', Inr (app, mesh))"
    and "ed25519_ok E" "identity_ok E (sv_identity (wa_server app))"
  shows "i_agent_id (sv_identity (wa_server app)) = agent_id env \<and> nw_identity mesh = sv_identity (wa_server app) \<and>
    card_of_server E app None (nw_endpoint mesh) \<and> nw_seeds mesh = [rstrip_chars ''/'' (network_url env)] \<and>
    (\<forall>x \<in> set (nw_capabilities mesh). \<exists>c. describes c x \<and> map_of (sv_handlers (wa_server app)) c = Some (User c))"
proof -
  obtain i base where a: "load_identity E fr (identity_path here env) (agent_id env) files = (files', Inr i)"
    "public_base_url env = Inr base" "sv_identity (wa_server app) = i"
    and c: "signed_agent_card E now i ''Third-party demo''
       ''Independent Agent using the Agent Network SDK and official A2A transport.'' (base @ ''/a2a'')
       [[(''id'', JStr ''demo.echo''), (''name'', JStr ''echo''), (''description'', JStr ''Echo a payload'')]]
       None None = Inr (wa_card app)"
    and n: "network_init E i [network_url env] (base @ ''/.well-known/agent-card.json'') (base @ ''/a2a'') [SKILL] 1800 = Inr mesh"
    and sv: "wa_server app = sv_init i [''demo.echo'']"
    by (rule agent_app_parts [OF assms(1)])
  have h: "sv_handlers (wa_server app) = [(''demo.echo'', User ''demo.echo''), (''task.propose'', Propose)]"
    by (simp add: sv sv_init_def)
  have m: "nw_identity mesh = i" "nw_endpoint mesh = base @ ''/a2a''" "nw_seeds mesh = [rstrip_chars ''/'' (network_url env)]"
    using n by (auto simp: network_init_def SKILL_def)
  have skill: "\<exists>c. from_value E SKILL = Inr c \<and> c_id c = JStr ''demo.echo''" by (simp add: SKILL_def)
  then obtain cap where cap: "c_id cap = JStr ''demo.echo''" "nw_capabilities mesh = [capability_to_dict cap]"
    using n by (auto simp: network_init_def simp del: from_value.simps)
  have "card_of_server E app None (base @ ''/a2a'')"
    unfolding card_of_server_def a(3) Let_def
    by (rule signed_card_check [OF assms(2) assms(3) [unfolded a(3)] _ _ c]) simp_all
  moreover have "describes ''demo.echo'' (capability_to_dict cap)" using cap(1) by (auto simp: describes_def)
  then have "\<forall>x \<in> set (nw_capabilities mesh). \<exists>c. describes c x \<and> map_of (sv_handlers (wa_server app)) c = Some (User c)"
    unfolding cap(2) h by (intro ballI exI [of _ "''demo.echo''"]) simp
  ultimately show ?thesis using m load_identity_id [OF a(1)] a(3) by simp
qed

lemma example_agent_consistent_witness:
  "\<exists>files' app mesh. agent_app demo_prims demo_fresh ''now'' ''/agent'' demo_environ demo_files = (files', Inr (app, mesh)) \<and>
     card_of_server demo_prims app None (nw_endpoint mesh)"
proof -
  obtain files' app mesh where
    "agent_app demo_prims demo_fresh ''now'' ''/agent'' demo_environ demo_files = (files', Inr (app, mesh))"
    "identity_ok demo_prims (sv_identity (wa_server app))" by (rule demo_agent_app)
  with example_agent_consistent [OF this(1) demo_ed25519_ok this(2)] show ?thesis by blast
qed

text \<open>
  C27: a restart changes nothing: when the example agent is started again, with any randomness and at any time, on the files its
  first start has written, it starts with the same identity, server and client, and leaves the files as they are; only the
  card is signed anew, for the same endpoint.
\<close>

theorem restart_keeps_identity:
  assumes "fresh_ok fr" "files (identity_path here env) = None" "files (recovery_path (identity_path here env)) = None"
    and "agent_app E fr now here env files = (files1, Inr (app, mesh))" "ed25519_ok E"
  shows "\<exists>crd. agent_app E fr' now' here env files1 = (files1, Inr (app\<lparr>wa_card := crd\<rparr>, mesh)) \<and>
    card_of_server E (app\<lparr>wa_card := crd\<rparr>) None (nw_endpoint mesh)"
proof -
  let ?i = "generate E fr (agent_id env)"
  let ?card = "\<lambda>now base. signed_agent_card E now ?i ''Third-party demo''
       ''Independent Agent using the Agent Network SDK and official A2A transport.'' (base @ ''/a2a'')
       [[(''id'', JStr ''demo.echo''), (''name'', JStr ''echo''), (''description'', JStr ''Echo a payload'')]] None None"
  obtain i base where "load_identity E fr (identity_path here env) (agent_id env) files = (files1, Inr i)"
    and u: "public_base_url env = Inr base" and i: "sv_identity (wa_server app) = i"
    and c: "signed_agent_card E now i ''Third-party demo''
       ''Independent Agent using the Agent Network SDK and official A2A transport.'' (base @ ''/a2a'')
       [[(''id'', JStr ''demo.echo''), (''name'', JStr ''echo''), (''description'', JStr ''Echo a payload'')]]
       None None = Inr (wa_card app)"
    and n: "network_init E i [network_url env] (base @ ''/.well-known/agent-card.json'') (base @ ''/a2a'') [SKILL] 1800 = Inr mesh"
    and sv: "wa_server app = sv_init i [''demo.echo'']"
    by (rule agent_app_parts [OF assms(4)])
  with first_identity [of fr files "identity_path here env" E "agent_id env"] assms(1,2)
  have l: "load_identity E fr (identity_path here env) (agent_id env) files = (files1, Inr ?i)" and gi: "i = ?i" by auto
  have ok: "identity_ok E ?i" by (rule generate_ok [OF assms(1)])
  obtain origin where "origin_of (base @ ''/a2a'') = Inr origin" using c by (rule signed_agent_card_draft)
  then obtain crd where crd: "?card now' base = Inr crd" using signed_card_total [OF ok] by fastforce
  have "agent_app E fr' now' here env files1 = (files1, Inr (app\<lparr>wa_card := crd\<rparr>, mesh))"
    using load_identity_restart [OF assms(1-3) l] u crd n sv unfolding gi
    by (cases app) (simp add: agent_app_def bindA_def retA_def advertised_urls_def)
  moreover have "nw_endpoint mesh = base @ ''/a2a''" using n by (auto simp: network_init_def)
  then have "card_of_server E (app\<lparr>wa_card := crd\<rparr>) None (nw_endpoint mesh)"
    unfolding card_of_server_def using signed_card_check [OF assms(5) ok _ _ crd] i gi by (simp add: Let_def)
  ultimately show ?thesis by blast
qed

lemma restart_keeps_identity_witness:
  "\<exists>files app mesh crd. agent_app demo_prims demo_fresh ''now'' ''/agent'' demo_environ demo_files = (files, Inr (app, mesh)) \<and>
     agent_app demo_prims (demo_fresh\<lparr>fr_sk := demo_key2\<rparr>) ''later'' ''/agent'' demo_environ files =
       (files, Inr (app\<lparr>wa_card := crd\<rparr>, mesh))"
proof -
  obtain files app mesh where a: "agent_app demo_prims demo_fresh ''now'' ''/agent'' demo_environ demo_files = (files, Inr (app, mesh))"
    by (rule demo_agent_app)
  have "demo_files p = None" for p by (simp add: demo_files_def)
  from restart_keeps_identity [OF demo_fresh_ok this this a demo_ed25519_ok] a show ?thesis by blast
qed

text \<open>
  The Seed's process serves what its card says: the card is signed by the Seed's identity for its address and
  network, and each skill on it has a handler.
\<close>

theorem seed_serves_its_card:
  assumes "seed_app E fr now env files = (files', Inr app)" "ed25519_ok E" "identity_ok E (sv_identity (wa_server app))"
    and "getenv env ''REFERENCE_SEED_PUBLIC_URL'' ''http://127.0.0.1:8001/a2a'' = url" "url \<noteq> []"
  shows "card_of_server E app (Some ''reference.local'') url \<and>
    (\<forall>skill \<in> set seed_card_skills. \<exists>k. dget skill ''id'' = JStr k \<and> map_of (sv_handlers (wa_server app)) k = Some (User k)) \<and>
    dget (wa_card app) ''skills'' = JArr (map (card_skill_entry E) seed_card_skills)"
proof -
  from assms(1,4) obtain i where c: "signed_agent_card E now i ''LivingRuntime Reference Seed''
      ''Minimal discovery Seed for interoperability and local development.'' url seed_card_skills None
      (Some ''reference.local'') = Inr (wa_card app)" and i: "sv_identity (wa_server app) = i"
    and h: "sv_handlers (wa_server app) = sv_handlers (sv_init i (map fst seed_skills))"
    by (auto simp: seed_app_def Let_def bindA_Inr_iff retA_def sv_init_def)
  have "card_of_server E app (Some ''reference.local'') url"
    unfolding card_of_server_def i Let_def
    by (rule signed_card_check [OF assms(2) assms(3) [unfolded i] assms(5) _ c]) simp_all
  moreover have "\<forall>skill \<in> set seed_card_skills. \<exists>k. dget skill ''id'' = JStr k \<and> map_of (sv_handlers (wa_server app)) k = Some (User k)"
    unfolding h by (simp add: seed_card_skills_def named_skill_def sv_init_def seed_skills_def)
  ultimately show ?thesis using card_skill_ids [OF c] by blast
qed

lemma seed_serves_its_card_witness:
  "\<exists>files' app. seed_app demo_prims demo_fresh ''now'' demo_environ demo_files = (files', Inr app) \<and>
     card_of_server demo_prims app (Some ''reference.local'') ''http://127.0.0.1:8001/a2a''"
proof -
  obtain files' app where a: "seed_app demo_prims demo_fresh ''now'' demo_environ demo_files = (files', Inr app)"
    "identity_ok demo_prims (sv_identity (wa_server app))" by (rule demo_seed_app)
  from seed_serves_its_card [OF a(1) demo_ed25519_ok a(2)] a(1) show ?thesis
    by (simp add: getenv_def demo_environ_def)
qed

end
