(* ===== verification/EndToEnd.thy ===== *)
theory EndToEnd
  imports Agent
begin

text \<open>
  The client of the Seeds, the wire, the A2A server and the reference Seed composed: a join sent by
  \<open>AgentNetwork\<close> through the A2A client travels as a protobuf message to the Seed's server, which hands it to the
  Seed's handler, and the answer travels back. The A2A SDK between the HTTP request and
  \<open>SkillAgentExecutor\<close> is an argument with its documented behaviour as a hypothesis.
\<close>

section \<open>The Seed as the skills of a server\<close>

text \<open>\<open>Handlers.skills()\<close> on the directory; \<open>now\<close> and \<open>ts\<close> are the readings of the clock in a handler.\<close>

definition seed_service :: "prims \<Rightarrow> int \<Rightarrow> string \<Rightarrow> directory skills" where
  "seed_service E now ts name p d =
     (case map_of seed_skills name of
        Some s \<Rightarrow> (case seed_handle E s now ts p d of (d, r) \<Rightarrow> (d, bindR r (\<lambda>h. Inr (Some h))))
      | None \<Rightarrow> (d, Inl (KeyError name)))"

section \<open>The clients of the Seeds\<close>

text \<open>
  \<open>AgentNetwork._seed_client\<close> keeps one \<open>A2AClient\<close> for each Seed; every message to a Seed goes through it. A client has no
  state of its own, so the table never shows: it holds for each Seed the client made for this Seed.
\<close>

type_synonym clients = "string \<rightharpoonup> a2a_client"

definition seed_client :: "string \<Rightarrow> clients \<Rightarrow> clients \<times> a2a_client" where
  "seed_client seed cs =
     (case cs seed of
        Some client \<Rightarrow> (cs, client)
      | None \<Rightarrow> (let client = client_init seed False in (cs(seed \<mapsto> client), client)))"

definition seed_send :: "prims \<Rightarrow> 'w post \<Rightarrow> string \<Rightarrow> (clients \<times> 'w) send" where
  "seed_send E post uuid seed message csw =
     (case csw of (cs, w) \<Rightarrow>
        (case seed_client seed cs of (cs, client) \<Rightarrow>
           (case message_send E post client uuid message w of (w, r) \<Rightarrow> ((cs, w), r))))"

definition clients_ok :: "clients \<Rightarrow> bool" where
  "clients_ok cs \<longleftrightarrow> (\<forall>s c. cs s = Some c \<longrightarrow> c = client_init s False)"

lemma seed_send_Inr:
  assumes "clients_ok cs" "message_send E post (client_init s False) uuid message w = (w', r)"
  shows "\<exists>cs'. clients_ok cs' \<and> seed_send E post uuid s message (cs, w) = ((cs', w'), r)"
  using assms by (auto simp: seed_send_def seed_client_def clients_ok_def Let_def split: option.splits)

section \<open>The SDK\<close>

text \<open>
  What the code relies on. A structured value can be built from any JSON value whose numbers are finite and
  whose integers are small. A \<open>SendMessage\<close> request whose message parses is given to the executor
  with the message and a task id, and if the task has a JSON form, the response holds it. \<open>url\<close> is the address
  under which the server answers.
\<close>

fun small_ints :: "json \<Rightarrow> bool" where
  "small_ints (JInt n) = (\<bar>n\<bar> < 2 ^ 53)"
| "small_ints (JArr vs) = list_all small_ints vs"
| "small_ints (JObj d) = list_all (\<lambda>(k, v). small_ints v) d"
| "small_ints v = True"

definition sendable :: "json \<Rightarrow> bool" where
  "sendable v \<longleftrightarrow> wf_json v \<and> finite_json v \<and> small_ints v"

definition parse_total :: "'v pbuf \<Rightarrow> bool" where
  "parse_total P \<longleftrightarrow> (\<forall>v. sendable v \<longrightarrow> (\<exists>x. pb_parse P v = Inr x))"

definition send_request :: "dict \<Rightarrow> json" where
  "send_request params =
     JObj [(''jsonrpc'', JStr ''2.0''), (''id'', JStr ''1''), (''method'', JStr ''SendMessage''), (''params'', JObj params)]"

definition sdk_serves ::
    "prims \<Rightarrow> 'v pbuf \<Rightarrow> (string \<Rightarrow> bytes res option) \<Rightarrow> 'w skills \<Rightarrow> msg_env \<Rightarrow> string \<Rightarrow>
     string \<Rightarrow> (server \<times> 'w) post \<Rightarrow> bool" where
  "sdk_serves E P fs skill env uuid url post \<longleftrightarrow>
     (\<forall>params headers sv w. (\<exists>pm. message_parsed P (dget params ''message'') pm) \<longrightarrow>
        (\<exists>ctx pm. rc_message ctx = Some pm \<and> message_parsed P (dget params ''message'') pm \<and> rc_task_id ctx \<noteq> [] \<and>
           (\<forall>sv' w' t. execute E P fs skill env uuid ctx sv w = (sv', w', Inr t) \<and> (\<exists>j. task_json P t j) \<longrightarrow>
              (\<exists>j. task_json P t j \<and>
                 post None url (send_request params) headers (sv, w) =
                   ((sv', w'), Inr (JObj [(''jsonrpc'', JStr ''2.0''), (''id'', JStr ''1''),
                      (''result'', JObj [(''task'', j)])]))))))"

section \<open>Values that can be sent\<close>

lemma wire_exact_small: "wire_exact v \<Longrightarrow> small_ints v"
  by (induction v rule: json_induct) (auto simp: list_all_iff)

lemma carried_sendable: "carried v \<Longrightarrow> sendable v"
  by (simp add: carried_def sendable_def wire_exact_small)

lemma sendable_simps [simp]:
  "sendable (JStr s)" "sendable JNull" "sendable (JBool b)" "sendable (JObj [])"
  "sendable (JArr vs) \<longleftrightarrow> list_all sendable vs" "sendable (JInt n) \<longleftrightarrow> \<bar>n\<bar> < 2 ^ 53"
  by (auto simp: sendable_def list_all_iff)

lemma sendable_Cons: "sendable (JObj ((k, v) # d)) \<longleftrightarrow> k \<notin> fst ` set d \<and> sendable v \<and> sendable (JObj d)"
  by (auto simp: sendable_def)

lemma small_ints_canon: "small_ints (canon v) = small_ints v"
  by (induction v rule: json_induct) (auto simp: list_all_iff)

lemma sendable_cong: "canon v = canon w \<Longrightarrow> wf_json v \<Longrightarrow> sendable w \<Longrightarrow> sendable v"
  unfolding sendable_def by (metis finite_json_canon small_ints_canon)

lemma carried_dset:
  assumes "carried (JObj d)" "carried v"
  shows "carried (JObj (dset d k v))"
proof -
  have "wire_exact (JObj (dset d k v))"
    using assms set_dset_sub [of d k v] by (auto simp: carried_def list_all_iff)
  with assms show ?thesis using wf_json_dset [of d v k] finite_dset [of d v k] by (simp only: carried_def)
qed

lemma carried_Cons:
  "carried (JObj ((k, v) # d)) \<longleftrightarrow> k \<notin> fst ` set d \<and> carried v \<and> carried (JObj d)"
  by (auto simp: carried_def)

lemma carried_simps [simp]:
  "carried (JStr s)" "carried (JBool b)" "carried JNull" "carried (JObj [])" "carried (JInt n) \<longleftrightarrow> \<bar>n\<bar> < 2 ^ 53"
  "carried (JArr vs) \<longleftrightarrow> list_all carried vs"
  by (auto simp: carried_def list_all_iff)

lemma wf_mk_float:
  "\<bar>m\<bar> < 2 ^ k \<Longrightarrow> k \<le> 53 \<Longrightarrow> - 1074 \<le> e \<Longrightarrow> e + int k \<le> 971 \<Longrightarrow> wf_float (mk_float m e)"
proof (induction m e arbitrary: k rule: mk_float.induct)
  case (1 m e)
  show ?case
  proof (cases "m = 0 \<or> odd m")
    case True
    have "\<bar>m\<bar> * 2 ^ nat e < 2 ^ k * 2 ^ nat e" using "1.prems"(1) by simp
    also have "(2::int) ^ k * 2 ^ nat e = 2 ^ (k + nat e)" by (simp add: power_add)
    also have "(2::int) ^ (k + nat e) \<le> 2 ^ 1024" using "1.prems" by (intro power_increasing) auto
    finally have v: "\<bar>m\<bar> * 2 ^ nat e < 2 ^ 1024" .
    have "\<bar>m\<bar> < 2 ^ 53"
      using "1.prems"(1) power_increasing [OF "1.prems"(2), of "2::int"] by linarith
    with True v "1.prems" show ?thesis by (auto simp: mk_float.simps [of m e] wf_float_def)
  next
    case False
    then obtain k' where k: "k = Suc k'" using "1.prems"(1) by (cases k) auto
    have "\<bar>m div 2\<bar> < 2 ^ k'" using False "1.prems"(1) by (auto simp: k elim!: evenE simp: abs_mult)
    with False "1.IH" [of k'] "1.prems" k show ?thesis by (simp add: mk_float.simps [of m e])
  qed
qed

lemma finite_mk_float: "finite_float (mk_float m e)"
  by (induction m e rule: mk_float.induct) (subst mk_float.simps, simp add: finite_float_def)

lemma sendable_time: "0 \<le> t \<Longrightarrow> t < 2 ^ 53 \<Longrightarrow> sendable (time_json t)"
  using wf_mk_float [of t 53 "- 22"] by (simp add: sendable_def time_json_def finite_mk_float)

section \<open>What arrives\<close>

lemma send_seed_message:
  assumes "uuid \<noteq> []"
  shows "skill_message_to_send_params E uuid (seed_message capability body) =
    Inr [(''message'', JObj [(''messageId'', JStr uuid), (''role'', JStr ''ROLE_USER''),
      (''parts'', JArr (map sent_part [data_part body])), (''metadata'', JObj [(''capability'', JStr capability)])])]"
proof -
  have "py_lower ''user'' = ''user''" by code_simp
  moreover have "send_part (data_part body) = Inr [sent_part (data_part body)]"
    by (rule send_plain_part) (auto simp: plain_part_def)
  ultimately show ?thesis using assms
    by (simp add: skill_message_to_send_params_def seed_message_def Let_def py_or_def dset_def)
qed

lemma canon_single: "canon (JObj d) = canon (JObj [(k, JStr v)]) \<Longrightarrow> d = [(k, JStr v)]"
proof -
  assume eq: "canon (JObj d) = canon (JObj [(k, JStr v)])"
  then have "sort_key fst (map (\<lambda>(k, v). (k, canon v)) d) = [(k, JStr v)]" by simp
  from arg_cong [OF this, of length] have "length d = 1" by simp
  then obtain a b where d: "d = [(a, b)]" by (cases d) auto
  with eq show ?thesis by (simp add: canon_str_iff)
qed

text \<open>The message the server gets for a message to a Seed.\<close>

lemma seed_message_received:
  assumes "struct_ok dbl P" "carried (JObj body)" "uuid \<noteq> []"
    and "skill_message_to_send_params E uuid (seed_message capability body) = Inr params"
    and "message_parsed P (dget params ''message'') pm" "rc_message ctx = Some pm" "rc_task_id ctx \<noteq> []"
  obtains msg md body' where "skill_message P ctx = Inr msg" "dget msg ''messageId'' = JStr uuid"
    "dget msg ''metadata'' = JObj md" "dget md ''capability'' = JStr capability" "dget md ''task_id'' = JStr (rc_task_id ctx)"
    "\<forall>k. k \<notin> {''capability'', ''task_id''} \<longrightarrow> dget md k = JNull"
    "message_data msg = Inr body'" "wf_json (JObj body')" "canon (JObj body') = canon (JObj body)"
proof -
  let ?params = "[(''message'', JObj [(''messageId'', JStr uuid), (''role'', JStr ''ROLE_USER''),
      (''parts'', JArr [JObj [(''data'', JObj body)]]), (''metadata'', JObj [(''capability'', JStr capability)])])]"
  have "params = ?params" using assms(4) send_seed_message [OF assms(3)] by (simp add: data_part_def)
  with assms(5) obtain q x0 where pm: "pm_message_id pm = uuid" "pm_role pm = ROLE_USER" "pm_parts pm = [q]"
    "part_parsed P (JObj [(''data'', JObj body)]) q"
    "pb_parse P (JObj [(''capability'', JStr capability)]) = Inr x0" "pm_metadata pm = Some x0"
    by (auto simp: message_parsed_def list_all2_Cons1)
  then obtain x where x: "q = PData x" "pb_parse P (JObj body) = Inr x" by (auto simp: part_parsed_def)
  from restored_object [OF assms(1,2) x(2)] obtain w body' where w: "pb_dict P x = Inr w"
    "restore_json_numbers w = JObj body'" "wf_json (JObj body')" "canon (JObj body') = canon (JObj body)" by blast
  from restore_obj_shape [OF w(2)] obtain w' where w': "w = JObj w'" ..
  have "carried (JObj [(''capability'', JStr capability)])" by (simp add: carried_Cons)
  from restored_object [OF assms(1) this pm(5)] obtain w0 md0 where m: "pb_dict P x0 = Inr w0"
    "restore_json_numbers w0 = JObj md0" "canon (JObj md0) = canon (JObj [(''capability'', JStr capability)])" by blast
  then have md0: "md0 = [(''capability'', JStr capability)]" by (intro canon_single) simp
  let ?msg = "[(''messageId'', JStr uuid), (''role'', JStr ''user''), (''parts'', JArr [data_part body']),
     (''metadata'', JObj [(''capability'', JStr capability), (''task_id'', JStr (rc_task_id ctx))]),
     (''taskId'', JStr (pm_task_id pm)), (''contextId'', JStr (pm_context_id pm))]"
  have parts: "part_to_dicts P q = Inr [data_part body']"
    using w(1,2) by (simp add: x(1) w' data_part_def)
  have msg: "skill_message P ctx = Inr ?msg"
    using assms(6,7) pm parts m(1,2) by (simp add: skill_message_def protobuf_message_to_dict_def md0 dset_def)
  let ?md = "[(''capability'', JStr capability), (''task_id'', JStr (rc_task_id ctx))]"
  have fields: "dget ?msg ''messageId'' = JStr uuid" "dget ?msg ''metadata'' = JObj ?md"
    "dget ?md ''capability'' = JStr capability" "dget ?md ''task_id'' = JStr (rc_task_id ctx)"
    "\<forall>k. k \<notin> {''capability'', ''task_id''} \<longrightarrow> dget ?md k = JNull"
    by simp_all
  have "message_data ?msg = Inr body'" by (simp add: message_data_def data_part_def)
  then show ?thesis by (rule that [OF msg fields _ w(3,4)])
qed

text \<open>A descriptor that arrives with its keys in another order is still understood, with the same id.\<close>

lemma canon_int_iff: "canon v = JInt n \<longleftrightarrow> v = JInt n"
  by (cases v) auto

lemma canon_arr_shape: "canon v = canon (JArr xs) \<Longrightarrow> \<exists>xs'. v = JArr xs' \<and> map canon xs' = map canon xs"
  by (cases v) auto

lemma descriptor_arrived:
  assumes "canon x' = canon (capability_to_dict c)" "wf_json x'"
  shows "\<exists>c'. from_value E x' = Inr c' \<and> canon (c_id c') = canon (c_id c) \<and>
    (sendable x' \<longrightarrow> sendable (capability_to_dict c'))"
proof -
  let ?d = "[(''id'', c_id c), (''version'', JStr (c_version c)), (''input_schema'', JObj (c_input_schema c)),
      (''output_schema'', JObj (c_output_schema c)), (''side_effects'', JStr (c_side_effects c))]"
  from assms(1) obtain d' where d': "x' = JObj d'" unfolding capability_to_dict_def by (metis canon_obj_shape)
  have dist: "distinct (map fst d')" "distinct (map fst ?d)" using assms(2) d' by simp_all
  have eq: "canon (JObj d') = canon (JObj ?d)" using assms(1) d' by (simp only: capability_to_dict_def)
  have "map_option canon (map_of d' ''id'') = map_option canon (map_of ?d ''id'')"
    using eq canon_obj_iff [OF dist] by blast
  then obtain i where i: "map_of d' ''id'' = Some i" "canon i = canon (c_id c)" by auto
  have "canon (dget d' k) = canon (dget ?d k)" for k by (rule canon_dget [OF dist eq])
  from this [of "''input_schema''"] this [of "''output_schema''"] obtain ins outs
    where "dget d' ''input_schema'' = JObj ins" "dget d' ''output_schema'' = JObj outs"
    by (auto dest!: canon_obj_shape simp del: canon.simps)
  moreover have "sendable v" if "map_of d' k = Some v" "sendable x'" for k v
    using that map_of_SomeD [OF that(1)] by (auto simp: d' sendable_def list_all_iff)
  then have "sendable (dget d' k)" if "sendable x'" for k using that by (cases "map_of d' k") (auto simp: dget_def)
  ultimately have "sendable (JObj ins)" "sendable (JObj outs)" "sendable i" if "sendable x'"
    using that i(1) \<open>\<And>v k. map_of d' k = Some v \<Longrightarrow> sendable x' \<Longrightarrow> sendable v\<close> by metis+
  with i \<open>dget d' ''input_schema'' = JObj ins\<close> \<open>dget d' ''output_schema'' = JObj outs\<close> show ?thesis
    by (cases "ins = []"; cases "outs = []") (auto simp: d' ditem_def py_or_def capability_to_dict_def sendable_Cons)
qed

text \<open>The descriptors kept for those that were announced: they have the same ids, and can be sent again.\<close>

definition kept :: "json list \<Rightarrow> json list \<Rightarrow> bool" where
  "kept xs ys \<longleftrightarrow>
     (\<forall>y capability. y \<in> set xs \<longrightarrow> describes capability y \<longrightarrow> (\<exists>z \<in> set ys. describes capability z)) \<and>
     (\<forall>z \<in> set ys. sendable z \<and> (\<exists>c. z = capability_to_dict c))"

lemma descriptors_arrived:
  assumes "map canon xs' = map canon xs" "list_all wf_json xs'"
    and "\<And>x. x \<in> set xs \<Longrightarrow> \<exists>c. x = capability_to_dict c" "list_all carried xs"
  obtains ys where "mapR (\<lambda>item. bindR (from_value E item) (\<lambda>c. Inr (capability_to_dict c))) xs' = Inr ys"
    "kept xs ys"
proof -
  let ?f = "\<lambda>item. bindR (from_value E item) (\<lambda>c. Inr (capability_to_dict c))"
  let ?g = "\<lambda>item. projr (?f item)"
  have len: "length xs' = length xs" using assms(1) by (metis length_map)
  have one: "?f (xs' ! j) = Inr (?g (xs' ! j)) \<and>
      (\<forall>capability. describes capability (xs ! j) \<longrightarrow> describes capability (?g (xs' ! j))) \<and>
      sendable (?g (xs' ! j)) \<and> (\<exists>c. ?g (xs' ! j) = capability_to_dict c)"
    if j: "j < length xs" for j
  proof -
    obtain c where c: "xs ! j = capability_to_dict c" using assms(3) [OF nth_mem [OF j]] ..
    have same: "canon (xs' ! j) = canon (xs ! j)" using assms(1) j len by (metis nth_map)
    have wf: "wf_json (xs' ! j)" using assms(2) j len by (simp add: list_all_length)
    have "carried (xs ! j)" using assms(4) j by (simp add: list_all_length)
    then have "sendable (xs' ! j)" by (intro sendable_cong [OF same wf] carried_sendable)
    with same wf obtain c' where c': "from_value E (xs' ! j) = Inr c'" "canon (c_id c') = canon (c_id c)"
      "sendable (capability_to_dict c')"
      unfolding c by (metis descriptor_arrived)
    have "describes capability (capability_to_dict c')" if "describes capability (capability_to_dict c)" for capability
      using that c'(2) by (auto simp: describes_def capability_to_dict_def)
    with c c' show ?thesis by auto
  qed
  then have "?f x = Inr (?g x)" if "x \<in> set xs'" for x using that len by (auto simp: in_set_conv_nth)
  then have "mapR ?f xs' = Inr (map ?g xs')" by (rule mapR_total)
  moreover have "\<exists>z \<in> set (map ?g xs'). describes capability z" if "y \<in> set xs" "describes capability y" for y capability
  proof -
    from that(1) obtain j where j: "j < length xs" "y = xs ! j" by (auto simp: in_set_conv_nth)
    have "?g (xs' ! j) \<in> set (map ?g xs')" using j len by simp
    with one [OF j(1)] that(2) j(2) show ?thesis by blast
  qed
  moreover have "sendable z \<and> (\<exists>c. z = capability_to_dict c)" if z: "z \<in> set (map ?g xs')" for z
  proof -
    from z obtain j where "j < length xs" "z = ?g (xs' ! j)" using len by (auto simp: in_set_conv_nth)
    with one show ?thesis by blast
  qed
  ultimately show ?thesis using that unfolding kept_def by blast
qed

text \<open>An announcement that arrives with its keys in another order makes the same entry.\<close>

lemma wf_dget: "wf_json (JObj d) \<Longrightarrow> wf_json (dget d k)"
  by (cases "map_of d k") (auto simp: dget_def list_all_iff dest!: map_of_SomeD)

lemma announced_entry_arrived:
  assumes "announce_body E fr n av ac = Inr body" "ed25519_ok E" "identity_ok E (nw_identity n)"
    and "i_agent_id (nw_identity n) \<noteq> []" "av \<noteq> []"
    and caps: "\<And>x. x \<in> set (nw_capabilities n) \<Longrightarrow> \<exists>c. x = capability_to_dict c" "list_all carried (nw_capabilities n)"
    and eq: "canon (JObj body') = canon (JObj body)" "wf_json (JObj body')" "wf_json (JObj body)" "finite_json (JObj body)"
  obtains ys where
    "join_entry E now body' = Inr (entry_of n av ys now (now + seconds (granted (nw_lease_seconds n))), granted (nw_lease_seconds n))"
    "kept (nw_capabilities n) ys"
    "\<forall>p. message_data (pl_message p) = Inr body' \<longrightarrow> announce_ok E p body'"
proof -
  obtain policy s where s: "s \<noteq> []" "dget body ''signature'' = JStr s"
    "verify_object E (public_key (nw_identity n)) body s = Inr True"
    "\<forall>k. k \<notin> {''signature'', ''enrollment''} \<longrightarrow> dget body k = dget (announce_fields fr n av ac policy) k"
    by (rule announced_fields [OF assms(1-3)])
  have dist: "distinct (map fst body')" "distinct (map fst body)" using eq(2,3) by simp_all
  have get: "canon (dget body' k) = canon (dget body k)" for k by (rule canon_dget [OF dist eq(1)])
  have str: "dget body' k = JStr t" if "dget body k = JStr t" for k t using get [of k] that by simp
  have texts: "text_field E body' ''agent_id'' = i_agent_id (nw_identity n)"
    "text_field E body' ''public_key'' = public_key (nw_identity n)"
    "text_field E body' ''agent_card_url'' = nw_agent_card_url n"
    "text_field E body' ''endpoint'' = nw_endpoint n"
    using str assms(4) by (auto simp: text_field_def s(4) announce_fields_def py_or_def)
  have sig: "text_field E body' ''signature'' = s" using s(1) str [OF s(2)] by (simp add: text_field_def)
  have lease: "dget body' ''requested_lease_seconds'' = JInt (nw_lease_seconds n)"
    using get [of "''requested_lease_seconds''"] by (simp add: s(4) announce_fields_def canon_int_iff)
  have "canon (dget body' ''capabilities'') = canon (JArr (nw_capabilities n))"
    using get [of "''capabilities''"] by (simp add: s(4) announce_fields_def)
  from canon_arr_shape [OF this] obtain xs where xs: "dget body' ''capabilities'' = JArr xs"
    "map canon xs = map canon (nw_capabilities n)" by blast
  have wfxs: "list_all wf_json xs" using wf_dget [OF eq(2), of "''capabilities''"] xs(1) by simp
  obtain ys where ys: "mapR (\<lambda>item. bindR (from_value E item) (\<lambda>c. Inr (capability_to_dict c))) xs = Inr ys"
    "kept (nw_capabilities n) ys"
    by (rule descriptors_arrived [OF xs(2) wfxs caps])
  let ?av = "[(''accept_new_tasks'', JBool ac), (''status'', JStr av)]"
  have a: "canon (dget body' ''availability'') = canon (JObj ?av)"
    using get [of "''availability''"] by (simp add: s(4) announce_fields_def)
  from canon_obj_shape [OF this] obtain m where m: "dget body' ''availability'' = JObj m" ..
  have "distinct (map fst m)" using wf_dget [OF eq(2), of "''availability''"] m by simp
  from canon_dget [OF this _ a [unfolded m], of "''status''"] have status: "dget m ''status'' = JStr av" by simp
  then have "m \<noteq> []" by auto
  with status have "join_entry E now body' =
      Inr (entry_of n av ys now (now + seconds (granted (nw_lease_seconds n))), granted (nw_lease_seconds n))"
    using assms(5) ys(1) unfolding join_entry_def lease texts xs(1) m
    by (cases "xs = []") (simp_all add: entry_of_def granted_def Let_def py_or_def)
  moreover have "verify_object E (public_key (nw_identity n)) body' s = Inr True"
    using s(3) verify_object_canon [OF dist(2,1) eq(1) [symmetric] finite_unsigned [OF eq(4)]] by simp
  then have "\<forall>p. message_data (pl_message p) = Inr body' \<longrightarrow> announce_ok E p body'"
    using assms(4) s(1) by (simp add: announce_ok_def texts sig)
  ultimately show ?thesis using that ys(2) by blast
qed

section \<open>The answer\<close>

lemma normalize_wrapped:
  assumes "d \<noteq> []" "\<not> dhas d ''task''"
  shows "normalize_task_result E (JObj [(''task'', JObj d)]) = normalize_task_result E (JObj d)"
proof -
  have "dget d ''task'' = JNull" using assms(2) by (auto simp: dget_def dhas_def split: option.splits)
  with assms(1) show ?thesis by (simp add: normalize_task_result_def cong: json.case_cong)
qed

text \<open>
  A task without artifacts reaches the client with its state, and with its metadata up to the order of keys, in which every
  number has been a double on the way.
\<close>

definition over_wire :: "(int \<Rightarrow> pyfloat) \<Rightarrow> json \<Rightarrow> json" where
  "over_wire dbl v = restore_json_numbers (struct_numbers dbl v)"

definition arrives :: "(int \<Rightarrow> pyfloat) \<Rightarrow> dict \<Rightarrow> json \<Rightarrow> bool" where
  "arrives dbl d v \<longleftrightarrow> wf_json v \<and> canon v = canon (over_wire dbl (JObj d))"

lemma reply_state:
  assumes "struct_ok dbl P" "new_task_ok P" "parse_total P"
    and "dget result ''status'' = JObj [(''state'', JStr st)]" "st \<in> {''completed'', ''failed'', ''canceled''}"
    and "dget result ''artifacts'' = JArr []"
    and "dget result ''metadata'' = JObj md" "md \<noteq> []" "sendable (JObj md)"
  obtains t where "dict_to_protobuf_task E P result tid cid = Inr t" "\<exists>j. task_json P t j"
    "\<And>j. task_json P t j \<Longrightarrow>
       \<exists>out. normalize_task_result E' (JObj [(''task'', j)]) = Inr out \<and> task_state_of out = Inr (JStr st) \<and>
         arrives dbl md (dget out ''metadata'')"
proof -
  from assms(5) obtain pst where pst: "map_of STATE_TO_PROTO st = Some pst" "wire_state (enum_name pst) = st"
    "st \<noteq> []" by (auto simp: STATE_TO_PROTO_def wire_state_def PROTO_STATE_TO_WIRE_def)
  from assms(8) obtain kv md' where md: "md = kv # md'" by (cases md) auto
  have "py_str E (py_or (JStr st) (JStr ''completed'')) = st" using pst(3) by (simp add: py_or_def)
  moreover obtain x where x: "pb_parse P (JObj md) = Inr x"
    using assms(3,9) by (auto simp: parse_total_def)
  ultimately have t: "dict_to_protobuf_task E P result tid cid = Inr ((pb_new_task P tid cid pst [])\<lparr>pt_metadata := Some x\<rparr>)"
    using assms(4,6,7) pst(1) x by (simp add: dict_to_protobuf_task_def md)
  let ?t = "(pb_new_task P tid cid pst [])\<lparr>pt_metadata := Some x\<rparr>"
  have tf: "pt_id ?t = tid" "pt_state ?t = pst" "pt_artifacts ?t = []" "pt_metadata ?t = Some x"
    using assms(2) by (simp_all add: new_task_ok_def)
  obtain w where w: "pb_dict P x = Inr w" "canon w = canon (struct_numbers dbl (JObj md))" "wf_json w"
    using assms(1,9) x unfolding struct_ok_def sendable_def by blast
  have obj: "\<exists>m. v = JObj m" if "canon v = canon (struct_numbers dbl (JObj md))" for v
    using that by (cases v) auto
  have "task_json P ?t (JObj [(''id'', JStr tid), (''status'', JObj [(''state'', JStr (enum_name pst))]), (''metadata'', w)])"
    unfolding task_json_def tf by (simp add: w(1))
  then have j: "\<exists>j. task_json P ?t j" by blast
  have "\<exists>out. normalize_task_result E' (JObj [(''task'', j)]) = Inr out \<and> task_state_of out = Inr (JStr st) \<and>
      arrives dbl md (dget out ''metadata'')"
    if "task_json P ?t j" for j
  proof -
    from that obtain d where d: "j = JObj d" "d \<noteq> []" "\<not> dhas d ''task''"
      "dget d ''status'' = JObj [(''state'', JStr (enum_name pst))]" "py_or (dget d ''artifacts'') (JArr []) = JArr []"
      "dget d ''metadata'' = w"
      unfolding task_json_def tf by (auto simp: w(1))
    from obj [OF w(2)] obtain m where m: "w = JObj m" ..
    have notask: "dget d ''task'' = JNull" using d(3) by (auto simp: dget_def dhas_def split: option.splits)
    have dset_single: "dset [(k, v)] k v' = [(k, v')]" for k and v v' :: json by (simp add: dset_def)
    have name: "enum_name pst \<noteq> []" by (cases pst) auto
    have "normalize_task_result E' (JObj d) = Inr (dset (dset (dset d ''status'' (JObj [(''state'', JStr st)]))
        ''artifacts'' (JArr [])) ''metadata'' (restore_json_numbers (JObj m)))"
      using d(2,4-6) m notask pst(2) name dset_single
      by (simp add: normalize_task_result_def Let_def cong: json.case_cong)
    moreover have "canon (restore_json_numbers (JObj m)) = canon (over_wire dbl (JObj md))"
      using w(2) unfolding m over_wire_def by (rule restore.canon_f_cong)
    moreover have "wf_json (restore_json_numbers (JObj m))" by (rule wf_restore) (use w(3) m in simp)
    ultimately show ?thesis unfolding d(1) normalize_wrapped [OF d(2,3)]
      by (simp add: task_state_of_def arrives_def del: canon.simps restore_json_numbers.simps wf_json.simps)
  qed
  with t j show ?thesis by (rule that)
qed

section \<open>Handling\<close>

text \<open>What the Seed answers to an announcement it accepts.\<close>

definition joined_metadata :: "string \<Rightarrow> int \<Rightarrow> int \<Rightarrow> dict" where
  "joined_metadata agent lease expires =
     [(''network_id'', JStr ''reference.local''), (''agent_id'', JStr agent), (''lease_seconds'', JInt lease),
      (''lease_expires_at'', time_json expires)]"

lemma seed_service_joins:
  assumes "announce_ok E p body" "join_entry E now body = Inr (e, lease)"
    and "\<forall>known. dir_get d (en_agent_id e) = Some known \<longrightarrow> en_public_key known = en_public_key e"
  shows "seed_service E now ts ''network.join'' p d =
    (dir_put d e, Inr (Some (hr_completed (joined_metadata (en_agent_id e) lease (en_lease_expires_at e)))))"
proof -
  have "map_of seed_skills ''network.join'' = Some Join" by (simp add: seed_skills_def)
  moreover have "seed_join E now p d =
      (dir_put d e, Inr (hr_completed (joined_metadata (en_agent_id e) lease (en_lease_expires_at e))))"
    using assms join_entry_fields [OF assms(2)]
    by (auto simp: announce_ok_def seed_join_def Let_def joined_metadata_def split: option.splits)
  ultimately show ?thesis by (simp add: seed_service_def seed_handle_def)
qed

text \<open>The metadata of a task whose handler completed it: the handler's, with the fields of errors and of the contract.\<close>

definition answer_metadata :: "dict \<Rightarrow> dict" where
  "answer_metadata meta =
     dupdate meta [(''error'', JNull), (''message'', JNull), (''error_envelope'', JNull), (''contract'', JNull)]"

text \<open>A message without sender and idempotency key is handed to the skill it names, whatever the store holds.\<close>

definition completed_task :: "string \<Rightarrow> dict \<Rightarrow> string \<Rightarrow> dict" where
  "completed_task tid meta upd =
     [(''id'', JStr tid), (''status'', JObj [(''state'', JStr ''completed'')]), (''artifacts'', JArr []),
      (''metadata'', JObj (answer_metadata meta)),
      (''updated_at'', JStr upd)]"

lemma handled:
  assumes "dget msg ''metadata'' = JObj md" "dget md ''capability'' = JStr capability" "capability \<noteq> []"
    and "dget md ''task_id'' = JStr tid" "tid \<noteq> []" "\<forall>k. k \<notin> {''capability'', ''task_id''} \<longrightarrow> dget md k = JNull"
    and "map_of (sv_handlers sv) capability = Some (User capability)"
    and "skill capability \<lparr>pl_message = msg, pl_metadata = md, pl_capability = capability, pl_task_id = tid\<rparr> w =
       (w', Inr (Some (hr_completed meta)))" "dget meta ''contract'' = JNull"
  obtains sv' a where "handle_message E fs skill env msg sv w = (sv', w', Inr a)"
    "sv_heap sv' a = completed_task tid meta (me_updated env)" "sv_handlers sv' = sv_handlers sv"
proof -
  let ?ca = "\<lparr>ca_handler = User capability,
      ca_payload = \<lparr>pl_message = msg, pl_metadata = md, pl_capability = capability, pl_task_id = tid\<rparr>,
      ca_idem_key = [], ca_message_id = message_id_of E msg md, ca_sender = []\<rparr>"
  have ne: "md \<noteq> []" using assms(2) by auto
  have "read_message E (me_task_hex env) msg = Inr (md, capability, tid)"
    using assms(1-5) ne by (simp add: read_message_def py_or_def)
  moreover have "idem_key_of E md = []" "sender_of E md = []"
    using assms(6) by (simp_all add: idem_key_of_def sender_of_def py_or_def)
  moreover have "check_contract E (sv_identity sv) capability md = Inr None"
    using assms(6) by (simp add: check_contract_def Let_def py_or_def)
  ultimately have call: "hm_begin E (me_task_hex env) (me_t1 env) (me_t2 env) msg sv = (sv, Inr (Call ?ca))"
    using assms(7) by (simp add: hm_begin_def lookup_replies_def Let_def)
  have "dget md ''contract'' = JNull" using assms(6) by simp
  then have "hm_finish E fs (me_t3 env) (me_t4 env) (me_updated env) ?ca (Inr (Some (hr_completed meta))) sv =
      (fst (add_task tid (completed_task tid meta (me_updated env)) sv), Inr (sv_next sv))"
    using assms(9) by (simp add: hm_finish_def hr_completed_def add_task_def Let_def result_task_def
        result_contract_def result_envelope_def opt_json_def completed_task_def answer_metadata_def py_or_def)
  with call have "handle_message E fs skill env msg sv w =
      (fst (add_task tid (completed_task tid meta (me_updated env)) sv), w', Inr (sv_next sv))"
    using assms(8) by (simp add: handle_message_def run_handler_def)
  then show ?thesis by (rule that) (simp_all)
qed

section \<open>Sending\<close>

text \<open>An announcement is carried exactly, if its capabilities and numbers are.\<close>

lemma carried_signed:
  assumes "sign_into E i k d = Inr b" "carried (JObj d)"
  shows "carried (JObj b)"
  using assms carried_dset [of d] by (auto simp: sign_into_def)

lemma announcement_carried:
  assumes "announce_body E fr n av ac = Inr body" "list_all carried (nw_capabilities n)"
    and "\<bar>nw_lease_seconds n\<bar> < 2 ^ 53" "\<bar>i_revision (nw_identity n)\<bar> < 2 ^ 53"
  shows "carried (JObj body)"
proof -
  obtain policy enrollment h where p: "recovery_policy E (af_policy_time fr) (nw_identity n) None [] = Inr policy"
    and e: "enrollment_message E (af_enrollment_time fr) (nw_identity n) [] h [] = Inr enrollment"
    and b: "sign_into E (nw_identity n) ''signature''
         (dset (announce_fields fr n av ac policy) ''enrollment'' (JObj enrollment)) = Inr body"
    using assms(1) by (auto simp: announce_body_def)
  have "carried (JObj policy)"
    using p assms(4) unfolding recovery_policy_def Let_def
    by (elim carried_signed) (simp add: carried_Cons list_all_iff)
  then have f: "carried (JObj (announce_fields fr n av ac policy))"
    using assms(2-4) by (simp add: announce_fields_def carried_Cons)
  have "carried (JObj enrollment)"
    using e unfolding enrollment_message_def
    by (auto simp: carried_Cons split: if_splits option.splits elim!: carried_signed)
  with f b show ?thesis by (blast intro: carried_signed carried_dset)
qed

text \<open>A message to the server that its skill completes comes back as a completed task.\<close>

lemma sendable_joined:
  assumes "\<bar>lease\<bar> < 2 ^ 53" "0 \<le> expires" "expires < 2 ^ 53"
  shows "sendable (JObj (answer_metadata (joined_metadata agent lease expires)))"
  using assms sendable_time [OF assms(2,3)]
  by (simp add: joined_metadata_def answer_metadata_def sendable_def dupdate_def dset_def)

lemma completed_reply:
  assumes "struct_ok dbl P" "new_task_ok P" "parse_total P" "meta \<noteq> []"
    and "sendable (JObj (answer_metadata meta))"
  obtains t where "reply_task E P uuid ctx (completed_task tid meta upd) = Inr t" "\<exists>j. task_json P t j"
    "\<And>j. task_json P t j \<Longrightarrow>
       \<exists>out. normalize_task_result E' (JObj [(''task'', j)]) = Inr out \<and> task_state_of out = Inr (JStr ''completed'') \<and>
         arrives dbl (answer_metadata meta) (dget out ''metadata'')"
  unfolding reply_task_def
  by (rule reply_state [OF assms(1-3), where result = "completed_task tid meta upd" and st = "''completed''" and E = E and E' = E'])
    (use assms(4,5) in \<open>auto simp: completed_task_def answer_metadata_def dupdate_def dset_def simp del: canon.simps\<close>)

text \<open>What a skill does when it completes a request with this body, and what its metadata must be to travel back.\<close>

definition completes :: "'w skills \<Rightarrow> string \<Rightarrow> dict \<Rightarrow> 'w \<Rightarrow> ('w \<Rightarrow> dict \<Rightarrow> bool) \<Rightarrow> bool" where
  "completes skill capability body w Q \<longleftrightarrow>
     (\<forall>p body'. message_data (pl_message p) = Inr body' \<and> wf_json (JObj body') \<and> canon (JObj body') = canon (JObj body) \<longrightarrow>
        (\<exists>w' meta. skill capability p w = (w', Inr (Some (hr_completed meta))) \<and> Q w' meta \<and>
           meta \<noteq> [] \<and> dget meta ''contract'' = JNull \<and> sendable (JObj (answer_metadata meta))))"

lemma sdk_servesD:
  assumes "sdk_serves E P fs skill env uuid url post" "\<exists>pm. message_parsed P (dget params ''message'') pm"
  obtains ctx pm where "rc_message ctx = Some pm" "message_parsed P (dget params ''message'') pm" "rc_task_id ctx \<noteq> []"
    "\<forall>sv' w' t. execute E P fs skill env uuid ctx sv w = (sv', w', Inr t) \<and> (\<exists>j. task_json P t j) \<longrightarrow>
       (\<exists>j. task_json P t j \<and>
          post None url (send_request params) headers (sv, w) =
            ((sv', w'), Inr (JObj [(''jsonrpc'', JStr ''2.0''), (''id'', JStr ''1''), (''result'', JObj [(''task'', j)])])))"
  using assms(1) [unfolded sdk_serves_def, rule_format, OF assms(2), of sv w headers] by blast

lemma sent_and_completed:
  assumes "struct_ok dbl P" "new_task_ok P" "parse_total P" "uuid \<noteq> []"
    and "sdk_serves E P fs skill env hex (rstrip_chars ''/'' s) post" "carried (JObj body)" "capability \<noteq> []"
    and "\<exists>pm. message_parsed P (JObj [(''messageId'', JStr uuid), (''role'', JStr ''ROLE_USER''),
      (''parts'', JArr (map sent_part [data_part body])), (''metadata'', JObj [(''capability'', JStr capability)])]) pm"
    and "map_of (sv_handlers sv) capability = Some (User capability)" "completes skill capability body w Q"
  obtains sv' w' out meta where
    "message_send E post (client_init s False) uuid (seed_message capability body) (sv, w) = ((sv', w'), Inr out)"
    "Q w' meta" "arrives dbl (answer_metadata meta) (dget out ''metadata'')" "task_state_of out = Inr (JStr ''completed'')" "sv_handlers sv' = sv_handlers sv"
proof -
  let ?m = "JObj [(''messageId'', JStr uuid), (''role'', JStr ''ROLE_USER''),
      (''parts'', JArr (map sent_part [data_part body])), (''metadata'', JObj [(''capability'', JStr capability)])]"
  let ?params = "[(''message'', ?m)]"
  let ?task = "\<lambda>j. JObj [(''jsonrpc'', JStr ''2.0''), (''id'', JStr ''1''), (''result'', JObj [(''task'', j)])]"
  have params: "skill_message_to_send_params E uuid (seed_message capability body) = Inr ?params"
    by (rule send_seed_message [OF assms(4)])
  have "\<exists>pm. message_parsed P (dget ?params ''message'') pm" using assms(8) by simp
  then obtain ctx pm where ctx: "rc_message ctx = Some pm" "message_parsed P (dget ?params ''message'') pm"
    "rc_task_id ctx \<noteq> []"
    "\<forall>sv' w' t. execute E P fs skill env hex ctx sv w = (sv', w', Inr t) \<and> (\<exists>j. task_json P t j) \<longrightarrow>
       (\<exists>j. task_json P t j \<and> post None (rstrip_chars ''/'' s) (send_request ?params) [(''A2A-Version'', ''1.0'')] (sv, w) =
          ((sv', w'), Inr (?task j)))"
    by (rule sdk_servesD [OF assms(5), where sv = sv and w = w and headers = "[(''A2A-Version'', ''1.0'')]"])
  obtain msg md body' where m: "skill_message P ctx = Inr msg" "dget msg ''messageId'' = JStr uuid"
    "dget msg ''metadata'' = JObj md" "dget md ''capability'' = JStr capability" "dget md ''task_id'' = JStr (rc_task_id ctx)"
    "\<forall>k. k \<notin> {''capability'', ''task_id''} \<longrightarrow> dget md k = JNull"
    "message_data msg = Inr body'" "wf_json (JObj body')" "canon (JObj body') = canon (JObj body)"
    by (rule seed_message_received [OF assms(1,6,4) params ctx(2,1,3)])
  let ?p = "\<lparr>pl_message = msg, pl_metadata = md, pl_capability = capability, pl_task_id = rc_task_id ctx\<rparr>"
  have "message_data (pl_message ?p) = Inr body'" using m(7) by simp
  with assms(10) m(8,9) obtain w' meta where c: "skill capability ?p w = (w', Inr (Some (hr_completed meta)))" "Q w' meta"
    "meta \<noteq> []" "dget meta ''contract'' = JNull"
    "sendable (JObj (answer_metadata meta))"
    unfolding completes_def by blast
  obtain sv' a where h: "handle_message E fs skill env msg sv w = (sv', w', Inr a)"
    "sv_heap sv' a = completed_task (rc_task_id ctx) meta (me_updated env)" "sv_handlers sv' = sv_handlers sv"
    by (rule handled [where skill = skill and capability = capability and w = w and sv = sv, OF m(3,4) assms(7) m(5) ctx(3) m(6) assms(9) c(1,4)])
  obtain t where t: "reply_task E P hex ctx (completed_task (rc_task_id ctx) meta (me_updated env)) = Inr t"
    "\<exists>j. task_json P t j"
    "\<And>j. task_json P t j \<Longrightarrow>
       \<exists>out. normalize_task_result E (JObj [(''task'', j)]) = Inr out \<and> task_state_of out = Inr (JStr ''completed'') \<and>
         arrives dbl (answer_metadata meta) (dget out ''metadata'')"
    by (rule completed_reply [OF assms(1-3) c(3,5), where E' = E]) blast
  have "execute E P fs skill env hex ctx sv w = (sv', w', Inr t)" using m(1) h(1,2) t(1) by (simp add: execute_def)
  from ctx(4) [rule_format, OF conjI, OF this t(2)] obtain j where j: "task_json P t j"
    "post None (rstrip_chars ''/'' s) (send_request ?params) [(''A2A-Version'', ''1.0'')] (sv, w) = ((sv', w'), Inr (?task j))"
    by blast
  from t(3) [OF j(1)] obtain out where out: "normalize_task_result E (JObj [(''task'', j)]) = Inr out"
    "task_state_of out = Inr (JStr ''completed'')"
    "arrives dbl (answer_metadata meta) (dget out ''metadata'')" by blast
  have "rpc E post (client_init s False) ''SendMessage'' ?params ''1.0'' (sv, w) = ((sv', w'), Inr (JObj [(''task'', j)]))"
    using j(2) by (simp add: rpc_def client_init_def Let_def rpc_result_def py_or_def send_request_def bindA_def retA_def)
  with out(1) params have "message_send E post (client_init s False) uuid (seed_message capability body) (sv, w) =
      ((sv', w'), Inr out)"
    by (simp add: message_send_def bindA_def retA_def catchA_def)
  then show ?thesis using c(2) out(3,2) h(3) by (rule that)
qed

lemma seed_message_parses:
  assumes "parse_total P" "carried (JObj body)"
  shows "\<exists>pm. message_parsed P (JObj [(''messageId'', JStr uuid), (''role'', JStr ''ROLE_USER''),
      (''parts'', JArr (map sent_part [data_part body])), (''metadata'', JObj [(''capability'', JStr capability)])]) pm"
proof -
  have "sendable (JObj [(''capability'', JStr capability)])" by (simp add: carried_sendable carried_Cons)
  then obtain x where x: "pb_parse P (JObj [(''capability'', JStr capability)]) = Inr x"
    using assms(1) unfolding parse_total_def by blast
  obtain y where y: "pb_parse P (JObj body) = Inr y"
    using assms(1) carried_sendable [OF assms(2)] unfolding parse_total_def by blast
  let ?pm = "\<lparr>pm_message_id = uuid, pm_role = ROLE_USER, pm_parts = [PData y], pm_metadata = Some x,
    pm_task_id = [], pm_context_id = []\<rparr>"
  have "message_parsed P (JObj [(''messageId'', JStr uuid), (''role'', JStr ''ROLE_USER''),
      (''parts'', JArr (map sent_part [data_part body])), (''metadata'', JObj [(''capability'', JStr capability)])]) ?pm"
    using x y by (simp add: message_parsed_def part_parsed_def data_part_def)
  then show ?thesis ..
qed

lemma announcement_sent:
  assumes "struct_ok dbl P" "new_task_ok P" "parse_total P" "uuid \<noteq> []"
    and "sdk_serves E P fs (seed_service E now ts) env hex (rstrip_chars ''/'' s) post"
    and "map_of (sv_handlers sv) ''network.join'' = Some (User ''network.join'')"
    and "ed25519_ok E" "identity_ok E (nw_identity n)" "i_agent_id (nw_identity n) \<noteq> []"
    and "\<And>x. x \<in> set (nw_capabilities n) \<Longrightarrow> \<exists>c. x = capability_to_dict c" "list_all carried (nw_capabilities n)"
    and "\<bar>nw_lease_seconds n\<bar> < 2 ^ 53" "\<bar>i_revision (nw_identity n)\<bar> < 2 ^ 53"
    and "0 \<le> now" "now + seconds (granted (nw_lease_seconds n)) < 2 ^ 53"
    and "\<forall>known. dir_get d (i_agent_id (nw_identity n)) = Some known \<longrightarrow> en_public_key known = public_key (nw_identity n)"
    and "clients_ok cs"
  obtains cs' sv' md ys where
    "join_one E (seed_send E post uuid) fr s (n, (cs, (sv, d))) =
       ((n\<lparr>nw_joined := List.insert s (nw_joined n), nw_renewing := True\<rparr>,
         (cs', (sv', dir_put d (entry_of n ''AVAILABLE'' ys now (now + seconds (granted (nw_lease_seconds n))))))), Inr md)"
    "kept (nw_capabilities n) ys"
    "clients_ok cs'" "sv_handlers sv' = sv_handlers sv"
proof -
  let ?exp = "now + seconds (granted (nw_lease_seconds n))"
  let ?desc = "kept (nw_capabilities n)"
  let ?Q = "\<lambda>d' (meta :: dict). \<exists>ys. d' = dir_put d (entry_of n ''AVAILABLE'' ys now ?exp) \<and> ?desc ys"
  have "list_all finite_json (nw_capabilities n)" using assms(11) by (auto simp: list_all_iff carried_def)
  from announce_body_total [OF assms(8) this] obtain body where body: "announce_body E fr n ''AVAILABLE'' True = Inr body" by blast
  have carried: "carried (JObj body)" by (rule announcement_carried [OF body assms(11-13)])
  then have wf: "wf_json (JObj body)" "finite_json (JObj body)" by (simp_all only: carried_def)
  have g: "0 \<le> granted (nw_lease_seconds n)" "\<bar>granted (nw_lease_seconds n)\<bar> < 2 ^ 53" by (auto simp: granted_def)
  then have "0 \<le> ?exp" using assms(14) by (simp add: seconds_def)
  then have reply: "sendable (JObj (answer_metadata (joined_metadata (i_agent_id (nw_identity n)) (granted (nw_lease_seconds n)) ?exp)))"
    by (rule sendable_joined [OF g(2) _ assms(15)])
  have "completes (seed_service E now ts) ''network.join'' body d ?Q"
    unfolding completes_def
  proof (intro allI impI, elim conjE)
    fix p :: payload and body'
    assume p: "message_data (pl_message p) = Inr body'" "wf_json (JObj body')" "canon (JObj body') = canon (JObj body)"
    have av: "''AVAILABLE'' \<noteq> []" by simp
    obtain ys where ys: "join_entry E now body' = Inr (entry_of n ''AVAILABLE'' ys now ?exp, granted (nw_lease_seconds n))"
      "?desc ys" "\<forall>p. message_data (pl_message p) = Inr body' \<longrightarrow> announce_ok E p body'"
      by (rule announced_entry_arrived [OF body assms(7-9) av assms(10,11) p(3,2) wf])
    have "seed_service E now ts ''network.join'' p d = (dir_put d (entry_of n ''AVAILABLE'' ys now ?exp),
        Inr (Some (hr_completed (joined_metadata (i_agent_id (nw_identity n)) (granted (nw_lease_seconds n)) ?exp))))"
      using seed_service_joins [OF ys(3) [rule_format, OF p(1)] ys(1), of d] assms(16) by (simp add: entry_of_def)
    moreover have "joined_metadata a l e \<noteq> []" "dget (joined_metadata a l e) ''contract'' = JNull" for a l e
      by (simp_all add: joined_metadata_def)
    ultimately show "\<exists>w' meta. seed_service E now ts ''network.join'' p d = (w', Inr (Some (hr_completed meta))) \<and> ?Q w' meta \<and>
        meta \<noteq> [] \<and> dget meta ''contract'' = JNull \<and>
        sendable (JObj (answer_metadata meta))"
      using reply ys(2) by blast
  qed
  moreover have "''network.join'' \<noteq> []" by simp
  ultimately obtain sv' d' out meta where sent: "message_send E post (client_init s False) uuid (seed_message ''network.join'' body) (sv, d) =
      ((sv', d'), Inr out)" "?Q d' meta" "arrives dbl (answer_metadata meta) (dget out ''metadata'')"
    "task_state_of out = Inr (JStr ''completed'')" "sv_handlers sv' = sv_handlers sv"
    by (elim sent_and_completed [OF assms(1-5) carried _ seed_message_parses [OF assms(3) carried] assms(6)])
  from sent(2) obtain ys where ys: "d' = dir_put d (entry_of n ''AVAILABLE'' ys now ?exp)" "?desc ys" by blast
  from seed_send_Inr [OF assms(17) sent(1)] obtain cs' where cs: "clients_ok cs'"
    "seed_send E post uuid s (seed_message ''network.join'' body) (cs, (sv, d)) = ((cs', (sv', d')), Inr out)" by blast
  have "join_one E (seed_send E post uuid) fr s (n, (cs, (sv, d))) =
       ((n\<lparr>nw_joined := List.insert s (nw_joined n), nw_renewing := True\<rparr>, (cs', (sv', d'))), Inr (task_metadata_of out))"
    using body cs(2) sent(4) by (simp add: join_one_def bindA_def retA_def join_answer_def)
  then show ?thesis unfolding ys(1) using ys(2) cs(1) sent(5) by (rule that)
qed

section \<open>Starting up\<close>

lemma rstrip_chars_idem: "rstrip_chars cs (rstrip_chars cs s) = rstrip_chars cs s"
  by (cases "dropWhile (\<lambda>c. c \<in> set cs) (rev s)")
    (auto simp: rstrip_chars_def dropWhile_eq_Cons_conv)

lemma skill_descriptor:
  obtains c where "from_value E SKILL = Inr c" "c_id c = JStr ''demo.echo''" "carried (capability_to_dict c)"
proof -
  have "\<exists>c. from_value E SKILL = Inr c \<and> c_id c = JStr ''demo.echo'' \<and> carried (capability_to_dict c)"
    by (simp add: SKILL_def py_or_def capability_to_dict_def carried_Cons)
  with that show ?thesis by blast
qed

text \<open>What the example agent starts with.\<close>

lemma agent_app_client:
  assumes "fresh_ok fr" "files (identity_path here env) = None"
    and "agent_app E fr now here env files = (files', Inr (app, mesh))"
  obtains c where "nw_identity mesh = generate E fr (agent_id env)" "nw_seeds mesh = [network_url env]" "nw_joined mesh = []"
    "nw_lease_seconds mesh = 1800" "nw_capabilities mesh = [capability_to_dict c]" "describes ''demo.echo'' (capability_to_dict c)"
    "carried (capability_to_dict c)"
proof -
  obtain i base where i: "load_identity E fr (identity_path here env) (agent_id env) files = (files', Inr i)"
    and n: "network_init E i [network_url env] (base @ ''/.well-known/agent-card.json'') (base @ ''/a2a'') [SKILL] 1800 = Inr mesh"
    by (rule agent_app_parts [OF assms(3)])
  have gi: "i = generate E fr (agent_id env)"
    using first_identity [of fr files "identity_path here env" E "agent_id env"] assms(1,2) i by auto
  obtain c where c: "from_value E SKILL = Inr c" "c_id c = JStr ''demo.echo''" "carried (capability_to_dict c)"
    by (rule skill_descriptor)
  have "describes ''demo.echo'' (capability_to_dict c)" using c(2) by (auto simp: describes_def)
  moreover have "rstrip_chars ''/'' (network_url env) = network_url env" by (simp add: network_url_def rstrip_chars_idem)
  ultimately show ?thesis using that [of c] n gi c(1,3)
    by (auto simp: network_init_def simp del: from_value.simps)
qed

section \<open>A concrete SDK\<close>

fun demo_read_part :: "json \<Rightarrow> json part option" where
  "demo_read_part (JObj [(k, v)]) =
     (if k = ''text'' then (case v of JStr s \<Rightarrow> Some (PText s) | _ \<Rightarrow> None)
      else if k = ''data'' then (case pb_parse demo_pbuf v of Inr x \<Rightarrow> Some (PData x) | Inl _ \<Rightarrow> None)
      else None)"
| "demo_read_part v = None"

definition demo_read_message :: "json \<Rightarrow> json message option" where
  "demo_read_message j =
     (case (dget (case j of JObj m \<Rightarrow> m | _ \<Rightarrow> []) ''messageId'', dget (case j of JObj m \<Rightarrow> m | _ \<Rightarrow> []) ''role'',
            dget (case j of JObj m \<Rightarrow> m | _ \<Rightarrow> []) ''parts'',
            pb_parse demo_pbuf (dget (case j of JObj m \<Rightarrow> m | _ \<Rightarrow> []) ''metadata'')) of
        (JStr i, r, JArr ps, Inr x) \<Rightarrow>
          Some \<lparr>pm_message_id = i, pm_role = (if r = JStr ''ROLE_USER'' then ROLE_USER else ROLE_AGENT),
                pm_parts = List.map_filter demo_read_part ps, pm_metadata = Some x, pm_task_id = [], pm_context_id = []\<rparr>
      | _ \<Rightarrow> None)"

fun demo_show_part :: "json part \<Rightarrow> json" where
  "demo_show_part (PText s) = JObj [(''text'', JStr s)]"
| "demo_show_part (PData x) = JObj [(''data'', struct_numbers demo_dbl x)]"
| "demo_show_part _ = JNull"

definition demo_show_artifact :: "json artifact \<Rightarrow> json" where
  "demo_show_artifact a = JObj [(''artifactId'', JStr (pa_artifact_id a)), (''parts'', JArr (map demo_show_part (pa_parts a)))]"

definition demo_show_task :: "json task \<Rightarrow> json" where
  "demo_show_task t = JObj ([(''id'', JStr (pt_id t)), (''status'', JObj [(''state'', JStr (enum_name (pt_state t)))]),
     (''artifacts'', JArr (map demo_show_artifact (pt_artifacts t)))] @
     (case pt_metadata t of Some x \<Rightarrow> [(''metadata'', struct_numbers demo_dbl x)] | None \<Rightarrow> []))"

text \<open>A transport and an SDK without any loss, in front of a server with these skills.\<close>

definition demo_context_of :: "json message \<Rightarrow> json request_context" where
  "demo_context_of pm = \<lparr>rc_message = Some pm, rc_task_id = ''t1'', rc_context_id = ''c1''\<rparr>"

definition demo_post :: "prims \<Rightarrow> (string \<Rightarrow> bytes res option) \<Rightarrow> 'w skills \<Rightarrow> msg_env \<Rightarrow> string \<Rightarrow> (server \<times> 'w) post" where
  "demo_post E fs skill env uuid origin target request headers svw =
     (case request of
        JObj d \<Rightarrow>
          (case demo_read_message (dget (case dget d ''params'' of JObj p \<Rightarrow> p | _ \<Rightarrow> []) ''message'') of
             Some pm \<Rightarrow>
               (case execute E demo_pbuf fs skill env uuid (demo_context_of pm) (fst svw) (snd svw) of
                  (sv, w, Inr t) \<Rightarrow> ((sv, w), Inr (JObj [(''jsonrpc'', JStr ''2.0''), (''id'', JStr ''1''),
                     (''result'', JObj [(''task'', demo_show_task t)])]))
                | (sv, w, Inl e) \<Rightarrow> ((sv, w), Inl e))
           | None \<Rightarrow> (svw, Inl TypeError))
      | _ \<Rightarrow> (svw, Inl TypeError))"

lemma demo_read_part:
  assumes "part_parsed demo_pbuf j q"
  shows "demo_read_part j = Some q"
  using assms by (auto simp: part_parsed_def)

lemma demo_read_message:
  assumes "message_parsed demo_pbuf j pm"
  obtains pm' where "demo_read_message j = Some pm'" "message_parsed demo_pbuf j pm'"
proof -
  from assms obtain m ps x where j: "j = JObj m" "dget m ''messageId'' = JStr (pm_message_id pm)" "dget m ''parts'' = JArr ps"
    "list_all2 (part_parsed demo_pbuf) ps (pm_parts pm)" "pb_parse demo_pbuf (dget m ''metadata'') = Inr x"
    unfolding message_parsed_def by blast
  from j(4) have ps: "List.map_filter demo_read_part ps = pm_parts pm"
    by (induction rule: list_all2_induct) (auto simp: demo_read_part map_filter_simps)
  let ?pm = "\<lparr>pm_message_id = pm_message_id pm,
    pm_role = (if dget m ''role'' = JStr ''ROLE_USER'' then ROLE_USER else ROLE_AGENT),
    pm_parts = pm_parts pm, pm_metadata = Some x, pm_task_id = [], pm_context_id = []\<rparr>"
  have "demo_read_message j = Some ?pm" using j ps by (simp add: demo_read_message_def)
  moreover have "message_parsed demo_pbuf j ?pm" using j by (auto simp: message_parsed_def)
  ultimately show ?thesis by (rule that)
qed

lemma demo_show_task:
  assumes "task_json demo_pbuf t j"
  shows "task_json demo_pbuf t (demo_show_task t)"
proof -
  have part: "part_json demo_pbuf q (demo_show_part q)" if "part_json demo_pbuf q j" for q j
    using that by (auto simp: part_json_def demo_pbuf_def)
  have parts: "list_all2 (part_json demo_pbuf) qs (map demo_show_part qs)" if "list_all2 (part_json demo_pbuf) qs js" for qs js
    using that by (induction rule: list_all2_induct) (auto simp: part)
  have artifact: "artifact_json demo_pbuf a (demo_show_artifact a)" if "artifact_json demo_pbuf a j" for a j
    using that parts by (auto simp: artifact_json_def demo_show_artifact_def py_or_def)
  have artifacts: "list_all2 (artifact_json demo_pbuf) qs (map demo_show_artifact qs)"
    if "list_all2 (artifact_json demo_pbuf) qs js" for qs js
    using that by (induction rule: list_all2_induct) (auto simp: artifact)
  from assms obtain as where "list_all2 (artifact_json demo_pbuf) (pt_artifacts t) as" unfolding task_json_def by blast
  from artifacts [OF this] show ?thesis
    by (auto simp: task_json_def demo_show_task_def py_or_def demo_pbuf_def split: option.splits)
qed

lemma demo_sdk_serves: "sdk_serves E demo_pbuf fs skill env uuid url (demo_post E fs skill env uuid)"
  unfolding sdk_serves_def
proof (intro allI impI)
  fix params headers sv w
  assume "\<exists>pm. message_parsed demo_pbuf (dget params ''message'') pm"
  then obtain pm where pm: "demo_read_message (dget params ''message'') = Some pm"
    "message_parsed demo_pbuf (dget params ''message'') pm"
    using demo_read_message by metis
  let ?ctx = "demo_context_of pm"
  have "rc_message ?ctx = Some pm" "rc_task_id ?ctx \<noteq> []" by (simp_all add: demo_context_of_def)
  moreover have "demo_post E fs skill env uuid None url (send_request params) headers (sv, w) =
      ((sv', w'), Inr (JObj [(''jsonrpc'', JStr ''2.0''), (''id'', JStr ''1''), (''result'', JObj [(''task'', demo_show_task t)])]))"
    if "execute E demo_pbuf fs skill env uuid ?ctx sv w = (sv', w', Inr t)" for sv' w' t
    using pm(1) that by (simp add: demo_post_def send_request_def)
  ultimately show "\<exists>ctx pm. rc_message ctx = Some pm \<and> message_parsed demo_pbuf (dget params ''message'') pm \<and>
      rc_task_id ctx \<noteq> [] \<and> (\<forall>sv' w' t. execute E demo_pbuf fs skill env uuid ctx sv w = (sv', w', Inr t) \<and>
        (\<exists>j. task_json demo_pbuf t j) \<longrightarrow>
        (\<exists>j. task_json demo_pbuf t j \<and> demo_post E fs skill env uuid None url (send_request params) headers (sv, w) =
          ((sv', w'), Inr (JObj [(''jsonrpc'', JStr ''2.0''), (''id'', JStr ''1''), (''result'', JObj [(''task'', j)])]))))"
    using pm(2) demo_show_task by blast
qed

lemma demo_parse_total: "parse_total demo_pbuf"
proof -
  have "wf_json (struct_numbers demo_dbl v)" if "wf_json v" "small_ints v" for v
    using that
  proof (induction v rule: json_induct)
    case (int n)
    then show ?case using wf_mk_float [of n 53 0] by (simp add: demo_dbl_def)
  next
    case (obj d)
    have "wf_json (struct_numbers demo_dbl v)" if "(k, v) \<in> set d" for k v
    proof -
      have "wf_json v" "small_ints v" using obj(2,3) that by (auto simp: list_all_iff)
      with that show ?thesis by (rule obj(1))
    qed
    then show ?case using obj(2) by (simp add: list_all_iff comp_def case_prod_unfold) force
  qed (auto simp: list_all_iff)
  then show ?thesis by (auto simp: parse_total_def sendable_def demo_pbuf_def)
qed

section \<open>Properties\<close>

text \<open>
  C8: the join from end to end: an agent whose name is new to the Seed, or known under the same key, and that
  announces itself through the A2A client to a Seed behind the A2A server is answered as joined; the Seed
  then holds its key and endpoint and, until the granted lease ends, offers it for each capability it announced. Neither the
  reordering of keys nor the conversion of numbers on the way breaks the signature.
\<close>

theorem join_reaches_seed:
  assumes "struct_ok dbl P" "new_task_ok P" "parse_total P" "uuid \<noteq> []"
    and "sdk_serves E P fs (seed_service E now ts) env hex (rstrip_chars ''/'' s) post"
    and "sv_handlers sv = sv_handlers (sv_init i0 (map fst seed_skills))"
    and "network_init E i seeds cu ep caps lease = Inr n" "ed25519_ok E" "identity_ok E i" "i_agent_id i \<noteq> []"
    and "list_all carried (nw_capabilities n)" "\<bar>lease\<bar> < 2 ^ 53" "\<bar>i_revision i\<bar> < 2 ^ 53"
    and "0 \<le> now" "now + seconds (granted lease) < 2 ^ 53"
    and "\<forall>known. dir_get d (i_agent_id i) = Some known \<longrightarrow> en_public_key known = public_key i"
    and "clients_ok cs"
  shows "\<exists>cs' sv' d' md e. join_one E (seed_send E post uuid) fr s (n, (cs, (sv, d))) =
      ((n\<lparr>nw_joined := List.insert s (nw_joined n), nw_renewing := True\<rparr>, (cs', (sv', d'))), Inr md) \<and> clients_ok cs' \<and>
    dir_get d' (i_agent_id i) = Some e \<and> en_public_key e = public_key i \<and> en_endpoint e = ep \<and>
    (\<forall>x capability t. x \<in> set (nw_capabilities n) \<and> describes capability x \<and> t < now + seconds (granted lease) \<longrightarrow>
       e \<in> set (offers E t d' capability JNull))"
proof -
  have n: "nw_identity n = i" "nw_lease_seconds n = lease" "nw_endpoint n = ep"
    using assms(7) by (auto simp: network_init_def)
  have h: "map_of (sv_handlers sv) ''network.join'' = Some (User ''network.join'')"
    unfolding assms(6) by (simp add: sv_init_def seed_skills_def Let_def)
  obtain cs' sv' md ys where j: "join_one E (seed_send E post uuid) fr s (n, (cs, (sv, d))) =
       ((n\<lparr>nw_joined := List.insert s (nw_joined n), nw_renewing := True\<rparr>,
         (cs', (sv', dir_put d (entry_of n ''AVAILABLE'' ys now (now + seconds (granted (nw_lease_seconds n))))))), Inr md)"
    "kept (nw_capabilities n) ys"
    "clients_ok cs'"
    by (rule announcement_sent [OF assms(1-5) h assms(8) _ _ announced_descriptors [OF assms(7)] assms(11)])
      (use assms(9,10,12-17) n in auto)
  let ?e = "entry_of n ''AVAILABLE'' ys now (now + seconds (granted lease))"
  have g: "dir_get (dir_put d ?e) (i_agent_id i) = Some ?e" by (simp add: dir_get_put n)
  have "?e \<in> set (offers E t (dir_put d ?e) capability JNull)"
    if x: "x \<in> set (nw_capabilities n)" "describes capability x" "t < now + seconds (granted lease)" for x capability t
  proof -
    obtain z where "z \<in> set ys" "describes capability z" using j(2) x(1,2) unfolding kept_def by blast
    with x(3) show ?thesis by (intro offers_live [OF g]) (simp_all add: live_entry_of)
  qed
  with j(1,3) g show ?thesis by (auto simp: n)
qed

lemma join_reaches_seed_witness:
  "\<exists>cs sv d md e.
     join_one demo_prims (seed_send demo_prims
         (demo_post demo_prims (\<lambda>_. None) (seed_service demo_prims 0 ''now'') demo_env []) ''u'')
       demo_afresh ''http://a'' (demo_network, (Map.empty, (sv_init demo_identity (map fst seed_skills), []))) =
       ((demo_network\<lparr>nw_joined := [''http://a''], nw_renewing := True\<rparr>, (cs, (sv, d))), Inr md) \<and>
     dir_get d ''agent'' = Some e \<and> e \<in> set (offers demo_prims 5 d ''echo'' JNull)"
proof -
  have new: "new_task_ok demo_pbuf" by (simp add: new_task_ok_def demo_new_task)
  have caps: "list_all carried (nw_capabilities demo_network)"
    by (simp add: demo_network_def network_init_def capability_to_dict_def carried_Cons)
  have nums: "\<bar>1800 :: int\<bar> < 2 ^ 53" "\<bar>i_revision demo_identity\<bar> < 2 ^ 53" "(0 :: int) \<le> 0"
    "0 + seconds (granted 1800) < 2 ^ 53" "(5 :: int) < 0 + seconds (granted 1800)"
    by (simp_all add: demo_identity_def granted_def seconds_def)
  have ne: "''u'' \<noteq> []" "i_agent_id demo_identity \<noteq> []" by simp_all
  have cs0: "clients_ok Map.empty" by (simp add: clients_ok_def)
  have "\<forall>known. dir_get [] (i_agent_id demo_identity) = Some known \<longrightarrow> en_public_key known = public_key demo_identity"
    by (simp add: dir_get_def)
  from join_reaches_seed [OF demo_pbuf_ok new demo_parse_total ne(1) demo_sdk_serves refl demo_network_init
      demo_ed25519_ok demo_identity_ok ne(2) caps nums(1-4) this cs0,
      where fs = "\<lambda>_. None" and ts = "''now''" and env = demo_env and hex = "[]" and fr = demo_afresh and s = "''http://a''"
        and ?i0.0 = demo_identity]
  obtain cs sv d md e where j: "join_one demo_prims (seed_send demo_prims
         (demo_post demo_prims (\<lambda>_. None) (seed_service demo_prims 0 ''now'') demo_env []) ''u'')
       demo_afresh ''http://a'' (demo_network, (Map.empty, (sv_init demo_identity (map fst seed_skills), []))) =
       ((demo_network\<lparr>nw_joined := List.insert ''http://a'' (nw_joined demo_network), nw_renewing := True\<rparr>, (cs, (sv, d))), Inr md)"
    "dir_get d (i_agent_id demo_identity) = Some e"
    "\<forall>x capability t. x \<in> set (nw_capabilities demo_network) \<and> describes capability x \<and> t < 0 + seconds (granted 1800) \<longrightarrow>
       e \<in> set (offers demo_prims t d capability JNull)"
    by blast
  have "e \<in> set (offers demo_prims 5 d ''echo'' JNull)"
    using j(3) demo_capability [OF refl] conjunct1 [OF demo_descriptors] nums(5) by blast
  moreover have "List.insert ''http://a'' (nw_joined demo_network) = [''http://a'']" "i_agent_id demo_identity = ''agent''"
    by simp_all
  ultimately show ?thesis using j(1,2) by metis
qed

text \<open>
  C9: the system comes up: the example agent, started for the first time against a running reference Seed at its
  configured address, has joined after its start-up task; its renewal runs, and until its lease ends the Seed offers it, at the
  endpoint of its card, to everyone who looks for its skill.
\<close>

theorem example_agent_joins_seed:
  assumes "struct_ok dbl P" "new_task_ok P" "parse_total P" "uuid \<noteq> []" "ed25519_ok E"
    and "seed_app E sfr snow senv sfiles = (sfiles', Inr seed)"
    and "fresh_ok fr" "files (identity_path here env) = None" "agent_id env \<noteq> []"
    and "agent_app E fr anow here env files = (files', Inr (app, mesh))"
    and "sdk_serves E P fs (seed_service E now ts) menv hex (network_url env) post"
    and "0 \<le> now" "now + seconds 1800 < 2 ^ 53"
  shows "\<exists>m cs sv d e. run_start (join_network E str (seed_send E post uuid) afr) (mesh, (Map.empty, (wa_server seed, []))) =
      ((m, (cs, (sv, d))), None) \<and> nw_joined m = [network_url env] \<and> nw_renewing m \<and>
    dir_get d (agent_id env) = Some e \<and> en_public_key e = public_key (sv_identity (wa_server app)) \<and> en_endpoint e = nw_endpoint mesh \<and>
    (\<forall>t. t < now + seconds 1800 \<longrightarrow> e \<in> set (offers E t d ''demo.echo'' JNull))"
proof -
  have h: "map_of (sv_handlers (wa_server seed)) ''network.join'' = Some (User ''network.join'')"
    using assms(6) by (auto simp: seed_app_def Let_def bindA_Inr_iff retA_def sv_init_def seed_skills_def)
  obtain c where n: "nw_identity mesh = generate E fr (agent_id env)" "nw_seeds mesh = [network_url env]" "nw_joined mesh = []"
    "nw_lease_seconds mesh = 1800" "nw_capabilities mesh = [capability_to_dict c]" "describes ''demo.echo'' (capability_to_dict c)"
    "carried (capability_to_dict c)"
    by (rule agent_app_client [OF assms(7,8,10)])
  have ok: "identity_ok E (nw_identity mesh)" unfolding n(1) by (rule generate_ok [OF assms(7)])
  have key: "public_key (sv_identity (wa_server app)) = public_key (nw_identity mesh)"
    using assms(10) by (rule agent_app_parts) (auto simp: network_init_def sv_init_def)
  have u: "rstrip_chars ''/'' (network_url env) = network_url env" by (simp add: network_url_def rstrip_chars_idem)
  have g: "granted 1800 = 1800" by (simp add: granted_def)
  let ?e = "\<lambda>ys. entry_of mesh ''AVAILABLE'' ys now (now + seconds (granted (nw_lease_seconds mesh)))"
  have sdk: "sdk_serves E P fs (seed_service E now ts) menv hex (rstrip_chars ''/'' (network_url env)) post"
    unfolding u by (rule assms(11))
  obtain cs sv md ys where j: "join_one E (seed_send E post uuid) (afr 0) (network_url env) (mesh, (Map.empty, (wa_server seed, []))) =
       ((mesh\<lparr>nw_joined := List.insert (network_url env) (nw_joined mesh), nw_renewing := True\<rparr>, (cs, (sv, dir_put [] (?e ys)))), Inr md)"
    "kept (nw_capabilities mesh) ys"
    by (rule announcement_sent [OF assms(1-4) sdk h assms(5) ok])
      (use assms(9,12,13) n in \<open>auto simp: g dir_get_def clients_ok_def\<close>)
  let ?m = "mesh\<lparr>nw_joined := [network_url env], nw_renewing := True\<rparr>"
  have "join_network E str (seed_send E post uuid) afr (mesh, (Map.empty, (wa_server seed, []))) =
      ((?m, (cs, (sv, dir_put [] (?e ys)))), Inr md)"
    using j(1) n(2,3) by (simp add: join_network_def catchA_def)
  then have "run_start (join_network E str (seed_send E post uuid) afr) (mesh, (Map.empty, (wa_server seed, []))) =
      ((?m, (cs, (sv, dir_put [] (?e ys)))), None)"
    by (simp add: run_start_Some eval_nat_numeral)
  moreover have d: "dir_get (dir_put [] (?e ys)) (agent_id env) = Some (?e ys)" by (simp add: dir_get_put n(1))
  moreover have "?e ys \<in> set (offers E t (dir_put [] (?e ys)) ''demo.echo'' JNull)" if "t < now + seconds 1800" for t
  proof -
    obtain z where "z \<in> set ys" "describes ''demo.echo'' z" using j(2) n(5,6) by (auto simp: kept_def)
    with that show ?thesis by (intro offers_live [OF d]) (simp_all add: live_entry_of n(4) g)
  qed
  ultimately show ?thesis by (intro exI conjI) (assumption | simp add: key)+
qed

lemma example_agent_joins_seed_witness:
  "\<exists>sfiles seed files app mesh m cs sv d e.
     seed_app demo_prims demo_fresh ''now'' demo_environ demo_files = (sfiles, Inr seed) \<and>
     agent_app demo_prims demo_fresh ''now'' ''/agent'' demo_environ demo_files = (files, Inr (app, mesh)) \<and>
     run_start (join_network demo_prims (\<lambda>e. []) (seed_send demo_prims
         (demo_post demo_prims (\<lambda>_. None) (seed_service demo_prims 0 ''now'') demo_env []) ''u'') (\<lambda>k. demo_afresh))
       (mesh, (Map.empty, (wa_server seed, []))) = ((m, (cs, (sv, d))), None) \<and>
     e \<in> set (offers demo_prims 5 d ''demo.echo'' JNull)"
proof -
  obtain sfiles seed where sd: "seed_app demo_prims demo_fresh ''now'' demo_environ demo_files = (sfiles, Inr seed)"
    by (rule demo_seed_app)
  obtain files app mesh where a: "agent_app demo_prims demo_fresh ''now'' ''/agent'' demo_environ demo_files = (files, Inr (app, mesh))"
    by (rule demo_agent_app)
  have f: "demo_files (identity_path ''/agent'' demo_environ) = None" by (simp add: demo_files_def)
  have new: "new_task_ok demo_pbuf" by (simp add: new_task_ok_def demo_new_task)
  have ne: "''u'' \<noteq> []" "agent_id demo_environ \<noteq> []" by (simp_all add: agent_id_def getenv_def demo_environ_def)
  have nums: "(0 :: int) \<le> 0" "0 + seconds 1800 < 2 ^ 53" "(5 :: int) < 0 + seconds 1800" by (simp_all add: seconds_def)
  from example_agent_joins_seed [OF demo_pbuf_ok new demo_parse_total ne(1) demo_ed25519_ok sd demo_fresh_ok f ne(2) a
      demo_sdk_serves nums(1,2), where fs = "\<lambda>_. None" and ts = "''now''" and menv = demo_env and hex = "[]"
        and afr = "\<lambda>k. demo_afresh" and str = "\<lambda>e. []"]
  obtain m cs sv d e where j: "run_start (join_network demo_prims (\<lambda>e. []) (seed_send demo_prims
         (demo_post demo_prims (\<lambda>_. None) (seed_service demo_prims 0 ''now'') demo_env []) ''u'') (\<lambda>k. demo_afresh))
       (mesh, (Map.empty, (wa_server seed, []))) = ((m, (cs, (sv, d))), None)"
    "\<forall>t. t < 0 + seconds 1800 \<longrightarrow> e \<in> set (offers demo_prims t d ''demo.echo'' JNull)"
    by blast
  from j(2) nums(3) have "e \<in> set (offers demo_prims 5 d ''demo.echo'' JNull)" by blast
  with sd a j(1) show ?thesis by blast
qed

end
