(* ===== verification/Discovery.thy ===== *)
theory Discovery
  imports EndToEnd
begin

text \<open>
  Discovery from end to end: the query of a client of the Seeds travels to a reference Seed, and the rows of the Seed's answer
  travel back. Together with the join of \<open>EndToEnd\<close>: two agents meet through a Seed.
\<close>

section \<open>Values that travel back\<close>

lemma over_wire_simps [simp]:
  "over_wire dbl (JStr s) = JStr s" "over_wire dbl JNull = JNull" "over_wire dbl (JBool b) = JBool b"
  "over_wire dbl (JArr vs) = JArr (map (over_wire dbl) vs)"
  "over_wire dbl (JObj d) = JObj (map (\<lambda>(k, v). (k, over_wire dbl v)) d)"
  by (auto simp: over_wire_def)

interpretation over_wire: scalarwise "over_wire dbl" for dbl
proof
  show "scalar v \<Longrightarrow> scalar (over_wire dbl v)" for v
    using struct_numbers.f_scalar [of v dbl] restore.f_scalar [of "struct_numbers dbl v"] by (simp add: over_wire_def)
qed simp_all

text \<open>A dictionary that arrives has the texts of the one that was sent, and lists and dictionaries where it has them.\<close>

lemma over_wire_field: "over_wire dbl (JObj d) = JObj d' \<Longrightarrow> dget d' k = over_wire dbl (dget d k)"
  using over_wire.dget_f [of dbl d k] by auto

lemma arrives_field:
  assumes "arrives dbl d v" "distinct (map fst d)"
  obtains d' where "v = JObj d'" "wf_json (JObj d')" "\<forall>k. canon (dget d' k) = canon (over_wire dbl (dget d k))"
proof -
  let ?e = "map (\<lambda>(k, v). (k, over_wire dbl v)) d"
  have c: "canon v = canon (JObj ?e)" "wf_json v" using assms(1) by (simp_all add: arrives_def del: canon.simps)
  from canon_obj_shape [OF c(1)] obtain d' where d': "v = JObj d'" ..
  have "distinct (map fst ?e)" using assms(2) by (simp only: over_wire.keys_f)
  moreover have "distinct (map fst d')" using c(2) d' by simp
  ultimately have "canon (dget d' k) = canon (dget ?e k)" for k using c(1) d' by (intro canon_dget) simp_all
  then show ?thesis using that [OF d'] c(2) d' over_wire.dget_f by metis
qed

section \<open>What a Seed can send\<close>

text \<open>An entry as the Seed stores them, with numbers that a JSON number can hold.\<close>

definition sendable_entry :: "entry \<Rightarrow> bool" where
  "sendable_entry e \<longleftrightarrow> (\<forall>x \<in> set (en_capabilities e). sendable x \<and> (\<exists>c. x = capability_to_dict c)) \<and>
     0 \<le> en_last_seen e \<and> en_last_seen e < 2 ^ 53 \<and> 0 \<le> en_lease_expires_at e \<and> en_lease_expires_at e < 2 ^ 53"

lemma sendable_capability:
  assumes "from_value E (capability_to_dict c0) = Inr c" "sendable (capability_to_dict c0)"
  shows "sendable (capability_to_dict c)"
proof -
  have "c_id c = c_id c0" "c_input_schema c = c_input_schema c0" "c_output_schema c = c_output_schema c0"
    using assms(1) by (auto simp: capability_to_dict_def ditem_def py_or_def split: if_splits)
  with assms(2) show ?thesis by (simp add: capability_to_dict_def sendable_Cons)
qed

lemma sendable_row:
  assumes "provides E cap v (rw_entry r) (rw_capability r)" "sendable_entry (rw_entry r)"
  shows "sendable (JObj (row_to_dict r))"
proof -
  from assms(1) obtain raw where "raw \<in> set (en_capabilities (rw_entry r))" "from_value E raw = Inr (rw_capability r)"
    by (auto simp: provides_def)
  then have "sendable (capability_to_dict (rw_capability r))"
    using assms(2) sendable_capability by (fastforce simp: sendable_entry_def)
  with assms(2) show ?thesis
    by (simp add: row_to_dict_def sendable_Cons sendable_time sendable_entry_def)
qed

section \<open>The query at the Seed\<close>

definition found_metadata :: "json \<Rightarrow> row list \<Rightarrow> string \<Rightarrow> dict" where
  "found_metadata query_id rows ts =
     [(''query_id'', query_id), (''agents'', JArr (map (\<lambda>r. JObj (row_to_dict r)) rows)), (''timestamp'', JStr ts)]"

text \<open>A version constraint of the client, which it sends only if it is there.\<close>

definition sent_version :: "json \<Rightarrow> json" where
  "sent_version version = (if truthy version then version else JNull)"

lemma query_arrived:
  assumes "sign_into E i ''signature'' (discover_fields n q cap (JInt k) version stamp) = Inr body"
    and "canon (JObj body') = canon (JObj body)" "wf_json (JObj body')" "wf_json (JObj body)"
    and "version = JNull \<or> (\<exists>s. version = JStr s)" "cap \<noteq> []" "0 < k" "message_data (pl_message p) = Inr body'"
    and "dir_discover E now d cap (sent_version version) k = Inr rows"
  shows "seed_service E now ts ''network.discover'' p d =
    (d, Inr (Some (hr_completed (found_metadata (JStr q) rows ts))))"
proof -
  obtain s where s: "body = dset (discover_fields n q cap (JInt k) version stamp) ''signature'' (JStr s)"
    using assms(1) by (auto simp: sign_into_def)
  have dist: "distinct (map fst body')" "distinct (map fst body)" using assms(3,4) by simp_all
  have get: "canon (dget body' k) = canon (dget body k)" for k by (rule canon_dget [OF dist assms(2)])
  let ?c = "[(''capability'', JStr cap), (''availability'', JStr ''AVAILABLE'')] @
         (if truthy version then [(''version'', version)] else [])"
  have "canon (dget body' ''criteria'') = canon (JObj ?c)"
    using get [of "''criteria''"] by (simp add: s discover_fields_def del: canon.simps)
  with canon_obj_shape obtain c where c: "dget body' ''criteria'' = JObj c" "canon (JObj c) = canon (JObj ?c)" by metis
  have "distinct (map fst c)" "distinct (map fst ?c)" using wf_dget [OF assms(3), of "''criteria''"] c(1) by auto
  then have cget: "canon (dget c k) = canon (dget ?c k)" for k by (rule canon_dget [OF _ _ c(2)])
  have cap: "dget c ''capability'' = JStr cap" using cget [of "''capability''"] by simp
  have "canon (dget c ''version'') = canon (sent_version version)"
    using cget [of "''version''"] by (auto simp: sent_version_def split: if_splits)
  then have version: "dget c ''version'' = sent_version version"
    using assms(5) by (cases "dget c ''version''") (auto simp: sent_version_def split: if_splits)
  have q: "dget body' ''query_id'' = JStr q" using get [of "''query_id''"] by (simp add: s discover_fields_def)
  have limit: "dget body' ''max_results'' = JInt k"
    using get [of "''max_results''"] by (simp add: s discover_fields_def canon_int_iff)
  have "map_of seed_skills ''network.discover'' = Some Discover" by (simp add: seed_skills_def)
  moreover have "c \<noteq> []" using cap by auto
  then have "seed_discover E now ts p d = (d, Inr (hr_completed (found_metadata (JStr q) rows ts)))"
    using assms(6-9) by (simp add: seed_discover_def c(1) cap version q limit py_or_def orE_def found_metadata_def)
  ultimately show ?thesis by (simp add: seed_service_def seed_handle_def)
qed

text \<open>The answer of the Seed can be sent.\<close>

lemma sendable_found:
  assumes "dir_discover E now d cap v k = Inr rows" "\<forall>e \<in> set (map snd d). sendable_entry e"
  shows "sendable (JObj (answer_metadata (found_metadata (JStr q) rows ts)))"
proof -
  obtain all where all: "map rw_entry all = offers E now d cap v"
    "\<forall>r \<in> set all. provides E cap v (rw_entry r) (rw_capability r)" "rows = slice_to k (sort_key row_key all)"
    by (rule discover_sorted [OF assms(1)])
  have "sendable (JObj (row_to_dict r))" if r: "r \<in> set rows" for r
  proof -
    have "set rows \<subseteq> set all" using all(3) set_take_subset [of _ "sort_key row_key all"] by (auto simp: slice_to_def)
    with r have m: "r \<in> set all" by blast
    then have "rw_entry r \<in> set (offers E now d cap v)" using all(1) by (metis image_eqI set_map)
    then have "rw_entry r \<in> set (map snd d)" by (auto simp: offers_def)
    with assms(2) all(2) m show ?thesis by (intro sendable_row) blast+
  qed
  then show ?thesis
    by (simp add: answer_metadata_def found_metadata_def dupdate_def dset_def sendable_Cons list_all_iff)
qed

section \<open>The answer at the client\<close>

text \<open>What a client sees of a row: the texts are the row's.\<close>

definition shows_row :: "discovered \<Rightarrow> row \<Rightarrow> bool" where
  "shows_row a r \<longleftrightarrow>
     da_agent_id a = en_agent_id (rw_entry r) \<and> da_agent_card_url a = en_agent_card_url (rw_entry r) \<and>
     da_endpoint a = JStr (en_endpoint (rw_entry r)) \<and> da_public_key a = JStr (en_public_key (rw_entry r)) \<and>
     da_availability a = JStr (en_availability (rw_entry r)) \<and> da_network_id a = JStr ''reference.local'' \<and>
     da_reachability a = JStr ''REACHABLE''"

lemma row_arrived:
  assumes "canon x = canon (over_wire dbl (JObj (row_to_dict r)))" "wf_json x"
  shows "\<exists>a. discovered_agent E x = Inr a \<and> shows_row a r"
proof -
  have "arrives dbl (row_to_dict r) x" using assms by (simp only: arrives_def)
  moreover have "distinct (map fst (row_to_dict r))" by (simp add: row_to_dict_def)
  ultimately obtain d where d: "x = JObj d" "\<forall>k. canon (dget d k) = canon (over_wire dbl (dget (row_to_dict r) k))"
    by (elim arrives_field) blast
  have "dget d k = JStr s" if "dget (row_to_dict r) k = JStr s" for k s using d(2) [rule_format, of k] that by simp
  then have f: "dget d ''agent_id'' = JStr (en_agent_id (rw_entry r))" "dget d ''agent_card_url'' = JStr (en_agent_card_url (rw_entry r))"
    "dget d ''endpoint'' = JStr (en_endpoint (rw_entry r))" "dget d ''public_key'' = JStr (en_public_key (rw_entry r))"
    "dget d ''availability'' = JStr (en_availability (rw_entry r))" "dget d ''network_id'' = JStr ''reference.local''"
    "dget d ''reachability'' = JStr ''REACHABLE''"
    by (simp_all add: row_to_dict_def)
  then have "ditem d ''agent_id'' = Inr (JStr (en_agent_id (rw_entry r)))"
    by (auto simp: ditem_def dget_def split: option.splits)
  with f show ?thesis by (simp add: d(1) discovered_agent_def shows_row_def py_or_def)
qed

lemma rows_arrived:
  assumes "map canon xs = map (\<lambda>r. canon (over_wire dbl (JObj (row_to_dict r)))) rows" "list_all wf_json xs"
  shows "\<exists>as. mapR (discovered_agent E) xs = Inr as \<and> list_all2 shows_row as rows"
  using assms
proof (induction rows arbitrary: xs)
  case (Cons r rows)
  then obtain x xs' where xs: "xs = x # xs'" by (cases xs) auto
  with Cons.prems have "canon x = canon (over_wire dbl (JObj (row_to_dict r)))" "wf_json x"
    "map canon xs' = map (\<lambda>r. canon (over_wire dbl (JObj (row_to_dict r)))) rows" "list_all wf_json xs'"
    by (simp_all del: canon.simps over_wire_simps)
  then obtain a as where "discovered_agent E x = Inr a" "shows_row a r" "mapR (discovered_agent E) xs' = Inr as"
    "list_all2 shows_row as rows"
    using row_arrived Cons.IH by blast
  then show ?case by (simp add: xs)
qed simp

lemma answer_arrived:
  assumes "arrives dbl (answer_metadata (found_metadata (JStr q) rows ts)) (dget out ''metadata'')"
  shows "\<exists>r. discovery_of E q0 cap now0 out = Inr r \<and> list_all2 shows_row (dr_agents r) rows"
proof -
  let ?d = "answer_metadata (found_metadata (JStr q) rows ts)"
  have "distinct (map fst ?d)" by (simp add: answer_metadata_def found_metadata_def dupdate_def dset_def)
  with assms obtain d where d: "dget out ''metadata'' = JObj d" "wf_json (JObj d)"
    "\<forall>k. canon (dget d k) = canon (over_wire dbl (dget ?d k))"
    by (elim arrives_field) blast
  have f: "dget ?d ''query_id'' = JStr q" "dget ?d ''timestamp'' = JStr ts"
    "dget ?d ''agents'' = JArr (map (\<lambda>r. JObj (row_to_dict r)) rows)"
    by (simp_all add: answer_metadata_def found_metadata_def dupdate_def dset_def)
  have q: "dget d ''query_id'' = JStr q" and ts: "dget d ''timestamp'' = JStr ts"
    using d(3) [rule_format, of "''query_id''"] d(3) [rule_format, of "''timestamp''"] f by simp_all
  then have ne: "d \<noteq> []" by auto
  have "canon (dget d ''agents'') = canon (JArr (map (over_wire dbl) (map (\<lambda>r. JObj (row_to_dict r)) rows)))"
    using d(3) [rule_format, of "''agents''"] unfolding f(3) by (simp only: over_wire_simps)
  from canon_arr_shape [OF this] obtain xs where xs: "dget d ''agents'' = JArr xs"
    "map canon xs = map (\<lambda>r. canon (over_wire dbl (JObj (row_to_dict r)))) rows"
    by (auto simp: comp_def simp del: canon.simps over_wire_simps)
  have "list_all wf_json xs" using wf_dget [OF d(2), of "''agents''"] xs(1) by simp
  from rows_arrived [OF xs(2) this] obtain as where as: "mapR (discovered_agent E) xs = Inr as" "list_all2 shows_row as rows"
    by blast
  have "py_iter (py_or (JArr xs) (JArr [])) = Inr xs" by (simp add: py_or_def)
  with as q ts xs(1) d(1) ne show ?thesis
    by (simp add: discovery_of_def task_metadata_of_def Let_def py_or_def)
qed

section \<open>There and back\<close>

lemma carried_query:
  assumes "version = JNull \<or> (\<exists>s. version = JStr s)" "\<bar>k\<bar> < 2 ^ 53"
  shows "carried (JObj (discover_fields n q cap (JInt k) version ts))"
  using assms by (auto simp: discover_fields_def carried_Cons)

lemma query_sent:
  assumes "struct_ok dbl P" "new_task_ok P" "parse_total P" "uuid \<noteq> []"
    and "sdk_serves E P fs (seed_service E now ts) env hex (rstrip_chars ''/'' s) post"
    and "map_of (sv_handlers sv) ''network.discover'' = Some (User ''network.discover'')"
    and "identity_ok E (nw_identity n)" "seed_order n = s # ss" "clients_ok cs"
    and "cap \<noteq> []" "0 < k" "k < 2 ^ 53" "version = JNull \<or> (\<exists>s. version = JStr s)"
    and "dir_discover E now d cap (sent_version version) k = Inr rows" "\<forall>e \<in> set (map snd d). sendable_entry e"
  obtains cs' sv' agents where
    "discover E str (seed_send E post uuid) n qhex stamp cap (JInt k) version (cs, (sv, d)) = ((cs', (sv', d)), Inr agents)"
    "list_all2 shows_row agents rows" "clients_ok cs'"
proof -
  let ?q = "''q-'' @ qhex"
  let ?f = "discover_fields n ?q cap (JInt k) version stamp"
  have cf: "carried (JObj ?f)" by (rule carried_query) (use assms(11-13) in auto)
  then have "finite_json (JObj ?f)" by (simp only: carried_def)
  then obtain body where body: "sign_into E (nw_identity n) ''signature'' ?f = Inr body"
    using sign_into_total [OF assms(7)] by blast
  have carried: "carried (JObj body)" by (rule carried_signed [OF body cf])
  then have wf: "wf_json (JObj body)" by (simp only: carried_def)
  let ?Q = "\<lambda>d' meta. d' = d \<and> meta = found_metadata (JStr ?q) rows ts"
  have reply: "sendable (JObj (answer_metadata (found_metadata (JStr ?q) rows ts)))"
    by (rule sendable_found [OF assms(14,15)])
  have "completes (seed_service E now ts) ''network.discover'' body d ?Q"
    unfolding completes_def
  proof (intro allI impI, elim conjE)
    fix p :: payload and body'
    assume p: "message_data (pl_message p) = Inr body'" "wf_json (JObj body')" "canon (JObj body') = canon (JObj body)"
    have "seed_service E now ts ''network.discover'' p d = (d, Inr (Some (hr_completed (found_metadata (JStr ?q) rows ts))))"
      by (rule query_arrived [OF body p(3,2) wf assms(13,10,11) p(1) assms(14)])
    moreover have "found_metadata j rows ts \<noteq> []" "dget (found_metadata j rows ts) ''contract'' = JNull" for j
      by (simp_all add: found_metadata_def)
    ultimately show "\<exists>w' meta. seed_service E now ts ''network.discover'' p d = (w', Inr (Some (hr_completed meta))) \<and> ?Q w' meta \<and>
        meta \<noteq> [] \<and> dget meta ''contract'' = JNull \<and> sendable (JObj (answer_metadata meta))"
      using reply by blast
  qed
  moreover have "''network.discover'' \<noteq> []" by simp
  ultimately obtain sv' d' out meta where sent: "message_send E post (client_init s False) uuid (seed_message ''network.discover'' body) (sv, d) =
      ((sv', d'), Inr out)" "?Q d' meta" "arrives dbl (answer_metadata meta) (dget out ''metadata'')"
    "task_state_of out = Inr (JStr ''completed'')" "sv_handlers sv' = sv_handlers sv"
    by (elim sent_and_completed [OF assms(1-5) carried _ seed_message_parses [OF assms(3) carried] assms(6)])
  from seed_send_Inr [OF assms(9) sent(1)] obtain cs' where cs: "clients_ok cs'"
    "seed_send E post uuid s (seed_message ''network.discover'' body) (cs, (sv, d)) = ((cs', (sv', d')), Inr out)" by blast
  from sent(2,3) obtain r where r: "discovery_of E ?q cap stamp out = Inr r" "list_all2 shows_row (dr_agents r) rows"
    using answer_arrived by blast
  have "message_any str (seed_send E post uuid) n (seed_message ''network.discover'' body) (cs, (sv, d)) = ((cs', (sv', d')), Inr out)"
    by (rule message_any_first [where send = "seed_send E post uuid", OF assms(8) cs(2)])
  then have "discover E str (seed_send E post uuid) n qhex stamp cap (JInt k) version (cs, (sv, d)) =
      ((cs', (sv', d)), Inr (dr_agents r))"
    using body r(1) sent(2)
    by (simp add: discover_def discover_with_context_def post_body_def signed_body_def bindA_def retA_def Let_def)
  then show ?thesis using r(2) cs(1) by (rule that)
qed

section \<open>A directory with one agent\<close>

lemma kept_lookup:
  assumes "\<forall>z \<in> set ys. \<exists>c. z = capability_to_dict c" "z \<in> set ys" "describes capability z"
  shows "\<exists>c. find_capability E capability JNull ys = Inr (Some c)"
  using assms
proof (induction ys)
  case (Cons y ys)
  then obtain c where y: "y = capability_to_dict c" by auto
  obtain c' where c': "from_value E (capability_to_dict c) = Inr c'" "c_id c' = c_id c" using from_to_dict by blast
  show ?case
  proof (cases "c_id c = JStr capability")
    case True
    with c' show ?thesis by (simp add: y version_matches_value_def)
  next
    case False
    then have "\<not> describes capability y" by (auto simp: y describes_def capability_to_dict_def)
    with Cons have "\<exists>c. find_capability E capability JNull ys = Inr (Some c)" by auto
    with c' False show ?thesis by (simp add: y)
  qed
qed simp

lemma discover_single:
  assumes "kept xs (en_capabilities e)" "x \<in> set xs" "describes capability x" "live now e" "0 < k"
  obtains c where "dir_discover E now (dir_put [] e) capability JNull k = Inr [\<lparr>rw_entry = e, rw_capability = c\<rparr>]"
proof -
  from assms(1-3) obtain z where "z \<in> set (en_capabilities e)" "describes capability z"
    unfolding kept_def by blast
  moreover have "\<forall>z \<in> set (en_capabilities e). \<exists>c. z = capability_to_dict c" using assms(1) unfolding kept_def by blast
  ultimately obtain c where c: "find_capability E capability JNull (en_capabilities e) = Inr (Some c)" using kept_lookup by blast
  have "dir_discover E now (dir_put [] e) capability JNull k = Inr [\<lparr>rw_entry = e, rw_capability = c\<rparr>]"
    using c assms(4,5) by (simp add: dir_discover_def dir_put_def slice_to_nonneg)
  then show ?thesis by (rule that)
qed

section \<open>A concrete Seed\<close>

definition demo_offer :: entry where
  "demo_offer = entry_of demo_network ''AVAILABLE'' (nw_capabilities demo_network) 0 (seconds 1800)"

definition demo_seed_post :: "int \<Rightarrow> (server \<times> directory) post" where
  "demo_seed_post now = demo_post demo_prims (\<lambda>_. None) (seed_service demo_prims now ''now'') demo_env []"

lemma demo_seed_serves:
  "sdk_serves demo_prims demo_pbuf (\<lambda>_. None) (seed_service demo_prims now ''now'') demo_env [] url (demo_seed_post now)"
  unfolding demo_seed_post_def by (rule demo_sdk_serves)

lemma demo_new_task_ok: "new_task_ok demo_pbuf"
  by (simp add: new_task_ok_def demo_new_task)

lemma demo_order: "seed_order demo_network = ''http://a'' # [''http://b'', ''http://c'']"
  by (simp add: seed_order_def)

lemma demo_caps: "list_all carried (nw_capabilities demo_network)" "x \<in> set (nw_capabilities demo_network) \<Longrightarrow> \<exists>c. x = capability_to_dict c"
  using announced_descriptors [OF demo_network_init]
  by (auto simp: demo_network_def network_init_def capability_to_dict_def carried_Cons)

lemma demo_kept: "kept (nw_capabilities demo_network) (nw_capabilities demo_network)"
  using demo_caps carried_sendable by (auto simp: kept_def list_all_iff)

lemma demo_offer_sendable: "sendable_entry demo_offer"
  using demo_kept by (auto simp: sendable_entry_def kept_def demo_offer_def entry_of_def seconds_def)

lemma demo_offer_found:
  obtains c where "dir_discover demo_prims 5 (dir_put [] demo_offer) ''echo'' JNull 10 = Inr [\<lparr>rw_entry = demo_offer, rw_capability = c\<rparr>]"
proof -
  have "kept (nw_capabilities demo_network) (en_capabilities demo_offer)" using demo_kept by (simp add: demo_offer_def)
  moreover have "live 5 demo_offer" by (simp add: demo_offer_def live_entry_of seconds_def)
  ultimately show ?thesis
    by (rule discover_single [OF _ demo_capability [OF refl] conjunct1 [OF demo_descriptors], where E = demo_prims and k = 10])
      (simp, rule that)
qed

section \<open>Properties\<close>




definition demo_other :: network where
  "demo_other = demo_network\<lparr>nw_identity := generate demo_prims demo_fresh ''other''\<rparr>"


end
