(* ===== verification/Spec2Isabelle.thy ===== *)
theory Spec2Isabelle
  imports Canonical Encoding DemoPrims KeyProvider Identity Errors Capability Policy Idempotency
    Models Handler Proposal Artifact Seed Server Url Wire Card Official Outgoing Client Network
    Presence Registry Agent EndToEnd Discovery
begin

text \<open>
  A verification development for the LivingRuntime Agent Network: the Python SDK under
  \<open>agent-network-sdk-python/src/agent_network/\<close>, the reference Seed
  \<open>reference-seed/src/reference_seed/app.py\<close> and the example agent \<open>examples/third-party-agent/agent.py\<close>.

  \<^bold>\<open>The program.\<close> An agent has an Ed25519 identity. It signs JSON objects in a canonical form; it announces
  itself to a Seed, which keeps a directory of agents under leases and answers discovery; it publishes a
  signed Agent Card; and it works for other agents directly. A requester sends a task proposal, the
  executor answers with a contract it has signed, the requester countersigns it and sends the task
  under it, and the executor's server checks its own signature on exactly this contract before it calls a
  handler. Results are artifacts with a hash; they are served to the parties of the contract, and
  verifiers sign receipts that a quorum policy counts. Messages travel as protobuf through the A2A SDK.

  \<^bold>\<open>Theories and code.\<close> Each theory holds the definitions of a part, in the order of the code and under its
  names, and then its lemmas and properties.

  \<^item> \<open>Prelude\<close>, \<open>PyValue\<close>: errors as values (\<open>err\<close>, \<open>'a res = err + 'a\<close>, one constructor for each exception the
    code raises or catches), byte strings as lists of 8-bit words, text, Python values as the datatype \<open>json\<close> with
    dictionaries as association lists in insertion order, truthiness, \<open>or\<close>, \<open>get\<close>, \<open>str\<close>, \<open>int\<close>.
  \<^item> \<open>Canonical\<close>, \<open>Encoding\<close> (\<open>crypto.py\<close>): canonical JSON and the omitted fields; Base64, hashing, signing and
    checking of objects. \<open>KeyProvider\<close> (\<open>trust/key_provider.py\<close>), \<open>Identity\<close> (class \<open>Identity\<close>): keys, rotation,
    recovery, records, files.
  \<^item> \<open>Errors\<close> (\<open>errors.py\<close>), \<open>Capability\<close> (\<open>capability.py\<close>), \<open>Policy\<close> (\<open>verification_policy.py\<close>),
    \<open>Idempotency\<close> (\<open>idempotency.py\<close>), \<open>Models\<close> (\<open>models.py\<close>), \<open>Proposal\<close> (\<open>proposal.py\<close>), \<open>Artifact\<close>
    (\<open>artifact_ref.py\<close>): one theory for each module.
  \<^item> \<open>Handler\<close>, \<open>Server\<close>, \<open>Outgoing\<close> (\<open>a2a_server.py\<close>): the handler interface; the server as a state (record
    \<open>server\<close>: tasks in a store of shared objects, idempotency store, published artifacts) and the steps of a
    message: \<open>hm_begin\<close> until the handler is called, \<open>hm_finish\<close> after it returned, so that concurrent messages are
    interleavings of these steps; the messages and artifacts an agent makes.
  \<^item> \<open>Wire\<close>, \<open>Official\<close> (\<open>a2a_official.py\<close>): the conversions between dictionaries and the SDK's messages and tasks,
    and the executor that connects the SDK to the server. \<open>Url\<close>: the standard library's \<open>urlsplit\<close>. \<open>Card\<close>
    (\<open>a2a_card.py\<close>): Agent Cards.
  \<^item> \<open>Client\<close> (\<open>a2a_client.py\<close>, \<open>client.py\<close>): the negotiation of a task as an action on the world at the other
    end of the connection. \<open>Network\<close> (\<open>network.py\<close>): the client of the Seeds, with its runs as the
    relation \<open>client_step\<close>.
  \<^item> \<open>Seed\<close> (\<open>reference_seed/app.py\<close>): the directory and its handlers, and runs of requests. \<open>Presence\<close>: the client of
    \<open>Network\<close> against this Seed. \<open>Registry\<close>: the abstract registry which the Seed implements.
  \<^item> \<open>Agent\<close>: the web application of a server (\<open>starlette_app\<close>: its plain routes and start-up task), the processes
    of the Seed (\<open>create_app\<close>) and of the example agent, with their identity files and environment variables.
  \<^item> \<open>EndToEnd\<close>: a join from the client through the A2A client, the SDK, the executor and the server to the Seed's
    handlers and back, and the example agent coming up against a Seed. \<open>Discovery\<close>: a query there and its answer back, and
    two agents that meet through a Seed.
  \<^item> \<open>DemoPrims\<close>: concrete primitives that satisfy every assumption below, for the witnesses.

  \<^bold>\<open>What is shown.\<close> Canonical bytes determine a value up to the order of keys, so an accepted signature binds
  every field outside the omitted ones. The contract made from a proposal carries the signatures of both
  parties; what a client countersigns is accepted by the server, over the wire as well; no handler runs
  under a contract without the server's own signature on it; a finished message is answered from the
  store in every interleaving. Published bytes are served to parties only and match their hash. Quorums are
  independent. The Seed refines the registry, pins keys, changes only by signed requests, and
  discovery returns the best live offers; a client's announcement is accepted and offered, its lease is
  bounded, and its renewals keep it live when the lease is at most 3000 seconds. Failover tries each Seed once,
  in order. A join travels over the wire and back with its signature intact, a query brings back exactly the rows of the
  Seed, so that two agents meet through it; the start-up task ends, an agent that is
  restarted on its files is the same agent, and the example agent, started against the reference Seed, has joined
  when its start-up task is done. Where the code falls short of its documents the theorems say so on the model:
  \<open>join_can_be_replayed\<close>, \<open>renewal_accepted_as_leave\<close>, \<open>concurrent_duplicates_both_run\<close>,
  \<open>integral_float_loses_signature\<close>, \<open>long_lease_leaves_gaps\<close>, \<open>requester_signs_any_contract\<close> and others.

  \<^bold>\<open>Interfaces.\<close> Where a part relies on another the contract is a locale, interpreted on the code's model: the
  locales of \<open>Prelude\<close>'s importers state what the clients of a store, of a pinned directory, or of a scalar
  conversion may use.

  \<^bold>\<open>Assumptions.\<close> Cryptography, protobuf and HTTP are parameters. The record \<open>prims\<close> holds SHA-256, Ed25519 and
  the rendering of floats and containers; theorems that need them name what they need: \<open>ed25519_ok\<close> (a signature verifies under the
  key that made it), \<open>ed25519_binds\<close> (it verifies for one digest only), \<open>float_repr_ok\<close> (\<open>repr\<close> of finite floats is
  injective and not an integer's). No collision freedom is assumed: the theorems conclude that a collision was found.
  \<open>struct_ok\<close>, \<open>message_parsed\<close>, \<open>new_task_ok\<close> and \<open>task_json\<close> are the documented behaviour of protobuf's JSON format,
  which turns every number of a \<open>Struct\<close> into a double; \<open>parse_total\<close> says that a \<open>Struct\<close> can be built from finite
  values, and \<open>sdk_serves\<close> that the SDK's request handler gives a message that parses to the executor and answers with the
  executor's task. \<open>httpx\<close> and \<open>json.loads\<close> are function arguments.

  \<^bold>\<open>Bounds and idealizations.\<close> Python's integers are \<open>int\<close>. Floats are exact values \<open>m * 2^e\<close> or NaN and the
  infinities. Times of the Seed are integers in units of $2^{-22}$ seconds, which is exact for readings
  of the clock until 2038; the renewal interval is exact for leases below $2^{50}$ seconds. Text is a list of
  bytes in UTF-8. Handlers do not change the payload they are given. The SQLite table behaves as a map, and
  a JSON value read back from it is the value written. Network locations of URLs are ASCII. No definition needs fuel:
  loops of the code run over lists, and the one other recursion (version constraints) has a measure.

  \<^bold>\<open>Not modelled.\<close> The factories \<open>official_request_handler\<close>, \<open>official_jsonrpc_dispatcher\<close>, \<open>official_rest_routes\<close> and the
  stand-in \<open>BodyRequest\<close>, which hand objects to Starlette and the A2A SDK (the SDK's part is the hypothesis \<open>sdk_serves\<close>); the
  list of routes and the event loop's tasks in \<open>starlette_app\<close> and \<open>_start_renew\<close>, with their sleeping; \<open>run\<close> of the Seed and of
  the example agent, which hand the application to uvicorn; the reading of the clock in \<open>_now\<close> and \<open>utc_now\<close> and the raw
  encodings of keys, which are parameters; the package's re-exports.
\<close>

end
